(* ===== verification/Prelude.thy ===== *)
theory Prelude
  imports Main "HOL-Library.Word" "HOL-Library.List_Lexorder" "HOL-Library.Char_ord"
begin

text \<open>
  The shared layer of the development: the error values of the Go code, the
  combinators that translate Go's \<open>value, err := f()\<close> pattern, the byte-string
  helpers of the standard library that the code calls (\<open>strings.TrimSpace\<close>,
  \<open>strings.ToLower\<close>, \<open>strings.HasPrefix\<close>, ...), and the rules for
  facts of the form "every state change of this operation is related by \<open>R\<close>".
\<close>

named_theorems steps_by_intro \<open>compositional rules for the step relations of effectful code\<close>
named_theorems effect_simps \<open>unfolding rules of the effect combinators\<close>

section \<open>Errors\<close>

text \<open>The sentinel errors of \<open>internal/domain/errors.go\<close> and \<open>internal/app/monitoring.go\<close>.\<close>

datatype sentinel =
    ErrNotFound | ErrForbidden | ErrValidation | ErrConflict
  | ErrIncidentExists | ErrUserExists | ErrEventPublishFailed

text \<open>
  A Go \<open>error\<close> value, with the shape that \<open>errors.Is\<close> and \<open>errors.As\<close> see:
  a sentinel; a \<open>*domain.DomainError\<close> (wrapped sentinel, code, message); a
  \<open>*domain.DeliveryError\<close>; a message with no wrapped error; \<open>fmt.Errorf("p: %w", e)\<close>;
  \<open>fmt.Errorf("%w: %w", a, b)\<close>; \<open>pgx.ErrNoRows\<close>; a \<open>*pgconn.PgError\<close> with its
  SQLSTATE; a \<open>*fiber.Error\<close>; the failure of an external service (connection lost,
  context deadline, server error).
\<close>

datatype goerr =
    Sentinel sentinel
  | DomainError sentinel string string
  | DeliveryError int string goerr
  | Errorf string
  | Wrapped string goerr
  | Joined goerr goerr
  | ErrNoRows
  | PgError string
  | FiberError int
  | InfraError

section \<open>Effects\<close>

text \<open>
  An operation that may read and change the world and may return an error. The
  world is threaded explicitly; the error is \<open>Inl\<close>.
\<close>

type_synonym ('w, 'a) go = "'w \<Rightarrow> (goerr + 'a) \<times> 'w"

definition returnE :: "'a \<Rightarrow> ('w, 'a) go" where
  "returnE x = (\<lambda>w. (Inr x, w))"

definition throwE :: "goerr \<Rightarrow> ('w, 'a) go" where
  "throwE e = (\<lambda>w. (Inl e, w))"

text \<open>\<open>x, err := m(); if err != nil { return err }; f(x)\<close>\<close>

definition bindE :: "('w, 'a) go \<Rightarrow> ('a \<Rightarrow> ('w, 'b) go) \<Rightarrow> ('w, 'b) go" where
  "bindE m f = (\<lambda>w. case m w of (Inl e, w') \<Rightarrow> (Inl e, w') | (Inr x, w') \<Rightarrow> f x w')"

text \<open>\<open>x, err := m(); if err != nil { return h(err) }; ...\<close>\<close>

definition mapErrE :: "(goerr \<Rightarrow> goerr) \<Rightarrow> ('w, 'a) go \<Rightarrow> ('w, 'a) go" where
  "mapErrE h m = (\<lambda>w. case m w of (Inl e, w') \<Rightarrow> (Inl (h e), w') | (Inr x, w') \<Rightarrow> (Inr x, w'))"

text \<open>\<open>x, err := m()\<close> with \<open>err\<close> inspected by the code that follows.\<close>

definition attemptE :: "('w, 'a) go \<Rightarrow> ('w, goerr + 'a) go" where
  "attemptE m = (\<lambda>w. case m w of (r, w') \<Rightarrow> (Inr r, w'))"

definition readE :: "('w \<Rightarrow> 'a) \<Rightarrow> ('w, 'a) go" where
  "readE f = (\<lambda>w. (Inr (f w), w))"

definition modifyE :: "('w \<Rightarrow> 'w) \<Rightarrow> ('w, unit) go" where
  "modifyE f = (\<lambda>w. (Inr (), f w))"

definition liftE :: "goerr + 'a \<Rightarrow> ('w, 'a) go" where
  "liftE r = (\<lambda>w. (r, w))"

text \<open>\<open>for _, x := range xs { if err := f(x); err != nil { return err } }\<close>\<close>

primrec forE :: "'a list \<Rightarrow> ('a \<Rightarrow> ('w, unit) go) \<Rightarrow> ('w, unit) go" where
  "forE [] f = returnE ()"
| "forE (x # xs) f = bindE (f x) (\<lambda>_. forE xs f)"

text \<open>A loop that carries variables: \<open>for _, x := range xs { acc = f(x, acc) }\<close>.\<close>

primrec foldE :: "'a list \<Rightarrow> 'b \<Rightarrow> ('a \<Rightarrow> 'b \<Rightarrow> ('w, 'b) go) \<Rightarrow> ('w, 'b) go" where
  "foldE [] b f = returnE b"
| "foldE (x # xs) b f = bindE (f x b) (\<lambda>b'. foldE xs b' f)"

text \<open>A loop that appends one result per element.\<close>

primrec mapE :: "'a list \<Rightarrow> ('a \<Rightarrow> ('w, 'b) go) \<Rightarrow> ('w, 'b list) go" where
  "mapE [] f = returnE []"
| "mapE (x # xs) f = bindE (f x) (\<lambda>y. bindE (mapE xs f) (\<lambda>ys. returnE (y # ys)))"

abbreviation wrapE :: "string \<Rightarrow> ('w, 'a) go \<Rightarrow> ('w, 'a) go" where
  "wrapE p m \<equiv> mapErrE (Wrapped p) m"

abbreviation seqE :: "('w, 'a) go \<Rightarrow> ('w, 'b) go \<Rightarrow> ('w, 'b) go" where
  "seqE m k \<equiv> bindE m (\<lambda>_. k)"

text \<open>An error that is only logged: the code goes on.\<close>

abbreviation logged :: "('w, 'a) go \<Rightarrow> ('w, unit) go" where
  "logged m \<equiv> bindE (attemptE m) (\<lambda>_. returnE ())"

lemmas effect_defs =
  returnE_def throwE_def bindE_def mapErrE_def attemptE_def readE_def modifyE_def liftE_def

lemma returnE_apply [effect_simps]: "returnE x w = (Inr x, w)"
  by (simp add: returnE_def)

lemma throwE_apply [effect_simps]: "throwE e w = (Inl e, w)"
  by (simp add: throwE_def)

lemma bindE_apply [effect_simps]:
  "bindE m f w = (case m w of (Inl e, w') \<Rightarrow> (Inl e, w') | (Inr x, w') \<Rightarrow> f x w')"
  by (simp add: bindE_def)

lemma mapErrE_apply [effect_simps]:
  "mapErrE h m w = (case m w of (Inl e, w') \<Rightarrow> (Inl (h e), w') | (Inr x, w') \<Rightarrow> (Inr x, w'))"
  by (simp add: mapErrE_def)

lemma attemptE_apply [effect_simps]: "attemptE m w = (case m w of (r, w') \<Rightarrow> (Inr r, w'))"
  by (simp add: attemptE_def)

lemma readE_apply [effect_simps]: "readE f w = (Inr (f w), w)"
  by (simp add: readE_def)

lemma modifyE_apply [effect_simps]: "modifyE f w = (Inr (), f w)"
  by (simp add: modifyE_def)

lemma liftE_apply [effect_simps]: "liftE r w = (r, w)"
  by (simp add: liftE_def)

text \<open>The monad laws hold, so a chain of calls may be regrouped.\<close>

lemma bindE_returnE [simp]: "bindE (returnE x) f = f x"
  by (simp add: effect_defs)

lemma bindE_throwE [simp]: "bindE (throwE e) f = throwE e"
  by (simp add: effect_defs)

lemma bindE_right_unit [simp]: "bindE m returnE = m"
  by (auto simp: effect_defs fun_eq_iff split: prod.splits sum.splits)

lemma bindE_assoc: "bindE (bindE m f) g = bindE m (\<lambda>x. bindE (f x) g)"
  by (auto simp: effect_defs fun_eq_iff split: prod.splits sum.splits)

lemma forE_append: "forE (xs @ ys) f = seqE (forE xs f) (forE ys f)"
  by (induction xs) (simp_all add: bindE_assoc)

section \<open>Step relations of effectful code\<close>

text \<open>
  \<open>steps_by R m\<close>: whatever \<open>m\<close> does, and whether or not it fails, the world
  before and the world after are related by \<open>R\<close>. \<open>keeps I m\<close> is the case of an
  invariant.
\<close>

definition steps_by :: "('w \<Rightarrow> 'w \<Rightarrow> bool) \<Rightarrow> ('w, 'a) go \<Rightarrow> bool" where
  "steps_by R m \<longleftrightarrow> (\<forall>w. R w (snd (m w)))"

abbreviation keeps :: "('w \<Rightarrow> bool) \<Rightarrow> ('w, 'a) go \<Rightarrow> bool" where
  "keeps I \<equiv> steps_by (\<lambda>w w'. I w \<longrightarrow> I w')"

lemma steps_byI: "(\<And>w. R w (snd (m w))) \<Longrightarrow> steps_by R m"
  by (simp add: steps_by_def)

lemma steps_byD: "steps_by R m \<Longrightarrow> m w = (r, w') \<Longrightarrow> R w w'"
  by (metis steps_by_def snd_conv)

lemma steps_by_snd: "steps_by R m \<Longrightarrow> R w (snd (m w))"
  by (simp add: steps_by_def)

text \<open>
  The contract of a step relation: what the compositional rules need of it. Every
  relation that is reflexive and transitive has them.
\<close>

locale step_rel =
  fixes R :: "'w \<Rightarrow> 'w \<Rightarrow> bool"
  assumes refl: "R w w"
    and trans: "R u v \<Longrightarrow> R v w \<Longrightarrow> R u w"
begin

lemma returnE: "steps_by R (returnE x)"
  by (simp add: steps_by_def effect_simps refl)

lemma throwE: "steps_by R (throwE e)"
  by (simp add: steps_by_def effect_simps refl)

lemma readE: "steps_by R (readE f)"
  by (simp add: steps_by_def effect_simps refl)

lemma liftE: "steps_by R (liftE r)"
  by (simp add: steps_by_def effect_simps refl)

lemma bindE: "steps_by R m \<Longrightarrow> (\<And>x. steps_by R (f x)) \<Longrightarrow> steps_by R (bindE m f)"
  unfolding steps_by_def bindE_def by (auto split: prod.splits sum.splits) (metis snd_conv trans)+

lemma mapErrE: "steps_by R m \<Longrightarrow> steps_by R (mapErrE h m)"
  unfolding steps_by_def mapErrE_def by (auto split: prod.splits sum.splits) (metis snd_conv)+

lemma attemptE: "steps_by R m \<Longrightarrow> steps_by R (attemptE m)"
  unfolding steps_by_def attemptE_def by (auto split: prod.splits) (metis snd_conv)

lemma forE: "(\<And>x. x \<in> set xs \<Longrightarrow> steps_by R (f x)) \<Longrightarrow> steps_by R (forE xs f)"
  by (induction xs) (auto intro: returnE bindE)

lemma foldE: "(\<And>x b. x \<in> set xs \<Longrightarrow> steps_by R (f x b)) \<Longrightarrow> steps_by R (foldE xs b f)"
  by (induction xs arbitrary: b) (auto intro: returnE bindE)

lemma mapE: "(\<And>x. x \<in> set xs \<Longrightarrow> steps_by R (f x)) \<Longrightarrow> steps_by R (mapE xs f)"
  by (induction xs) (auto intro!: returnE bindE)

lemma if_split: "(b \<Longrightarrow> steps_by R m) \<Longrightarrow> (\<not> b \<Longrightarrow> steps_by R k) \<Longrightarrow> steps_by R (if b then m else k)"
  by simp

lemma sum_case:
  "(\<And>e. r = Inl e \<Longrightarrow> steps_by R (f e)) \<Longrightarrow> (\<And>x. r = Inr x \<Longrightarrow> steps_by R (g x)) \<Longrightarrow>
   steps_by R (case r of Inl e \<Rightarrow> f e | Inr x \<Rightarrow> g x)"
  by (cases r) simp_all

lemma option_case:
  "(r = None \<Longrightarrow> steps_by R m) \<Longrightarrow> (\<And>x. r = Some x \<Longrightarrow> steps_by R (f x)) \<Longrightarrow>
   steps_by R (case r of None \<Rightarrow> m | Some x \<Rightarrow> f x)"
  by (cases r) simp_all

lemma prod_case:
  "(\<And>a b. p = (a, b) \<Longrightarrow> steps_by R (f a b)) \<Longrightarrow> steps_by R (case p of (a, b) \<Rightarrow> f a b)"
  by (cases p) simp

lemma let_case: "steps_by R (f x) \<Longrightarrow> steps_by R (let y = x in f y)"
  by simp

lemmas rules = returnE throwE readE liftE bindE mapErrE attemptE forE foldE mapE
  if_split sum_case option_case prod_case let_case

end

text \<open>Every invariant gives a step relation, and so does the equality of a view of the world.\<close>

interpretation keeping: step_rel "\<lambda>w w'. I w \<longrightarrow> I w'" for I :: "'w \<Rightarrow> bool"
  by unfold_locales auto

interpretation viewing: step_rel "\<lambda>w w'. v w' = v w" for v :: "'w \<Rightarrow> 'v"
  by unfold_locales auto

declare keeping.rules [steps_by_intro] viewing.rules [steps_by_intro]

section \<open>Byte strings\<close>

text \<open>
  A Go string is a byte sequence; \<open>string\<close> is a list of 8-bit characters, so
  \<open>length\<close> is Go's \<open>len\<close>.
\<close>

fun has_prefix :: "string \<Rightarrow> string \<Rightarrow> bool" where
  "has_prefix [] p = (p = [])"
| "has_prefix s [] = True"
| "has_prefix (c # s) (d # p) = (c = d \<and> has_prefix s p)"

lemma has_prefix_iff: "has_prefix s p \<longleftrightarrow> (\<exists>t. s = p @ t)"
  by (induction s p rule: has_prefix.induct) auto

definition has_suffix :: "string \<Rightarrow> string \<Rightarrow> bool" where
  "has_suffix s p = has_prefix (rev s) (rev p)"

lemma has_suffix_iff: "has_suffix s p \<longleftrightarrow> (\<exists>t. s = t @ p)"
  unfolding has_suffix_def has_prefix_iff
  by (metis rev_append rev_rev_ident)

text \<open>\<open>strings.Contains\<close>.\<close>

fun str_contains :: "string \<Rightarrow> string \<Rightarrow> bool" where
  "str_contains [] p = (p = [])"
| "str_contains (c # s) p = (has_prefix (c # s) p \<or> str_contains s p)"

lemma str_contains_iff: "str_contains s p \<longleftrightarrow> (\<exists>a b. s = a @ p @ b)"
proof (induction s p rule: str_contains.induct)
  case (1 p)
  then show ?case by auto
next
  case (2 c s p)
  show ?case
  proof
    assume "str_contains (c # s) p"
    then consider (here) t where "c # s = p @ t" | (later) a b where "s = a @ p @ b"
      using 2 by (auto simp: has_prefix_iff)
    then show "\<exists>a b. c # s = a @ p @ b"
    proof cases
      case here
      then have "c # s = [] @ p @ t" by simp
      then show ?thesis by blast
    next
      case later
      then have "c # s = (c # a) @ p @ b" by simp
      then show ?thesis by blast
    qed
  next
    assume "\<exists>a b. c # s = a @ p @ b"
    then obtain a b where ab: "c # s = a @ p @ b" by blast
    show "str_contains (c # s) p"
    proof (cases a)
      case Nil
      with ab have "has_prefix (c # s) p" by (auto simp: has_prefix_iff)
      then show ?thesis by simp
    next
      case (Cons d a')
      with ab have "s = a' @ p @ b" by simp
      with 2 show ?thesis by auto
    qed
  qed
qed

text \<open>
  \<open>strings.TrimSpace\<close> drops the Unicode white space on both sides. The list holds the
  UTF-8 bytes of every rune for which \<open>unicode.IsSpace\<close> is true.
\<close>

definition space_runes :: "string list" where
  "space_runes =
     [[CHR 0x09], [CHR 0x0A], [CHR 0x0B], [CHR 0x0C], [CHR 0x0D], [CHR 0x20],
      [CHR 0xC2, CHR 0x85], [CHR 0xC2, CHR 0xA0], [CHR 0xE1, CHR 0x9A, CHR 0x80],
      [CHR 0xE2, CHR 0x80, CHR 0x80], [CHR 0xE2, CHR 0x80, CHR 0x81],
      [CHR 0xE2, CHR 0x80, CHR 0x82], [CHR 0xE2, CHR 0x80, CHR 0x83],
      [CHR 0xE2, CHR 0x80, CHR 0x84], [CHR 0xE2, CHR 0x80, CHR 0x85],
      [CHR 0xE2, CHR 0x80, CHR 0x86], [CHR 0xE2, CHR 0x80, CHR 0x87],
      [CHR 0xE2, CHR 0x80, CHR 0x88], [CHR 0xE2, CHR 0x80, CHR 0x89],
      [CHR 0xE2, CHR 0x80, CHR 0x8A], [CHR 0xE2, CHR 0x80, CHR 0xA8],
      [CHR 0xE2, CHR 0x80, CHR 0xA9], [CHR 0xE2, CHR 0x80, CHR 0xAF],
      [CHR 0xE2, CHR 0x81, CHR 0x9F], [CHR 0xE3, CHR 0x80, CHR 0x80]]"

text \<open>The length of the first of the runes \<open>rs\<close> that \<open>s\<close> starts with, 0 when there is none.\<close>

fun rune_at :: "string list \<Rightarrow> string \<Rightarrow> nat" where
  "rune_at [] s = 0"
| "rune_at (r # rs) s = (if has_prefix s r then length r else rune_at rs s)"

function trim_runes :: "string list \<Rightarrow> string \<Rightarrow> string" where
  "trim_runes rs s = (if s = [] \<or> rune_at rs s = 0 then s else trim_runes rs (drop (rune_at rs s) s))"
  by pat_completeness auto
termination
  by (relation "measure (\<lambda>(rs, s). length s)") auto

declare trim_runes.simps [simp del]

definition trim_space :: "string \<Rightarrow> string" where
  "trim_space s = rev (trim_runes (map rev space_runes) (rev (trim_runes space_runes s)))"

lemma length_trim_runes: "length (trim_runes rs s) \<le> length s"
proof (induction rs s rule: trim_runes.induct)
  case (1 rs s)
  show ?case
  proof (cases "s = [] \<or> rune_at rs s = 0")
    case True
    then show ?thesis by (subst trim_runes.simps) simp
  next
    case False
    with 1 have "length (trim_runes rs (drop (rune_at rs s) s)) \<le> length s - rune_at rs s" by simp
    with False show ?thesis by (subst trim_runes.simps) simp
  qed
qed

lemma length_trim_space: "length (trim_space s) \<le> length s"
  unfolding trim_space_def using length_trim_runes order_trans
  by (metis length_rev)

text \<open>
  \<open>strings.ToLower\<close> on ASCII bytes. Bytes above 127 are left alone: the case mapping of
  non-ASCII runes is not modelled.
\<close>

definition lower_char :: "char \<Rightarrow> char" where
  "lower_char c = (let n = of_char c :: nat in if 65 \<le> n \<and> n \<le> 90 then char_of (n + 32) else c)"

definition to_lower :: "string \<Rightarrow> string" where
  "to_lower s = map lower_char s"

lemma length_to_lower [simp]: "length (to_lower s) = length s"
  by (simp add: to_lower_def)

text \<open>\<open>strings.TrimRight(s, "/")\<close>.\<close>

definition trim_right_slash :: "string \<Rightarrow> string" where
  "trim_right_slash s = rev (dropWhile (\<lambda>c. c = CHR ''/'') (rev s))"

text \<open>\<open>%d\<close> on integers.\<close>

fun nat_to_dec :: "nat \<Rightarrow> string" where
  "nat_to_dec n = (if n < 10 then [char_of (48 + n)] else nat_to_dec (n div 10) @ [char_of (48 + n mod 10)])"

declare nat_to_dec.simps [simp del]

definition int_to_dec :: "int \<Rightarrow> string" where
  "int_to_dec i = (if i < 0 then CHR ''-'' # nat_to_dec (nat (- i)) else nat_to_dec (nat i))"

text \<open>\<open>hex.EncodeToString\<close>.\<close>

definition hex_digit :: "nat \<Rightarrow> char" where
  "hex_digit n = (if n < 10 then char_of (48 + n) else char_of (87 + n))"

definition hex_encode :: "string \<Rightarrow> string" where
  "hex_encode bs = concat (map (\<lambda>c. let n = of_char c :: nat in [hex_digit (n div 16), hex_digit (n mod 16)]) bs)"

lemma length_hex_encode: "length (hex_encode bs) = 2 * length bs"
  by (induction bs) (auto simp: hex_encode_def Let_def)

section \<open>Errors as the code inspects them\<close>

text \<open>\<open>errors.Is(err, target)\<close> for a sentinel target.\<close>

fun errors_is :: "goerr \<Rightarrow> sentinel \<Rightarrow> bool" where
  "errors_is (Sentinel s) t = (s = t)"
| "errors_is (DomainError s c m) t = (s = t)"
| "errors_is (DeliveryError n r e) t = errors_is e t"
| "errors_is (Wrapped p e) t = errors_is e t"
| "errors_is (Joined a b) t = (errors_is a t \<or> errors_is b t)"
| "errors_is _ t = False"

text \<open>\<open>errors.As(err, **domain.DomainError)\<close>: the first one of the chain.\<close>

fun as_domain_error :: "goerr \<Rightarrow> (sentinel \<times> string \<times> string) option" where
  "as_domain_error (DomainError s c m) = Some (s, c, m)"
| "as_domain_error (DeliveryError n r e) = as_domain_error e"
| "as_domain_error (Wrapped p e) = as_domain_error e"
| "as_domain_error (Joined a b) = (case as_domain_error a of Some d \<Rightarrow> Some d | None \<Rightarrow> as_domain_error b)"
| "as_domain_error _ = None"

text \<open>\<open>errors.As(err, **pgconn.PgError)\<close>.\<close>

fun as_pg_error :: "goerr \<Rightarrow> string option" where
  "as_pg_error (PgError c) = Some c"
| "as_pg_error (DeliveryError n r e) = as_pg_error e"
| "as_pg_error (Wrapped p e) = as_pg_error e"
| "as_pg_error (Joined a b) = (case as_pg_error a of Some d \<Rightarrow> Some d | None \<Rightarrow> as_pg_error b)"
| "as_pg_error _ = None"

text \<open>\<open>errors.As(err, **domain.DeliveryError)\<close>: its status code and reason.\<close>

fun as_delivery_error :: "goerr \<Rightarrow> (int \<times> string) option" where
  "as_delivery_error (DeliveryError n r e) = Some (n, r)"
| "as_delivery_error (Wrapped p e) = as_delivery_error e"
| "as_delivery_error (Joined a b) =
     (case as_delivery_error a of Some d \<Rightarrow> Some d | None \<Rightarrow> as_delivery_error b)"
| "as_delivery_error _ = None"

text \<open>
  \<open>err.Error()\<close>. The texts that the drivers give to their own errors are abbreviated.
\<close>

primrec sentinel_text :: "sentinel \<Rightarrow> string" where
  "sentinel_text ErrNotFound = ''not found''"
| "sentinel_text ErrForbidden = ''forbidden''"
| "sentinel_text ErrValidation = ''validation error''"
| "sentinel_text ErrConflict = ''conflict''"
| "sentinel_text ErrIncidentExists = ''active incident already exists for this monitor''"
| "sentinel_text ErrUserExists = ''user already exists''"
| "sentinel_text ErrEventPublishFailed = ''event publish failed''"

primrec error_text :: "goerr \<Rightarrow> string" where
  "error_text (Sentinel s) = sentinel_text s"
| "error_text (DomainError s c m) = m"
| "error_text (DeliveryError n r e) =
     (if n > 0 then ''delivery failed (status '' @ int_to_dec n @ '', reason '' @ r @ ''): '' @ error_text e
      else ''delivery failed (reason '' @ r @ ''): '' @ error_text e)"
| "error_text (Errorf m) = m"
| "error_text (Wrapped p e) = p @ '': '' @ error_text e"
| "error_text (Joined a b) = error_text a @ '': '' @ error_text b"
| "error_text ErrNoRows = ''no rows in result set''"
| "error_text (PgError c) = ''ERROR: (SQLSTATE '' @ c @ '')''"
| "error_text (FiberError n) = int_to_dec n"
| "error_text InfraError = ''service unavailable''"

text \<open>\<open>errors.Is(err, pgx.ErrNoRows)\<close>.\<close>

fun is_no_rows :: "goerr \<Rightarrow> bool" where
  "is_no_rows ErrNoRows = True"
| "is_no_rows (DeliveryError n r e) = is_no_rows e"
| "is_no_rows (Wrapped p e) = is_no_rows e"
| "is_no_rows (Joined a b) = (is_no_rows a \<or> is_no_rows b)"
| "is_no_rows _ = False"

lemma errors_is_Wrapped_iff: "errors_is (Wrapped p e) = errors_is e"
  by (simp add: fun_eq_iff)

section \<open>Lists as tables\<close>

text \<open>The first row that satisfies a condition, and the update of every row that does.\<close>

definition update_where :: "('a \<Rightarrow> bool) \<Rightarrow> ('a \<Rightarrow> 'a) \<Rightarrow> 'a list \<Rightarrow> 'a list" where
  "update_where p f xs = map (\<lambda>x. if p x then f x else x) xs"

lemma length_update_where [simp]: "length (update_where p f xs) = length xs"
  by (simp add: update_where_def)

lemma set_update_where: "set (update_where p f xs) = f ` {x \<in> set xs. p x} \<union> {x \<in> set xs. \<not> p x}"
  by (auto simp: update_where_def)

lemma map_update_where:
  "(\<And>x. g (f x) = g x) \<Longrightarrow> map g (update_where p f xs) = map g xs"
  by (simp add: update_where_def)

lemma in_update_whereE:
  assumes "y \<in> set (update_where p f xs)"
  obtains x where "x \<in> set xs" and "y = (if p x then f x else x)"
  using assms by (auto simp: update_where_def)

lemma set_eq_insert_last: "xs \<noteq> [] \<Longrightarrow> set xs = insert (last xs) (set (butlast xs))"
  by (induction xs rule: rev_induct) auto

lemma find_Some_set: "List.find p xs = Some x \<Longrightarrow> x \<in> set xs \<and> p x"
  by (auto simp: find_Some_iff)

lemma find_None_set: "List.find p xs = None \<longleftrightarrow> (\<forall>x \<in> set xs. \<not> p x)"
  by (auto simp: find_None_iff)

text \<open>Rows that are the only ones with their key: the shape of a unique index.\<close>

definition unique_on :: "('a \<Rightarrow> 'k) \<Rightarrow> ('a \<Rightarrow> bool) \<Rightarrow> 'a list \<Rightarrow> bool" where
  "unique_on k p xs \<longleftrightarrow> distinct (map k (filter p xs))"

lemma unique_on_Nil [simp]: "unique_on k p []"
  by (simp add: unique_on_def)

lemma unique_on_snoc:
  "unique_on k p (xs @ [x]) \<longleftrightarrow>
     unique_on k p xs \<and> (p x \<longrightarrow> (\<forall>y \<in> set xs. p y \<longrightarrow> k y \<noteq> k x))"
proof -
  have "k x \<notin> k ` {y \<in> set xs. p y} \<longleftrightarrow> (\<forall>y \<in> set xs. p y \<longrightarrow> k y \<noteq> k x)"
    by (auto simp: image_iff eq_commute)
  then show ?thesis by (auto simp: unique_on_def)
qed

lemma unique_on_eqD:
  assumes "unique_on k p xs" and "x \<in> set xs" and "y \<in> set xs" and "p x" and "p y" and "k x = k y"
  shows "x = y"
  using assms by (auto simp: unique_on_def distinct_map inj_on_def)

lemma unique_on_update_shrink:
  assumes "unique_on k p xs" and "\<And>x. q x \<Longrightarrow> p (f x) \<Longrightarrow> p x" and "\<And>x. k (f x) = k x"
  shows "unique_on k p (update_where q f xs)"
  using assms(1)
proof (induction xs)
  case Nil
  then show ?case by (simp add: update_where_def)
next
  case (Cons x xs)
  have keys: "k ` {y \<in> set (update_where q f xs). p y} \<subseteq> k ` {y \<in> set xs. p y}"
    using assms(2,3) by (fastforce simp: update_where_def)
  from Cons have IH: "unique_on k p (update_where q f xs)" by (auto simp: unique_on_def split: if_splits)
  have "p (if q x then f x else x) \<Longrightarrow> k x \<notin> k ` {y \<in> set (update_where q f xs). p y}"
    using Cons.prems keys assms(2)[of x] by (auto simp: unique_on_def split: if_splits)
  with IH show ?case using assms(3) by (auto simp: unique_on_def update_where_def image_iff)
qed

end
