(* ===== verification/Domain.thy ===== *)
theory Domain
  imports Complex_Main Prelude
begin

text \<open>
  \<open>internal/domain\<close>: the entities, the plan limits, the incident life cycle, the
  validation rules and the custom-hostname rules. Enumerations are Go string types,
  so they are strings here and \<open>Valid\<close> is a check on them. A \<open>time.Time\<close> is the
  number of nanoseconds since the zero time; a pointer is an option.
\<close>

section \<open>Entities\<close>

type_synonym uuid = "128 word"
type_synonym time = int
type_synonym duration = int

abbreviation seconds :: "int \<Rightarrow> duration" where
  "seconds n \<equiv> n * 1000000000"

abbreviation hours :: "int \<Rightarrow> duration" where
  "hours n \<equiv> seconds (n * 3600)"

text \<open>\<open>uuid.Nil\<close> is the zero value of the type.\<close>

definition uuid_Nil :: uuid where
  "uuid_Nil = 0"

text \<open>\<open>uuid.UUID.String\<close>: 32 hexadecimal digits in groups of 8, 4, 4, 4 and 12.\<close>

definition uuid_hex :: "uuid \<Rightarrow> string" where
  "uuid_hex u = map (\<lambda>i. hex_digit ((unat u div 16 ^ (31 - i)) mod 16)) [0..<32]"

definition uuid_string :: "uuid \<Rightarrow> string" where
  "uuid_string u = (let h = uuid_hex u; d = ''-'' in
     take 8 h @ d @ take 4 (drop 8 h) @ d @ take 4 (drop 12 h) @ d @ take 4 (drop 16 h) @ d @ drop 20 h)"

abbreviation ActionCreate :: string where "ActionCreate \<equiv> ''create''"
abbreviation ActionUpdate :: string where "ActionUpdate \<equiv> ''update''"
abbreviation ActionDelete :: string where "ActionDelete \<equiv> ''delete''"
abbreviation ActionPause :: string where "ActionPause \<equiv> ''pause''"
abbreviation ActionResume :: string where "ActionResume \<equiv> ''resume''"

abbreviation AlertDown :: string where "AlertDown \<equiv> ''down''"
abbreviation AlertUp :: string where "AlertUp \<equiv> ''up''"
abbreviation AlertSSLExpiring :: string where "AlertSSLExpiring \<equiv> ''ssl_expiring''"

abbreviation StatusUp :: string where "StatusUp \<equiv> ''up''"
abbreviation StatusDown :: string where "StatusDown \<equiv> ''down''"
abbreviation StatusUnknown :: string where "StatusUnknown \<equiv> ''unknown''"

abbreviation MonitorHTTP :: string where "MonitorHTTP \<equiv> ''http''"
abbreviation MonitorTCP :: string where "MonitorTCP \<equiv> ''tcp''"
abbreviation MonitorDNS :: string where "MonitorDNS \<equiv> ''dns''"

abbreviation ChannelTelegram :: string where "ChannelTelegram \<equiv> ''telegram''"
abbreviation ChannelEmail :: string where "ChannelEmail \<equiv> ''email''"
abbreviation ChannelWebhook :: string where "ChannelWebhook \<equiv> ''webhook''"

abbreviation PlanFree :: string where "PlanFree \<equiv> ''free''"
abbreviation PlanPro :: string where "PlanPro \<equiv> ''pro''"

abbreviation IncidentStateInvestigating :: string where
  "IncidentStateInvestigating \<equiv> ''investigating''"
abbreviation IncidentStateIdentified :: string where "IncidentStateIdentified \<equiv> ''identified''"
abbreviation IncidentStateMonitoring :: string where "IncidentStateMonitoring \<equiv> ''monitoring''"
abbreviation IncidentStateResolved :: string where "IncidentStateResolved \<equiv> ''resolved''"

abbreviation CustomDomainPending :: string where "CustomDomainPending \<equiv> ''pending''"
abbreviation CustomDomainValidated :: string where "CustomDomainValidated \<equiv> ''validated''"
abbreviation CustomDomainActive :: string where "CustomDomainActive \<equiv> ''active''"
abbreviation CustomDomainFailed :: string where "CustomDomainFailed \<equiv> ''failed''"

record alert_event =
  ae_monitor_id :: uuid
  ae_user_id :: uuid
  ae_incident_id :: int
  ae_monitor_name :: string
  ae_monitor_target :: string
  ae_event :: string
  ae_cause :: string

record api_key =
  ak_id :: uuid
  ak_user_id :: uuid
  ak_key_hash :: string
  ak_name :: string
  ak_scopes :: "string list"
  ak_created_at :: time
  ak_last_used_at :: "time option"
  ak_expires_at :: "time option"

record notification_channel =
  ch_id :: uuid
  ch_user_id :: uuid
  ch_name :: string
  ch_type :: string
  ch_config :: string
  ch_is_enabled :: bool
  ch_created_at :: time

record chart_point =
  cp_timestamp :: time
  cp_avg_response_ms :: rat
  cp_check_count :: int

record custom_domain =
  cd_id :: int
  cd_user_id :: uuid
  cd_hostname :: string
  cd_validation_token :: string
  cd_status :: string
  cd_last_error :: "string option"
  cd_dns_validated_at :: "time option"
  cd_cert_issued_at :: "time option"
  cd_created_at :: time

record incident =
  inc_id :: int
  inc_monitor_id :: uuid
  inc_started_at :: time
  inc_resolved_at :: "time option"
  inc_cause :: string
  inc_state :: string
  inc_is_manual :: bool
  inc_title :: "string option"

record incident_update =
  iu_id :: int
  iu_incident_id :: int
  iu_state :: string
  iu_body :: string
  iu_posted_by_user_id :: uuid
  iu_posted_at :: time

record maintenance_window =
  mw_id :: int
  mw_monitor_id :: uuid
  mw_starts_at :: time
  mw_ends_at :: time
  mw_reason :: string
  mw_created_at :: time

record monitor =
  mon_id :: uuid
  mon_user_id :: uuid
  mon_name :: string
  mon_type :: string
  mon_check_config :: string
  mon_interval_seconds :: int
  mon_alert_after_failures :: int
  mon_is_paused :: bool
  mon_is_public :: bool
  mon_current_status :: string
  mon_created_at :: time

record check_result =
  res_id :: int
  res_monitor_id :: uuid
  res_status :: string
  res_status_code :: "int option"
  res_response_time_ms :: int
  res_error_message :: "string option"
  res_checked_at :: time

record monitor_group =
  mg_id :: int
  mg_user_id :: uuid
  mg_name :: string
  mg_ordering :: int
  mg_created_at :: time

record status_subscriber =
  ss_id :: int
  ss_slug :: string
  ss_email :: string
  ss_confirm_token :: string
  ss_unsubscribe_token :: string
  ss_confirmed_at :: "time option"
  ss_created_at :: time
  ss_locale :: "string option"

record blog_subscriber =
  bs_id :: int
  bs_email :: string
  bs_confirm_token :: string
  bs_unsubscribe_token :: string
  bs_confirmed_at :: "time option"
  bs_created_at :: time
  bs_source :: "string option"
  bs_locale :: "string option"

record user =
  usr_id :: uuid
  usr_email :: string
  usr_slug :: string
  usr_plan :: string
  usr_created_at :: time

section \<open>Small predicates and plan limits\<close>

definition ValidEnum :: "'a \<Rightarrow> 'a list \<Rightarrow> bool" where
  "ValidEnum value allowed \<longleftrightarrow> value \<in> set allowed"

definition validMonitorTypes :: "string list" where
  "validMonitorTypes = [MonitorHTTP, MonitorTCP, MonitorDNS]"

definition validChannelTypes :: "string list" where
  "validChannelTypes = [ChannelTelegram, ChannelEmail, ChannelWebhook]"

definition MonitorType_Valid :: "string \<Rightarrow> bool" where
  "MonitorType_Valid t = ValidEnum t validMonitorTypes"

definition ChannelType_Valid :: "string \<Rightarrow> bool" where
  "ChannelType_Valid t = ValidEnum t validChannelTypes"

text \<open>\<open>now\<close> is \<open>time.Now()\<close>.\<close>

definition APIKey_IsExpired :: "time \<Rightarrow> api_key \<Rightarrow> bool" where
  "APIKey_IsExpired now k = (case ak_expires_at k of None \<Rightarrow> False | Some t \<Rightarrow> t < now)"

fun has_scope :: "string list \<Rightarrow> string \<Rightarrow> bool" where
  "has_scope [] scope = False"
| "has_scope (s # ss) scope = (if s = scope then True else has_scope ss scope)"

definition APIKey_HasScope :: "api_key \<Rightarrow> string \<Rightarrow> bool" where
  "APIKey_HasScope k scope = has_scope (ak_scopes k) scope"

lemma APIKey_HasScope_iff: "APIKey_HasScope k scope \<longleftrightarrow> scope \<in> set (ak_scopes k)"
proof -
  have "has_scope ss scope \<longleftrightarrow> scope \<in> set ss" for ss by (induction ss) auto
  then show ?thesis by (simp add: APIKey_HasScope_def)
qed

definition StatusSubscriber_IsConfirmed :: "status_subscriber \<Rightarrow> bool" where
  "StatusSubscriber_IsConfirmed s \<longleftrightarrow> ss_confirmed_at s \<noteq> None"

definition BlogSubscriber_IsConfirmed :: "blog_subscriber \<Rightarrow> bool" where
  "BlogSubscriber_IsConfirmed s \<longleftrightarrow> bs_confirmed_at s \<noteq> None"

definition Incident_IsResolved :: "incident \<Rightarrow> bool" where
  "Incident_IsResolved i \<longleftrightarrow> inc_resolved_at i \<noteq> None"

definition MaintenanceWindow_ActiveAt :: "maintenance_window \<Rightarrow> time \<Rightarrow> bool" where
  "MaintenanceWindow_ActiveAt w now \<longleftrightarrow> \<not> now < mw_starts_at w \<and> now < mw_ends_at w"

definition MonitorLimit :: "user \<Rightarrow> int" where
  "MonitorLimit u = (if usr_plan u = PlanPro then 50 else 5)"

definition MinInterval :: "user \<Rightarrow> int" where
  "MinInterval u = (if usr_plan u = PlanPro then 30 else 300)"

definition CanUseEmail :: "user \<Rightarrow> bool" where
  "CanUseEmail u \<longleftrightarrow> usr_plan u = PlanPro"

definition RequiresPro :: "string \<Rightarrow> bool" where
  "RequiresPro p \<longleftrightarrow> p \<noteq> PlanPro"

definition NewDeliveryError :: "string \<Rightarrow> int \<Rightarrow> goerr \<Rightarrow> goerr" where
  "NewDeliveryError reason status_code err = DeliveryError status_code reason err"

definition NewValidationError :: "string \<Rightarrow> string \<Rightarrow> goerr" where
  "NewValidationError code message = DomainError ErrValidation code message"

definition NewNotFoundError :: "string \<Rightarrow> string \<Rightarrow> goerr" where
  "NewNotFoundError code message = DomainError ErrNotFound code message"

section \<open>The incident life cycle\<close>

definition IncidentState_Valid :: "string \<Rightarrow> bool" where
  "IncidentState_Valid s \<longleftrightarrow>
     s = IncidentStateInvestigating \<or> s = IncidentStateIdentified
     \<or> s = IncidentStateMonitoring \<or> s = IncidentStateResolved"

text \<open>The \<open>order\<close> map of \<open>CanTransitionTo\<close>; a missing key reads as 0.\<close>

definition state_order :: "string \<Rightarrow> int" where
  "state_order s =
     (case map_of [(IncidentStateInvestigating, 0), (IncidentStateIdentified, 1),
                   (IncidentStateMonitoring, 2), (IncidentStateResolved, 3)] s of
        None \<Rightarrow> 0 | Some n \<Rightarrow> n)"

definition CanTransitionTo :: "string \<Rightarrow> string \<Rightarrow> goerr + unit" where
  "CanTransitionTo s next =
     (if \<not> IncidentState_Valid next then Inl (Errorf (''invalid incident state: '' @ next))
      else if s = next then Inr ()
      else if state_order next > state_order s then Inr ()
      else if s = IncidentStateMonitoring \<and> next = IncidentStateIdentified then Inr ()
      else Inl (Errorf (''cannot move incident from '' @ s @ '' to '' @ next)))"

text \<open>
  The abstract life cycle: four phases in a linear order, moves forward or in
  place, and one step back.
\<close>

datatype phase = Investigating | Identified | Monitoring | Resolved

fun phase_rank :: "phase \<Rightarrow> nat" where
  "phase_rank Investigating = 0"
| "phase_rank Identified = 1"
| "phase_rank Monitoring = 2"
| "phase_rank Resolved = 3"

lemma phase_rank_inj: "phase_rank p = phase_rank q \<Longrightarrow> p = q"
  by (cases p; cases q) simp_all

instantiation phase :: linorder
begin

definition less_eq_phase :: "phase \<Rightarrow> phase \<Rightarrow> bool" where
  "p \<le> q \<longleftrightarrow> phase_rank p \<le> phase_rank q"

definition less_phase :: "phase \<Rightarrow> phase \<Rightarrow> bool" where
  "p < q \<longleftrightarrow> phase_rank p < phase_rank q"

instance
  by standard (auto simp: less_eq_phase_def less_phase_def intro: phase_rank_inj)

end

inductive phase_step :: "phase \<Rightarrow> phase \<Rightarrow> bool" where
  forward: "p \<le> q \<Longrightarrow> phase_step p q"
| rewind: "phase_step Monitoring Identified"

inductive_simps phase_step_iff: "phase_step p q"
inductive_cases from_resolvedE: "phase_step Resolved q"

fun phase_name :: "phase \<Rightarrow> string" where
  "phase_name Investigating = IncidentStateInvestigating"
| "phase_name Identified = IncidentStateIdentified"
| "phase_name Monitoring = IncidentStateMonitoring"
| "phase_name Resolved = IncidentStateResolved"

lemma phase_name_inj [simp]: "phase_name p = phase_name q \<longleftrightarrow> p = q"
  by (cases p; cases q) simp_all

lemma Valid_phase_name [simp]: "IncidentState_Valid (phase_name p)"
  by (cases p) (simp_all add: IncidentState_Valid_def)

lemma Valid_phaseE:
  assumes "IncidentState_Valid s"
  obtains p where "s = phase_name p"
  using assms unfolding IncidentState_Valid_def by (metis phase_name.simps)

lemma state_order_phase_name [simp]: "state_order (phase_name p) = int (phase_rank p)"
  by (cases p) (simp_all add: state_order_def)

lemma CanTransitionTo_phase:
  "(CanTransitionTo (phase_name p) (phase_name q) = Inr ()) \<longleftrightarrow> phase_step p q"
  unfolding CanTransitionTo_def phase_step_iff less_eq_phase_def
  by (cases p; cases q) (simp_all add: IncidentState_Valid_def state_order_def)

lemma from_resolved: "phase_step Resolved q \<Longrightarrow> q = Resolved"
  by (erule from_resolvedE) (cases q; simp add: less_eq_phase_def)+

section \<open>Validation\<close>

definition ValidateMonitorInput :: "string \<Rightarrow> int \<Rightarrow> int \<Rightarrow> goerr + unit" where
  "ValidateMonitorInput name interval_seconds alert_after_failures =
     (let name = trim_space name in
      if name = [] then Inl (NewValidationError ''MONITOR_NAME_REQUIRED'' ''name is required'')
      else if length name > 255 then
        Inl (NewValidationError ''MONITOR_NAME_TOO_LONG'' ''name must be at most 255 characters'')
      else if interval_seconds < 30 then
        Inl (NewValidationError ''INTERVAL_TOO_SHORT'' ''interval must be at least 30 seconds'')
      else if interval_seconds > 86400 then
        Inl (NewValidationError ''INTERVAL_TOO_LONG'' ''interval must be at most 24 hours'')
      else if alert_after_failures < 1 then
        Inl (NewValidationError ''ALERT_THRESHOLD_TOO_LOW'' ''alert_after_failures must be at least 1'')
      else if alert_after_failures > 100 then
        Inl (NewValidationError ''ALERT_THRESHOLD_TOO_HIGH'' ''alert_after_failures must be at most 100'')
      else Inr ())"

lemma ValidateMonitorInput_iff:
  "ValidateMonitorInput n i a = Inr () \<longleftrightarrow>
     trim_space n \<noteq> [] \<and> length (trim_space n) \<le> 255 \<and> 30 \<le> i \<and> i \<le> 86400 \<and> 1 \<le> a \<and> a \<le> 100"
  unfolding ValidateMonitorInput_def Let_def by auto

lemma ValidateMonitorInput_Inl:
  "ValidateMonitorInput n i a = Inl e \<Longrightarrow> \<exists>c m. e = DomainError ErrValidation c m"
  unfolding ValidateMonitorInput_def Let_def NewValidationError_def by (auto split: if_splits)

text \<open>\<open>parse_address\<close> stands for \<open>net/mail.ParseAddress\<close> returning no error.\<close>

definition ValidateEmail :: "(string \<Rightarrow> bool) \<Rightarrow> string \<Rightarrow> goerr + unit" where
  "ValidateEmail parse_address email =
     (if email = [] then Inl (NewValidationError ''EMAIL_REQUIRED'' ''email is required'')
      else if \<not> parse_address email then Inl (NewValidationError ''EMAIL_INVALID'' ''invalid email format'')
      else Inr ())"

definition ValidateChannelInput :: "string \<Rightarrow> string \<Rightarrow> goerr + unit" where
  "ValidateChannelInput name channel_type =
     (let name = trim_space name in
      if name = [] then Inl (NewValidationError ''CHANNEL_NAME_REQUIRED'' ''channel name is required'')
      else if length name > 255 then
        Inl (NewValidationError ''CHANNEL_NAME_TOO_LONG'' ''channel name must be at most 255 characters'')
      else if \<not> ChannelType_Valid channel_type then
        Inl (NewValidationError ''INVALID_CHANNEL_TYPE'' (''invalid channel type: '' @ channel_type))
      else Inr ())"

lemma ValidateChannelInput_iff:
  "ValidateChannelInput n t = Inr () \<longleftrightarrow>
     trim_space n \<noteq> [] \<and> length (trim_space n) \<le> 255 \<and> ChannelType_Valid t"
  unfolding ValidateChannelInput_def Let_def by auto

end
