(* ===== verification/Store.thy ===== *)
theory Store
  imports Domain
begin

text \<open>
  The state of the deployed system: the PostgreSQL tables with the column types of
  \<open>internal/sqlc/gen/models.go\<close>, the Redis session keys, the subjects of the NATS
  streams, the mails sent, the metrics recorded, the clocks and the entropy source.
  A table is the list of its rows in insertion order. Every call to an external
  service may fail; which calls do is the script \<open>w_faults\<close>, so that a statement
  about all worlds is a statement about all failures.
\<close>

section \<open>Table rows\<close>

type_synonym int4 = "32 word"

text \<open>Go's \<open>int32(n)\<close> keeps the low 32 bits; \<open>int(c)\<close> reads a column as two's complement.\<close>

definition to_int4 :: "int \<Rightarrow> int4" where
  "to_int4 n = word_of_int n"

definition from_int4 :: "int4 \<Rightarrow> int" where
  "from_int4 c = sint c"

lemma from_to_int4: "- (2 ^ 31) \<le> n \<Longrightarrow> n < 2 ^ 31 \<Longrightarrow> from_int4 (to_int4 n) = n"
  unfolding from_int4_def to_int4_def
  by (simp add: sint_sbintrunc' signed_take_bit_int_eq_self)

record api_key_row =
  akr_id :: uuid
  akr_user_id :: uuid
  akr_key_hash :: string
  akr_name :: string
  akr_scopes :: "string list"
  akr_created_at :: time
  akr_last_used_at :: "time option"
  akr_expires_at :: "time option"

record blog_subscriber_row =
  bsr_id :: int
  bsr_email :: string
  bsr_confirm_token :: string
  bsr_unsubscribe_token :: string
  bsr_confirmed_at :: "time option"
  bsr_created_at :: time
  bsr_source :: "string option"
  bsr_locale :: "string option"

record check_result_row =
  crr_id :: int
  crr_monitor_id :: uuid
  crr_status :: string
  crr_status_code :: "int4 option"
  crr_response_time_ms :: int4
  crr_error_message :: "string option"
  crr_checked_at :: time

record custom_domain_row =
  cdr_id :: int
  cdr_user_id :: uuid
  cdr_hostname :: string
  cdr_validation_token :: string
  cdr_status :: string
  cdr_last_error :: "string option"
  cdr_dns_validated_at :: "time option"
  cdr_cert_issued_at :: "time option"
  cdr_created_at :: time

record custom_domain_cert_row =
  cdc_id :: int
  cdc_custom_domain_id :: int
  cdc_cert_pem :: string
  cdc_key_pem :: string
  cdc_chain_pem :: string
  cdc_expires_at :: time
  cdc_issued_at :: time

record failed_alert_row =
  far_id :: uuid
  far_event :: string
  far_error :: string
  far_failed_channel_ids :: "uuid list"
  far_attempts :: int4
  far_created_at :: time

record incident_row =
  inr_id :: int
  inr_monitor_id :: uuid
  inr_started_at :: time
  inr_resolved_at :: "time option"
  inr_cause :: string
  inr_state :: string
  inr_is_manual :: bool
  inr_title :: "string option"

record incident_update_row =
  iur_id :: int
  iur_incident_id :: int
  iur_state :: string
  iur_body :: string
  iur_posted_by_user_id :: uuid
  iur_posted_at :: time

record maintenance_window_row =
  mwr_id :: int
  mwr_monitor_id :: uuid
  mwr_starts_at :: time
  mwr_ends_at :: time
  mwr_reason :: string
  mwr_created_at :: time

record monitor_row =
  mnr_id :: uuid
  mnr_user_id :: uuid
  mnr_name :: string
  mnr_interval_seconds :: int4
  mnr_alert_after_failures :: int4
  mnr_is_paused :: bool
  mnr_is_public :: bool
  mnr_current_status :: string
  mnr_created_at :: time
  mnr_type :: string
  mnr_check_config :: string
  mnr_deleted_at :: "time option"
  mnr_group_id :: "int option"

record monitor_group_row =
  mgr_id :: int
  mgr_user_id :: uuid
  mgr_name :: string
  mgr_ordering :: int4
  mgr_created_at :: time

record uptime_hourly_row =
  uhr_monitor_id :: uuid
  uhr_hour :: time
  uhr_total_checks :: int
  uhr_successful_checks :: int

record channel_row =
  chr_id :: uuid
  chr_user_id :: uuid
  chr_name :: string
  chr_type :: string
  chr_config :: string
  chr_is_enabled :: bool
  chr_created_at :: time
  chr_deleted_at :: "time option"

record status_subscriber_row =
  ssr_id :: int
  ssr_slug :: string
  ssr_email :: string
  ssr_confirm_token :: string
  ssr_unsubscribe_token :: string
  ssr_confirmed_at :: "time option"
  ssr_created_at :: time
  ssr_locale :: "string option"

record user_row =
  usrr_id :: uuid
  usrr_email :: string
  usrr_slug :: string
  usrr_password_hash :: string
  usrr_plan :: string
  usrr_lemon_squeezy_customer_id :: "string option"
  usrr_lemon_squeezy_subscription_id :: "string option"
  usrr_created_at :: time
  usrr_deleted_at :: "time option"
  usrr_subscription_variant :: "string option"
  usrr_logo_url :: "string option"
  usrr_accent_color :: "string option"
  usrr_custom_footer_text :: "string option"

record database =
  t_users :: "user_row list"
  t_monitors :: "monitor_row list"
  t_monitor_groups :: "monitor_group_row list"
  t_channels :: "channel_row list"
  t_monitor_channels :: "(uuid \<times> uuid) list"
  t_check_results :: "check_result_row list"
  t_uptime_hourly :: "uptime_hourly_row list"
  t_incidents :: "incident_row list"
  t_incident_updates :: "incident_update_row list"
  t_maintenance_windows :: "maintenance_window_row list"
  t_failed_alerts :: "failed_alert_row list"
  t_api_keys :: "api_key_row list"
  t_status_subscribers :: "status_subscriber_row list"
  t_blog_subscribers :: "blog_subscriber_row list"
  t_custom_domains :: "custom_domain_row list"
  t_custom_domain_certs :: "custom_domain_cert_row list"

section \<open>The world\<close>

text \<open>\<open>port.MonitorChangedEvent\<close>, the message of the \<open>monitors.changed\<close> subject.\<close>

record monitor_changed_event =
  mce_action :: string
  mce_monitor_id :: uuid
  mce_name :: string
  mce_type :: string
  mce_check_config :: string
  mce_interval_seconds :: int
  mce_alert_after_failures :: int
  mce_is_paused :: bool

text \<open>One constructor per method of \<open>port.Metrics\<close>.\<close>

datatype metric =
    RecordCheck string string duration
  | RecordAlertSent string bool string
  | RecordAlertAllFailed
  | RecordAlertDeadLettered
  | MonitorCreated
  | MonitorDeleted
  | IncidentOpened
  | IncidentResolved

record mail =
  ml_to :: string
  ml_subject :: string
  ml_body :: string

record world =
  w_db :: database
  w_db_clock :: time
  w_app_clock :: time
  w_next_serial :: int
  w_next_uuid :: uuid
  w_faults :: "bool list"
  w_entropy :: "nat \<Rightarrow> char"
  w_entropy_pos :: nat
  w_sessions :: "(string \<times> uuid \<times> time) list"
  w_monitor_events :: "monitor_changed_event list"
  w_alert_events :: "alert_event list"
  w_check_tasks :: "uuid list"
  w_outbox :: "mail list"
  w_metrics :: "metric list"

type_synonym 'a io = "(world, 'a) go"

text \<open>
  A call that leaves the process: it fails when the script says so, before it has any
  effect. An empty script means that nothing fails any more.
\<close>

definition external :: "'a io \<Rightarrow> 'a io" where
  "external m = (\<lambda>w. case w_faults w of
       [] \<Rightarrow> m w
     | True # fs \<Rightarrow> (Inl InfraError, w\<lparr>w_faults := fs\<rparr>)
     | False # fs \<Rightarrow> m (w\<lparr>w_faults := fs\<rparr>))"

text \<open>A query reads the tables, a statement also writes them.\<close>

definition query :: "(database \<Rightarrow> time \<Rightarrow> goerr + 'a) \<Rightarrow> 'a io" where
  "query q = external (\<lambda>w. (q (w_db w) (w_db_clock w), w))"

definition statement :: "(database \<Rightarrow> time \<Rightarrow> goerr + ('a \<times> database)) \<Rightarrow> 'a io" where
  "statement q = external (\<lambda>w. case q (w_db w) (w_db_clock w) of
       Inl e \<Rightarrow> (Inl e, w)
     | Inr (x, d) \<Rightarrow> (Inr x, w\<lparr>w_db := d\<rparr>))"

text \<open>
  \<open>nextval\<close> of a sequence, and \<open>gen_random_uuid()\<close>: the supplies are part of the world,
  and a key that is already in the table is a unique violation of the insert.
\<close>

definition nextval :: "int io" where
  "nextval = (\<lambda>w. (Inr (w_next_serial w), w\<lparr>w_next_serial := w_next_serial w + 1\<rparr>))"

definition gen_random_uuid :: "uuid io" where
  "gen_random_uuid = (\<lambda>w. (Inr (w_next_uuid w), w\<lparr>w_next_uuid := w_next_uuid w + 1\<rparr>))"

abbreviation unique_violation :: goerr where
  "unique_violation \<equiv> PgError ''23505''"

text \<open>\<open>isUniqueViolation\<close> of \<open>internal/adapter/postgres/errors.go\<close>.\<close>

definition isUniqueViolation :: "goerr \<Rightarrow> bool" where
  "isUniqueViolation err \<longleftrightarrow> as_pg_error err = Some ''23505''"

text \<open>
  \<open>port.TxManager.Do\<close>: the body runs with the open transaction; an error rolls the
  tables back, otherwise the transaction commits. Opening and committing may fail.
  Messages published and mails sent by the body are not undone.
\<close>

definition tx_do :: "'a io \<Rightarrow> 'a io" where
  "tx_do body = external (\<lambda>w. case body w of
       (Inl e, w') \<Rightarrow> (Inl e, w'\<lparr>w_db := w_db w\<rparr>)
     | (Inr x, w') \<Rightarrow> (case w_faults w' of
           [] \<Rightarrow> (Inr x, w')
         | True # fs \<Rightarrow> (Inl InfraError, w'\<lparr>w_faults := fs, w_db := w_db w\<rparr>)
         | False # fs \<Rightarrow> (Inr x, w'\<lparr>w_faults := fs\<rparr>)))"

definition clock_now :: "time io" where
  "clock_now = readE w_app_clock"

text \<open>\<open>io.ReadFull(rand.Reader, buf)\<close> with \<open>len(buf) = n\<close>.\<close>

definition read_random :: "nat \<Rightarrow> string io" where
  "read_random n = external (\<lambda>w.
     (Inr (map (w_entropy w) [w_entropy_pos w ..< w_entropy_pos w + n]),
      w\<lparr>w_entropy_pos := w_entropy_pos w + n\<rparr>))"

definition record_metric :: "metric \<Rightarrow> unit io" where
  "record_metric m = modifyE (\<lambda>w. w\<lparr>w_metrics := w_metrics w @ [m]\<rparr>)"

text \<open>The NATS publishers: \<open>monitors.changed\<close>, \<open>alerts.<event>\<close>, \<open>checks.run\<close>.\<close>

definition PublishMonitorChanged :: "monitor_changed_event \<Rightarrow> unit io" where
  "PublishMonitorChanged ev = wrapE ''publish monitor changed event''
     (external (modifyE (\<lambda>w. w\<lparr>w_monitor_events := w_monitor_events w @ [ev]\<rparr>)))"

definition PublishAlert :: "alert_event \<Rightarrow> unit io" where
  "PublishAlert ev = wrapE ''publish alert event''
     (external (modifyE (\<lambda>w. w\<lparr>w_alert_events := w_alert_events w @ [ev]\<rparr>)))"

section \<open>Step relations of the primitives\<close>

text \<open>
  A relation on worlds that does not look at the bookkeeping fields: the fault script,
  the supplies and the entropy position. Together with the laws of \<open>step_rel\<close> it gives a
  rule for every primitive above; what is left to show for a statement is how it changes
  the tables.
\<close>

locale world_rel = step_rel R for R :: "world \<Rightarrow> world \<Rightarrow> bool" +
  assumes faults: "R w (w\<lparr>w_faults := fs\<rparr>)"
    and serial: "R w (w\<lparr>w_next_serial := n\<rparr>)"
    and uuids: "R w (w\<lparr>w_next_uuid := x\<rparr>)"
    and entropy: "R w (w\<lparr>w_entropy_pos := p\<rparr>)"
    and rollback: "R u v \<Longrightarrow> R u (v\<lparr>w_db := w_db u\<rparr>)"
begin

lemma external: "steps_by R m \<Longrightarrow> steps_by R (external m)"
  unfolding steps_by_def external_def
  by (auto split: list.splits bool.splits intro: faults trans)

lemma query: "steps_by R (query q)"
  unfolding query_def by (rule external) (simp add: steps_by_def refl)

lemma statement:
  assumes "\<And>w x d. q (w_db w) (w_db_clock w) = Inr (x, d) \<Longrightarrow> R w (w\<lparr>w_db := d\<rparr>)"
  shows "steps_by R (statement q)"
  unfolding statement_def
  by (rule external) (auto simp: steps_by_def refl assms split: sum.splits)

lemma nextval: "steps_by R nextval"
  by (simp add: steps_by_def nextval_def serial)

lemma gen_random_uuid: "steps_by R gen_random_uuid"
  by (simp add: steps_by_def gen_random_uuid_def uuids)

lemma clock_now: "steps_by R clock_now"
  by (simp add: clock_now_def readE)

lemma read_random: "steps_by R (read_random n)"
  unfolding read_random_def by (rule external) (simp add: steps_by_def entropy)

lemma tx_do:
  assumes "steps_by R m"
  shows "steps_by R (tx_do m)"
  unfolding tx_do_def
proof (rule external, rule steps_byI)
  fix w
  obtain r w' where mw: "m w = (r, w')" by (cases "m w")
  with assms have step: "R w w'" by (rule steps_byD)
  have f: "R w (w'\<lparr>w_faults := fs\<rparr>)" for fs using step faults by (rule trans)
  have "R w (w'\<lparr>w_faults := fs, w_db := w_db w\<rparr>)" for fs
    using rollback [OF f [of fs]] by simp
  with mw step f show "R w (snd (case m w of (Inl e, w') \<Rightarrow> (Inl e, w'\<lparr>w_db := w_db w\<rparr>)
       | (Inr x, w') \<Rightarrow> (case w_faults w' of [] \<Rightarrow> (Inr x, w')
         | True # fs \<Rightarrow> (Inl InfraError, w'\<lparr>w_faults := fs, w_db := w_db w\<rparr>)
         | False # fs \<Rightarrow> (Inr x, w'\<lparr>w_faults := fs\<rparr>))))"
    by (auto split: sum.splits list.splits bool.splits intro: rollback)
qed

lemmas world_rules = rules query nextval gen_random_uuid clock_now read_random tx_do

end

text \<open>
  An invariant of the tables alone, and the frame "this part of the tables is
  unchanged", are such relations.
\<close>

abbreviation db_keeps :: "(database \<Rightarrow> bool) \<Rightarrow> world \<Rightarrow> world \<Rightarrow> bool" where
  "db_keeps I \<equiv> \<lambda>w w'. I (w_db w) \<longrightarrow> I (w_db w')"

abbreviation db_view :: "(database \<Rightarrow> 'v) \<Rightarrow> world \<Rightarrow> world \<Rightarrow> bool" where
  "db_view v \<equiv> \<lambda>w w'. v (w_db w') = v (w_db w)"

interpretation db_keeping: world_rel "db_keeps I" for I
  by unfold_locales auto

interpretation db_viewing: world_rel "db_view v" for v
  by unfold_locales auto

lemma record_metric_db: "w_db (snd (record_metric m w)) = w_db w"
  by (simp add: record_metric_def effect_simps)

lemma PublishMonitorChanged_db: "w_db (snd (PublishMonitorChanged ev w)) = w_db w"
  by (simp add: PublishMonitorChanged_def external_def effect_simps split: list.splits bool.splits)

lemma PublishAlert_db: "w_db (snd (PublishAlert ev w)) = w_db w"
  by (simp add: PublishAlert_def external_def effect_simps split: list.splits bool.splits)

section \<open>An empty system\<close>

text \<open>The start state that the concrete examples are built on.\<close>

definition empty_db :: database where
  "empty_db =
     \<lparr>t_users = [], t_monitors = [], t_monitor_groups = [], t_channels = [], t_monitor_channels = [],
      t_check_results = [], t_uptime_hourly = [], t_incidents = [], t_incident_updates = [],
      t_maintenance_windows = [], t_failed_alerts = [], t_api_keys = [], t_status_subscribers = [],
      t_blog_subscribers = [], t_custom_domains = [], t_custom_domain_certs = []\<rparr>"

definition empty_world :: world where
  "empty_world =
     \<lparr>w_db = empty_db, w_db_clock = 0, w_app_clock = 0, w_next_serial = 1, w_next_uuid = 1,
      w_faults = [], w_entropy = (\<lambda>n. char_of (n mod 256)), w_entropy_pos = 0, w_sessions = [],
      w_monitor_events = [], w_alert_events = [], w_check_tasks = [], w_outbox = [], w_metrics = []\<rparr>"

end
