(* ===== verification/Ports.thy ===== *)
theory Ports
  imports Store
begin

text \<open>
  \<open>internal/port\<close>: the interfaces that the application services are written against. An
  interface is a record with one field per method, so that a service is a function of its
  ports, as in the Go constructors; the adapters provide values of these records. Input
  structures of the ports are records too. Methods that no modelled code calls are left
  out of the records.
\<close>

section \<open>Repositories (\<open>internal/port/repository.go\<close>)\<close>

record branding =
  br_logo_url :: "string option"
  br_accent_color :: "string option"
  br_custom_footer_text :: "string option"

record user_repo =
  UserRepo_Create :: "string \<Rightarrow> string \<Rightarrow> string \<Rightarrow> user io"
  UserRepo_GetByID :: "uuid \<Rightarrow> user io"
  UserRepo_GetByEmail :: "string \<Rightarrow> (user \<times> string) io"
  UserRepo_GetBySlug :: "string \<Rightarrow> user io"
  UserRepo_UpdatePlan :: "uuid \<Rightarrow> string \<Rightarrow> unit io"
  UserRepo_UpdateLemonSqueezy :: "uuid \<Rightarrow> string \<Rightarrow> string \<Rightarrow> unit io"
  UserRepo_SetSubscriptionVariant :: "uuid \<Rightarrow> string \<Rightarrow> unit io"
  UserRepo_CountActiveFounderSubscriptions :: "int io"
  UserRepo_AcquireFounderCapLock :: "unit io"
  UserRepo_GetBranding :: "uuid \<Rightarrow> branding io"
  UserRepo_GetBrandingBySlug :: "string \<Rightarrow> (string \<times> branding) io"
  UserRepo_UpdateBranding :: "uuid \<Rightarrow> branding \<Rightarrow> unit io"

record session_repo =
  SessionRepo_Create :: "string \<Rightarrow> uuid \<Rightarrow> time \<Rightarrow> unit io"
  SessionRepo_GetUserID :: "string \<Rightarrow> uuid io"
  SessionRepo_Touch :: "string \<Rightarrow> time \<Rightarrow> unit io"
  SessionRepo_Delete :: "string \<Rightarrow> unit io"

record pro_http_monitor =
  php_id :: uuid
  php_user_id :: uuid
  php_name :: string
  php_check_config :: string

record monitor_repo =
  MonitorRepo_Create :: "monitor \<Rightarrow> monitor io"
  MonitorRepo_GetByID :: "uuid \<Rightarrow> monitor io"
  MonitorRepo_ListByUserID :: "uuid \<Rightarrow> monitor list io"
  MonitorRepo_ListPublicBySlug :: "string \<Rightarrow> monitor list io"
  MonitorRepo_ListActive :: "monitor list io"
  MonitorRepo_CountByUserID :: "uuid \<Rightarrow> int io"
  MonitorRepo_Update :: "monitor \<Rightarrow> unit io"
  MonitorRepo_UpdateStatus :: "uuid \<Rightarrow> string \<Rightarrow> string io"
  MonitorRepo_TogglePause :: "uuid \<Rightarrow> uuid \<Rightarrow> monitor io"
  MonitorRepo_Delete :: "uuid \<Rightarrow> uuid \<Rightarrow> unit io"
  MonitorRepo_ListProHTTPForSSLScan :: "pro_http_monitor list io"

record check_result_repo =
  CheckResultRepo_Insert :: "check_result \<Rightarrow> unit io"
  CheckResultRepo_ConsecutiveFailures :: "uuid \<Rightarrow> int io"
  CheckResultRepo_DeleteOlderThan :: "time \<Rightarrow> int io"
  CheckResultRepo_DeleteByPlan :: "time \<Rightarrow> time \<Rightarrow> int io"
  CheckResultRepo_GetResponseTimeChart :: "uuid \<Rightarrow> time \<Rightarrow> chart_point list io"

text \<open>Percentages are exact rationals: the rounding of \<open>float64\<close> is not modelled.\<close>

record uptime_repo =
  UptimeRepo_RecordCheck :: "uuid \<Rightarrow> time \<Rightarrow> bool \<Rightarrow> unit io"
  UptimeRepo_GetUptime :: "uuid \<Rightarrow> time \<Rightarrow> rat io"
  UptimeRepo_GetUptimeBatch :: "uuid list \<Rightarrow> time \<Rightarrow> (uuid \<rightharpoonup> rat) io"

record incident_export_row =
  ier_id :: int
  ier_monitor_id :: uuid
  ier_monitor_name :: string
  ier_started_at :: time
  ier_resolved_at :: "time option"
  ier_cause :: string
  ier_state :: string
  ier_is_manual :: bool
  ier_title :: "string option"

record create_incident_input =
  cii_monitor_id :: uuid
  cii_cause :: string
  cii_state :: string
  cii_is_manual :: bool
  cii_title :: "string option"

record incident_repo =
  IncidentRepo_Create :: "create_incident_input \<Rightarrow> incident io"
  IncidentRepo_Resolve :: "int \<Rightarrow> time \<Rightarrow> unit io"
  IncidentRepo_UpdateState :: "int \<Rightarrow> string \<Rightarrow> unit io"
  IncidentRepo_GetByID :: "int \<Rightarrow> incident io"
  IncidentRepo_GetOpen :: "uuid \<Rightarrow> incident io"
  IncidentRepo_IsInCooldown :: "uuid \<Rightarrow> bool io"
  IncidentRepo_ListByMonitorID :: "uuid \<Rightarrow> int \<Rightarrow> incident list io"
  IncidentRepo_ListForExport :: "uuid \<Rightarrow> incident_export_row list io"

record create_incident_update_input =
  ciu_incident_id :: int
  ciu_state :: string
  ciu_body :: string
  ciu_posted_by_user_id :: uuid

record incident_update_repo =
  IncidentUpdateRepo_Create :: "create_incident_update_input \<Rightarrow> incident_update io"
  IncidentUpdateRepo_ListByIncidentID :: "int \<Rightarrow> incident_update list io"

record failed_alert_repo =
  FailedAlertRepo_Create :: "string \<Rightarrow> string \<Rightarrow> uuid list \<Rightarrow> unit io"

record status_subscriber_repo =
  StatusSubscriberRepo_Create ::
    "string \<Rightarrow> string \<Rightarrow> string \<Rightarrow> string \<Rightarrow> string option \<Rightarrow> status_subscriber io"
  StatusSubscriberRepo_Confirm :: "string \<Rightarrow> status_subscriber io"
  StatusSubscriberRepo_Unsubscribe :: "string \<Rightarrow> status_subscriber io"
  StatusSubscriberRepo_ListConfirmedBySlug :: "string \<Rightarrow> status_subscriber list io"

record blog_subscriber_repo =
  BlogSubscriberRepo_Create ::
    "string \<Rightarrow> string \<Rightarrow> string \<Rightarrow> string option \<Rightarrow> string option \<Rightarrow> blog_subscriber io"
  BlogSubscriberRepo_Confirm :: "string \<Rightarrow> blog_subscriber io"
  BlogSubscriberRepo_Unsubscribe :: "string \<Rightarrow> blog_subscriber io"
  BlogSubscriberRepo_ListConfirmed :: "blog_subscriber list io"
  BlogSubscriberRepo_CountConfirmed :: "int io"

record custom_domain_cert =
  cert_custom_domain_id :: int
  cert_cert_pem :: string
  cert_key_pem :: string
  cert_chain_pem :: string
  cert_expires_at :: time

record custom_domain_cert_repo =
  CustomDomainCertRepo_Upsert :: "custom_domain_cert \<Rightarrow> unit io"
  CustomDomainCertRepo_GetByDomainID :: "int \<Rightarrow> custom_domain_cert io"
  CustomDomainCertRepo_ListExpiringBefore :: "time \<Rightarrow> custom_domain_cert list io"
  CustomDomainCertRepo_ListExpiringHostnames :: "time \<Rightarrow> string list io"

record custom_domain_repo =
  CustomDomainRepo_Create :: "uuid \<Rightarrow> string \<Rightarrow> string \<Rightarrow> custom_domain io"
  CustomDomainRepo_ListByUserID :: "uuid \<Rightarrow> custom_domain list io"
  CustomDomainRepo_GetByHostname :: "string \<Rightarrow> custom_domain io"
  CustomDomainRepo_ListPending :: "custom_domain list io"
  CustomDomainRepo_UpdateStatus ::
    "int \<Rightarrow> string \<Rightarrow> string option \<Rightarrow> time option \<Rightarrow> time option \<Rightarrow> unit io"
  CustomDomainRepo_Delete :: "int \<Rightarrow> uuid \<Rightarrow> unit io"
  CustomDomainRepo_ListActiveHostnames :: "(string \<rightharpoonup> uuid) io"

record monitor_group_repo =
  MonitorGroupRepo_Create :: "uuid \<Rightarrow> string \<Rightarrow> int \<Rightarrow> monitor_group io"
  MonitorGroupRepo_ListByUserID :: "uuid \<Rightarrow> monitor_group list io"
  MonitorGroupRepo_Update :: "int \<Rightarrow> uuid \<Rightarrow> string \<Rightarrow> int \<Rightarrow> unit io"
  MonitorGroupRepo_Delete :: "int \<Rightarrow> uuid \<Rightarrow> unit io"
  MonitorGroupRepo_AssignMonitor :: "uuid \<Rightarrow> uuid \<Rightarrow> int option \<Rightarrow> unit io"
  MonitorGroupRepo_ListMemberships :: "uuid \<Rightarrow> (uuid \<rightharpoonup> int) io"

record create_maintenance_window_input =
  cmw_monitor_id :: uuid
  cmw_starts_at :: time
  cmw_ends_at :: time
  cmw_reason :: string

record maintenance_window_repo =
  MaintenanceWindowRepo_Create :: "create_maintenance_window_input \<Rightarrow> maintenance_window io"
  MaintenanceWindowRepo_ListByMonitorID :: "uuid \<Rightarrow> maintenance_window list io"
  MaintenanceWindowRepo_ListByUserID :: "uuid \<Rightarrow> maintenance_window list io"
  MaintenanceWindowRepo_Delete :: "int \<Rightarrow> uuid \<Rightarrow> unit io"
  MaintenanceWindowRepo_HasActive :: "uuid \<Rightarrow> bool io"

record public_stats =
  ps_monitors_count :: int
  ps_incidents_resolved :: int
  ps_public_status_pages :: int

record api_key_repo =
  APIKeyRepo_Create :: "api_key \<Rightarrow> api_key io"
  APIKeyRepo_GetByHash :: "string \<Rightarrow> api_key io"
  APIKeyRepo_ListByUser :: "uuid \<Rightarrow> api_key list io"
  APIKeyRepo_Delete :: "uuid \<Rightarrow> uuid \<Rightarrow> unit io"
  APIKeyRepo_Touch :: "uuid \<Rightarrow> unit io"

record channel_repo =
  ChannelRepo_Create :: "notification_channel \<Rightarrow> notification_channel io"
  ChannelRepo_GetByID :: "uuid \<Rightarrow> notification_channel io"
  ChannelRepo_ListByUserID :: "uuid \<Rightarrow> notification_channel list io"
  ChannelRepo_ListForMonitor :: "uuid \<Rightarrow> notification_channel list io"
  ChannelRepo_Update :: "notification_channel \<Rightarrow> unit io"
  ChannelRepo_Delete :: "uuid \<Rightarrow> uuid \<Rightarrow> unit io"
  ChannelRepo_BindToMonitor :: "uuid \<Rightarrow> uuid \<Rightarrow> unit io"
  ChannelRepo_UnbindFromMonitor :: "uuid \<Rightarrow> uuid \<Rightarrow> unit io"

section \<open>Checkers, channels, ciphers (\<open>checker.go\<close>, \<open>channel.go\<close>, \<open>crypto.go\<close>)\<close>

text \<open>
  A checker probes the network, so \<open>Check\<close> is an operation of the world that returns a
  result and no error.
\<close>

record monitor_checker =
  MonitorChecker_Check :: "monitor \<Rightarrow> check_result io"
  MonitorChecker_ValidateConfig :: "string \<Rightarrow> goerr + unit"
  MonitorChecker_Target :: "string \<Rightarrow> goerr + string"
  MonitorChecker_Host :: "string \<Rightarrow> goerr + string"

record checker_registry =
  CheckerRegistry_Get :: "string \<Rightarrow> goerr + monitor_checker"
  CheckerRegistry_ValidateConfig :: "string \<Rightarrow> string \<Rightarrow> goerr + unit"
  CheckerRegistry_Target :: "string \<Rightarrow> string \<Rightarrow> goerr + string"
  CheckerRegistry_Host :: "string \<Rightarrow> string \<Rightarrow> goerr + string"

record channel_registry =
  ChannelRegistry_CreateSender :: "string \<Rightarrow> uuid \<Rightarrow> string \<Rightarrow> goerr + (alert_event \<Rightarrow> unit io)"
  ChannelRegistry_ValidateConfig :: "string \<Rightarrow> string \<Rightarrow> goerr + unit"

record cipher =
  Cipher_Encrypt :: "string \<Rightarrow> string io"
  Cipher_Decrypt :: "string \<Rightarrow> goerr + string"
  Cipher_NeedsReEncryption :: "string \<Rightarrow> bool"
  Cipher_ReEncrypt :: "string \<Rightarrow> string io"

text \<open>
  A cipher that only draws randomness, and checkers that only use the network: they leave
  everything of the world alone but the fault script and the entropy position.
\<close>

definition durable :: "world \<Rightarrow> world" where
  "durable w = w\<lparr>w_faults := [], w_entropy_pos := 0\<rparr>"

definition cipher_quiet :: "cipher \<Rightarrow> bool" where
  "cipher_quiet C \<longleftrightarrow> (\<forall>p. steps_by (\<lambda>w w'. durable w' = durable w) (Cipher_Encrypt C p))"

definition checkers_quiet :: "checker_registry \<Rightarrow> bool" where
  "checkers_quiet reg \<longleftrightarrow> (\<forall>ty chk mon. CheckerRegistry_Get reg ty = Inr chk \<longrightarrow>
     steps_by (\<lambda>w w'. durable w' = durable w) (MonitorChecker_Check chk mon))"

lemma durable_eqD: "durable w' = durable w \<Longrightarrow> w' = w\<lparr>w_faults := w_faults w', w_entropy_pos := w_entropy_pos w'\<rparr>"
  by (cases w; cases w') (simp add: durable_def)

lemma durable_simps [simp]:
  "durable (w\<lparr>w_faults := fs\<rparr>) = durable w"
  "durable (w\<lparr>w_entropy_pos := n\<rparr>) = durable w"
  by (simp_all add: durable_def)

end
