(* ===== verification/Incident_Store.thy ===== *)
theory Incident_Store
  imports Ports
begin

text \<open>
  Incidents and their timeline: the statements of \<open>sqlc/gen/incidents.sql.go\<close> and
  \<open>incident_updates.sql.go\<close> on the tables, with the constraints that the migrations
  declare (the foreign keys, the \<open>incident_state\<close> enumeration, the partial unique index
  on open incidents), and the repositories of \<open>adapter/postgres\<close> that translate their
  errors. Shows that no statement lets a monitor have two open incidents.
\<close>

section \<open>Constraint errors\<close>

abbreviation foreign_key_violation :: goerr where
  "foreign_key_violation \<equiv> PgError ''23503''"

abbreviation check_violation :: goerr where
  "check_violation \<equiv> PgError ''23514''"

abbreviation invalid_text_representation :: goerr where
  "invalid_text_representation \<equiv> PgError ''22P02''"

definition monitor_exists :: "database \<Rightarrow> uuid \<Rightarrow> bool" where
  "monitor_exists d m \<longleftrightarrow> (\<exists>r \<in> set (t_monitors d). mnr_id r = m)"

definition user_exists :: "database \<Rightarrow> uuid \<Rightarrow> bool" where
  "user_exists d u \<longleftrightarrow> (\<exists>r \<in> set (t_users d). usrr_id r = u)"

definition incident_exists :: "database \<Rightarrow> int \<Rightarrow> bool" where
  "incident_exists d i \<longleftrightarrow> (\<exists>r \<in> set (t_incidents d). inr_id r = i)"

text \<open>The first row of a \<open>:one\<close> query, or \<open>pgx.ErrNoRows\<close>.\<close>

definition one_row :: "'a list \<Rightarrow> goerr + 'a" where
  "one_row rows = (case rows of [] \<Rightarrow> Inl ErrNoRows | r # _ \<Rightarrow> Inr r)"

lemma one_row_Inr: "one_row rows = Inr r \<Longrightarrow> r \<in> set rows"
  by (auto simp: one_row_def split: list.splits)

text \<open>\<open>LIMIT\<close> with an int4 argument.\<close>

definition sql_limit :: "int4 \<Rightarrow> 'a list \<Rightarrow> goerr + 'a list" where
  "sql_limit n rows =
     (if from_int4 n < 0 then Inl (PgError ''2201W'') else Inr (take (nat (from_int4 n)) rows))"

section \<open>Incidents: statements\<close>

definition is_open :: "incident_row \<Rightarrow> bool" where
  "is_open r \<longleftrightarrow> inr_resolved_at r = None"

text \<open>
  \<open>INSERT INTO incidents\<close>: the enumeration check of the parameter, the primary key and
  \<open>idx_incidents_active_monitor\<close>, then the foreign key.
\<close>

definition q_CreateIncident :: "create_incident_input \<Rightarrow> incident_row io" where
  "q_CreateIncident arg = bindE nextval (\<lambda>i. statement (\<lambda>d now.
     if \<not> IncidentState_Valid (cii_state arg) then Inl invalid_text_representation
     else let r = \<lparr>inr_id = i, inr_monitor_id = cii_monitor_id arg, inr_started_at = now,
                   inr_resolved_at = None, inr_cause = cii_cause arg, inr_state = cii_state arg,
                   inr_is_manual = cii_is_manual arg, inr_title = cii_title arg\<rparr> in
       if incident_exists d i then Inl unique_violation
       else if \<exists>x \<in> set (t_incidents d). is_open x \<and> inr_monitor_id x = cii_monitor_id arg
       then Inl unique_violation
       else if \<not> monitor_exists d (cii_monitor_id arg) then Inl foreign_key_violation
       else Inr (r, d\<lparr>t_incidents := t_incidents d @ [r]\<rparr>)))"

definition q_GetIncidentByID :: "int \<Rightarrow> incident_row io" where
  "q_GetIncidentByID i = query (\<lambda>d now. one_row (filter (\<lambda>r. inr_id r = i) (t_incidents d)))"

definition newest_first :: "incident_row list \<Rightarrow> incident_row list" where
  "newest_first rows = sort_key (\<lambda>r. - inr_started_at r) rows"

definition q_GetOpenIncidentByMonitorID :: "uuid \<Rightarrow> incident_row io" where
  "q_GetOpenIncidentByMonitorID m = query (\<lambda>d now.
     one_row (newest_first (filter (\<lambda>r. inr_monitor_id r = m \<and> is_open r) (t_incidents d))))"

definition resolved_after :: "time \<Rightarrow> incident_row \<Rightarrow> bool" where
  "resolved_after t r = (case inr_resolved_at r of None \<Rightarrow> False | Some x \<Rightarrow> x > t)"

definition q_IsInCooldown :: "uuid \<Rightarrow> bool io" where
  "q_IsInCooldown m = query (\<lambda>d now.
     Inr (\<exists>r \<in> set (t_incidents d). inr_monitor_id r = m \<and> resolved_after (now - seconds 300) r))"

definition q_ListIncidentsByMonitorID :: "uuid \<Rightarrow> int4 \<Rightarrow> incident_row list io" where
  "q_ListIncidentsByMonitorID m n = query (\<lambda>d now.
     sql_limit n (newest_first (filter (\<lambda>r. inr_monitor_id r = m) (t_incidents d))))"

text \<open>The join with \<open>monitors\<close>: a pair of rows for every incident of a live monitor of the user.\<close>

definition q_ListIncidentsByUserIDForExport :: "uuid \<Rightarrow> (incident_row \<times> monitor_row) list io" where
  "q_ListIncidentsByUserIDForExport u = query (\<lambda>d now.
     Inr (sort_key (\<lambda>(i, m). - inr_started_at i)
       [(i, m). i \<leftarrow> t_incidents d, m \<leftarrow> t_monitors d,
          inr_monitor_id i = mnr_id m \<and> mnr_user_id m = u \<and> mnr_deleted_at m = None]))"

definition q_ResolveIncident :: "int \<Rightarrow> time option \<Rightarrow> unit io" where
  "q_ResolveIncident i t = statement (\<lambda>d now.
     Inr ((), d\<lparr>t_incidents := update_where (\<lambda>r. inr_id r = i)
       (\<lambda>r. r\<lparr>inr_resolved_at := t, inr_state := IncidentStateResolved\<rparr>) (t_incidents d)\<rparr>))"

definition q_UpdateIncidentState :: "int \<Rightarrow> string \<Rightarrow> unit io" where
  "q_UpdateIncidentState i s = statement (\<lambda>d now.
     if \<not> IncidentState_Valid s then Inl invalid_text_representation
     else Inr ((), d\<lparr>t_incidents := update_where (\<lambda>r. inr_id r = i)
       (\<lambda>r. r\<lparr>inr_state := s\<rparr>) (t_incidents d)\<rparr>))"

section \<open>Timeline: statements\<close>

definition q_CreateIncidentUpdate :: "create_incident_update_input \<Rightarrow> incident_update_row io" where
  "q_CreateIncidentUpdate arg = bindE nextval (\<lambda>i. statement (\<lambda>d now.
     if \<not> IncidentState_Valid (ciu_state arg) then Inl invalid_text_representation
     else let r = \<lparr>iur_id = i, iur_incident_id = ciu_incident_id arg, iur_state = ciu_state arg,
                   iur_body = ciu_body arg, iur_posted_by_user_id = ciu_posted_by_user_id arg,
                   iur_posted_at = now\<rparr> in
       if \<exists>x \<in> set (t_incident_updates d). iur_id x = i then Inl unique_violation
       else if \<not> incident_exists d (ciu_incident_id arg) then Inl foreign_key_violation
       else if \<not> user_exists d (ciu_posted_by_user_id arg) then Inl foreign_key_violation
       else Inr (r, d\<lparr>t_incident_updates := t_incident_updates d @ [r]\<rparr>)))"

definition q_ListIncidentUpdates :: "int \<Rightarrow> incident_update_row list io" where
  "q_ListIncidentUpdates i = query (\<lambda>d now.
     Inr (sort_key (\<lambda>r. - iur_posted_at r)
       (filter (\<lambda>r. iur_incident_id r = i) (t_incident_updates d))))"

section \<open>Repositories\<close>

definition incidentFromRow :: "incident_row \<Rightarrow> incident" where
  "incidentFromRow r =
     \<lparr>inc_id = inr_id r, inc_monitor_id = inr_monitor_id r, inc_started_at = inr_started_at r,
      inc_resolved_at = inr_resolved_at r, inc_cause = inr_cause r, inc_state = inr_state r,
      inc_is_manual = inr_is_manual r, inc_title = inr_title r\<rparr>"

lemma incidentFromRow_sel [simp]:
  "inc_id (incidentFromRow r) = inr_id r"
  "inc_monitor_id (incidentFromRow r) = inr_monitor_id r"
  "inc_state (incidentFromRow r) = inr_state r"
  "inc_resolved_at (incidentFromRow r) = inr_resolved_at r"
  by (simp_all add: incidentFromRow_def)

definition incidentUpdateFromRow :: "incident_update_row \<Rightarrow> incident_update" where
  "incidentUpdateFromRow r =
     \<lparr>iu_id = iur_id r, iu_incident_id = iur_incident_id r, iu_state = iur_state r,
      iu_body = iur_body r, iu_posted_by_user_id = iur_posted_by_user_id r,
      iu_posted_at = iur_posted_at r\<rparr>"

definition pg_IncidentRepo_Create :: "create_incident_input \<Rightarrow> incident io" where
  "pg_IncidentRepo_Create inp =
     (let state = (if cii_state inp = [] then IncidentStateInvestigating else cii_state inp) in
      bindE (attemptE (q_CreateIncident (inp\<lparr>cii_state := state\<rparr>))) (\<lambda>res.
        case res of
          Inl err \<Rightarrow> if isUniqueViolation err then throwE (Sentinel ErrIncidentExists) else throwE err
        | Inr row \<Rightarrow> returnE (incidentFromRow row)))"

definition pg_IncidentRepo_Resolve :: "int \<Rightarrow> time \<Rightarrow> unit io" where
  "pg_IncidentRepo_Resolve i t = q_ResolveIncident i (Some t)"

definition pg_IncidentRepo_UpdateState :: "int \<Rightarrow> string \<Rightarrow> unit io" where
  "pg_IncidentRepo_UpdateState i s = q_UpdateIncidentState i s"

definition pg_IncidentRepo_GetByID :: "int \<Rightarrow> incident io" where
  "pg_IncidentRepo_GetByID i = bindE (q_GetIncidentByID i) (\<lambda>row. returnE (incidentFromRow row))"

definition pg_IncidentRepo_GetOpen :: "uuid \<Rightarrow> incident io" where
  "pg_IncidentRepo_GetOpen m =
     bindE (q_GetOpenIncidentByMonitorID m) (\<lambda>row. returnE (incidentFromRow row))"

definition pg_IncidentRepo_IsInCooldown :: "uuid \<Rightarrow> bool io" where
  "pg_IncidentRepo_IsInCooldown m = q_IsInCooldown m"

definition exportRow :: "incident_row \<times> monitor_row \<Rightarrow> incident_export_row" where
  "exportRow p = (case p of (i, m) \<Rightarrow>
     \<lparr>ier_id = inr_id i, ier_monitor_id = inr_monitor_id i, ier_monitor_name = mnr_name m,
      ier_started_at = inr_started_at i, ier_resolved_at = inr_resolved_at i,
      ier_cause = inr_cause i, ier_state = inr_state i, ier_is_manual = inr_is_manual i,
      ier_title = inr_title i\<rparr>)"

definition pg_IncidentRepo_ListForExport :: "uuid \<Rightarrow> incident_export_row list io" where
  "pg_IncidentRepo_ListForExport u =
     bindE (q_ListIncidentsByUserIDForExport u) (\<lambda>rows. returnE (map exportRow rows))"

definition pg_IncidentRepo_ListByMonitorID :: "uuid \<Rightarrow> int \<Rightarrow> incident list io" where
  "pg_IncidentRepo_ListByMonitorID m n =
     bindE (q_ListIncidentsByMonitorID m (to_int4 n)) (\<lambda>rows. returnE (map incidentFromRow rows))"

definition pg_IncidentRepo :: incident_repo where
  "pg_IncidentRepo =
     \<lparr>IncidentRepo_Create = pg_IncidentRepo_Create,
      IncidentRepo_Resolve = pg_IncidentRepo_Resolve,
      IncidentRepo_UpdateState = pg_IncidentRepo_UpdateState,
      IncidentRepo_GetByID = pg_IncidentRepo_GetByID,
      IncidentRepo_GetOpen = pg_IncidentRepo_GetOpen,
      IncidentRepo_IsInCooldown = pg_IncidentRepo_IsInCooldown,
      IncidentRepo_ListByMonitorID = pg_IncidentRepo_ListByMonitorID,
      IncidentRepo_ListForExport = pg_IncidentRepo_ListForExport\<rparr>"

definition pg_IncidentUpdateRepo_Create :: "create_incident_update_input \<Rightarrow> incident_update io" where
  "pg_IncidentUpdateRepo_Create inp =
     bindE (q_CreateIncidentUpdate inp) (\<lambda>row. returnE (incidentUpdateFromRow row))"

definition pg_IncidentUpdateRepo_ListByIncidentID :: "int \<Rightarrow> incident_update list io" where
  "pg_IncidentUpdateRepo_ListByIncidentID i =
     bindE (q_ListIncidentUpdates i) (\<lambda>rows. returnE (map incidentUpdateFromRow rows))"

definition pg_IncidentUpdateRepo :: incident_update_repo where
  "pg_IncidentUpdateRepo =
     \<lparr>IncidentUpdateRepo_Create = pg_IncidentUpdateRepo_Create,
      IncidentUpdateRepo_ListByIncidentID = pg_IncidentUpdateRepo_ListByIncidentID\<rparr>"

lemmas incident_repo_defs =
  pg_IncidentRepo_def pg_IncidentRepo_Create_def pg_IncidentRepo_Resolve_def
  pg_IncidentRepo_UpdateState_def pg_IncidentRepo_GetByID_def pg_IncidentRepo_GetOpen_def
  pg_IncidentRepo_IsInCooldown_def pg_IncidentRepo_ListForExport_def
  pg_IncidentRepo_ListByMonitorID_def pg_IncidentUpdateRepo_def
  pg_IncidentUpdateRepo_Create_def pg_IncidentUpdateRepo_ListByIncidentID_def

section \<open>What the statements keep\<close>

text \<open>
  At most one open incident per monitor, and at most one incident per key. An incident
  that is closed is in the state \<open>resolved\<close>.
\<close>

definition one_open_incident :: "database \<Rightarrow> bool" where
  "one_open_incident d \<longleftrightarrow> unique_on inr_monitor_id is_open (t_incidents d)"

definition incident_keys :: "database \<Rightarrow> bool" where
  "incident_keys d \<longleftrightarrow> unique_on inr_id (\<lambda>_. True) (t_incidents d)"

definition lifecycle_row :: "incident_row \<Rightarrow> bool" where
  "lifecycle_row r \<longleftrightarrow> (inr_resolved_at r = None \<longleftrightarrow> inr_state r \<noteq> IncidentStateResolved)"

definition lifecycle :: "database \<Rightarrow> bool" where
  "lifecycle d \<longleftrightarrow> (\<forall>r \<in> set (t_incidents d). lifecycle_row r)"

definition incidents_ok :: "database \<Rightarrow> bool" where
  "incidents_ok d \<longleftrightarrow> one_open_incident d \<and> incident_keys d"

lemma unique_on_keys_update:
  "unique_on k (\<lambda>_. True) xs \<Longrightarrow> (\<And>x. k (f x) = k x) \<Longrightarrow> unique_on k (\<lambda>_. True) (update_where p f xs)"
  by (simp add: unique_on_def map_update_where)

lemma q_CreateIncident_keeps: "steps_by (db_keeps incidents_ok) (q_CreateIncident arg)"
  unfolding q_CreateIncident_def
  by (rule keeping.bindE, rule db_keeping.nextval, rule db_keeping.statement)
     (auto simp: Let_def incidents_ok_def one_open_incident_def incident_keys_def unique_on_snoc
        incident_exists_def split: if_splits)

lemma q_ResolveIncident_keeps: "steps_by (db_keeps incidents_ok) (q_ResolveIncident i (Some t))"
  unfolding q_ResolveIncident_def
  by (rule db_keeping.statement)
     (auto simp: incidents_ok_def one_open_incident_def incident_keys_def is_open_def
        intro!: unique_on_update_shrink unique_on_keys_update)

lemma q_UpdateIncidentState_keeps: "steps_by (db_keeps incidents_ok) (q_UpdateIncidentState i s)"
  unfolding q_UpdateIncidentState_def
  by (rule db_keeping.statement)
     (auto simp: incidents_ok_def one_open_incident_def incident_keys_def is_open_def
        split: if_splits intro!: unique_on_update_shrink unique_on_keys_update)

text \<open>A statement on other tables leaves the incidents alone.\<close>

lemma q_CreateIncidentUpdate_view: "steps_by (db_view t_incidents) (q_CreateIncidentUpdate arg)"
  unfolding q_CreateIncidentUpdate_def
  by (rule viewing.bindE, rule db_viewing.nextval, rule db_viewing.statement)
     (auto simp: Let_def split: if_splits)

end
