(* ===== verification/Json.thy ===== *)
theory Json
  imports Prelude
begin

text \<open>
  The part of \<open>encoding/json\<close> and \<open>unicode/utf8\<close> that the adapters rely on to store an
  encrypted configuration in a \<open>jsonb\<close> column: \<open>json.Marshal\<close> and \<open>json.Unmarshal\<close> at
  type \<open>string\<close>, on UTF-8 bytes, with Go's HTML-safe escapes. The round trip of the two
  is proved for the texts without bytes above 127; the others are covered by the
  definitions, which replace an invalid sequence by U+FFFD as Go does.
\<close>

section \<open>Runes\<close>

abbreviation byte :: "char \<Rightarrow> nat" where
  "byte c \<equiv> of_char c"

abbreviation rune_error :: nat where
  "rune_error \<equiv> 0xFFFD"

definition is_cont :: "nat \<Rightarrow> nat \<Rightarrow> char \<Rightarrow> bool" where
  "is_cont lo hi c \<longleftrightarrow> lo \<le> byte c \<and> byte c \<le> hi"

text \<open>\<open>utf8.DecodeRuneInString\<close> on a non-empty string: the rune and its width.\<close>

fun decode_rune :: "string \<Rightarrow> nat \<times> nat" where
  "decode_rune [] = (rune_error, 0)"
| "decode_rune (a # s) =
     (let x = byte a in
      if x < 0x80 then (x, 1)
      else if 0xC2 \<le> x \<and> x \<le> 0xDF then
        (case s of b # _ \<Rightarrow> if is_cont 0x80 0xBF b then ((x mod 32) * 64 + byte b mod 64, 2) else (rune_error, 1)
         | [] \<Rightarrow> (rune_error, 1))
      else if 0xE0 \<le> x \<and> x \<le> 0xEF then
        (case s of b # c # _ \<Rightarrow>
           if is_cont (if x = 0xE0 then 0xA0 else 0x80) (if x = 0xED then 0x9F else 0xBF) b
              \<and> is_cont 0x80 0xBF c
           then ((x mod 16) * 4096 + (byte b mod 64) * 64 + byte c mod 64, 3) else (rune_error, 1)
         | _ \<Rightarrow> (rune_error, 1))
      else if 0xF0 \<le> x \<and> x \<le> 0xF4 then
        (case s of b # c # d # _ \<Rightarrow>
           if is_cont (if x = 0xF0 then 0x90 else 0x80) (if x = 0xF4 then 0x8F else 0xBF) b
              \<and> is_cont 0x80 0xBF c \<and> is_cont 0x80 0xBF d
           then ((x mod 8) * 262144 + (byte b mod 64) * 4096 + (byte c mod 64) * 64 + byte d mod 64, 4)
           else (rune_error, 1)
         | _ \<Rightarrow> (rune_error, 1))
      else (rune_error, 1))"

text \<open>\<open>utf8.AppendRune\<close> for a rune that is not a surrogate.\<close>

definition encode_rune :: "nat \<Rightarrow> string" where
  "encode_rune r =
     (if r < 0x80 then [char_of r]
      else if r < 0x800 then [char_of (0xC0 + r div 64), char_of (0x80 + r mod 64)]
      else if r < 0x10000 then
        [char_of (0xE0 + r div 4096), char_of (0x80 + (r div 64) mod 64), char_of (0x80 + r mod 64)]
      else [char_of (0xF0 + r div 262144), char_of (0x80 + (r div 4096) mod 64),
            char_of (0x80 + (r div 64) mod 64), char_of (0x80 + r mod 64)])"

lemma decode_rune_width: "s \<noteq> [] \<Longrightarrow> decode_rune s = (r, n) \<Longrightarrow> 0 < n"
  by (cases s) (auto simp: Let_def split: list.splits if_splits)

declare decode_rune.simps [simp del]

section \<open>Writing a string\<close>

definition esc_u :: "nat \<Rightarrow> string" where
  "esc_u n = [CHR 0x5C, CHR ''u'', hex_digit (n div 4096 mod 16), hex_digit (n div 256 mod 16),
              hex_digit (n div 16 mod 16), hex_digit (n mod 16)]"

text \<open>One ASCII byte, as \<open>appendString\<close> writes it with \<open>escapeHTML\<close> on.\<close>

definition esc_ascii :: "char \<Rightarrow> string" where
  "esc_ascii c =
     (if c = CHR 0x22 then [CHR 0x5C, CHR 0x22]
      else if c = CHR 0x5C then [CHR 0x5C, CHR 0x5C]
      else if c = CHR 0x08 then [CHR 0x5C, CHR ''b'']
      else if c = CHR 0x0C then [CHR 0x5C, CHR ''f'']
      else if c = CHR 0x0A then [CHR 0x5C, CHR ''n'']
      else if c = CHR 0x0D then [CHR 0x5C, CHR ''r'']
      else if c = CHR 0x09 then [CHR 0x5C, CHR ''t'']
      else if byte c < 0x20 \<or> c = CHR ''<'' \<or> c = CHR ''>'' \<or> c = CHR ''&'' then esc_u (byte c)
      else [c])"

function json_escape :: "string \<Rightarrow> string" where
  "json_escape s = (case s of [] \<Rightarrow> []
     | c # t \<Rightarrow>
        if byte c < 0x80 then esc_ascii c @ json_escape t
        else (case decode_rune s of (r, n) \<Rightarrow>
          (if r = rune_error \<and> n = 1 then esc_u rune_error
           else if r = 0x2028 \<or> r = 0x2029 then esc_u r
           else take n s) @ json_escape (drop n s)))"
  by pat_completeness auto
termination
  by (relation "measure length")
     (auto intro!: diff_less dest!: sym [of "(_, _)"] decode_rune_width [rotated])

declare json_escape.simps [simp del]

definition json_marshal_string :: "string \<Rightarrow> string" where
  "json_marshal_string s = [CHR 0x22] @ json_escape s @ [CHR 0x22]"

section \<open>Reading a string\<close>

definition json_space :: "char \<Rightarrow> bool" where
  "json_space c \<longleftrightarrow> c = CHR '' '' \<or> c = CHR 0x09 \<or> c = CHR 0x0A \<or> c = CHR 0x0D"

definition hex_value :: "char \<Rightarrow> nat option" where
  "hex_value c = (let n = byte c in
     if 48 \<le> n \<and> n \<le> 57 then Some (n - 48)
     else if 97 \<le> n \<and> n \<le> 102 then Some (n - 87)
     else if 65 \<le> n \<and> n \<le> 70 then Some (n - 55)
     else None)"

fun hex4 :: "string \<Rightarrow> nat option" where
  "hex4 (a # b # c # d # _) =
     (case (hex_value a, hex_value b, hex_value c, hex_value d) of
        (Some w, Some x, Some y, Some z) \<Rightarrow> Some (((w * 16 + x) * 16 + y) * 16 + z)
      | _ \<Rightarrow> None)"
| "hex4 _ = None"

definition surrogate :: "nat \<Rightarrow> bool" where
  "surrogate r \<longleftrightarrow> 0xD800 \<le> r \<and> r < 0xE000"

text \<open>\<open>getu4\<close>: the rune of a six-byte escape at the head of the string.\<close>

fun getu4 :: "string \<Rightarrow> nat option" where
  "getu4 (a # b # s) = (if a = CHR 0x5C \<and> b = CHR ''u'' then hex4 s else None)"
| "getu4 _ = None"

text \<open>
  The rune that a \<open>\u\<close> escape stands for, and whether it takes the following escape with
  it: \<open>utf16.DecodeRune\<close> joins a high and a low surrogate, any other surrogate is U+FFFD.
\<close>

definition join_surrogates :: "nat \<Rightarrow> string \<Rightarrow> nat \<times> nat" where
  "join_surrogates r rest =
     (if surrogate r then
        (case getu4 rest of
           Some r2 \<Rightarrow>
             if r < 0xDC00 \<and> 0xDC00 \<le> r2 \<and> r2 < 0xE000
             then ((r - 0xD800) * 1024 + (r2 - 0xDC00) + 0x10000, 6) else (rune_error, 0)
         | None \<Rightarrow> (rune_error, 0))
      else (r, 0))"

definition simple_escape :: "char \<Rightarrow> char option" where
  "simple_escape c =
     (if c = CHR 0x22 \<or> c = CHR 0x5C \<or> c = CHR ''/'' then Some c
      else if c = CHR ''b'' then Some (CHR 0x08)
      else if c = CHR ''f'' then Some (CHR 0x0C)
      else if c = CHR ''n'' then Some (CHR 0x0A)
      else if c = CHR ''r'' then Some (CHR 0x0D)
      else if c = CHR ''t'' then Some (CHR 0x09)
      else None)"

text \<open>
  The content of a string literal, from after the opening quote, and what follows the
  closing quote. \<open>None\<close> is a syntax error.
\<close>

function json_unquote :: "string \<Rightarrow> (string \<times> string) option" where
  "json_unquote s = (case s of [] \<Rightarrow> None
     | c # t \<Rightarrow>
        if c = CHR 0x22 then Some ([], t)
        else if c = CHR 0x5C then
          (case t of [] \<Rightarrow> None
           | e # u \<Rightarrow>
              if e = CHR ''u'' then
                (case hex4 u of None \<Rightarrow> None
                 | Some r \<Rightarrow> (case join_surrogates r (drop 4 u) of (rr, k) \<Rightarrow>
                     map_option (\<lambda>(v, rest). (encode_rune rr @ v, rest)) (json_unquote (drop (4 + k) u))))
              else (case simple_escape e of None \<Rightarrow> None
                 | Some x \<Rightarrow> map_option (\<lambda>(v, rest). (x # v, rest)) (json_unquote u)))
        else if byte c < 0x20 then None
        else if byte c < 0x80 then map_option (\<lambda>(v, rest). (c # v, rest)) (json_unquote t)
        else (case decode_rune s of (r, n) \<Rightarrow>
          map_option (\<lambda>(v, rest). (encode_rune r @ v, rest)) (json_unquote (drop n s))))"
  by pat_completeness auto
termination
  by (relation "measure length")
     (auto intro!: diff_less dest!: sym [of "(_, _)"] decode_rune_width [rotated])

declare json_unquote.simps [simp del]

text \<open>
  \<open>json.Unmarshal(data, &s)\<close> with \<open>s\<close> of type \<open>string\<close> and initially empty: a string
  literal, or \<open>null\<close>, which leaves \<open>s\<close> alone. Every other input is a syntax error or a
  type error.
\<close>

definition json_unmarshal_string :: "string \<Rightarrow> goerr + string" where
  "json_unmarshal_string data =
     (case dropWhile json_space data of
        [] \<Rightarrow> Inl (Errorf ''unexpected end of JSON input'')
      | c # t \<Rightarrow>
         if c = CHR 0x22 then
           (case json_unquote t of
              Some (v, rest) \<Rightarrow>
                if dropWhile json_space rest = [] then Inr v
                else Inl (Errorf ''invalid character after top-level value'')
            | None \<Rightarrow> Inl (Errorf ''invalid character in string literal''))
         else if has_prefix (c # t) ''null'' \<and> dropWhile json_space (drop 4 (c # t)) = [] then Inr []
         else Inl (Errorf ''cannot unmarshal value into Go value of type string''))"

section \<open>Round trip\<close>

definition ascii :: "string \<Rightarrow> bool" where
  "ascii s \<longleftrightarrow> (\<forall>c \<in> set s. byte c < 0x80)"

lemma ascii_Cons [simp]: "ascii (c # s) \<longleftrightarrow> byte c < 0x80 \<and> ascii s"
  by (simp add: ascii_def)

lemma ascii_Nil [simp]: "ascii []"
  by (simp add: ascii_def)

lemma json_escape_ascii: "ascii s \<Longrightarrow> json_escape s = concat (map esc_ascii s)"
proof (induction s)
  case Nil
  show ?case by (subst json_escape.simps) simp
next
  case (Cons c s)
  then show ?case by (subst json_escape.simps) simp
qed

lemma hex_value_digit: "n < 16 \<Longrightarrow> hex_value (hex_digit n) = Some n"
  unfolding hex_value_def hex_digit_def by (auto simp: Let_def)

lemma hex4_digits:
  "n < 65536 \<Longrightarrow> hex4 (hex_digit (n div 4096 mod 16) # hex_digit (n div 256 mod 16)
     # hex_digit (n div 16 mod 16) # hex_digit (n mod 16) # s) = Some n"
proof -
  assume "n < 65536"
  then have small: "n div 4096 < 16" by (simp add: less_mult_imp_div_less)
  then have top: "n div 4096 mod 16 = n div 4096" by simp
  have "n div 256 = n div 4096 * 16 + n div 256 mod 16"
    using div_mult_mod_eq [of "n div 256" 16] by (simp add: div_mult2_eq [symmetric])
  moreover have "n div 16 = n div 256 * 16 + n div 16 mod 16"
    using div_mult_mod_eq [of "n div 16" 16] by (simp add: div_mult2_eq [symmetric])
  moreover have "n = n div 16 * 16 + n mod 16" by simp
  ultimately have "((n div 4096 mod 16 * 16 + n div 256 mod 16) * 16 + n div 16 mod 16) * 16 + n mod 16 = n"
    unfolding top by presburger
  then show ?thesis by (simp add: hex_value_digit top small)
qed

lemma unquote_esc_ascii:
  assumes "byte c < 0x80"
  shows "json_unquote (esc_ascii c @ s) = map_option (\<lambda>(v, rest). (c # v, rest)) (json_unquote s)"
proof (cases "byte c < 0x20 \<or> c = CHR ''<'' \<or> c = CHR ''>'' \<or> c = CHR ''&''")
  case True
  have u: "json_unquote (esc_u (byte c) @ s) = map_option (\<lambda>(v, rest). (c # v, rest)) (json_unquote s)"
    if "byte c < 0x80"
    using that hex4_digits [of "byte c" s]
    by (subst json_unquote.simps)
       (simp add: esc_u_def join_surrogates_def surrogate_def encode_rune_def del: hex4.simps)
  show ?thesis
    using True assms u
    by (auto simp: esc_ascii_def json_unquote.simps [of "CHR 0x5C # _"] simple_escape_def)
next
  case False
  then show ?thesis using assms
    by (auto simp: esc_ascii_def json_unquote.simps [of "_ # _"] simple_escape_def)
qed

lemma unquote_json_escape: "ascii s \<Longrightarrow> json_unquote (json_escape s @ CHR 0x22 # t) = Some (s, t)"
proof (induction s)
  case Nil
  show ?case by (simp add: json_escape_ascii json_unquote.simps [of "CHR 0x22 # t"])
next
  case (Cons c s)
  then show ?case by (simp add: json_escape_ascii unquote_esc_ascii)
qed

lemma json_string_roundtrip: "ascii s \<Longrightarrow> json_unmarshal_string (json_marshal_string s) = Inr s"
  by (simp add: json_unmarshal_string_def json_marshal_string_def json_space_def unquote_json_escape)

end
