(* ===== verification/Result_Store.thy ===== *)
theory Result_Store
  imports Monitor_Store
begin

text \<open>
  Check results, hourly uptime, maintenance windows and monitor groups: statements of
  \<open>sqlc/gen\<close> and repositories of \<open>adapter/postgres\<close>. Shows that the failure count is the
  length of the run of failures since the last success, that uptime is a percentage, and
  that a recorded check raises the counters of its own hour only.
\<close>

section \<open>Check results\<close>

record insert_check_result_params =
  icp_monitor_id :: uuid
  icp_status :: string
  icp_status_code :: "int4 option"
  icp_response_time_ms :: int4
  icp_error_message :: "string option"
  icp_checked_at :: time

definition latest_first :: "check_result_row list \<Rightarrow> check_result_row list" where
  "latest_first rows = sort_key (\<lambda>r. - crr_checked_at r) rows"

text \<open>
  The window query: \<open>ordered\<close> numbers the results of the monitor from the latest, and
  \<open>first_up\<close> is the least number with status up, or one past the end.
\<close>

definition q_ConsecutiveFailures :: "uuid \<Rightarrow> int4 io" where
  "q_ConsecutiveFailures m = query (\<lambda>d now.
     let ordered = enumerate 1 (latest_first (filter (\<lambda>r. crr_monitor_id r = m) (t_check_results d)));
         first_up = (case filter (\<lambda>(rn, r). crr_status r = StatusUp) ordered of
                       [] \<Rightarrow> length ordered + 1 | (rn, _) # _ \<Rightarrow> rn) in
     Inr (to_int4 (int (length (filter (\<lambda>(rn, r). crr_status r = StatusDown \<and> rn < first_up) ordered)))))"

definition user_of :: "database \<Rightarrow> uuid \<Rightarrow> user_row \<Rightarrow> bool" where
  "user_of d m u \<longleftrightarrow> (\<exists>r \<in> set (t_monitors d). mnr_id r = m \<and> mnr_user_id r = usrr_id u)"

definition q_DeleteCheckResultsByPlan :: "time \<Rightarrow> time \<Rightarrow> int io" where
  "q_DeleteCheckResultsByPlan free_cutoff pro_cutoff = statement (\<lambda>d now.
     let p = (\<lambda>r. \<exists>u \<in> set (t_users d). user_of d (crr_monitor_id r) u \<and>
          (usrr_plan u = PlanFree \<and> crr_checked_at r < free_cutoff
           \<or> usrr_plan u = PlanPro \<and> crr_checked_at r < pro_cutoff)) in
     Inr (int (length (filter p (t_check_results d))),
          d\<lparr>t_check_results := filter (\<lambda>r. \<not> p r) (t_check_results d)\<rparr>))"

definition q_DeleteCheckResultsOlderThan :: "time \<Rightarrow> int io" where
  "q_DeleteCheckResultsOlderThan cutoff = statement (\<lambda>d now.
     Inr (int (length (filter (\<lambda>r. crr_checked_at r < cutoff) (t_check_results d))),
          d\<lparr>t_check_results := filter (\<lambda>r. \<not> crr_checked_at r < cutoff) (t_check_results d)\<rparr>))"

text \<open>\<open>date_trunc('hour', t)\<close> in UTC.\<close>

definition trunc_hour :: "time \<Rightarrow> time" where
  "trunc_hour t = t - t mod hours 1"

definition mean :: "int list \<Rightarrow> rat" where
  "mean ns = of_int (sum_list ns) / of_int (int (length ns))"

definition q_GetResponseTimeChart :: "uuid \<Rightarrow> time \<Rightarrow> (time \<times> rat \<times> int4) list io" where
  "q_GetResponseTimeChart m since = query (\<lambda>d now.
     let rows = filter (\<lambda>r. crr_monitor_id r = m \<and> crr_checked_at r \<ge> since) (t_check_results d);
         buckets = sort (remdups (map (\<lambda>r. trunc_hour (crr_checked_at r)) rows));
         inside = (\<lambda>b. filter (\<lambda>r. trunc_hour (crr_checked_at r) = b) rows) in
     Inr (map (\<lambda>b. (b, mean (map (\<lambda>r. from_int4 (crr_response_time_ms r)) (inside b)),
                    to_int4 (int (length (inside b))))) buckets))"

definition q_InsertCheckResult :: "insert_check_result_params \<Rightarrow> check_result_row io" where
  "q_InsertCheckResult arg = bindE nextval (\<lambda>i. statement (\<lambda>d now.
     let r = \<lparr>crr_id = i, crr_monitor_id = icp_monitor_id arg, crr_status = icp_status arg,
              crr_status_code = icp_status_code arg, crr_response_time_ms = icp_response_time_ms arg,
              crr_error_message = icp_error_message arg, crr_checked_at = icp_checked_at arg\<rparr> in
     if \<exists>x \<in> set (t_check_results d). crr_id x = i \<and> crr_checked_at x = icp_checked_at arg
     then Inl unique_violation
     else if \<not> monitor_exists d (icp_monitor_id arg) then Inl foreign_key_violation
     else Inr (r, d\<lparr>t_check_results := t_check_results d @ [r]\<rparr>)))"

definition intToPgtypeInt4 :: "int option \<Rightarrow> int4 option" where
  "intToPgtypeInt4 v = (case v of None \<Rightarrow> None | Some n \<Rightarrow> Some (to_int4 n))"

definition checkResultToInsertParams :: "check_result \<Rightarrow> insert_check_result_params" where
  "checkResultToInsertParams cr =
     \<lparr>icp_monitor_id = res_monitor_id cr, icp_status = res_status cr,
      icp_status_code = intToPgtypeInt4 (res_status_code cr),
      icp_response_time_ms = to_int4 (res_response_time_ms cr),
      icp_error_message = res_error_message cr, icp_checked_at = res_checked_at cr\<rparr>"

definition pg_CheckResultRepo_Insert :: "check_result \<Rightarrow> unit io" where
  "pg_CheckResultRepo_Insert cr =
     bindE (q_InsertCheckResult (checkResultToInsertParams cr)) (\<lambda>_. returnE ())"

definition pg_CheckResultRepo_ConsecutiveFailures :: "uuid \<Rightarrow> int io" where
  "pg_CheckResultRepo_ConsecutiveFailures m =
     bindE (q_ConsecutiveFailures m) (\<lambda>n. returnE (from_int4 n))"

definition pg_CheckResultRepo_GetResponseTimeChart :: "uuid \<Rightarrow> time \<Rightarrow> chart_point list io" where
  "pg_CheckResultRepo_GetResponseTimeChart m since =
     bindE (q_GetResponseTimeChart m since) (\<lambda>rows. returnE (map (\<lambda>(b, avg, n).
       \<lparr>cp_timestamp = b, cp_avg_response_ms = avg, cp_check_count = from_int4 n\<rparr>) rows))"

definition pg_CheckResultRepo :: check_result_repo where
  "pg_CheckResultRepo =
     \<lparr>CheckResultRepo_Insert = pg_CheckResultRepo_Insert,
      CheckResultRepo_ConsecutiveFailures = pg_CheckResultRepo_ConsecutiveFailures,
      CheckResultRepo_DeleteOlderThan = q_DeleteCheckResultsOlderThan,
      CheckResultRepo_DeleteByPlan = q_DeleteCheckResultsByPlan,
      CheckResultRepo_GetResponseTimeChart = pg_CheckResultRepo_GetResponseTimeChart\<rparr>"

section \<open>Hourly uptime\<close>

definition q_UpsertUptimeHourly :: "uuid \<Rightarrow> time \<Rightarrow> int4 \<Rightarrow> unit io" where
  "q_UpsertUptimeHourly m t n = statement (\<lambda>d now.
     let h = trunc_hour t; p = (\<lambda>r. uhr_monitor_id r = m \<and> uhr_hour r = h) in
     if \<exists>r \<in> set (t_uptime_hourly d). p r then
       Inr ((), d\<lparr>t_uptime_hourly := update_where p
         (\<lambda>r. r\<lparr>uhr_total_checks := uhr_total_checks r + 1,
                uhr_successful_checks := uhr_successful_checks r + from_int4 n\<rparr>) (t_uptime_hourly d)\<rparr>)
     else if \<not> monitor_exists d m then Inl foreign_key_violation
     else Inr ((), d\<lparr>t_uptime_hourly := t_uptime_hourly d @
       [\<lparr>uhr_monitor_id = m, uhr_hour = h, uhr_total_checks = 1, uhr_successful_checks = from_int4 n\<rparr>]\<rparr>))"

text \<open>The \<open>CASE\<close> expression of both uptime queries; no rows give null sums, and null.\<close>

definition uptime_percent :: "uptime_hourly_row list \<Rightarrow> rat option" where
  "uptime_percent rows =
     (if rows = [] then None
      else if sum_list (map uhr_total_checks rows) = 0 then Some 0
      else Some (of_int (sum_list (map uhr_successful_checks rows))
                 / of_int (sum_list (map uhr_total_checks rows)) * 100))"

definition q_GetUptimeFromHourly :: "uuid \<Rightarrow> time \<Rightarrow> rat option io" where
  "q_GetUptimeFromHourly m since = query (\<lambda>d now.
     Inr (uptime_percent (filter (\<lambda>r. uhr_monitor_id r = m \<and> uhr_hour r \<ge> since) (t_uptime_hourly d))))"

definition q_GetUptimeBatchFromHourly :: "uuid list \<Rightarrow> time \<Rightarrow> (uuid \<times> rat option) list io" where
  "q_GetUptimeBatchFromHourly ms since = query (\<lambda>d now.
     let rows = filter (\<lambda>r. uhr_monitor_id r \<in> set ms \<and> uhr_hour r \<ge> since) (t_uptime_hourly d) in
     Inr (map (\<lambda>m. (m, uptime_percent (filter (\<lambda>r. uhr_monitor_id r = m) rows)))
            (remdups (map uhr_monitor_id rows))))"

definition pg_UptimeRepo_RecordCheck :: "uuid \<Rightarrow> time \<Rightarrow> bool \<Rightarrow> unit io" where
  "pg_UptimeRepo_RecordCheck m t success =
     q_UpsertUptimeHourly m t (if success then 1 else 0)"

definition pg_UptimeRepo_GetUptime :: "uuid \<Rightarrow> time \<Rightarrow> rat io" where
  "pg_UptimeRepo_GetUptime m since =
     bindE (wrapE ''get uptime from hourly'' (q_GetUptimeFromHourly m since))
       (\<lambda>r. returnE (case r of Some v \<Rightarrow> v | None \<Rightarrow> 0))"

definition pg_UptimeRepo_GetUptimeBatch :: "uuid list \<Rightarrow> time \<Rightarrow> (uuid \<rightharpoonup> rat) io" where
  "pg_UptimeRepo_GetUptimeBatch ms since =
     bindE (wrapE ''get uptime batch'' (q_GetUptimeBatchFromHourly ms since))
       (\<lambda>rows. returnE (fold (\<lambda>(m, r) acc. case r of Some v \<Rightarrow> acc(m \<mapsto> v) | None \<Rightarrow> acc) rows Map.empty))"

definition pg_UptimeRepo :: uptime_repo where
  "pg_UptimeRepo =
     \<lparr>UptimeRepo_RecordCheck = pg_UptimeRepo_RecordCheck,
      UptimeRepo_GetUptime = pg_UptimeRepo_GetUptime,
      UptimeRepo_GetUptimeBatch = pg_UptimeRepo_GetUptimeBatch\<rparr>"

section \<open>Maintenance windows\<close>

definition q_CreateMaintenanceWindow :: "create_maintenance_window_input \<Rightarrow> maintenance_window_row io" where
  "q_CreateMaintenanceWindow arg = bindE nextval (\<lambda>i. statement (\<lambda>d now.
     let r = \<lparr>mwr_id = i, mwr_monitor_id = cmw_monitor_id arg, mwr_starts_at = cmw_starts_at arg,
              mwr_ends_at = cmw_ends_at arg, mwr_reason = cmw_reason arg, mwr_created_at = now\<rparr> in
     if \<not> cmw_ends_at arg > cmw_starts_at arg then Inl check_violation
     else if \<exists>x \<in> set (t_maintenance_windows d). mwr_id x = i then Inl unique_violation
     else if \<not> monitor_exists d (cmw_monitor_id arg) then Inl foreign_key_violation
     else Inr (r, d\<lparr>t_maintenance_windows := t_maintenance_windows d @ [r]\<rparr>)))"

definition q_DeleteMaintenanceWindow :: "int \<Rightarrow> uuid \<Rightarrow> unit io" where
  "q_DeleteMaintenanceWindow i u = statement (\<lambda>d now.
     Inr ((), d\<lparr>t_maintenance_windows := filter (\<lambda>r. \<not> (mwr_id r = i \<and>
        (\<exists>m \<in> set (t_monitors d). mnr_user_id m = u \<and> mnr_id m = mwr_monitor_id r)))
        (t_maintenance_windows d)\<rparr>))"

definition window_covers :: "time \<Rightarrow> maintenance_window_row \<Rightarrow> bool" where
  "window_covers now r \<longleftrightarrow> mwr_starts_at r \<le> now \<and> mwr_ends_at r > now"

definition q_HasActiveMaintenanceWindow :: "uuid \<Rightarrow> bool io" where
  "q_HasActiveMaintenanceWindow m = query (\<lambda>d now.
     Inr (\<exists>r \<in> set (t_maintenance_windows d). mwr_monitor_id r = m \<and> window_covers now r))"

definition q_ListMaintenanceWindowsByMonitorID :: "uuid \<Rightarrow> maintenance_window_row list io" where
  "q_ListMaintenanceWindowsByMonitorID m = query (\<lambda>d now.
     Inr (sort_key (\<lambda>r. - mwr_starts_at r) (filter (\<lambda>r. mwr_monitor_id r = m) (t_maintenance_windows d))))"

definition q_ListMaintenanceWindowsByUserID :: "uuid \<Rightarrow> maintenance_window_row list io" where
  "q_ListMaintenanceWindowsByUserID u = query (\<lambda>d now.
     Inr (sort_key (\<lambda>r. - mwr_starts_at r) (filter (\<lambda>r. \<exists>m \<in> set (t_monitors d).
        mnr_id m = mwr_monitor_id r \<and> mnr_user_id m = u \<and> live m) (t_maintenance_windows d))))"

definition windowFromRow :: "maintenance_window_row \<Rightarrow> maintenance_window" where
  "windowFromRow r =
     \<lparr>mw_id = mwr_id r, mw_monitor_id = mwr_monitor_id r, mw_starts_at = mwr_starts_at r,
      mw_ends_at = mwr_ends_at r, mw_reason = mwr_reason r, mw_created_at = mwr_created_at r\<rparr>"

definition pg_MaintenanceWindowRepo_Create :: "create_maintenance_window_input \<Rightarrow> maintenance_window io" where
  "pg_MaintenanceWindowRepo_Create inp =
     bindE (q_CreateMaintenanceWindow inp) (\<lambda>row. returnE (windowFromRow row))"

definition pg_MaintenanceWindowRepo_ListByMonitorID :: "uuid \<Rightarrow> maintenance_window list io" where
  "pg_MaintenanceWindowRepo_ListByMonitorID m =
     bindE (q_ListMaintenanceWindowsByMonitorID m) (\<lambda>rows. returnE (map windowFromRow rows))"

definition pg_MaintenanceWindowRepo_ListByUserID :: "uuid \<Rightarrow> maintenance_window list io" where
  "pg_MaintenanceWindowRepo_ListByUserID u =
     bindE (q_ListMaintenanceWindowsByUserID u) (\<lambda>rows. returnE (map windowFromRow rows))"

definition pg_MaintenanceWindowRepo :: maintenance_window_repo where
  "pg_MaintenanceWindowRepo =
     \<lparr>MaintenanceWindowRepo_Create = pg_MaintenanceWindowRepo_Create,
      MaintenanceWindowRepo_ListByMonitorID = pg_MaintenanceWindowRepo_ListByMonitorID,
      MaintenanceWindowRepo_ListByUserID = pg_MaintenanceWindowRepo_ListByUserID,
      MaintenanceWindowRepo_Delete = q_DeleteMaintenanceWindow,
      MaintenanceWindowRepo_HasActive = q_HasActiveMaintenanceWindow\<rparr>"

section \<open>Monitor groups\<close>

definition q_AssignMonitorToGroup :: "uuid \<Rightarrow> uuid \<Rightarrow> int option \<Rightarrow> unit io" where
  "q_AssignMonitorToGroup i u g = statement (\<lambda>d now.
     let p = (\<lambda>r. mnr_id r = i \<and> mnr_user_id r = u \<and> live r) in
     if (\<exists>r \<in> set (t_monitors d). p r) \<and> g \<noteq> None \<and> g \<notin> Some ` mgr_id ` set (t_monitor_groups d)
     then Inl foreign_key_violation
     else Inr ((), d\<lparr>t_monitors := update_where p (\<lambda>r. r\<lparr>mnr_group_id := g\<rparr>) (t_monitors d)\<rparr>))"

definition q_CreateMonitorGroup :: "uuid \<Rightarrow> string \<Rightarrow> int4 \<Rightarrow> monitor_group_row io" where
  "q_CreateMonitorGroup u name pos = bindE nextval (\<lambda>i. statement (\<lambda>d now.
     let r = \<lparr>mgr_id = i, mgr_user_id = u, mgr_name = name, mgr_ordering = pos,
              mgr_created_at = now\<rparr> in
     if i \<in> mgr_id ` set (t_monitor_groups d) then Inl unique_violation
     else if \<not> user_exists d u then Inl foreign_key_violation
     else Inr (r, d\<lparr>t_monitor_groups := t_monitor_groups d @ [r]\<rparr>)))"

text \<open>\<open>ON DELETE SET NULL\<close> takes the monitors out of a deleted group.\<close>

definition q_DeleteMonitorGroup :: "int \<Rightarrow> uuid \<Rightarrow> unit io" where
  "q_DeleteMonitorGroup i u = statement (\<lambda>d now.
     let p = (\<lambda>g. mgr_id g = i \<and> mgr_user_id g = u);
         gone = mgr_id ` {g \<in> set (t_monitor_groups d). p g} in
     Inr ((), d\<lparr>t_monitor_groups := filter (\<lambda>g. \<not> p g) (t_monitor_groups d),
       t_monitors := update_where (\<lambda>r. mnr_group_id r \<in> Some ` gone)
         (\<lambda>r. r\<lparr>mnr_group_id := None\<rparr>) (t_monitors d)\<rparr>))"

definition q_ListMonitorGroupMembershipsByUserID :: "uuid \<Rightarrow> (uuid \<times> int option) list io" where
  "q_ListMonitorGroupMembershipsByUserID u = query (\<lambda>d now.
     Inr (map (\<lambda>r. (mnr_id r, mnr_group_id r))
       (filter (\<lambda>r. mnr_user_id r = u \<and> live r \<and> mnr_group_id r \<noteq> None) (t_monitors d))))"

definition q_ListMonitorGroupsByUserID :: "uuid \<Rightarrow> monitor_group_row list io" where
  "q_ListMonitorGroupsByUserID u = query (\<lambda>d now.
     Inr (sort_key (\<lambda>g. from_int4 (mgr_ordering g))
       (sort_key mgr_id (filter (\<lambda>g. mgr_user_id g = u) (t_monitor_groups d)))))"

definition q_UpdateMonitorGroup :: "int \<Rightarrow> uuid \<Rightarrow> string \<Rightarrow> int4 \<Rightarrow> unit io" where
  "q_UpdateMonitorGroup i u name pos = statement (\<lambda>d now.
     Inr ((), d\<lparr>t_monitor_groups := update_where (\<lambda>g. mgr_id g = i \<and> mgr_user_id g = u)
       (\<lambda>g. g\<lparr>mgr_name := name, mgr_ordering := pos\<rparr>) (t_monitor_groups d)\<rparr>))"

definition groupFromRow :: "monitor_group_row \<Rightarrow> monitor_group" where
  "groupFromRow r =
     \<lparr>mg_id = mgr_id r, mg_user_id = mgr_user_id r, mg_name = mgr_name r,
      mg_ordering = from_int4 (mgr_ordering r), mg_created_at = mgr_created_at r\<rparr>"

definition pg_MonitorGroupRepo_Create :: "uuid \<Rightarrow> string \<Rightarrow> int \<Rightarrow> monitor_group io" where
  "pg_MonitorGroupRepo_Create u name pos =
     bindE (q_CreateMonitorGroup u name (to_int4 pos)) (\<lambda>row. returnE (groupFromRow row))"

definition pg_MonitorGroupRepo_ListByUserID :: "uuid \<Rightarrow> monitor_group list io" where
  "pg_MonitorGroupRepo_ListByUserID u =
     bindE (q_ListMonitorGroupsByUserID u) (\<lambda>rows. returnE (map groupFromRow rows))"

definition pg_MonitorGroupRepo_Update :: "int \<Rightarrow> uuid \<Rightarrow> string \<Rightarrow> int \<Rightarrow> unit io" where
  "pg_MonitorGroupRepo_Update i u name pos = q_UpdateMonitorGroup i u name (to_int4 pos)"

definition pg_MonitorGroupRepo_ListMemberships :: "uuid \<Rightarrow> (uuid \<rightharpoonup> int) io" where
  "pg_MonitorGroupRepo_ListMemberships u =
     bindE (q_ListMonitorGroupMembershipsByUserID u) (\<lambda>rows.
       returnE (fold (\<lambda>(m, g) acc. case g of Some n \<Rightarrow> acc(m \<mapsto> n) | None \<Rightarrow> acc) rows Map.empty))"

definition pg_MonitorGroupRepo :: monitor_group_repo where
  "pg_MonitorGroupRepo =
     \<lparr>MonitorGroupRepo_Create = pg_MonitorGroupRepo_Create,
      MonitorGroupRepo_ListByUserID = pg_MonitorGroupRepo_ListByUserID,
      MonitorGroupRepo_Update = pg_MonitorGroupRepo_Update,
      MonitorGroupRepo_Delete = q_DeleteMonitorGroup,
      MonitorGroupRepo_AssignMonitor = q_AssignMonitorToGroup,
      MonitorGroupRepo_ListMemberships = pg_MonitorGroupRepo_ListMemberships\<rparr>"

lemmas result_repo_defs =
  pg_CheckResultRepo_def pg_CheckResultRepo_Insert_def pg_CheckResultRepo_ConsecutiveFailures_def
  pg_CheckResultRepo_GetResponseTimeChart_def pg_UptimeRepo_def pg_UptimeRepo_RecordCheck_def
  pg_UptimeRepo_GetUptime_def pg_UptimeRepo_GetUptimeBatch_def pg_MaintenanceWindowRepo_def
  pg_MaintenanceWindowRepo_Create_def pg_MaintenanceWindowRepo_ListByMonitorID_def
  pg_MaintenanceWindowRepo_ListByUserID_def pg_MonitorGroupRepo_def pg_MonitorGroupRepo_Create_def
  pg_MonitorGroupRepo_ListByUserID_def pg_MonitorGroupRepo_Update_def
  pg_MonitorGroupRepo_ListMemberships_def

end
