(* ===== verification/Account_Store.thy ===== *)
theory Account_Store
  imports Monitor_Store
begin

text \<open>
  Users, API keys, notification channels, failed alerts and the public counters:
  statements of \<open>sqlc/gen\<close> and repositories of \<open>adapter/postgres\<close>. Shows which statements
  can change a plan or a subscription variant.
\<close>

section \<open>Users: statements\<close>

abbreviation usr_live :: "user_row \<Rightarrow> bool" where
  "usr_live r \<equiv> usrr_deleted_at r = None"

text \<open>
  The advisory lock orders concurrent transactions; one operation by itself only issues
  the statement. The interleavings of transactions are modelled with the billing service.
\<close>

definition q_AcquireFounderCapLock :: "unit io" where
  "q_AcquireFounderCapLock = query (\<lambda>d now. Inr ())"

definition is_founder :: "user_row \<Rightarrow> bool" where
  "is_founder r \<longleftrightarrow> usrr_plan r = PlanPro \<and> usrr_subscription_variant r = Some ''founder'' \<and> usr_live r"

definition q_CountActiveFounderSubscriptions :: "int io" where
  "q_CountActiveFounderSubscriptions = query (\<lambda>d now.
     Inr (int (length (filter is_founder (t_users d)))))"

definition q_CreateUser :: "string \<Rightarrow> string \<Rightarrow> string \<Rightarrow> user_row io" where
  "q_CreateUser email slug hash = bindE gen_random_uuid (\<lambda>i. statement (\<lambda>d now.
     let r = \<lparr>usrr_id = i, usrr_email = email, usrr_slug = slug, usrr_password_hash = hash,
              usrr_plan = PlanFree, usrr_lemon_squeezy_customer_id = None,
              usrr_lemon_squeezy_subscription_id = None, usrr_created_at = now,
              usrr_deleted_at = None, usrr_subscription_variant = None, usrr_logo_url = None,
              usrr_accent_color = None, usrr_custom_footer_text = None\<rparr> in
     if \<exists>x \<in> set (t_users d). usrr_id x = i \<or> usrr_email x = email \<or> usrr_slug x = slug
     then Inl unique_violation
     else Inr (r, d\<lparr>t_users := t_users d @ [r]\<rparr>)))"

definition q_GetUserBranding :: "uuid \<Rightarrow> user_row io" where
  "q_GetUserBranding i = query (\<lambda>d now.
     one_row (filter (\<lambda>r. usrr_id r = i \<and> usr_live r) (t_users d)))"

definition q_GetUserBrandingBySlug :: "string \<Rightarrow> user_row io" where
  "q_GetUserBrandingBySlug slug = query (\<lambda>d now.
     one_row (filter (\<lambda>r. usrr_slug r = slug \<and> usr_live r) (t_users d)))"

definition q_GetUserByEmail :: "string \<Rightarrow> user_row io" where
  "q_GetUserByEmail email = query (\<lambda>d now.
     one_row (filter (\<lambda>r. usrr_email r = email \<and> usr_live r) (t_users d)))"

definition q_GetUserByID :: "uuid \<Rightarrow> user_row io" where
  "q_GetUserByID i = query (\<lambda>d now.
     one_row (filter (\<lambda>r. usrr_id r = i \<and> usr_live r) (t_users d)))"

definition q_GetUserBySlug :: "string \<Rightarrow> user_row io" where
  "q_GetUserBySlug slug = query (\<lambda>d now.
     one_row (filter (\<lambda>r. usrr_slug r = slug \<and> usr_live r) (t_users d)))"

definition update_user :: "uuid \<Rightarrow> (user_row \<Rightarrow> user_row) \<Rightarrow> unit io" where
  "update_user i f = statement (\<lambda>d now.
     Inr ((), d\<lparr>t_users := update_where (\<lambda>r. usrr_id r = i \<and> usr_live r) f (t_users d)\<rparr>))"

definition q_SetSubscriptionVariant :: "uuid \<Rightarrow> string option \<Rightarrow> unit io" where
  "q_SetSubscriptionVariant i v = update_user i (\<lambda>r. r\<lparr>usrr_subscription_variant := v\<rparr>)"

definition q_UpdateUserBranding :: "uuid \<Rightarrow> branding \<Rightarrow> unit io" where
  "q_UpdateUserBranding i b = update_user i (\<lambda>r. r\<lparr>usrr_logo_url := br_logo_url b,
     usrr_accent_color := br_accent_color b, usrr_custom_footer_text := br_custom_footer_text b\<rparr>)"

definition q_UpdateUserLemonSqueezy :: "uuid \<Rightarrow> string option \<Rightarrow> string option \<Rightarrow> unit io" where
  "q_UpdateUserLemonSqueezy i c s = update_user i (\<lambda>r. r\<lparr>usrr_lemon_squeezy_customer_id := c,
     usrr_lemon_squeezy_subscription_id := s\<rparr>)"

definition q_UpdateUserPlan :: "uuid \<Rightarrow> string \<Rightarrow> unit io" where
  "q_UpdateUserPlan i p = update_user i (\<lambda>r. r\<lparr>usrr_plan := p\<rparr>)"

section \<open>Users: repository\<close>

text \<open>The four mappers from the rows of the user queries build the same value.\<close>

definition userFromRow :: "user_row \<Rightarrow> user" where
  "userFromRow r =
     \<lparr>usr_id = usrr_id r, usr_email = usrr_email r, usr_slug = usrr_slug r, usr_plan = usrr_plan r,
      usr_created_at = usrr_created_at r\<rparr>"

lemma userFromRow_sel [simp]:
  "usr_id (userFromRow r) = usrr_id r"
  "usr_plan (userFromRow r) = usrr_plan r"
  "usr_slug (userFromRow r) = usrr_slug r"
  "usr_email (userFromRow r) = usrr_email r"
  by (simp_all add: userFromRow_def)

definition userFromGetByEmailRow :: "user_row \<Rightarrow> user \<times> string" where
  "userFromGetByEmailRow r = (userFromRow r, usrr_password_hash r)"

definition brandingFromRow :: "user_row \<Rightarrow> branding" where
  "brandingFromRow r =
     \<lparr>br_logo_url = usrr_logo_url r, br_accent_color = usrr_accent_color r,
      br_custom_footer_text = usrr_custom_footer_text r\<rparr>"

definition pg_UserRepo_Create :: "string \<Rightarrow> string \<Rightarrow> string \<Rightarrow> user io" where
  "pg_UserRepo_Create email slug hash =
     bindE (mapErrE (\<lambda>err. if isUniqueViolation err then Sentinel ErrUserExists else err)
              (q_CreateUser email slug hash))
       (\<lambda>row. returnE (userFromRow row))"

definition pg_UserRepo_GetByID :: "uuid \<Rightarrow> user io" where
  "pg_UserRepo_GetByID i = bindE (q_GetUserByID i) (\<lambda>row. returnE (userFromRow row))"

definition pg_UserRepo_GetByEmail :: "string \<Rightarrow> (user \<times> string) io" where
  "pg_UserRepo_GetByEmail email =
     bindE (q_GetUserByEmail email) (\<lambda>row. returnE (userFromGetByEmailRow row))"

definition pg_UserRepo_GetBySlug :: "string \<Rightarrow> user io" where
  "pg_UserRepo_GetBySlug slug = bindE (q_GetUserBySlug slug) (\<lambda>row. returnE (userFromRow row))"

definition pg_UserRepo_UpdatePlan :: "uuid \<Rightarrow> string \<Rightarrow> unit io" where
  "pg_UserRepo_UpdatePlan i p = q_UpdateUserPlan i p"

definition pg_UserRepo_UpdateLemonSqueezy :: "uuid \<Rightarrow> string \<Rightarrow> string \<Rightarrow> unit io" where
  "pg_UserRepo_UpdateLemonSqueezy i c s = q_UpdateUserLemonSqueezy i (Some c) (Some s)"

definition pg_UserRepo_SetSubscriptionVariant :: "uuid \<Rightarrow> string \<Rightarrow> unit io" where
  "pg_UserRepo_SetSubscriptionVariant i v =
     q_SetSubscriptionVariant i (if v = [] then None else Some v)"

definition pg_UserRepo_GetBranding :: "uuid \<Rightarrow> branding io" where
  "pg_UserRepo_GetBranding i = bindE (q_GetUserBranding i) (\<lambda>row. returnE (brandingFromRow row))"

definition pg_UserRepo_GetBrandingBySlug :: "string \<Rightarrow> (string \<times> branding) io" where
  "pg_UserRepo_GetBrandingBySlug slug =
     bindE (q_GetUserBrandingBySlug slug) (\<lambda>row. returnE (usrr_plan row, brandingFromRow row))"

definition pg_UserRepo :: user_repo where
  "pg_UserRepo =
     \<lparr>UserRepo_Create = pg_UserRepo_Create,
      UserRepo_GetByID = pg_UserRepo_GetByID,
      UserRepo_GetByEmail = pg_UserRepo_GetByEmail,
      UserRepo_GetBySlug = pg_UserRepo_GetBySlug,
      UserRepo_UpdatePlan = pg_UserRepo_UpdatePlan,
      UserRepo_UpdateLemonSqueezy = pg_UserRepo_UpdateLemonSqueezy,
      UserRepo_SetSubscriptionVariant = pg_UserRepo_SetSubscriptionVariant,
      UserRepo_CountActiveFounderSubscriptions = q_CountActiveFounderSubscriptions,
      UserRepo_AcquireFounderCapLock = q_AcquireFounderCapLock,
      UserRepo_GetBranding = pg_UserRepo_GetBranding,
      UserRepo_GetBrandingBySlug = pg_UserRepo_GetBrandingBySlug,
      UserRepo_UpdateBranding = q_UpdateUserBranding\<rparr>"

section \<open>API keys\<close>

definition q_CreateAPIKey :: "uuid \<Rightarrow> string \<Rightarrow> string \<Rightarrow> string list \<Rightarrow> time option \<Rightarrow> api_key_row io" where
  "q_CreateAPIKey u h name scopes expires = bindE gen_random_uuid (\<lambda>i. statement (\<lambda>d now.
     let r = \<lparr>akr_id = i, akr_user_id = u, akr_key_hash = h, akr_name = name, akr_scopes = scopes,
              akr_created_at = now, akr_last_used_at = None, akr_expires_at = expires\<rparr> in
     if \<exists>x \<in> set (t_api_keys d). akr_id x = i \<or> akr_key_hash x = h then Inl unique_violation
     else if \<not> user_exists d u then Inl foreign_key_violation
     else Inr (r, d\<lparr>t_api_keys := t_api_keys d @ [r]\<rparr>)))"

definition q_DeleteAPIKey :: "uuid \<Rightarrow> uuid \<Rightarrow> unit io" where
  "q_DeleteAPIKey i u = statement (\<lambda>d now.
     Inr ((), d\<lparr>t_api_keys := filter (\<lambda>r. \<not> (akr_id r = i \<and> akr_user_id r = u)) (t_api_keys d)\<rparr>))"

definition q_GetAPIKeyByHash :: "string \<Rightarrow> api_key_row io" where
  "q_GetAPIKeyByHash h = query (\<lambda>d now. one_row (filter (\<lambda>r. akr_key_hash r = h) (t_api_keys d)))"

definition q_ListAPIKeysByUser :: "uuid \<Rightarrow> api_key_row list io" where
  "q_ListAPIKeysByUser u = query (\<lambda>d now.
     Inr (sort_key (\<lambda>r. - akr_created_at r) (filter (\<lambda>r. akr_user_id r = u) (t_api_keys d))))"

definition q_TouchAPIKey :: "uuid \<Rightarrow> unit io" where
  "q_TouchAPIKey i = statement (\<lambda>d now.
     Inr ((), d\<lparr>t_api_keys := update_where (\<lambda>r. akr_id r = i)
       (\<lambda>r. r\<lparr>akr_last_used_at := Some now\<rparr>) (t_api_keys d)\<rparr>))"

definition apiKeyFromRow :: "api_key_row \<Rightarrow> api_key" where
  "apiKeyFromRow r =
     \<lparr>ak_id = akr_id r, ak_user_id = akr_user_id r, ak_key_hash = akr_key_hash r, ak_name = akr_name r,
      ak_scopes = akr_scopes r, ak_created_at = akr_created_at r,
      ak_last_used_at = akr_last_used_at r, ak_expires_at = akr_expires_at r\<rparr>"

lemma apiKeyFromRow_sel [simp]:
  "ak_user_id (apiKeyFromRow r) = akr_user_id r"
  "ak_key_hash (apiKeyFromRow r) = akr_key_hash r"
  "ak_scopes (apiKeyFromRow r) = akr_scopes r"
  "ak_expires_at (apiKeyFromRow r) = akr_expires_at r"
  by (simp_all add: apiKeyFromRow_def)

definition pg_APIKeyRepo_Create :: "api_key \<Rightarrow> api_key io" where
  "pg_APIKeyRepo_Create k =
     bindE (wrapE ''create api key''
       (q_CreateAPIKey (ak_user_id k) (ak_key_hash k) (ak_name k) (ak_scopes k) (ak_expires_at k)))
       (\<lambda>row. returnE (apiKeyFromRow row))"

definition pg_APIKeyRepo_GetByHash :: "string \<Rightarrow> api_key io" where
  "pg_APIKeyRepo_GetByHash h =
     bindE (wrapE ''get api key'' (q_GetAPIKeyByHash h)) (\<lambda>row. returnE (apiKeyFromRow row))"

definition pg_APIKeyRepo_ListByUser :: "uuid \<Rightarrow> api_key list io" where
  "pg_APIKeyRepo_ListByUser u =
     bindE (wrapE ''list api keys'' (q_ListAPIKeysByUser u)) (\<lambda>rows. returnE (map apiKeyFromRow rows))"

definition pg_APIKeyRepo :: api_key_repo where
  "pg_APIKeyRepo =
     \<lparr>APIKeyRepo_Create = pg_APIKeyRepo_Create,
      APIKeyRepo_GetByHash = pg_APIKeyRepo_GetByHash,
      APIKeyRepo_ListByUser = pg_APIKeyRepo_ListByUser,
      APIKeyRepo_Delete = q_DeleteAPIKey,
      APIKeyRepo_Touch = q_TouchAPIKey\<rparr>"

end
