(* ===== verification/Channel_Store.thy ===== *)
theory Channel_Store
  imports Account_Store
begin

text \<open>
  Notification channels, their bindings to monitors, the dead-letter table of alerts and
  the public counters: statements of \<open>sqlc/gen\<close> and repositories of \<open>adapter/postgres\<close>.
  The configuration of a channel is encrypted like that of a monitor.
\<close>

section \<open>Channels: statements\<close>

abbreviation ch_live :: "channel_row \<Rightarrow> bool" where
  "ch_live r \<equiv> chr_deleted_at r = None"

definition channel_exists :: "database \<Rightarrow> uuid \<Rightarrow> bool" where
  "channel_exists d c \<longleftrightarrow> (\<exists>r \<in> set (t_channels d). chr_id r = c)"

text \<open>\<open>ON CONFLICT DO NOTHING\<close>: an existing pair is left as it is.\<close>

definition q_BindChannelToMonitor :: "uuid \<Rightarrow> uuid \<Rightarrow> unit io" where
  "q_BindChannelToMonitor m c = statement (\<lambda>d now.
     if (m, c) \<in> set (t_monitor_channels d) then Inr ((), d)
     else if \<not> monitor_exists d m \<or> \<not> channel_exists d c then Inl foreign_key_violation
     else Inr ((), d\<lparr>t_monitor_channels := t_monitor_channels d @ [(m, c)]\<rparr>))"

definition q_CreateChannel :: "uuid \<Rightarrow> string \<Rightarrow> string \<Rightarrow> string \<Rightarrow> channel_row io" where
  "q_CreateChannel u name type config = bindE gen_random_uuid (\<lambda>i. statement (\<lambda>d now.
     let r = \<lparr>chr_id = i, chr_user_id = u, chr_name = name, chr_type = type, chr_config = config,
              chr_is_enabled = True, chr_created_at = now, chr_deleted_at = None\<rparr> in
     if config = [] then Inl not_null_violation
     else if channel_exists d i then Inl unique_violation
     else if \<not> user_exists d u then Inl foreign_key_violation
     else Inr (r, d\<lparr>t_channels := t_channels d @ [r]\<rparr>)))"

definition q_DeleteChannel :: "uuid \<Rightarrow> uuid \<Rightarrow> unit io" where
  "q_DeleteChannel i u = statement (\<lambda>d now.
     Inr ((), d\<lparr>t_channels := update_where (\<lambda>r. chr_id r = i \<and> chr_user_id r = u \<and> ch_live r)
       (\<lambda>r. r\<lparr>chr_deleted_at := Some now\<rparr>) (t_channels d)\<rparr>))"

definition q_GetChannelByID :: "uuid \<Rightarrow> channel_row io" where
  "q_GetChannelByID i = query (\<lambda>d now.
     one_row (filter (\<lambda>r. chr_id r = i \<and> ch_live r) (t_channels d)))"

definition q_ListChannelsByUserID :: "uuid \<Rightarrow> channel_row list io" where
  "q_ListChannelsByUserID u = query (\<lambda>d now.
     Inr (sort_key chr_created_at (filter (\<lambda>r. chr_user_id r = u \<and> ch_live r) (t_channels d))))"

definition q_ListChannelsForMonitor :: "uuid \<Rightarrow> channel_row list io" where
  "q_ListChannelsForMonitor m = query (\<lambda>d now.
     Inr (sort_key chr_name
       (filter (\<lambda>r. (m, chr_id r) \<in> set (t_monitor_channels d) \<and> ch_live r) (t_channels d))))"

definition q_UnbindChannelFromMonitor :: "uuid \<Rightarrow> uuid \<Rightarrow> unit io" where
  "q_UnbindChannelFromMonitor m c = statement (\<lambda>d now.
     Inr ((), d\<lparr>t_monitor_channels := filter (\<lambda>p. p \<noteq> (m, c)) (t_monitor_channels d)\<rparr>))"

definition q_UpdateChannel :: "uuid \<Rightarrow> string \<Rightarrow> string \<Rightarrow> bool \<Rightarrow> uuid \<Rightarrow> unit io" where
  "q_UpdateChannel i name config enabled u = statement (\<lambda>d now.
     let p = (\<lambda>r. chr_id r = i \<and> chr_user_id r = u \<and> ch_live r) in
     if config = [] \<and> (\<exists>r \<in> set (t_channels d). p r) then Inl not_null_violation
     else Inr ((), d\<lparr>t_channels := update_where p
       (\<lambda>r. r\<lparr>chr_name := name, chr_config := config, chr_is_enabled := enabled\<rparr>) (t_channels d)\<rparr>))"

section \<open>Channels: repository\<close>

definition encryptChannelConfig :: "cipher \<Rightarrow> string \<Rightarrow> string io" where
  "encryptChannelConfig C config =
     (if config = [] then returnE config
      else bindE (wrapE ''encrypt channel config'' (Cipher_Encrypt C config))
             (\<lambda>encrypted. returnE (json_marshal_string encrypted)))"

definition decryptChannelConfig :: "cipher \<Rightarrow> string \<Rightarrow> goerr + string" where
  "decryptChannelConfig C config =
     (if config = [] then Inr config
      else case json_unmarshal_string config of
        Inl e \<Rightarrow> Inr config
      | Inr encrypted \<Rightarrow> (case Cipher_Decrypt C encrypted of
          Inl e \<Rightarrow> Inl (Wrapped ''decrypt channel config'' e)
        | Inr decrypted \<Rightarrow> Inr decrypted))"

definition toDomainChannel :: "channel_row \<Rightarrow> notification_channel" where
  "toDomainChannel r =
     \<lparr>ch_id = chr_id r, ch_user_id = chr_user_id r, ch_name = chr_name r, ch_type = chr_type r,
      ch_config = chr_config r, ch_is_enabled = chr_is_enabled r, ch_created_at = chr_created_at r\<rparr>"

lemma toDomainChannel_sel [simp]:
  "ch_id (toDomainChannel r) = chr_id r"
  "ch_user_id (toDomainChannel r) = chr_user_id r"
  "ch_is_enabled (toDomainChannel r) = chr_is_enabled r"
  "ch_config (toDomainChannel r) = chr_config r"
  by (simp_all add: toDomainChannel_def)

definition toDomainChannels :: "channel_row list \<Rightarrow> notification_channel list" where
  "toDomainChannels rows = map toDomainChannel rows"

definition decrypted_channel :: "cipher \<Rightarrow> notification_channel \<Rightarrow> notification_channel io" where
  "decrypted_channel C ch =
     bindE (liftE (decryptChannelConfig C (ch_config ch))) (\<lambda>cfg. returnE (ch\<lparr>ch_config := cfg\<rparr>))"

definition pg_ChannelRepo_Create :: "cipher \<Rightarrow> notification_channel \<Rightarrow> notification_channel io" where
  "pg_ChannelRepo_Create C ch =
     bindE (encryptChannelConfig C (ch_config ch)) (\<lambda>encConfig.
     bindE (wrapE ''create channel'' (q_CreateChannel (ch_user_id ch) (ch_name ch) (ch_type ch) encConfig))
       (\<lambda>row. decrypted_channel C (toDomainChannel row)))"

definition pg_ChannelRepo_GetByID :: "cipher \<Rightarrow> uuid \<Rightarrow> notification_channel io" where
  "pg_ChannelRepo_GetByID C i =
     bindE (mapErrE (\<lambda>err. if is_no_rows err then Sentinel ErrNotFound else Wrapped ''get channel'' err)
              (q_GetChannelByID i))
       (\<lambda>row. decrypted_channel C (toDomainChannel row))"

definition pg_ChannelRepo_ListByUserID :: "cipher \<Rightarrow> uuid \<Rightarrow> notification_channel list io" where
  "pg_ChannelRepo_ListByUserID C u =
     bindE (wrapE ''list channels'' (q_ListChannelsByUserID u))
       (\<lambda>rows. mapE (toDomainChannels rows) (decrypted_channel C))"

definition pg_ChannelRepo_ListForMonitor :: "cipher \<Rightarrow> uuid \<Rightarrow> notification_channel list io" where
  "pg_ChannelRepo_ListForMonitor C m =
     bindE (wrapE ''list channels for monitor'' (q_ListChannelsForMonitor m))
       (\<lambda>rows. mapE (toDomainChannels rows) (decrypted_channel C))"

definition pg_ChannelRepo_Update :: "cipher \<Rightarrow> notification_channel \<Rightarrow> unit io" where
  "pg_ChannelRepo_Update C ch =
     bindE (encryptChannelConfig C (ch_config ch)) (\<lambda>encConfig.
     q_UpdateChannel (ch_id ch) (ch_name ch) encConfig (ch_is_enabled ch) (ch_user_id ch))"

definition pg_ChannelRepo :: "cipher \<Rightarrow> channel_repo" where
  "pg_ChannelRepo C =
     \<lparr>ChannelRepo_Create = pg_ChannelRepo_Create C,
      ChannelRepo_GetByID = pg_ChannelRepo_GetByID C,
      ChannelRepo_ListByUserID = pg_ChannelRepo_ListByUserID C,
      ChannelRepo_ListForMonitor = pg_ChannelRepo_ListForMonitor C,
      ChannelRepo_Update = pg_ChannelRepo_Update C,
      ChannelRepo_Delete = q_DeleteChannel,
      ChannelRepo_BindToMonitor = q_BindChannelToMonitor,
      ChannelRepo_UnbindFromMonitor = q_UnbindChannelFromMonitor\<rparr>"

section \<open>Failed alerts and public counters\<close>

text \<open>A nil slice is sent as the null of the \<open>NOT NULL\<close> array column.\<close>

definition q_InsertFailedAlert :: "string \<Rightarrow> string \<Rightarrow> uuid list \<Rightarrow> unit io" where
  "q_InsertFailedAlert event err ids = bindE gen_random_uuid (\<lambda>i. statement (\<lambda>d now.
     let r = \<lparr>far_id = i, far_event = event, far_error = err, far_failed_channel_ids = ids,
              far_attempts = 0, far_created_at = now\<rparr> in
     if ids = [] then Inl not_null_violation
     else if i \<in> far_id ` set (t_failed_alerts d) then Inl unique_violation
     else Inr ((), d\<lparr>t_failed_alerts := t_failed_alerts d @ [r]\<rparr>)))"

definition pg_FailedAlertRepo_Create :: "string \<Rightarrow> string \<Rightarrow> uuid list \<Rightarrow> unit io" where
  "pg_FailedAlertRepo_Create event err ids =
     wrapE ''insert failed alert'' (q_InsertFailedAlert event err ids)"

definition pg_FailedAlertRepo :: failed_alert_repo where
  "pg_FailedAlertRepo = \<lparr>FailedAlertRepo_Create = pg_FailedAlertRepo_Create\<rparr>"

definition q_GetPublicStats :: "(int \<times> int \<times> int) io" where
  "q_GetPublicStats = query (\<lambda>d now.
     Inr (int (length (filter live (t_monitors d))),
          int (length (filter (\<lambda>r. inr_resolved_at r \<noteq> None) (t_incidents d))),
          int (length (remdups (map mnr_user_id (filter (\<lambda>r. live r \<and> mnr_is_public r) (t_monitors d)))))))"

definition pg_StatsRepo_GetPublic :: "public_stats io" where
  "pg_StatsRepo_GetPublic = bindE q_GetPublicStats (\<lambda>(m, i, p).
     returnE \<lparr>ps_monitors_count = m, ps_incidents_resolved = i, ps_public_status_pages = p\<rparr>)"

end
