(* ===== verification/Hostnames.thy ===== *)
theory Hostnames
  imports Domain
begin

text \<open>
  The name rules of the program: \<open>ValidateCustomHostname\<close> of
  \<open>internal/domain/custom_domain.go\<close>, \<open>ValidateSlug\<close> and \<open>ValidatePassword\<close> of
  \<open>internal/app/auth.go\<close>, and \<open>emailRegex\<close> of \<open>internal/app/subscription.go\<close>.
  The regular expressions are anchored, so they are written as the predicates
  they decide; \<open>net.ParseIP\<close> is translated from the standard library.
\<close>

section \<open>Character classes and splitting\<close>

definition char_in :: "nat \<Rightarrow> nat \<Rightarrow> char \<Rightarrow> bool" where
  "char_in lo hi c = (let n = of_char c :: nat in lo \<le> n \<and> n \<le> hi)"

definition is_digit :: "char \<Rightarrow> bool" where
  "is_digit c = char_in 48 57 c"

definition is_lower :: "char \<Rightarrow> bool" where
  "is_lower c = char_in 97 122 c"

definition is_alpha :: "char \<Rightarrow> bool" where
  "is_alpha c = (char_in 65 90 c \<or> is_lower c)"

definition is_alnum :: "char \<Rightarrow> bool" where
  "is_alnum c = (is_alpha c \<or> is_digit c)"

definition is_hex :: "char \<Rightarrow> bool" where
  "is_hex c = (is_digit c \<or> char_in 97 102 c \<or> char_in 65 70 c)"

text \<open>\<open>strings.Split(s, sep)\<close> for a one-byte separator.\<close>

fun split_on :: "char \<Rightarrow> string \<Rightarrow> string list" where
  "split_on c [] = [[]]"
| "split_on c (x # xs) =
     (if x = c then [] # split_on c xs
      else (case split_on c xs of [] \<Rightarrow> [[x]] | y # ys \<Rightarrow> (x # y) # ys))"

lemma split_on_nonempty [simp]: "split_on c s \<noteq> []"
  by (cases s) (auto split: list.splits)

lemma set_split_on: "x \<in> set s \<Longrightarrow> x = c \<or> (\<exists>l \<in> set (split_on c s). x \<in> set l)"
proof (induction s)
  case Nil
  then show ?case by simp
next
  case (Cons a s)
  then show ?case by (cases "split_on c s") auto
qed

lemma split_on_no_sep: "l \<in> set (split_on c s) \<Longrightarrow> c \<notin> set l"
proof (induction s arbitrary: l)
  case Nil
  then show ?case by simp
next
  case (Cons a s)
  then show ?case by (cases "split_on c s") (auto split: if_splits)
qed

text \<open>\<open>%q\<close> on text without non-printable runes.\<close>

definition go_quote :: "string \<Rightarrow> string" where
  "go_quote s = [CHR 0x22]
     @ concat (map (\<lambda>c. if c = CHR 0x22 \<or> c = CHR 0x5C then [CHR 0x5C, c] else [c]) s) @ [CHR 0x22]"

section \<open>\<open>net.ParseIP\<close>\<close>

fun dec_value :: "nat \<Rightarrow> string \<Rightarrow> nat" where
  "dec_value v [] = v"
| "dec_value v (c # s) = dec_value (v * 10 + (of_char c - 48)) s"

definition ipv4_field :: "string \<Rightarrow> bool" where
  "ipv4_field f \<longleftrightarrow> f \<noteq> [] \<and> list_all is_digit f \<and> (length f = 1 \<or> hd f \<noteq> CHR ''0'')
     \<and> length f \<le> 3 \<and> dec_value 0 f \<le> 255"

definition parse_ipv4 :: "string \<Rightarrow> bool" where
  "parse_ipv4 s = (let fs = split_on CHR ''.'' s in length fs = 4 \<and> list_all ipv4_field fs)"

text \<open>
  The loop over the 16-bit groups: the number of bytes read so far, whether \<open>::\<close> was
  seen, the rest of the text. \<open>None\<close> is a syntax error.
\<close>

function ipv6_loop :: "nat \<Rightarrow> bool \<Rightarrow> string \<Rightarrow> (nat \<times> bool \<times> string) option" where
  "ipv6_loop i ell s =
     (if 16 \<le> i then Some (i, ell, s)
      else let ds = takeWhile is_hex s; rest = dropWhile is_hex s in
        if ds = [] \<or> length ds > 4 then None
        else if rest = [] then Some (i + 2, ell, [])
        else if hd rest = CHR ''.'' then
          (if \<not> ell \<and> i \<noteq> 12 then None
           else if i + 4 > 16 then None
           else if parse_ipv4 s then Some (i + 4, ell, []) else None)
        else if hd rest \<noteq> CHR '':'' then None
        else if length rest = 1 then None
        else if hd (tl rest) = CHR '':'' then
          (if ell then None
           else if tl (tl rest) = [] then Some (i + 2, True, [])
           else ipv6_loop (i + 2) True (tl (tl rest)))
        else ipv6_loop (i + 2) ell (tl rest))"
  by pat_completeness auto
termination
  by (relation "measure (\<lambda>(i, ell, s). 16 - i)") auto

declare ipv6_loop.simps [simp del]

definition parse_ipv6 :: "string \<Rightarrow> bool" where
  "parse_ipv6 s =
     (if CHR ''%'' \<in> set s then False
      else let ell = has_prefix s ''::''; s0 = (if ell then drop 2 s else s) in
        if ell \<and> s0 = [] then True
        else (case ipv6_loop 0 ell s0 of
                None \<Rightarrow> False
              | Some (i, ell', rest) \<Rightarrow> rest = [] \<and> (if i < 16 then ell' else \<not> ell')))"

definition ParseIP :: "string \<Rightarrow> bool" where
  "ParseIP s =
     (case List.find (\<lambda>c. c = CHR ''.'' \<or> c = CHR '':'' \<or> c = CHR ''%'') s of
        None \<Rightarrow> False
      | Some c \<Rightarrow> if c = CHR ''.'' then parse_ipv4 s
                  else if c = CHR '':'' then parse_ipv6 s else False)"

section \<open>Custom hostnames\<close>

text \<open>\<open>[a-zA-Z0-9](?:[a-zA-Z0-9-]{0,61}[a-zA-Z0-9])?\<close> and \<open>[a-zA-Z]{2,}\<close>.\<close>

definition label_ok :: "string \<Rightarrow> bool" where
  "label_ok l \<longleftrightarrow> l \<noteq> [] \<and> length l \<le> 63 \<and> is_alnum (hd l) \<and> is_alnum (last l)
     \<and> list_all (\<lambda>c. is_alnum c \<or> c = CHR ''-'') l"

definition tld_ok :: "string \<Rightarrow> bool" where
  "tld_ok l \<longleftrightarrow> 2 \<le> length l \<and> list_all is_alpha l"

definition hostnameRegex :: "string \<Rightarrow> bool" where
  "hostnameRegex h = (let ls = split_on CHR ''.'' h in
     2 \<le> length ls \<and> list_all label_ok (butlast ls) \<and> tld_ok (last ls))"

definition ReservedDomains :: "string list" where
  "ReservedDomains =
     [''localhost'', ''pingcast.io'', ''www.pingcast.io'', ''api.pingcast.io'',
      ''status.pingcast.io'', ''pingcast.kirillin.tech'']"

definition ValidateCustomHostname :: "string \<Rightarrow> goerr + unit" where
  "ValidateCustomHostname hostname =
     (let h = to_lower (trim_space hostname) in
      if h = [] then Inl (Errorf ''hostname is required'')
      else if length h > 253 then Inl (Errorf ''hostname too long (max 253 chars)'')
      else if ParseIP h then Inl (Errorf ''bare IP addresses not allowed'')
      else if h \<in> set ReservedDomains then
        Inl (Errorf (''hostname '' @ go_quote h @ '' is reserved''))
      else if has_suffix h ''.pingcast.io'' \<or> has_suffix h ''.pingcast.kirillin.tech'' then
        Inl (Errorf ''custom hostnames must not sit under our apex'')
      else if \<not> hostnameRegex h then Inl (Errorf (go_quote h @ '' is not a valid hostname''))
      else Inr ())"

lemma alnum_not_special:
  "is_alnum c \<Longrightarrow> c \<noteq> CHR '':'' \<and> c \<noteq> CHR ''%'' \<and> c \<noteq> CHR ''.'' \<and> c \<noteq> CHR ''/'' \<and> c \<noteq> CHR ''@''"
  by (auto simp: is_alnum_def is_alpha_def is_lower_def is_digit_def char_in_def)

lemma alpha_not_digit: "is_alpha c \<Longrightarrow> \<not> is_digit c"
  by (auto simp: is_alpha_def is_lower_def is_digit_def char_in_def Let_def)

lemma hostnameRegex_chars:
  assumes "hostnameRegex h" and "c \<in> set h"
  shows "is_alnum c \<or> c = CHR ''-'' \<or> c = CHR ''.''"
proof -
  let ?ls = "split_on CHR ''.'' h"
  have ok: "\<And>l. l \<in> set ?ls \<Longrightarrow> list_all (\<lambda>c. is_alnum c \<or> c = CHR ''-'') l"
  proof -
    fix l assume "l \<in> set ?ls"
    moreover have "set ?ls = insert (last ?ls) (set (butlast ?ls))"
      by (rule set_eq_insert_last) simp
    ultimately consider "l \<in> set (butlast ?ls)" | "l = last ?ls" by blast
    then show "list_all (\<lambda>c. is_alnum c \<or> c = CHR ''-'') l"
      using assms(1) by cases
        (auto simp: hostnameRegex_def Let_def list_all_iff label_ok_def tld_ok_def is_alnum_def)
  qed
  from set_split_on [OF assms(2), of "CHR ''.''"] show ?thesis
    using ok by (auto simp: list_all_iff)
qed

text \<open>A name that the regular expression accepts is never an IP address.\<close>

lemma hostnameRegex_not_ParseIP:
  assumes "hostnameRegex h"
  shows "\<not> ParseIP h"
proof (cases "List.find (\<lambda>c. c = CHR ''.'' \<or> c = CHR '':'' \<or> c = CHR ''%'') h")
  case None
  then show ?thesis by (simp add: ParseIP_def)
next
  case (Some c)
  let ?ls = "split_on CHR ''.'' h"
  have "c = CHR ''.''"
    using find_Some_set [OF Some] hostnameRegex_chars [OF assms, of c] alnum_not_special by auto
  have tld: "tld_ok (last ?ls)" using assms by (simp add: hostnameRegex_def Let_def)
  then have "\<not> list_all is_digit (last ?ls)"
    using alpha_not_digit by (cases "last ?ls") (auto simp: tld_ok_def)
  then have "\<not> list_all ipv4_field ?ls"
    by (auto simp: ipv4_field_def list_all_iff dest!: bspec [where x = "last ?ls"])
  with \<open>c = CHR ''.''\<close> Some show ?thesis by (simp add: ParseIP_def parse_ipv4_def Let_def)
qed

lemma ValidateCustomHostname_iff:
  "ValidateCustomHostname x = Inr () \<longleftrightarrow>
     (let h = to_lower (trim_space x) in
      length h \<le> 253 \<and> hostnameRegex h \<and> h \<notin> set ReservedDomains
      \<and> \<not> has_suffix h ''.pingcast.io'' \<and> \<not> has_suffix h ''.pingcast.kirillin.tech'')"
proof -
  have "\<not> hostnameRegex []" by (simp add: hostnameRegex_def)
  then show ?thesis
    using hostnameRegex_not_ParseIP [of "to_lower (trim_space x)"]
    by (auto simp: ValidateCustomHostname_def Let_def)
qed

section \<open>Slugs, passwords, emails\<close>

text \<open>\<open>^[a-z0-9-]{3,30}$\<close>\<close>

definition slugRegex :: "string \<Rightarrow> bool" where
  "slugRegex s \<longleftrightarrow> 3 \<le> length s \<and> length s \<le> 30
     \<and> list_all (\<lambda>c. is_lower c \<or> is_digit c \<or> c = CHR ''-'') s"

definition reservedSlugs :: "string list" where
  "reservedSlugs =
     [''login'', ''logout'', ''register'', ''api'', ''admin'', ''status'', ''health'', ''webhook'',
      ''pricing'', ''docs'', ''app'', ''dashboard'', ''settings'', ''billing'']"

definition ValidateSlug :: "string \<Rightarrow> goerr + unit" where
  "ValidateSlug slug =
     (if \<not> slugRegex slug then
        Inl (NewValidationError ''SLUG_INVALID''
          ''slug must be 3-30 characters, lowercase alphanumeric and hyphens only'')
      else if slug \<in> set reservedSlugs then
        Inl (NewValidationError ''SLUG_RESERVED'' (''slug '' @ go_quote slug @ '' is reserved''))
      else Inr ())"

definition ValidatePassword :: "string \<Rightarrow> goerr + unit" where
  "ValidatePassword password =
     (if length password < 8 then
        Inl (NewValidationError ''PASSWORD_TOO_SHORT'' ''password must be at least 8 characters'')
      else if length password > 72 then
        Inl (NewValidationError ''PASSWORD_TOO_LONG'' ''password must be at most 72 characters'')
      else Inr ())"

text \<open>\<open>\s\<close> is tab, line feed, form feed, carriage return and space.\<close>

definition re_space :: "char \<Rightarrow> bool" where
  "re_space c \<longleftrightarrow> c \<in> {CHR 0x09, CHR 0x0A, CHR 0x0C, CHR 0x0D, CHR 0x20}"

text \<open>
  \<open>^[^@\s]+@[^@\s]+\.[^@\s]+$\<close>: exactly one at-sign, no white space, a non-empty local
  part, and a domain with a dot that is neither its first nor its last byte.
\<close>

definition emailRegex :: "string \<Rightarrow> bool" where
  "emailRegex s =
     (list_all (\<lambda>c. \<not> re_space c) s
      \<and> (case split_on CHR ''@'' s of
           [local_part, domain] \<Rightarrow> local_part \<noteq> [] \<and> CHR ''.'' \<in> set (butlast (tl domain))
         | _ \<Rightarrow> False))"

end
