(* ===== verification/Monitoring.thy ===== *)
theory Monitoring
  imports Result_Store Channel_Store Hostnames
begin

text \<open>
  \<open>internal/app/monitoring.go\<close>: the monitoring service as functions of its ports. The
  clock and the transaction manager are the primitives of the world; a port that the code
  allows to be nil is an option. Log lines are not modelled. An operation that returns a
  value together with an error has the error as a second component of its result.
\<close>

section \<open>The service\<close>

record monitoring_service =
  ms_monitors :: monitor_repo
  ms_channels :: channel_repo
  ms_check_results :: check_result_repo
  ms_incidents :: incident_repo
  ms_incident_updates :: incident_update_repo
  ms_maintenance :: "maintenance_window_repo option"
  ms_groups :: monitor_group_repo
  ms_users :: user_repo
  ms_uptime :: uptime_repo
  ms_alerts :: "alert_event \<Rightarrow> unit io"
  ms_events :: "(monitor_changed_event \<Rightarrow> unit io) option"
  ms_registry :: checker_registry
  ms_metrics :: bool

text \<open>\<open>if s.metrics != nil { s.metrics.M(ctx) }\<close>\<close>

definition metric_of :: "monitoring_service \<Rightarrow> metric \<Rightarrow> unit io" where
  "metric_of s m = (if ms_metrics s then record_metric m else returnE ())"

text \<open>A method call on a nil interface panics; the server's recovery reports this error.\<close>

definition nil_dereference :: goerr where
  "nil_dereference = Errorf ''runtime error: invalid memory address or nil pointer dereference''"

section \<open>Groups and maintenance windows\<close>

definition CreateMonitorGroup :: "monitoring_service \<Rightarrow> uuid \<Rightarrow> string \<Rightarrow> int \<Rightarrow> monitor_group io" where
  "CreateMonitorGroup s u name pos = MonitorGroupRepo_Create (ms_groups s) u name pos"

definition ListMonitorGroups :: "monitoring_service \<Rightarrow> uuid \<Rightarrow> monitor_group list io" where
  "ListMonitorGroups s u = MonitorGroupRepo_ListByUserID (ms_groups s) u"

definition UpdateMonitorGroup :: "monitoring_service \<Rightarrow> int \<Rightarrow> uuid \<Rightarrow> string \<Rightarrow> int \<Rightarrow> unit io" where
  "UpdateMonitorGroup s i u name pos = MonitorGroupRepo_Update (ms_groups s) i u name pos"

definition DeleteMonitorGroup :: "monitoring_service \<Rightarrow> int \<Rightarrow> uuid \<Rightarrow> unit io" where
  "DeleteMonitorGroup s i u = MonitorGroupRepo_Delete (ms_groups s) i u"

definition AssignMonitorGroup :: "monitoring_service \<Rightarrow> uuid \<Rightarrow> uuid \<Rightarrow> int option \<Rightarrow> unit io" where
  "AssignMonitorGroup s m u g = MonitorGroupRepo_AssignMonitor (ms_groups s) m u g"

record schedule_maintenance_input =
  smi_monitor_id :: uuid
  smi_user_id :: uuid
  smi_starts_at :: time
  smi_ends_at :: time
  smi_reason :: string

text \<open>The window repository is called only here and below, where the API sets it.\<close>

definition with_maintenance :: "monitoring_service \<Rightarrow> (maintenance_window_repo \<Rightarrow> 'a io) \<Rightarrow> 'a io" where
  "with_maintenance s f =
     (case ms_maintenance s of None \<Rightarrow> throwE nil_dereference | Some r \<Rightarrow> f r)"

definition ScheduleMaintenance ::
    "monitoring_service \<Rightarrow> schedule_maintenance_input \<Rightarrow> maintenance_window io" where
  "ScheduleMaintenance s inp =
     (if \<not> smi_ends_at inp > smi_starts_at inp then throwE (Errorf ''ends_at must be after starts_at'')
      else bindE (MonitorRepo_GetByID (ms_monitors s) (smi_monitor_id inp)) (\<lambda>monitor.
        if mon_user_id monitor \<noteq> smi_user_id inp then throwE (Sentinel ErrForbidden)
        else with_maintenance s (\<lambda>r. MaintenanceWindowRepo_Create r
          \<lparr>cmw_monitor_id = smi_monitor_id inp, cmw_starts_at = smi_starts_at inp,
           cmw_ends_at = smi_ends_at inp, cmw_reason = smi_reason inp\<rparr>)))"

definition ListMaintenanceWindows :: "monitoring_service \<Rightarrow> uuid \<Rightarrow> maintenance_window list io" where
  "ListMaintenanceWindows s u = with_maintenance s (\<lambda>r. MaintenanceWindowRepo_ListByUserID r u)"

definition DeleteMaintenanceWindow :: "monitoring_service \<Rightarrow> int \<Rightarrow> uuid \<Rightarrow> unit io" where
  "DeleteMaintenanceWindow s i u = with_maintenance s (\<lambda>r. MaintenanceWindowRepo_Delete r i u)"

definition ListIncidentsForExport :: "monitoring_service \<Rightarrow> uuid \<Rightarrow> incident_export_row list io" where
  "ListIncidentsForExport s u = IncidentRepo_ListForExport (ms_incidents s) u"

definition ListIncidentUpdates :: "monitoring_service \<Rightarrow> int \<Rightarrow> incident_update list io" where
  "ListIncidentUpdates s i = IncidentUpdateRepo_ListByIncidentID (ms_incident_updates s) i"

section \<open>Incidents driven by users\<close>

record change_incident_state_input =
  csi_incident_id :: int
  csi_user_id :: uuid
  csi_new_state :: string
  csi_update_body :: string

text \<open>The body of the transaction of \<open>ChangeIncidentState\<close>.\<close>

definition change_state_tx ::
    "monitoring_service \<Rightarrow> change_incident_state_input \<Rightarrow> incident_update io" where
  "change_state_tx s inp =
     bindE (wrapE ''update state''
       (IncidentRepo_UpdateState (ms_incidents s) (csi_incident_id inp) (csi_new_state inp))) (\<lambda>_.
     bindE (if csi_new_state inp = IncidentStateResolved
            then bindE clock_now (\<lambda>now.
              wrapE ''resolve'' (IncidentRepo_Resolve (ms_incidents s) (csi_incident_id inp) now))
            else returnE ()) (\<lambda>_.
     wrapE ''append update'' (IncidentUpdateRepo_Create (ms_incident_updates s)
       \<lparr>ciu_incident_id = csi_incident_id inp, ciu_state = csi_new_state inp,
        ciu_body = csi_update_body inp, ciu_posted_by_user_id = csi_user_id inp\<rparr>)))"

definition ChangeIncidentState ::
    "monitoring_service \<Rightarrow> change_incident_state_input \<Rightarrow> incident_update io" where
  "ChangeIncidentState s inp =
     (if \<not> IncidentState_Valid (csi_new_state inp) then
        throwE (Errorf (''invalid incident state '' @ go_quote (csi_new_state inp)))
      else if trim_space (csi_update_body inp) = [] then throwE (Errorf ''update body is required'')
      else
        bindE (IncidentRepo_GetByID (ms_incidents s) (csi_incident_id inp)) (\<lambda>inc.
        bindE (MonitorRepo_GetByID (ms_monitors s) (inc_monitor_id inc)) (\<lambda>monitor.
        if mon_user_id monitor \<noteq> csi_user_id inp then throwE (Sentinel ErrForbidden)
        else bindE (liftE (CanTransitionTo (inc_state inc) (csi_new_state inp))) (\<lambda>_.
          tx_do (change_state_tx s inp)))))"

record create_manual_incident_input =
  cmi_monitor_id :: uuid
  cmi_user_id :: uuid
  cmi_title :: string
  cmi_body :: string

definition manual_incident_tx ::
    "monitoring_service \<Rightarrow> create_manual_incident_input \<Rightarrow> string \<Rightarrow> string \<Rightarrow> (incident \<times> incident_update) io" where
  "manual_incident_tx s inp title body =
     bindE (wrapE ''create incident'' (IncidentRepo_Create (ms_incidents s)
       \<lparr>cii_monitor_id = cmi_monitor_id inp, cii_cause = title,
        cii_state = IncidentStateInvestigating, cii_is_manual = True, cii_title = Some title\<rparr>)) (\<lambda>created.
     bindE (wrapE ''append initial update'' (IncidentUpdateRepo_Create (ms_incident_updates s)
       \<lparr>ciu_incident_id = inc_id created, ciu_state = IncidentStateInvestigating,
        ciu_body = body, ciu_posted_by_user_id = cmi_user_id inp\<rparr>)) (\<lambda>u.
     returnE (created, u)))"

definition CreateManualIncident ::
    "monitoring_service \<Rightarrow> create_manual_incident_input \<Rightarrow> (incident \<times> incident_update) io" where
  "CreateManualIncident s inp =
     (let title = trim_space (cmi_title inp); body = trim_space (cmi_body inp) in
      if title = [] then throwE (Errorf ''title is required'')
      else if body = [] then throwE (Errorf ''body is required'')
      else bindE (MonitorRepo_GetByID (ms_monitors s) (cmi_monitor_id inp)) (\<lambda>monitor.
        if mon_user_id monitor \<noteq> cmi_user_id inp then throwE (Sentinel ErrForbidden)
        else tx_do (manual_incident_tx s inp title body)))"

section \<open>Monitors\<close>

definition monitorToEvent :: "string \<Rightarrow> monitor \<Rightarrow> monitor_changed_event" where
  "monitorToEvent action m =
     (let ev = \<lparr>mce_action = action, mce_monitor_id = mon_id m, mce_name = [], mce_type = [],
                mce_check_config = [], mce_interval_seconds = 0, mce_alert_after_failures = 0,
                mce_is_paused = False\<rparr> in
      if action = ActionDelete \<or> action = ActionPause then ev
      else ev\<lparr>mce_name := mon_name m, mce_type := mon_type m, mce_check_config := mon_check_config m,
              mce_interval_seconds := mon_interval_seconds m,
              mce_alert_after_failures := mon_alert_after_failures m,
              mce_is_paused := mon_is_paused m\<rparr>)"

definition publishMonitorEvent :: "monitoring_service \<Rightarrow> string \<Rightarrow> monitor \<Rightarrow> unit io" where
  "publishMonitorEvent s action m =
     (case ms_events s of None \<Rightarrow> returnE () | Some publish \<Rightarrow> publish (monitorToEvent action m))"

text \<open>
  The tail of the mutations: the monitor is returned also when the event could not be
  published, with \<open>ErrEventPublishFailed\<close>.
\<close>

definition published :: "monitoring_service \<Rightarrow> string \<Rightarrow> monitor \<Rightarrow> (monitor \<times> goerr option) io" where
  "published s action m =
     bindE (attemptE (publishMonitorEvent s action m)) (\<lambda>res. case res of
       Inl e \<Rightarrow> returnE (m, Some (Joined (Sentinel ErrEventPublishFailed) e))
     | Inr _ \<Rightarrow> returnE (m, None))"

definition loadOwnedMonitor :: "monitoring_service \<Rightarrow> uuid \<Rightarrow> uuid \<Rightarrow> monitor io" where
  "loadOwnedMonitor s i u =
     bindE (MonitorRepo_GetByID (ms_monitors s) i) (\<lambda>mon.
       if mon_user_id mon \<noteq> u then throwE (Sentinel ErrForbidden) else returnE mon)"

record create_monitor_input =
  cmo_name :: string
  cmo_type :: string
  cmo_check_config :: string
  cmo_interval_seconds :: int
  cmo_alert_after_failures :: int
  cmo_is_public :: bool
  cmo_channel_ids :: "uuid list"

text \<open>The checks and defaults of \<open>CreateMonitor\<close>, up to the monitor it stores.\<close>

definition prepare_monitor :: "monitoring_service \<Rightarrow> user \<Rightarrow> create_monitor_input \<Rightarrow> int \<Rightarrow> goerr + monitor" where
  "prepare_monitor s usr inp count =
     (if count \<ge> MonitorLimit usr then
        Inl (NewValidationError ''MONITOR_LIMIT_REACHED''
          (''monitor limit reached for '' @ usr_plan usr @ '' plan''))
      else
        let interval = (if cmo_interval_seconds inp = 0 then MinInterval usr else cmo_interval_seconds inp) in
        if interval < MinInterval usr then
          Inl (NewValidationError ''INTERVAL_BELOW_TIER_MIN''
            (''interval must be at least '' @ int_to_dec (MinInterval usr) @ '' seconds on the ''
             @ usr_plan usr @ '' plan''))
        else
          let alertAfter = (if cmo_alert_after_failures inp = 0 then 3 else cmo_alert_after_failures inp) in
          case ValidateMonitorInput (cmo_name inp) interval alertAfter of
            Inl e \<Rightarrow> Inl e
          | Inr _ \<Rightarrow> (case CheckerRegistry_ValidateConfig (ms_registry s) (cmo_type inp) (cmo_check_config inp) of
              Inl e \<Rightarrow> Inl (Wrapped ''invalid check config'' e)
            | Inr _ \<Rightarrow> Inr
                \<lparr>mon_id = uuid_Nil, mon_user_id = usr_id usr, mon_name = trim_space (cmo_name inp),
                 mon_type = cmo_type inp, mon_check_config = cmo_check_config inp,
                 mon_interval_seconds = interval, mon_alert_after_failures = alertAfter,
                 mon_is_paused = False, mon_is_public = cmo_is_public inp,
                 mon_current_status = StatusUnknown, mon_created_at = 0\<rparr>))"

text \<open>The transaction that stores the monitor and binds its channels.\<close>

definition create_and_bind_tx :: "monitoring_service \<Rightarrow> monitor \<Rightarrow> uuid list \<Rightarrow> monitor io" where
  "create_and_bind_tx s mon cids =
     bindE (wrapE ''create monitor'' (MonitorRepo_Create (ms_monitors s) mon)) (\<lambda>created.
     bindE (forE cids (\<lambda>cid. wrapE (''bind channel '' @ uuid_string cid)
              (ChannelRepo_BindToMonitor (ms_channels s) (mon_id created) cid))) (\<lambda>_.
     returnE created))"

definition CreateMonitor ::
    "monitoring_service \<Rightarrow> user \<Rightarrow> create_monitor_input \<Rightarrow> (monitor \<times> goerr option) io" where
  "CreateMonitor s usr inp =
     bindE (wrapE ''count monitors'' (MonitorRepo_CountByUserID (ms_monitors s) (usr_id usr))) (\<lambda>count.
     bindE (liftE (prepare_monitor s usr inp count)) (\<lambda>mon.
     bindE (if cmo_channel_ids inp = [] then MonitorRepo_Create (ms_monitors s) mon
            else tx_do (create_and_bind_tx s mon (cmo_channel_ids inp))) (\<lambda>created.
     bindE (metric_of s MonitorCreated) (\<lambda>_.
     published s ActionCreate created))))"

record update_monitor_input =
  umi_name :: "string option"
  umi_check_config :: "string option"
  umi_interval_seconds :: "int option"
  umi_alert_after_failures :: "int option"
  umi_is_paused :: "bool option"
  umi_is_public :: "bool option"

text \<open>The fields that the input gives, applied in the order of the code.\<close>

definition patch_monitor ::
    "monitoring_service \<Rightarrow> user \<Rightarrow> update_monitor_input \<Rightarrow> monitor \<Rightarrow> goerr + monitor" where
  "patch_monitor s usr inp mon =
     (let mon1 = (case umi_name inp of None \<Rightarrow> mon | Some n \<Rightarrow> mon\<lparr>mon_name := trim_space n\<rparr>) in
      case (case umi_check_config inp of None \<Rightarrow> Inr mon1
            | Some cfg \<Rightarrow> (case CheckerRegistry_ValidateConfig (ms_registry s) (mon_type mon1) cfg of
                Inl e \<Rightarrow> Inl (Wrapped ''invalid check config'' e)
              | Inr _ \<Rightarrow> Inr (mon1\<lparr>mon_check_config := cfg\<rparr>))) of
        Inl e \<Rightarrow> Inl e
      | Inr mon2 \<Rightarrow>
          let mon3 = (case umi_interval_seconds inp of None \<Rightarrow> mon2
                      | Some n \<Rightarrow> mon2\<lparr>mon_interval_seconds := max n (MinInterval usr)\<rparr>);
              mon4 = (case umi_alert_after_failures inp of None \<Rightarrow> mon3
                      | Some n \<Rightarrow> mon3\<lparr>mon_alert_after_failures := n\<rparr>);
              mon5 = (case umi_is_paused inp of None \<Rightarrow> mon4 | Some b \<Rightarrow> mon4\<lparr>mon_is_paused := b\<rparr>);
              mon6 = (case umi_is_public inp of None \<Rightarrow> mon5 | Some b \<Rightarrow> mon5\<lparr>mon_is_public := b\<rparr>) in
          (case ValidateMonitorInput (mon_name mon6) (mon_interval_seconds mon6) (mon_alert_after_failures mon6) of
             Inl e \<Rightarrow> Inl e | Inr _ \<Rightarrow> Inr mon6))"

definition UpdateMonitor ::
    "monitoring_service \<Rightarrow> user \<Rightarrow> uuid \<Rightarrow> update_monitor_input \<Rightarrow> (monitor \<times> goerr option) io" where
  "UpdateMonitor s usr i inp =
     bindE (loadOwnedMonitor s i (usr_id usr)) (\<lambda>old.
     bindE (liftE (patch_monitor s usr inp old)) (\<lambda>mon.
     bindE (wrapE ''update monitor'' (MonitorRepo_Update (ms_monitors s) mon)) (\<lambda>_.
     published s ActionUpdate mon)))"

definition DeleteMonitor :: "monitoring_service \<Rightarrow> uuid \<Rightarrow> uuid \<Rightarrow> unit io" where
  "DeleteMonitor s u m =
     bindE (loadOwnedMonitor s m u) (\<lambda>_.
     bindE (MonitorRepo_Delete (ms_monitors s) m u) (\<lambda>_.
     bindE (metric_of s MonitorDeleted) (\<lambda>_.
     case ms_events s of
       None \<Rightarrow> throwE nil_dereference
     | Some publish \<Rightarrow> logged (publish
         \<lparr>mce_action = ActionDelete, mce_monitor_id = m, mce_name = [], mce_type = [],
          mce_check_config = [], mce_interval_seconds = 0, mce_alert_after_failures = 0,
          mce_is_paused = False\<rparr>))))"

definition TogglePause :: "monitoring_service \<Rightarrow> user \<Rightarrow> uuid \<Rightarrow> (monitor \<times> goerr option) io" where
  "TogglePause s usr m =
     bindE (loadOwnedMonitor s m (usr_id usr)) (\<lambda>_.
     bindE (wrapE ''toggle pause'' (MonitorRepo_TogglePause (ms_monitors s) m (usr_id usr))) (\<lambda>mon.
     published s (if mon_is_paused mon then ActionPause else ActionResume) mon))"

section \<open>Check results\<close>

text \<open>When no target can be resolved the error is logged and the target is empty.\<close>

definition publishAlert :: "monitoring_service \<Rightarrow> monitor \<Rightarrow> string \<Rightarrow> string \<Rightarrow> int \<Rightarrow> unit io" where
  "publishAlert s monitor event cause i =
     (let target = (case CheckerRegistry_Target (ms_registry s) (mon_type monitor) (mon_check_config monitor) of
                      Inl _ \<Rightarrow> [] | Inr t \<Rightarrow> t) in
      ms_alerts s \<lparr>ae_monitor_id = mon_id monitor, ae_user_id = mon_user_id monitor, ae_incident_id = i,
        ae_monitor_name = mon_name monitor, ae_monitor_target = target, ae_event = event, ae_cause = cause\<rparr>)"

text \<open>Whether a window is active; no repository and a failed query both count as no.\<close>

definition in_maintenance :: "monitoring_service \<Rightarrow> uuid \<Rightarrow> bool io" where
  "in_maintenance s m =
     (case ms_maintenance s of None \<Rightarrow> returnE False
      | Some r \<Rightarrow> bindE (attemptE (MaintenanceWindowRepo_HasActive r m)) (\<lambda>res.
          returnE (case res of Inl _ \<Rightarrow> False | Inr b \<Rightarrow> b)))"

definition handleDown :: "monitoring_service \<Rightarrow> monitor \<Rightarrow> check_result \<Rightarrow> unit io" where
  "handleDown s monitor res =
     bindE (wrapE ''consecutive failures''
       (CheckResultRepo_ConsecutiveFailures (ms_check_results s) (mon_id monitor))) (\<lambda>failures.
     if failures < mon_alert_after_failures monitor then returnE ()
     else bindE (wrapE ''cooldown check''
       (IncidentRepo_IsInCooldown (ms_incidents s) (mon_id monitor))) (\<lambda>inCooldown.
     if inCooldown then returnE ()
     else bindE (in_maintenance s (mon_id monitor)) (\<lambda>inMaintenance.
     if inMaintenance then returnE ()
     else
       let cause = (case res_error_message res of None \<Rightarrow> [] | Some e \<Rightarrow> e) in
       bindE (attemptE (IncidentRepo_Create (ms_incidents s)
         \<lparr>cii_monitor_id = mon_id monitor, cii_cause = cause, cii_state = IncidentStateInvestigating,
          cii_is_manual = False, cii_title = None\<rparr>)) (\<lambda>created.
       case created of
         Inl err \<Rightarrow> if errors_is err ErrIncidentExists then returnE ()
                    else throwE (Wrapped ''create incident'' err)
       | Inr inc \<Rightarrow>
           bindE (metric_of s IncidentOpened) (\<lambda>_.
           publishAlert s monitor AlertDown cause (inc_id inc))))))"

definition handleRecovery :: "monitoring_service \<Rightarrow> monitor \<Rightarrow> unit io" where
  "handleRecovery s monitor =
     bindE (attemptE (IncidentRepo_GetOpen (ms_incidents s) (mon_id monitor))) (\<lambda>found.
     case found of
       Inl _ \<Rightarrow> returnE ()
     | Inr inc \<Rightarrow>
         bindE clock_now (\<lambda>now.
         bindE (wrapE ''resolve incident'' (IncidentRepo_Resolve (ms_incidents s) (inc_id inc) now)) (\<lambda>_.
         bindE (metric_of s IncidentResolved) (\<lambda>_.
         publishAlert s monitor AlertUp [] (inc_id inc)))))"

definition ProcessCheckResult :: "monitoring_service \<Rightarrow> monitor \<Rightarrow> check_result \<Rightarrow> unit io" where
  "ProcessCheckResult s monitor res =
     bindE (metric_of s (RecordCheck (mon_type monitor) (res_status res)
              (res_response_time_ms res * 1000000))) (\<lambda>_.
     bindE (wrapE ''insert check result'' (CheckResultRepo_Insert (ms_check_results s) res)) (\<lambda>_.
     bindE (logged (UptimeRepo_RecordCheck (ms_uptime s) (mon_id monitor) (res_checked_at res)
              (res_status res = StatusUp))) (\<lambda>_.
     bindE (wrapE ''update status''
       (MonitorRepo_UpdateStatus (ms_monitors s) (mon_id monitor) (res_status res))) (\<lambda>previousStatus.
     if res_status res = StatusDown then handleDown s monitor res
     else if res_status res = StatusUp \<and> previousStatus = StatusDown then handleRecovery s monitor
     else returnE ()))))"

definition RunCheck :: "monitoring_service \<Rightarrow> monitor \<Rightarrow> unit io" where
  "RunCheck s monitor =
     (case CheckerRegistry_Get (ms_registry s) (mon_type monitor) of
        Inl e \<Rightarrow> throwE (Wrapped (''unknown monitor type '' @ mon_type monitor) e)
      | Inr chk \<Rightarrow> bindE (MonitorChecker_Check chk monitor) (\<lambda>res. ProcessCheckResult s monitor res))"

end
