(* ===== verification/Monitoring_Frame.thy ===== *)
theory Monitoring_Frame
  imports Monitoring
begin

text \<open>
  What the operations of the monitoring service do to the tables, whatever their
  arguments and whichever calls fail. \<open>monitoring_ports\<close> is the contract between the
  service and its ports: each port method steps by a relation \<open>R\<close>; then each operation of
  the service does. \<open>store_steps\<close> is the contract of the statements: \<open>R\<close> tolerates what
  each statement does to the tables; it gives the first one for the service that
  \<open>internal/bootstrap\<close> wires to PostgreSQL. The two relations it is used with are the
  invariant "one open incident per monitor" and the order "history only grows".
\<close>

section \<open>The contract of the ports\<close>

locale monitoring_ports = world_rel R for R :: "world \<Rightarrow> world \<Rightarrow> bool" +
  fixes s :: monitoring_service
  assumes metric: "steps_by R (record_metric m)"
    and alerts: "steps_by R (ms_alerts s ev)"
    and events: "ms_events s = Some publish \<Longrightarrow> steps_by R (publish mev)"
    and check: "CheckerRegistry_Get (ms_registry s) ty = Inr chk \<Longrightarrow> steps_by R (MonitorChecker_Check chk mon)"
    and mon_Create: "steps_by R (MonitorRepo_Create (ms_monitors s) mon)"
    and mon_GetByID: "steps_by R (MonitorRepo_GetByID (ms_monitors s) i)"
    and mon_Count: "steps_by R (MonitorRepo_CountByUserID (ms_monitors s) i)"
    and mon_Update: "steps_by R (MonitorRepo_Update (ms_monitors s) mon)"
    and mon_UpdateStatus: "steps_by R (MonitorRepo_UpdateStatus (ms_monitors s) i st)"
    and mon_TogglePause: "steps_by R (MonitorRepo_TogglePause (ms_monitors s) i u)"
    and mon_Delete: "steps_by R (MonitorRepo_Delete (ms_monitors s) i u)"
    and chan_Bind: "steps_by R (ChannelRepo_BindToMonitor (ms_channels s) i c)"
    and res_Insert: "steps_by R (CheckResultRepo_Insert (ms_check_results s) cr)"
    and res_Failures: "steps_by R (CheckResultRepo_ConsecutiveFailures (ms_check_results s) i)"
    and inc_Create: "steps_by R (IncidentRepo_Create (ms_incidents s) ci)"
    and inc_Resolve: "steps_by R (IncidentRepo_Resolve (ms_incidents s) n t)"
    and inc_UpdateState: "steps_by R (IncidentRepo_UpdateState (ms_incidents s) n st)"
    and inc_GetByID: "steps_by R (IncidentRepo_GetByID (ms_incidents s) n)"
    and inc_GetOpen: "steps_by R (IncidentRepo_GetOpen (ms_incidents s) i)"
    and inc_Cooldown: "steps_by R (IncidentRepo_IsInCooldown (ms_incidents s) i)"
    and upd_Create: "steps_by R (IncidentUpdateRepo_Create (ms_incident_updates s) cu)"
    and up_Record: "steps_by R (UptimeRepo_RecordCheck (ms_uptime s) i t b)"
    and mw_HasActive: "ms_maintenance s = Some r \<Longrightarrow> steps_by R (MaintenanceWindowRepo_HasActive r i)"
    and mw_Create: "ms_maintenance s = Some r \<Longrightarrow> steps_by R (MaintenanceWindowRepo_Create r cw)"
    and mw_Delete: "ms_maintenance s = Some r \<Longrightarrow> steps_by R (MaintenanceWindowRepo_Delete r n u)"
    and mg_Create: "steps_by R (MonitorGroupRepo_Create (ms_groups s) u nm p)"
    and mg_Update: "steps_by R (MonitorGroupRepo_Update (ms_groups s) n u nm p)"
    and mg_Delete: "steps_by R (MonitorGroupRepo_Delete (ms_groups s) n u)"
    and mg_Assign: "steps_by R (MonitorGroupRepo_AssignMonitor (ms_groups s) i u g)"
begin

lemmas port_rules = alerts mon_Create mon_GetByID mon_Count mon_Update mon_UpdateStatus
  mon_TogglePause mon_Delete chan_Bind res_Insert res_Failures inc_Create inc_Resolve
  inc_UpdateState inc_GetByID inc_GetOpen inc_Cooldown upd_Create up_Record
  mg_Create mg_Update mg_Delete mg_Assign

lemma metric_of: "steps_by R (metric_of s m)"
  by (simp add: metric_of_def metric returnE)

lemma publishMonitorEvent: "steps_by R (publishMonitorEvent s a m)"
  unfolding publishMonitorEvent_def by (rule option_case) (auto intro: returnE events)

lemma published: "steps_by R (published s a m)"
  unfolding published_def by (intro world_rules publishMonitorEvent)

lemma loadOwnedMonitor: "steps_by R (loadOwnedMonitor s i u)"
  unfolding loadOwnedMonitor_def by (intro world_rules port_rules)

lemma publishAlert: "steps_by R (publishAlert s m e c i)"
  unfolding publishAlert_def by (intro world_rules port_rules)

lemma in_maintenance: "steps_by R (in_maintenance s m)"
  unfolding in_maintenance_def by (intro world_rules mw_HasActive)

lemma change_state_tx: "steps_by R (change_state_tx s inp)"
  unfolding change_state_tx_def by (intro world_rules port_rules)

lemma ChangeIncidentState: "steps_by R (ChangeIncidentState s inp)"
  unfolding ChangeIncidentState_def by (intro world_rules port_rules change_state_tx)

lemma manual_incident_tx: "steps_by R (manual_incident_tx s inp t b)"
  unfolding manual_incident_tx_def by (intro world_rules port_rules)

lemma CreateManualIncident: "steps_by R (CreateManualIncident s inp)"
  unfolding CreateManualIncident_def by (intro world_rules port_rules manual_incident_tx)

lemma ScheduleMaintenance: "steps_by R (ScheduleMaintenance s inp)"
  unfolding ScheduleMaintenance_def with_maintenance_def by (intro world_rules port_rules mw_Create)

lemma DeleteMaintenanceWindow: "steps_by R (DeleteMaintenanceWindow s i u)"
  unfolding DeleteMaintenanceWindow_def with_maintenance_def by (intro world_rules mw_Delete)

lemma create_and_bind_tx: "steps_by R (create_and_bind_tx s mon cids)"
  unfolding create_and_bind_tx_def by (intro world_rules port_rules)

lemma CreateMonitor: "steps_by R (CreateMonitor s usr inp)"
  unfolding CreateMonitor_def
  by (intro world_rules port_rules create_and_bind_tx published metric_of)

lemma UpdateMonitor: "steps_by R (UpdateMonitor s usr i inp)"
  unfolding UpdateMonitor_def by (intro world_rules port_rules loadOwnedMonitor published)

lemma DeleteMonitor: "steps_by R (DeleteMonitor s u m)"
  unfolding DeleteMonitor_def by (intro world_rules port_rules loadOwnedMonitor metric_of events)

lemma TogglePause: "steps_by R (TogglePause s usr m)"
  unfolding TogglePause_def by (intro world_rules port_rules loadOwnedMonitor published)

lemma handleDown: "steps_by R (handleDown s m res)"
  unfolding handleDown_def
  by (intro world_rules port_rules in_maintenance metric_of publishAlert)

lemma handleRecovery: "steps_by R (handleRecovery s m)"
  unfolding handleRecovery_def by (intro world_rules port_rules metric_of publishAlert)

lemma ProcessCheckResult: "steps_by R (ProcessCheckResult s m res)"
  unfolding ProcessCheckResult_def
  by (intro world_rules port_rules metric_of handleDown handleRecovery)

lemma RunCheck: "steps_by R (RunCheck s m)"
  unfolding RunCheck_def by (intro world_rules check ProcessCheckResult)

lemma groups:
  "steps_by R (CreateMonitorGroup s u nm p)"
  "steps_by R (UpdateMonitorGroup s n u nm p)"
  "steps_by R (DeleteMonitorGroup s n u)"
  "steps_by R (AssignMonitorGroup s i u g)"
  unfolding CreateMonitorGroup_def UpdateMonitorGroup_def DeleteMonitorGroup_def AssignMonitorGroup_def
  by (intro port_rules)+

end

section \<open>The contract of the statements\<close>

text \<open>
  What a relation on worlds has to tolerate so that every operation of the PostgreSQL
  repositories steps by it: the writing statements, the draws of the cipher, the
  published messages and the recorded metrics.
\<close>

locale store_steps = world_rel R for R :: "world \<Rightarrow> world \<Rightarrow> bool" +
  assumes metrics: "R w (w\<lparr>w_metrics := ms\<rparr>)"
    and monitor_events: "R w (w\<lparr>w_monitor_events := es\<rparr>)"
    and alert_events: "R w (w\<lparr>w_alert_events := as\<rparr>)"
    and q_CreateIncident: "steps_by R (q_CreateIncident ci)"
    and q_ResolveIncident: "steps_by R (q_ResolveIncident n (Some t))"
    and q_UpdateIncidentState: "steps_by R (q_UpdateIncidentState n st)"
    and q_CreateIncidentUpdate: "steps_by R (q_CreateIncidentUpdate cu)"
    and q_CreateMonitor: "steps_by R (q_CreateMonitor cm)"
    and q_DeleteMonitor: "steps_by R (q_DeleteMonitor i u)"
    and q_ToggleMonitorPause: "steps_by R (q_ToggleMonitorPause i u)"
    and q_UpdateMonitor: "steps_by R (q_UpdateMonitor um)"
    and q_UpdateMonitorStatus: "steps_by R (q_UpdateMonitorStatus i st)"
    and q_BindChannelToMonitor: "steps_by R (q_BindChannelToMonitor i u)"
    and q_InsertCheckResult: "steps_by R (q_InsertCheckResult ic)"
    and q_UpsertUptimeHourly: "steps_by R (q_UpsertUptimeHourly i t k)"
    and q_CreateMaintenanceWindow: "steps_by R (q_CreateMaintenanceWindow cw)"
    and q_DeleteMaintenanceWindow: "steps_by R (q_DeleteMaintenanceWindow n u)"
    and q_CreateMonitorGroup: "steps_by R (q_CreateMonitorGroup u nm k)"
    and q_UpdateMonitorGroup: "steps_by R (q_UpdateMonitorGroup n u nm k)"
    and q_DeleteMonitorGroup: "steps_by R (q_DeleteMonitorGroup n u)"
    and q_AssignMonitorToGroup: "steps_by R (q_AssignMonitorToGroup i u g)"
begin

lemmas statement_rules = q_CreateIncident q_ResolveIncident q_UpdateIncidentState
  q_CreateIncidentUpdate q_CreateMonitor q_DeleteMonitor q_ToggleMonitorPause q_UpdateMonitor
  q_UpdateMonitorStatus q_BindChannelToMonitor q_InsertCheckResult q_UpsertUptimeHourly
  q_CreateMaintenanceWindow q_DeleteMaintenanceWindow q_CreateMonitorGroup
  q_UpdateMonitorGroup q_DeleteMonitorGroup q_AssignMonitorToGroup

lemma query_rules:
  "steps_by R (q_GetMonitorByID i)" "steps_by R (q_CountMonitorsByUserID i)"
  "steps_by R (q_ConsecutiveFailures i)" "steps_by R (q_GetIncidentByID n)"
  "steps_by R (q_GetOpenIncidentByMonitorID i)" "steps_by R (q_IsInCooldown i)"
  "steps_by R (q_HasActiveMaintenanceWindow i)"
  unfolding q_GetMonitorByID_def q_CountMonitorsByUserID_def q_ConsecutiveFailures_def
    q_GetIncidentByID_def q_GetOpenIncidentByMonitorID_def q_IsInCooldown_def
    q_HasActiveMaintenanceWindow_def
  by (rule query)+

lemma record_metric: "steps_by R (record_metric m)"
  by (simp add: steps_by_def record_metric_def effect_simps metrics)

lemma PublishMonitorChanged: "steps_by R (PublishMonitorChanged ev)"
  unfolding PublishMonitorChanged_def
  by (rule mapErrE, rule external) (simp add: steps_by_def effect_simps monitor_events)

lemma PublishAlert: "steps_by R (PublishAlert ev)"
  unfolding PublishAlert_def
  by (rule mapErrE, rule external) (simp add: steps_by_def effect_simps alert_events)

lemma durable: "durable w' = durable w \<Longrightarrow> R w w'"
  by (subst durable_eqD) (assumption, rule trans [OF faults entropy])

lemma quiet_encrypt: "cipher_quiet C \<Longrightarrow> steps_by R (Cipher_Encrypt C p)"
  unfolding cipher_quiet_def steps_by_def by (blast intro: durable)

lemma quiet_check:
  "checkers_quiet reg \<Longrightarrow> CheckerRegistry_Get reg ty = Inr chk \<Longrightarrow> steps_by R (MonitorChecker_Check chk mon)"
  unfolding checkers_quiet_def steps_by_def by (blast intro: durable)

lemma encryptConfig: "cipher_quiet C \<Longrightarrow> steps_by R (encryptConfig C cfg)"
  unfolding encryptConfig_def by (intro world_rules quiet_encrypt)

lemma decrypted_monitor: "steps_by R (decrypted_monitor C row)"
  unfolding decrypted_monitor_def by (intro world_rules)

lemmas leaf_rules = world_rules statement_rules query_rules

lemma incident_repo_rules:
  "steps_by R (pg_IncidentRepo_Create ci)"
  "steps_by R (pg_IncidentRepo_Resolve n t)"
  "steps_by R (pg_IncidentRepo_UpdateState n st)"
  "steps_by R (pg_IncidentRepo_GetByID n)"
  "steps_by R (pg_IncidentRepo_GetOpen i)"
  "steps_by R (pg_IncidentRepo_IsInCooldown i)"
  "steps_by R (pg_IncidentUpdateRepo_Create cu)"
  unfolding incident_repo_defs by (intro leaf_rules)+

lemma monitor_repo_rules:
  "cipher_quiet C \<Longrightarrow> steps_by R (pg_MonitorRepo_Create C mon)"
  "steps_by R (pg_MonitorRepo_GetByID C i)"
  "steps_by R (pg_MonitorRepo_CountByUserID i)"
  "cipher_quiet C \<Longrightarrow> steps_by R (pg_MonitorRepo_Update C mon)"
  "steps_by R (pg_MonitorRepo_UpdateStatus i st)"
  "steps_by R (pg_MonitorRepo_TogglePause C i u)"
  "steps_by R (pg_MonitorRepo_Delete i u)"
  unfolding monitor_repo_defs by (intro leaf_rules encryptConfig decrypted_monitor; assumption?)+

lemma result_repo_rules:
  "steps_by R (pg_CheckResultRepo_Insert cr)"
  "steps_by R (pg_CheckResultRepo_ConsecutiveFailures i)"
  "steps_by R (pg_UptimeRepo_RecordCheck i t b)"
  "steps_by R (pg_MaintenanceWindowRepo_Create cw)"
  "steps_by R (pg_MonitorGroupRepo_Create u nm p)"
  "steps_by R (pg_MonitorGroupRepo_Update n u nm p)"
  unfolding result_repo_defs by (intro leaf_rules)+

lemmas repo_rules = incident_repo_rules monitor_repo_rules result_repo_rules statement_rules query_rules

end

section \<open>The services as they are wired\<close>

text \<open>
  \<open>bootstrap.NewApp\<close> and \<open>bootstrap.NewWorker\<close>: the API publishes monitor changes, the
  worker has no such publisher.
\<close>

definition pg_monitoring ::
    "cipher \<Rightarrow> checker_registry \<Rightarrow> (monitor_changed_event \<Rightarrow> unit io) option \<Rightarrow> monitoring_service" where
  "pg_monitoring C reg events =
     \<lparr>ms_monitors = pg_MonitorRepo C, ms_channels = pg_ChannelRepo C,
      ms_check_results = pg_CheckResultRepo, ms_incidents = pg_IncidentRepo,
      ms_incident_updates = pg_IncidentUpdateRepo, ms_maintenance = Some pg_MaintenanceWindowRepo,
      ms_groups = pg_MonitorGroupRepo, ms_users = pg_UserRepo, ms_uptime = pg_UptimeRepo,
      ms_alerts = PublishAlert, ms_events = events, ms_registry = reg, ms_metrics = True\<rparr>"

definition app_monitoring :: "cipher \<Rightarrow> checker_registry \<Rightarrow> monitoring_service" where
  "app_monitoring C reg = pg_monitoring C reg (Some PublishMonitorChanged)"

definition worker_monitoring :: "cipher \<Rightarrow> checker_registry \<Rightarrow> monitoring_service" where
  "worker_monitoring C reg = pg_monitoring C reg None"

text \<open>The handler that the worker subscribes to the check tasks.\<close>

definition worker_handler :: "cipher \<Rightarrow> checker_registry \<Rightarrow> uuid \<Rightarrow> unit io" where
  "worker_handler C reg m =
     bindE (wrapE (''get monitor '' @ uuid_string m) (pg_MonitorRepo_GetByID C m)) (\<lambda>mon.
       RunCheck (worker_monitoring C reg) mon)"

lemmas pg_service_defs = pg_monitoring_def app_monitoring_def worker_monitoring_def

locale pg_ports = store_steps R for R :: "world \<Rightarrow> world \<Rightarrow> bool" +
  fixes C :: cipher and reg :: checker_registry and events :: "(monitor_changed_event \<Rightarrow> unit io) option"
  assumes cipher: "cipher_quiet C"
    and checkers: "checkers_quiet reg"
    and publisher: "events = Some publish \<Longrightarrow> steps_by R (publish ev)"

sublocale pg_ports \<subseteq> monitoring_ports R "pg_monitoring C reg events"
proof (unfold_locales, goal_cases)
  case (3 publish mev)
  then show ?case by (simp add: pg_monitoring_def publisher)
next
  case (4 ty chk mon)
  then show ?case by (simp add: pg_monitoring_def quiet_check [OF checkers])
qed (auto simp: pg_monitoring_def pg_MonitorRepo_def pg_IncidentRepo_def pg_IncidentUpdateRepo_def
       pg_CheckResultRepo_def pg_UptimeRepo_def pg_MaintenanceWindowRepo_def pg_MonitorGroupRepo_def
       pg_ChannelRepo_def intro: repo_rules record_metric PublishAlert cipher)

end
