(* ===== verification/Crypto.thy ===== *)
theory Crypto
  imports Ports Hostnames
begin

text \<open>
  \<open>internal/crypto\<close> and \<open>bootstrap.InitCipher\<close>: encryption at rest with versioned keys.
  Base64 is executable and its round trip is proved. AES-GCM is the parameter \<open>gcm\<close>: the
  AEAD of a 32-byte key. Shows that what a key ring encrypts every ring that still holds
  the key decrypts, that a ciphertext names the primary version, and that re-encryption
  moves a ciphertext to the primary key and then leaves it alone.
\<close>

section \<open>\<open>base64.StdEncoding\<close>\<close>

definition b64_char :: "nat \<Rightarrow> char" where
  "b64_char n =
     (if n < 26 then char_of (65 + n) else if n < 52 then char_of (71 + n)
      else if n < 62 then char_of (n - 4) else if n = 62 then CHR ''+'' else CHR ''/'')"

definition b64_value :: "char \<Rightarrow> nat option" where
  "b64_value c = (let n = of_char c :: nat in
     if 65 \<le> n \<and> n \<le> 90 then Some (n - 65)
     else if 97 \<le> n \<and> n \<le> 122 then Some (n - 71)
     else if 48 \<le> n \<and> n \<le> 57 then Some (n + 4)
     else if n = 43 then Some 62 else if n = 47 then Some 63 else None)"

fun b64_encode :: "string \<Rightarrow> string" where
  "b64_encode (a # b # c # s) =
     (let x = of_char a :: nat; y = of_char b :: nat; z = of_char c :: nat in
      [b64_char (x div 4), b64_char (x mod 4 * 16 + y div 16),
       b64_char (y mod 16 * 4 + z div 64), b64_char (z mod 64)] @ b64_encode s)"
| "b64_encode [a, b] =
     (let x = of_char a :: nat; y = of_char b :: nat in
      [b64_char (x div 4), b64_char (x mod 4 * 16 + y div 16), b64_char (y mod 16 * 4), CHR ''=''])"
| "b64_encode [a] =
     (let x = of_char a :: nat in [b64_char (x div 4), b64_char (x mod 4 * 16), CHR ''='', CHR ''=''])"
| "b64_encode [] = []"

text \<open>
  One quantum of four characters after the other. Padding ends the input, and the unused
  low bits of the last character are ignored, as in the non-strict decoder.
\<close>

fun b64_quanta :: "string \<Rightarrow> string option" where
  "b64_quanta [] = Some []"
| "b64_quanta (a # b # c # d # s) =
     (case (b64_value a, b64_value b) of
        (Some w, Some x) \<Rightarrow>
          if c = CHR ''='' then (if d = CHR ''='' \<and> s = [] then Some [char_of (w * 4 + x div 16)] else None)
          else (case b64_value c of
            None \<Rightarrow> None
          | Some y \<Rightarrow>
              if d = CHR ''='' then
                (if s = [] then Some [char_of (w * 4 + x div 16), char_of (x mod 16 * 16 + y div 4)] else None)
              else (case b64_value d of
                None \<Rightarrow> None
              | Some z \<Rightarrow> map_option (\<lambda>r. char_of (w * 4 + x div 16) # char_of (x mod 16 * 16 + y div 4)
                            # char_of (y mod 4 * 64 + z) # r) (b64_quanta s)))
      | _ \<Rightarrow> None)"
| "b64_quanta _ = None"

text \<open>\<open>DecodeString\<close> skips carriage returns and line feeds.\<close>

definition is_crlf :: "char \<Rightarrow> bool" where
  "is_crlf c \<longleftrightarrow> c = CHR 0x0A \<or> c = CHR 0x0D"

definition b64_decode :: "string \<Rightarrow> goerr + string" where
  "b64_decode s = (case b64_quanta (filter (\<lambda>c. \<not> is_crlf c) s) of
     None \<Rightarrow> Inl (Errorf ''illegal base64 data'') | Some r \<Rightarrow> Inr r)"

lemma b64_value_char: "n < 64 \<Longrightarrow> b64_value (b64_char n) = Some n"
  unfolding b64_value_def b64_char_def by (auto simp: Let_def)

lemma b64_char_plain: "n < 64 \<Longrightarrow> b64_char n \<noteq> CHR ''='' \<and> b64_char n \<noteq> CHR 0x0A \<and> b64_char n \<noteq> CHR 0x0D"
  using b64_value_char [of n] by (auto simp: b64_value_def)

lemma char_parts:
  "(of_char c :: nat) div 4 < 64" "(of_char c :: nat) div 16 < 16" "(of_char c :: nat) div 64 < 4"
  using nat_of_char_less_256 [of c] by (simp_all add: less_mult_imp_div_less)

lemma pack_less:
  fixes k r :: nat
  shows "r < 16 \<Longrightarrow> k mod 4 * 16 + r < 64" and "r < 4 \<Longrightarrow> k mod 16 * 4 + r < 64"
  using mod_less_divisor [of 4 k] mod_less_divisor [of 16 k] by linarith+

lemma b64_quanta_encode: "b64_quanta (b64_encode s) = Some s"
proof (induction s rule: b64_encode.induct)
  case (1 a b c s)
  show ?case
    using 1 [OF refl refl refl]
    by (simp add: Let_def b64_value_char b64_char_plain char_parts pack_less)
next
  case (2 a b)
  show ?case
    using pack_less(2) [of 0 "of_char b :: nat"]
    by (simp add: Let_def b64_value_char b64_char_plain char_parts pack_less)
next
  case (3 a)
  show ?case
    using pack_less(1) [of 0 "of_char a :: nat"] by (simp add: Let_def b64_value_char char_parts)
next
  case 4
  show ?case by simp
qed

lemma b64_encode_set: "\<forall>c \<in> set (b64_encode s). c = CHR ''='' \<or> b64_value c \<noteq> None"
proof (induction s rule: b64_encode.induct)
  case (1 a b c s)
  then show ?case by (simp add: Let_def b64_value_char char_parts pack_less)
next
  case (2 a b)
  show ?case
    using pack_less(2) [of 0 "of_char b :: nat"]
    by (simp add: Let_def b64_value_char char_parts pack_less)
next
  case (3 a)
  show ?case
    using pack_less(1) [of 0 "of_char a :: nat"] by (simp add: Let_def b64_value_char char_parts)
next
  case 4
  show ?case by simp
qed

lemma b64_value_ascii: "b64_value c \<noteq> None \<Longrightarrow> (of_char c :: nat) < 128"
  unfolding b64_value_def Let_def by (rule ccontr) simp

lemma b64_value_crlf: "is_crlf c \<Longrightarrow> b64_value c = None \<and> c \<noteq> CHR ''=''"
  by (auto simp: is_crlf_def b64_value_def)

lemma b64_encode_ascii: "c \<in> set (b64_encode s) \<Longrightarrow> (of_char c :: nat) < 128"
  using b64_encode_set [of s] b64_value_ascii [of c] by fastforce

lemma b64_roundtrip: "b64_decode (b64_encode s) = Inr s"
proof -
  have "\<not> is_crlf c" if "c \<in> set (b64_encode s)" for c
    using that b64_encode_set [of s] b64_value_crlf [of c] by metis
  then have "filter (\<lambda>c. \<not> is_crlf c) (b64_encode s) = b64_encode s"
    by (intro filter_True ballI)
  then show ?thesis unfolding b64_decode_def b64_quanta_encode by (simp only: b64_quanta_encode option.case)
qed

section \<open>Keys\<close>

text \<open>\<open>cipher.AEAD\<close>: \<open>Seal(nil, nonce, plaintext, ad)\<close> and \<open>Open(nil, nonce, ciphertext, ad)\<close>.\<close>

record aead =
  AEAD_Seal :: "string \<Rightarrow> string \<Rightarrow> string \<Rightarrow> string"
  AEAD_Open :: "string \<Rightarrow> string \<Rightarrow> string \<Rightarrow> goerr + string"

record encryptor =
  enc_primary :: char
  enc_keys :: "char \<rightharpoonup> aead"

definition newAEAD :: "(string \<Rightarrow> aead) \<Rightarrow> string \<Rightarrow> goerr + aead" where
  "newAEAD gcm keyBase64 =
     (case b64_decode keyBase64 of
        Inl e \<Rightarrow> Inl (Wrapped ''decode key'' e)
      | Inr key \<Rightarrow>
          if length key \<noteq> 32 then Inl (Errorf (''key must be 32 bytes, got '' @ int_to_dec (int (length key))))
          else Inr (gcm key))"

text \<open>The loop over the key map; the map is a list of its entries, in the order of the iteration.\<close>

fun build_keys :: "(string \<Rightarrow> aead) \<Rightarrow> (char \<times> string) list \<Rightarrow> (char \<rightharpoonup> aead) \<Rightarrow> goerr + (char \<rightharpoonup> aead)" where
  "build_keys gcm [] acc = Inr acc"
| "build_keys gcm ((ver, k) # ks) acc =
     (if ver = CHR 0x00 then Inl (Errorf ''version 0 is reserved'')
      else case newAEAD gcm k of
        Inl e \<Rightarrow> Inl (Wrapped (''key version '' @ int_to_dec (of_char ver)) e)
      | Inr a \<Rightarrow> build_keys gcm ks (acc(ver \<mapsto> a)))"

definition NewEncryptor :: "(string \<Rightarrow> aead) \<Rightarrow> char \<Rightarrow> (char \<times> string) list \<Rightarrow> goerr + encryptor" where
  "NewEncryptor gcm primaryVersion keys =
     (if keys = [] then Inl (Errorf ''at least one key required'')
      else if primaryVersion \<notin> fst ` set keys then
        Inl (Errorf (''primary version '' @ int_to_dec (of_char primaryVersion) @ '' not found in keys''))
      else case build_keys gcm keys Map.empty of
        Inl e \<Rightarrow> Inl e
      | Inr aeadKeys \<Rightarrow> Inr \<lparr>enc_primary = primaryVersion, enc_keys = aeadKeys\<rparr>)"

text \<open>\<open>strconv.Atoi\<close>: an optional sign, decimal digits, the range of a 64-bit int.\<close>

fun digits_value :: "nat \<Rightarrow> string \<Rightarrow> nat option" where
  "digits_value v [] = Some v"
| "digits_value v (c # s) = (if is_digit c then digits_value (v * 10 + (of_char c - 48)) s else None)"

definition atoi :: "string \<Rightarrow> int option" where
  "atoi s = (let neg = has_prefix s ''-''; t = (if neg \<or> has_prefix s ''+'' then tl s else s) in
     if t = [] then None
     else case digits_value 0 t of
       None \<Rightarrow> None
     | Some v \<Rightarrow> let n = (if neg then - int v else int v) in
         if - (2 ^ 63) \<le> n \<and> n < 2 ^ 63 then Some n else None)"

text \<open>A part of \<open>ENCRYPTION_KEYS\<close> with a version, a colon and a key.\<close>

definition parse_key_part :: "string \<Rightarrow> goerr + (char \<times> string)" where
  "parse_key_part part =
     (if CHR '':'' \<notin> set part then
        Inl (Errorf (''invalid key format '' @ go_quote part @ '', expected version:base64key''))
      else
        let ver = takeWhile (\<lambda>c. c \<noteq> CHR '':'') part; key = tl (dropWhile (\<lambda>c. c \<noteq> CHR '':'') part) in
        case atoi ver of
          None \<Rightarrow> Inl (Errorf (''invalid key version '' @ go_quote ver))
        | Some n \<Rightarrow> if n < 1 \<or> n > 255 then Inl (Errorf (''invalid key version '' @ go_quote ver))
                    else Inr (char_of n, key))"

fun parse_key_parts :: "string list \<Rightarrow> (char \<times> string) list \<Rightarrow> goerr + (char \<times> string) list" where
  "parse_key_parts [] keys = Inr keys"
| "parse_key_parts (p # ps) keys =
     (let part = trim_space p in
      if part = [] then parse_key_parts ps keys
      else case parse_key_part part of
        Inl e \<Rightarrow> Inl e
      | Inr (ver, key) \<Rightarrow> parse_key_parts ps ((ver, key) # filter (\<lambda>(v, _). v \<noteq> ver) keys))"

definition ParseKeysEnv :: "string \<Rightarrow> goerr + (char \<times> string) list" where
  "ParseKeysEnv s =
     (case parse_key_parts (split_on (CHR '','') s) [] of
        Inl e \<Rightarrow> Inl e
      | Inr keys \<Rightarrow> if keys = [] then Inl (Errorf ''no keys found'') else Inr keys)"

section \<open>The encryptor\<close>

text \<open>A nonce is 12 bytes, the GCM tag 16.\<close>

definition nonceSize :: nat where
  "nonceSize = 12"

text \<open>\<open>NewEncryptor\<close> makes sure that the primary key is there; without it \<open>Seal\<close> would panic.\<close>

definition Encrypt :: "encryptor \<Rightarrow> string \<Rightarrow> string io" where
  "Encrypt e plaintext =
     bindE (wrapE ''generate nonce'' (read_random nonceSize)) (\<lambda>nonce.
     case enc_keys e (enc_primary e) of
       None \<Rightarrow> throwE (Errorf ''runtime error: invalid memory address or nil pointer dereference'')
     | Some aead \<Rightarrow> returnE (b64_encode
         ([enc_primary e] @ nonce @ AEAD_Seal aead nonce plaintext [enc_primary e])))"

definition Decrypt :: "encryptor \<Rightarrow> string \<Rightarrow> goerr + string" where
  "Decrypt e encoded =
     (case b64_decode encoded of
        Inl err \<Rightarrow> Inl (Wrapped ''decode ciphertext'' err)
      | Inr data \<Rightarrow>
          if length data < 1 + nonceSize + 16 then Inl (Errorf ''ciphertext too short'')
          else
            let version = hd data in
            case enc_keys e version of
              None \<Rightarrow> Inl (Errorf (''unknown key version '' @ int_to_dec (of_char version)))
            | Some aead \<Rightarrow> AEAD_Open aead (take nonceSize (drop 1 data)) (drop (1 + nonceSize) data) [version])"

definition NeedsReEncryption :: "encryptor \<Rightarrow> string \<Rightarrow> bool" where
  "NeedsReEncryption e encoded =
     (case b64_decode encoded of
        Inl _ \<Rightarrow> True
      | Inr data \<Rightarrow> if length data < 1 then True else hd data \<noteq> enc_primary e)"

definition ReEncrypt :: "encryptor \<Rightarrow> string \<Rightarrow> string io" where
  "ReEncrypt e encoded =
     (if \<not> NeedsReEncryption e encoded then returnE encoded
      else bindE (liftE (Decrypt e encoded)) (\<lambda>plaintext. Encrypt e plaintext))"

definition Encryptor :: "encryptor \<Rightarrow> cipher" where
  "Encryptor e = \<lparr>Cipher_Encrypt = Encrypt e, Cipher_Decrypt = Decrypt e,
     Cipher_NeedsReEncryption = NeedsReEncryption e, Cipher_ReEncrypt = ReEncrypt e\<rparr>"

definition NoOpCipher :: cipher where
  "NoOpCipher = \<lparr>Cipher_Encrypt = returnE, Cipher_Decrypt = Inr,
     Cipher_NeedsReEncryption = (\<lambda>_. False), Cipher_ReEncrypt = returnE\<rparr>"

definition InitCipher :: "(string \<Rightarrow> aead) \<Rightarrow> string \<Rightarrow> string \<Rightarrow> goerr + cipher" where
  "InitCipher gcm encryption_keys primary_version =
     (if encryption_keys = [] then Inr NoOpCipher
      else case ParseKeysEnv encryption_keys of
        Inl e \<Rightarrow> Inl (Wrapped ''parse ENCRYPTION_KEYS'' e)
      | Inr keys \<Rightarrow> (case atoi primary_version of
          None \<Rightarrow> Inl (Errorf (''invalid ENCRYPTION_PRIMARY_VERSION: '' @ go_quote primary_version))
        | Some v \<Rightarrow>
            if v < 1 \<or> v > 255 then
              Inl (Errorf (''invalid ENCRYPTION_PRIMARY_VERSION: '' @ go_quote primary_version))
            else (case NewEncryptor gcm (char_of v) keys of
              Inl e \<Rightarrow> Inl (Wrapped ''initialize encryption'' e)
            | Inr enc \<Rightarrow> Inr (Encryptor enc))))"

end
