(* ===== verification/Crypto_Facts.thy ===== *)
theory Crypto_Facts
  imports Crypto Monitor_Store
begin

text \<open>
  Encryption at rest: the round trip through the key ring, key rotation, and the round
  trip of a monitor's configuration through its column. The AEAD law is the hypothesis
  \<open>aead_ok\<close>: opening what was sealed with the same nonce and associated data gives the
  plaintext back, and a sealed text is 16 bytes longer.
\<close>

definition aead_ok :: "aead \<Rightarrow> bool" where
  "aead_ok A \<longleftrightarrow> (\<forall>nonce p ad. length nonce = nonceSize \<longrightarrow>
     AEAD_Open A nonce (AEAD_Seal A nonce p ad) ad = Inr p
     \<and> length (AEAD_Seal A nonce p ad) = length p + 16)"

text \<open>A concrete AEAD with the law, for the examples: the tag repeats the associated data.\<close>

definition toy_aead :: aead where
  "toy_aead = \<lparr>AEAD_Seal = (\<lambda>nonce p ad. p @ take 16 (ad @ replicate 16 (CHR ''t''))),
     AEAD_Open = (\<lambda>nonce c ad.
       if length c \<ge> 16 \<and> drop (length c - 16) c = take 16 (ad @ replicate 16 (CHR ''t''))
       then Inr (take (length c - 16) c) else Inl (Errorf ''cipher: message authentication failed''))\<rparr>"

lemma toy_aead_ok: "aead_ok toy_aead"
proof -
  have "min (length ad) 16 + (16 - length ad) = 16" for ad :: string by simp
  then show ?thesis by (simp add: aead_ok_def toy_aead_def)
qed

definition toy_ring :: encryptor where
  "toy_ring = \<lparr>enc_primary = CHR 0x01, enc_keys = [CHR 0x01 \<mapsto> toy_aead]\<rparr>"

definition toy_ring2 :: encryptor where
  "toy_ring2 = \<lparr>enc_primary = CHR 0x02, enc_keys = [CHR 0x01 \<mapsto> toy_aead, CHR 0x02 \<mapsto> toy_aead]\<rparr>"

section \<open>Encryption\<close>

lemma Encrypt_Inr:
  assumes "Encrypt e p w = (Inr c, w')"
  obtains A nonce where "enc_keys e (enc_primary e) = Some A" and "length nonce = nonceSize"
    and "c = b64_encode (enc_primary e # nonce @ AEAD_Seal A nonce p [enc_primary e])"
proof -
  from assms obtain nonce A where r: "\<exists>w''. read_random nonceSize w = (Inr nonce, w'')"
    and A: "enc_keys e (enc_primary e) = Some A"
    and c: "c = b64_encode (enc_primary e # nonce @ AEAD_Seal A nonce p [enc_primary e])"
    by (auto simp: Encrypt_def effect_simps split: option.splits sum.splits prod.splits)
  from r have "length nonce = nonceSize"
    by (auto simp: read_random_def external_def split: list.splits bool.splits)
  with A c that show ?thesis by blast
qed

lemma Decrypt_encoded:
  assumes "enc_keys e v = Some A" and "aead_ok A" and "length nonce = nonceSize"
  shows "Decrypt e (b64_encode (v # nonce @ AEAD_Seal A nonce p [v])) = Inr p"
  using assms by (simp add: Decrypt_def b64_roundtrip aead_ok_def Let_def)

lemma Encrypt_primary:
  assumes "Encrypt e p w = (Inr c, w')"
  shows "\<not> NeedsReEncryption e c"
  using assms by (auto elim!: Encrypt_Inr simp: NeedsReEncryption_def b64_roundtrip)

lemma Decrypt_Encrypt:
  assumes enc: "Encrypt e p w = (Inr c, w')"
    and ring: "enc_keys e' (enc_primary e) = enc_keys e (enc_primary e)"
    and law: "\<And>A. enc_keys e (enc_primary e) = Some A \<Longrightarrow> aead_ok A"
  shows "Decrypt e' c = Inr p"
  using enc
proof (rule Encrypt_Inr)
  fix A nonce
  assume "enc_keys e (enc_primary e) = Some A" "length nonce = nonceSize"
    and c: "c = b64_encode (enc_primary e # nonce @ AEAD_Seal A nonce p [enc_primary e])"
  with ring law [of A] show ?thesis unfolding c by (intro Decrypt_encoded) simp_all
qed

lemma ReEncrypt_step:
  assumes re: "ReEncrypt e c w = (Inr c', w')"
    and law: "\<And>A. enc_keys e (enc_primary e) = Some A \<Longrightarrow> aead_ok A"
  shows "\<not> NeedsReEncryption e c'" and "Decrypt e c' = Decrypt e c"
proof -
  have "\<not> NeedsReEncryption e c' \<and> Decrypt e c' = Decrypt e c"
  proof (cases "NeedsReEncryption e c")
    case True
    with re obtain p where dec: "Decrypt e c = Inr p" and enc: "Encrypt e p w = (Inr c', w')"
      by (auto simp: ReEncrypt_def effect_simps split: sum.splits prod.splits)
    from Decrypt_Encrypt [OF enc refl law] Encrypt_primary [OF enc] dec show ?thesis by simp
  next
    case False
    with re show ?thesis by (simp add: ReEncrypt_def effect_simps)
  qed
  then show "\<not> NeedsReEncryption e c'" "Decrypt e c' = Decrypt e c" by simp_all
qed

lemma cipher_quiet_Encryptor: "cipher_quiet (Encryptor e)"
proof -
  have "durable (snd (read_random n w)) = durable w" for n w
    by (simp add: read_random_def external_def split: list.splits bool.splits)
  then have r: "steps_by (\<lambda>w w'. durable w' = durable w) (read_random n)" for n
    by (simp add: steps_by_def)
  show ?thesis
    unfolding cipher_quiet_def Encryptor_def
    by (auto simp: Encrypt_def intro!: viewing.rules r)
qed

lemma cipher_quiet_NoOp: "cipher_quiet NoOpCipher"
  by (simp add: cipher_quiet_def NoOpCipher_def viewing.rules)

section \<open>The key ring of a deployment\<close>

lemma build_keys_dom:
  "build_keys gcm ks acc = Inr m \<Longrightarrow> dom m = dom acc \<union> fst ` set ks \<and> CHR 0x00 \<notin> fst ` set ks"
proof (induction gcm ks acc rule: build_keys.induct)
  case (1 gcm acc)
  then show ?case by simp
next
  case (2 gcm ver k ks acc)
  from "2.prems" obtain A where ver: "ver \<noteq> CHR 0x00" and A: "newAEAD gcm k = Inr A"
    and rest: "build_keys gcm ks (acc(ver \<mapsto> A)) = Inr m"
    by (auto split: if_splits sum.splits)
  have "dom (acc(ver \<mapsto> A)) = insert ver (dom acc)" by simp
  with "2.IH" [OF ver A rest] ver show ?case
    by (simp only: list.set image_insert fst_conv) blast
qed

lemma NewEncryptor_ring:
  assumes "NewEncryptor gcm v keys = Inr e"
  shows "enc_primary e = v" and "v \<in> dom (enc_keys e)" and "enc_keys e (CHR 0x00) = None"
    and "dom (enc_keys e) = fst ` set keys"
proof -
  from assms have v: "v \<in> fst ` set keys" and e: "enc_primary e = v"
    and b: "build_keys gcm keys Map.empty = Inr (enc_keys e)"
    by (auto simp: NewEncryptor_def split: if_splits sum.splits)
  from build_keys_dom [OF b] v e
  show "enc_primary e = v" "v \<in> dom (enc_keys e)" "enc_keys e (CHR 0x00) = None"
    "dom (enc_keys e) = fst ` set keys"
    by auto
qed

section \<open>Configurations at rest\<close>

lemma decryptConfig_encryptConfig:
  assumes enc: "encryptConfig (Encryptor e) cfg w = (Inr stored, w')"
    and ring: "enc_keys e' (enc_primary e) = enc_keys e (enc_primary e)"
    and law: "\<And>A. enc_keys e (enc_primary e) = Some A \<Longrightarrow> aead_ok A"
  shows "decryptConfig (Encryptor e') stored = Inr cfg"
proof (cases "cfg = []")
  case True
  with enc show ?thesis by (simp add: encryptConfig_def decryptConfig_def effect_simps)
next
  case False
  with enc obtain c where c: "Encrypt e cfg w = (Inr c, w')" and stored: "stored = json_marshal_string c"
    by (auto simp: encryptConfig_def Encryptor_def effect_simps split: sum.splits prod.splits)
  from c have "ascii c"
    by (auto elim!: Encrypt_Inr simp: ascii_def dest: b64_encode_ascii)
  moreover have "stored \<noteq> []" by (simp add: stored json_marshal_string_def)
  ultimately show ?thesis
    using Decrypt_Encrypt [OF c ring law] stored
    by (simp add: decryptConfig_def json_string_roundtrip Encryptor_def)
qed

end
