(* ===== verification/Json_Value.thy ===== *)
theory Json_Value
  imports Json
begin

text \<open>
  JSON values as \<open>encoding/json\<close> reads them: the grammar with its nesting limit, and the
  way \<open>json.Unmarshal\<close> fills the string, pointer-to-string and int fields of a struct.
  Parsing terminates because every step consumes input.
\<close>

datatype json =
    JNull
  | JBool bool
  | JNum string
  | JStr string
  | JArr "json list"
  | JObj "(string \<times> json) list"

section \<open>Grammar\<close>

definition skip_space :: "string \<Rightarrow> string" where
  "skip_space s = dropWhile json_space s"

lemma length_skip_space: "length (skip_space s) \<le> length s"
  by (simp add: skip_space_def length_dropWhile_le)

lemma skip_space_Cons: "skip_space s = c # t \<Longrightarrow> length t < length s"
  using length_skip_space [of s] by simp

definition digit :: "char \<Rightarrow> bool" where
  "digit c \<longleftrightarrow> 48 \<le> byte c \<and> byte c \<le> 57"

text \<open>One or more digits.\<close>

definition digits1 :: "string \<Rightarrow> (string \<times> string) option" where
  "digits1 s = (let ds = takeWhile digit s in if ds = [] then None else Some (ds, dropWhile digit s))"

definition int_part :: "string \<Rightarrow> (string \<times> string) option" where
  "int_part s = (case s of [] \<Rightarrow> None
     | c # t \<Rightarrow> if c = CHR ''0'' then Some ([c], t) else digits1 s)"

definition frac_part :: "string \<Rightarrow> (string \<times> string) option" where
  "frac_part s = (case s of [] \<Rightarrow> Some ([], [])
     | c # t \<Rightarrow> if c = CHR ''.'' then map_option (\<lambda>(d, r). (c # d, r)) (digits1 t) else Some ([], s))"

definition exp_part :: "string \<Rightarrow> (string \<times> string) option" where
  "exp_part s = (case s of [] \<Rightarrow> Some ([], [])
     | c # t \<Rightarrow> if c = CHR ''e'' \<or> c = CHR ''E'' then
         (case t of [] \<Rightarrow> None
          | g # u \<Rightarrow> if g = CHR ''+'' \<or> g = CHR ''-'' then map_option (\<lambda>(d, r). (c # g # d, r)) (digits1 u)
                    else map_option (\<lambda>(d, r). (c # d, r)) (digits1 t))
       else Some ([], s))"

text \<open>A number literal is kept as its text.\<close>

definition parse_number :: "string \<Rightarrow> (string \<times> string) option" where
  "parse_number s =
     (let (sgn, t) = (if has_prefix s ''-'' then (''-'', tl s) else ([], s)) in
      case int_part t of None \<Rightarrow> None
      | Some (i, u) \<Rightarrow> (case frac_part u of None \<Rightarrow> None
        | Some (f, v) \<Rightarrow> (case exp_part v of None \<Rightarrow> None
          | Some (e, r) \<Rightarrow> Some (sgn @ i @ f @ e, r))))"

abbreviation max_nesting :: nat where
  "max_nesting \<equiv> 10000"

lemma json_unquote_rest:
  assumes "json_unquote (c # t) = Some (v, rest)"
    and closed: "rest = t \<Longrightarrow> P"
    and next_part: "\<And>y a. length y < length (c # t) \<Longrightarrow> json_unquote y = Some (a, rest) \<Longrightarrow> P"
  shows P
proof (cases "c = CHR 0x22 \<or> c = CHR 0x5C \<or> byte c < 128")
  case True
  with assms(1) closed show ?thesis
    by (subst (asm) json_unquote.simps)
       (auto split: list.splits if_splits option.splits prod.splits intro: next_part [rotated])
next
  case False
  obtain r n where rn: "decode_rune (c # t) = (r, n)" by (cases "decode_rune (c # t)")
  then have "length (drop n (c # t)) < length (c # t)"
    using decode_rune_width [of "c # t" r n] by (simp add: diff_less)
  with False assms(1) rn show ?thesis
    by (subst (asm) json_unquote.simps) (auto split: if_splits intro: next_part [rotated])
qed

lemma json_unquote_length: "json_unquote s = Some (v, rest) \<Longrightarrow> length rest < length s"
proof (induction "length s" arbitrary: s v rest rule: less_induct)
  case less
  show ?case
  proof (cases s)
    case Nil
    with less.prems show ?thesis by (simp add: json_unquote.simps [of "[]"])
  next
    case (Cons c t)
    from less.prems [unfolded Cons] show ?thesis
    proof (rule json_unquote_rest)
      assume "rest = t"
      with Cons show ?thesis by simp
    next
      fix y a
      assume "length y < length (c # t)" "json_unquote y = Some (a, rest)"
      with less.hyps [of y a rest] Cons show ?thesis by simp
    qed
  qed
qed

text \<open>
  The grammar. \<open>parse_elems\<close> and \<open>parse_members\<close> read from after the opening bracket or
  a comma to the closing bracket. The comparison of lengths after a nested value is
  always true (\<open>parse_value_length\<close>); it makes the recursion well-founded.
\<close>

function (sequential)
    parse_value :: "nat \<Rightarrow> string \<Rightarrow> (json \<times> string) option"
  and parse_elems :: "nat \<Rightarrow> string \<Rightarrow> (json list \<times> string) option"
  and parse_members :: "nat \<Rightarrow> string \<Rightarrow> ((string \<times> json) list \<times> string) option" where
  "parse_value d s = (case skip_space s of [] \<Rightarrow> None
     | c # t \<Rightarrow>
        if c = CHR ''{'' then
          (if d \<ge> max_nesting then None
           else if has_prefix (skip_space t) ''}'' then Some (JObj [], tl (skip_space t))
           else map_option (\<lambda>(ms, r). (JObj ms, r)) (parse_members (Suc d) t))
        else if c = CHR ''['' then
          (if d \<ge> max_nesting then None
           else if has_prefix (skip_space t) '']'' then Some (JArr [], tl (skip_space t))
           else map_option (\<lambda>(es, r). (JArr es, r)) (parse_elems (Suc d) t))
        else if c = CHR 0x22 then map_option (\<lambda>(v, r). (JStr v, r)) (json_unquote t)
        else if has_prefix (c # t) ''null'' then Some (JNull, drop 4 (c # t))
        else if has_prefix (c # t) ''true'' then Some (JBool True, drop 4 (c # t))
        else if has_prefix (c # t) ''false'' then Some (JBool False, drop 5 (c # t))
        else map_option (\<lambda>(n, r). (JNum n, r)) (parse_number (c # t)))"
| "parse_elems d s = (case parse_value d s of None \<Rightarrow> None
     | Some (v, r) \<Rightarrow> (case skip_space r of [] \<Rightarrow> None
        | c # t \<Rightarrow>
           if c = CHR '']'' then Some ([v], t)
           else if c = CHR '','' \<and> length t < length s then
             map_option (\<lambda>(vs, u). (v # vs, u)) (parse_elems d t)
           else None))"
| "parse_members d s = (case skip_space s of [] \<Rightarrow> None
     | q # t \<Rightarrow>
        if q \<noteq> CHR 0x22 then None
        else (case json_unquote t of None \<Rightarrow> None
        | Some (k, u) \<Rightarrow> (case skip_space u of [] \<Rightarrow> None
          | e # w \<Rightarrow>
             if e \<noteq> CHR '':'' then None
             else (case parse_value d w of None \<Rightarrow> None
             | Some (v, r) \<Rightarrow> (case skip_space r of [] \<Rightarrow> None
               | c # x \<Rightarrow>
                  if c = CHR ''}'' then Some ([(k, v)], x)
                  else if c = CHR '','' \<and> length x < length s then
                    map_option (\<lambda>(ms, y). ((k, v) # ms, y)) (parse_members d x)
                  else None)))))"
  by pat_completeness auto

termination
proof (relation "measure (\<lambda>x. case x of Inl (d, s) \<Rightarrow> 2 * length s
    | Inr (Inl (d, s)) \<Rightarrow> 2 * length s + 1 | Inr (Inr (d, s)) \<Rightarrow> 2 * length s + 1)", goal_cases)
  case 1
  show ?case by simp
next
  case (6 d s q t a k u e w)
  then show ?case
    using skip_space_Cons [of s q t] json_unquote_length [of t k u] skip_space_Cons [of u e w] by simp
qed (auto dest!: skip_space_Cons)

declare parse_value.simps [simp del] parse_elems.simps [simp del] parse_members.simps [simp del]

text \<open>\<open>checkValid\<close>: one value and white space.\<close>

definition json_parse :: "string \<Rightarrow> json option" where
  "json_parse s = (case parse_value 0 s of
     Some (v, r) \<Rightarrow> if skip_space r = [] then Some v else None | None \<Rightarrow> None)"

lemma digits1_length: "digits1 s = Some (ds, r) \<Longrightarrow> length r < length s"
proof -
  assume "digits1 s = Some (ds, r)"
  then have "ds \<noteq> []" and "s = ds @ r" by (auto simp: digits1_def Let_def split: if_splits)
  then show "length r < length s" by simp
qed

lemma parse_number_length: "parse_number s = Some (n, r) \<Longrightarrow> length r < length s"
proof -
  assume p: "parse_number s = Some (n, r)"
  have int: "length b < length a" if "int_part a = Some (x, b)" for a b x
    using that by (auto simp: int_part_def split: list.splits if_splits dest!: digits1_length)
  have frac: "length b \<le> length a" if "frac_part a = Some (x, b)" for a b x
    using that digits1_length by (fastforce simp: frac_part_def split: list.splits if_splits)
  have expo: "length b \<le> length a" if "exp_part a = Some (x, b)" for a b x
    using that digits1_length by (fastforce simp: exp_part_def split: list.splits if_splits)
  from p obtain i u f v e where "int_part (if has_prefix s ''-'' then tl s else s) = Some (i, u)"
    "frac_part u = Some (f, v)" "exp_part v = Some (e, r)"
    by (auto simp: parse_number_def Let_def split: if_splits option.splits)
  with int [of _ i u] frac expo show "length r < length s"
    by (fastforce split: if_splits)
qed

lemma parse_length:
  "parse_value d s = Some (v, r) \<Longrightarrow> length r < length s"
  "parse_elems d s = Some (vs, r) \<Longrightarrow> length r < length s"
  "parse_members d s = Some (ms, r) \<Longrightarrow> length r < length s"
proof (induction d s and d s and d s arbitrary: v r and vs r and ms r
    rule: parse_value_parse_elems_parse_members.induct)
  case (1 d s)
  show ?case
  proof (cases "skip_space s")
    case Nil
    with 1 show ?thesis by (simp add: parse_value.simps)
  next
    case (Cons c t)
    have t: "length t < length s" using Cons by (rule skip_space_Cons)
    have tl: "length (tl (skip_space t)) < length s" using length_skip_space [of t] t by simp
    show ?thesis
      using "1.prems" "1.IH" [OF Cons] t tl json_unquote_length [of t]
        parse_number_length [of "c # t"]
      by (auto simp: parse_value.simps [of d s] Cons split: if_splits dest: less_trans)
  qed
next
  case (2 d s)
  then show ?case
    by (auto simp: parse_elems.simps [of d s] split: option.splits list.splits if_splits
        dest!: skip_space_Cons) (meson less_trans)
next
  case (3 d s)
  then show ?case
    by (auto simp: parse_members.simps [of d s] split: option.splits list.splits if_splits
        dest!: skip_space_Cons json_unquote_length) (meson less_trans)+
qed

section \<open>Struct fields\<close>

definition type_error :: goerr where
  "type_error = Errorf ''json: cannot unmarshal value into Go struct field''"

text \<open>\<open>null\<close> leaves a value alone and makes a pointer nil.\<close>

fun into_string :: "json \<Rightarrow> string \<Rightarrow> goerr + string" where
  "into_string JNull old = Inr old"
| "into_string (JStr s) old = Inr s"
| "into_string _ old = Inl type_error"

fun into_string_ptr :: "json \<Rightarrow> string option \<Rightarrow> goerr + string option" where
  "into_string_ptr JNull old = Inr None"
| "into_string_ptr (JStr s) old = Inr (Some s)"
| "into_string_ptr _ old = Inl type_error"

text \<open>\<open>strconv.ParseInt(text, 10, 64)\<close> of a number literal.\<close>

fun decimal :: "nat \<Rightarrow> string \<Rightarrow> nat option" where
  "decimal v [] = Some v"
| "decimal v (c # s) = (if digit c then decimal (v * 10 + (byte c - 48)) s else None)"

definition parse_int :: "string \<Rightarrow> int option" where
  "parse_int s = (let neg = has_prefix s ''-''; t = (if neg then tl s else s) in
     if t = [] then None
     else case decimal 0 t of None \<Rightarrow> None
     | Some v \<Rightarrow> let n = (if neg then - int v else int v) in
         if - (2 ^ 63) \<le> n \<and> n < 2 ^ 63 then Some n else None)"

fun into_int :: "json \<Rightarrow> int \<Rightarrow> goerr + int" where
  "into_int JNull old = Inr old"
| "into_int (JNum t) old = (case parse_int t of Some n \<Rightarrow> Inr n | None \<Rightarrow> Inl type_error)"
| "into_int _ old = Inl type_error"

text \<open>
  The members in order, so that a later duplicate wins; names match up to the case of
  ASCII letters, and unknown names are ignored.
\<close>

fun into_struct :: "(string \<Rightarrow> json \<Rightarrow> 'c \<Rightarrow> goerr + 'c) \<Rightarrow> (string \<times> json) list \<Rightarrow> 'c \<Rightarrow> goerr + 'c" where
  "into_struct f [] c = Inr c"
| "into_struct f ((k, v) # ms) c = (case f (to_lower k) v c of Inl e \<Rightarrow> Inl e | Inr c' \<Rightarrow> into_struct f ms c')"

definition json_unmarshal_struct :: "(string \<Rightarrow> json \<Rightarrow> 'c \<Rightarrow> goerr + 'c) \<Rightarrow> 'c \<Rightarrow> string \<Rightarrow> goerr + 'c" where
  "json_unmarshal_struct f zero data = (case json_parse data of
     None \<Rightarrow> Inl (Errorf ''invalid JSON'')
   | Some (JObj ms) \<Rightarrow> into_struct f ms zero
   | Some JNull \<Rightarrow> Inr zero
   | Some _ \<Rightarrow> Inl type_error)"

end
