(* ===== verification/Checkers.thy ===== *)
theory Checkers
  imports Ports Hostnames Json_Value
begin

text \<open>
  \<open>internal/adapter/checker\<close>: the configurations of the three kinds of monitor, what
  counts as up and as down, and the registry. The network is a parameter: what a
  connection, a lookup and a request at a given time give, and how long they take; so
  are \<open>url.Parse\<close> and the validity check of \<open>http.NewRequest\<close>.
\<close>

section \<open>The network\<close>

text \<open>A response: its status, and its body as bytes followed by the end or an error.\<close>

record http_response =
  hr_status :: int
  hr_body :: string
  hr_body_error :: "string option"

record network =
  net_url_host :: "string \<Rightarrow> goerr + string"
  net_request_error :: "string \<Rightarrow> string \<Rightarrow> string option"
  net_http :: "string \<Rightarrow> string \<Rightarrow> string \<Rightarrow> duration \<Rightarrow> time \<Rightarrow> duration \<times> (string + http_response)"
  net_dial :: "string \<Rightarrow> duration \<Rightarrow> time \<Rightarrow> duration \<times> (string + unit)"
  net_lookup :: "string \<Rightarrow> string option \<Rightarrow> duration \<Rightarrow> time \<Rightarrow> duration \<times> (string + string list)"

text \<open>\<open>time.Duration(n) * time.Second\<close> in 64 bits, and \<open>int(d.Milliseconds())\<close>.\<close>

definition go_seconds :: "int \<Rightarrow> duration" where
  "go_seconds n = sint (word_of_int (n * 1000000000) :: 64 word)"

definition milliseconds :: "duration \<Rightarrow> int" where
  "milliseconds d = sgn d * (\<bar>d\<bar> div 1000000)"

definition down_result :: "monitor \<Rightarrow> time \<Rightarrow> int \<Rightarrow> int option \<Rightarrow> string \<Rightarrow> check_result" where
  "down_result m start ms code msg =
     \<lparr>res_id = 0, res_monitor_id = mon_id m, res_status = StatusDown, res_status_code = code,
      res_response_time_ms = ms, res_error_message = Some msg, res_checked_at = start\<rparr>"

definition up_result :: "monitor \<Rightarrow> time \<Rightarrow> int \<Rightarrow> int option \<Rightarrow> check_result" where
  "up_result m start ms code =
     \<lparr>res_id = 0, res_monitor_id = mon_id m, res_status = StatusUp, res_status_code = code,
      res_response_time_ms = ms, res_error_message = None, res_checked_at = start\<rparr>"

section \<open>TCP\<close>

record tcp_check_config =
  tcc_host :: string
  tcc_port :: int
  tcc_timeout :: int

definition tcp_field :: "string \<Rightarrow> json \<Rightarrow> tcp_check_config \<Rightarrow> goerr + tcp_check_config" where
  "tcp_field k v c =
     (if k = ''host'' then map_sum id (\<lambda>x. c\<lparr>tcc_host := x\<rparr>) (into_string v (tcc_host c))
      else if k = ''port'' then map_sum id (\<lambda>x. c\<lparr>tcc_port := x\<rparr>) (into_int v (tcc_port c))
      else if k = ''timeout'' then map_sum id (\<lambda>x. c\<lparr>tcc_timeout := x\<rparr>) (into_int v (tcc_timeout c))
      else Inr c)"

definition tcp_config :: "string \<Rightarrow> goerr + tcp_check_config" where
  "tcp_config raw = json_unmarshal_struct tcp_field \<lparr>tcc_host = [], tcc_port = 0, tcc_timeout = 0\<rparr> raw"

definition TCPChecker_ValidateConfig :: "string \<Rightarrow> goerr + unit" where
  "TCPChecker_ValidateConfig raw = (case tcp_config raw of
     Inl e \<Rightarrow> Inl (Wrapped ''invalid tcp config'' e)
   | Inr cfg \<Rightarrow>
       if tcc_host cfg = [] then Inl (Errorf ''host required'')
       else if tcc_port cfg \<le> 0 \<or> tcc_port cfg > 65535 then Inl (Errorf ''port must be 1-65535'')
       else Inr ())"

definition TCPChecker_Target :: "string \<Rightarrow> goerr + string" where
  "TCPChecker_Target raw = (case tcp_config raw of
     Inl e \<Rightarrow> Inl (Wrapped ''invalid tcp config'' e)
   | Inr cfg \<Rightarrow> Inr (''tcp://'' @ tcc_host cfg @ '':'' @ int_to_dec (tcc_port cfg)))"

definition TCPChecker_Host :: "string \<Rightarrow> goerr + string" where
  "TCPChecker_Host raw = (case tcp_config raw of
     Inl e \<Rightarrow> Inl (Wrapped ''invalid tcp config'' e) | Inr cfg \<Rightarrow> Inr (tcc_host cfg))"

definition JoinHostPort :: "string \<Rightarrow> string \<Rightarrow> string" where
  "JoinHostPort host p =
     (if CHR '':'' \<in> set host then ''['' @ host @ '']:'' @ p else host @ '':'' @ p)"

definition TCPChecker_Check :: "network \<Rightarrow> duration \<Rightarrow> monitor \<Rightarrow> check_result io" where
  "TCPChecker_Check net default_timeout m = bindE clock_now (\<lambda>start.
     returnE (case tcp_config (mon_check_config m) of
       Inl e \<Rightarrow> down_result m start 0 None (''invalid tcp config: '' @ error_text e)
     | Inr cfg \<Rightarrow>
         let timeout = (if tcc_timeout cfg > 0 then go_seconds (tcc_timeout cfg) else default_timeout) in
         case net_dial net (JoinHostPort (tcc_host cfg) (int_to_dec (tcc_port cfg))) timeout start of
           (d, Inl err) \<Rightarrow> down_result m start (milliseconds d) None (''tcp connect failed: '' @ err)
         | (d, Inr _) \<Rightarrow> up_result m start (milliseconds d) None))"

section \<open>DNS\<close>

record dns_check_config =
  dcc_hostname :: string
  dcc_expected_ip :: "string option"
  dcc_dns_server :: "string option"
  dcc_timeout :: int

definition dns_field :: "string \<Rightarrow> json \<Rightarrow> dns_check_config \<Rightarrow> goerr + dns_check_config" where
  "dns_field k v c =
     (if k = ''hostname'' then map_sum id (\<lambda>x. c\<lparr>dcc_hostname := x\<rparr>) (into_string v (dcc_hostname c))
      else if k = ''expected_ip'' then map_sum id (\<lambda>x. c\<lparr>dcc_expected_ip := x\<rparr>) (into_string_ptr v (dcc_expected_ip c))
      else if k = ''dns_server'' then map_sum id (\<lambda>x. c\<lparr>dcc_dns_server := x\<rparr>) (into_string_ptr v (dcc_dns_server c))
      else if k = ''timeout'' then map_sum id (\<lambda>x. c\<lparr>dcc_timeout := x\<rparr>) (into_int v (dcc_timeout c))
      else Inr c)"

definition dns_config :: "string \<Rightarrow> goerr + dns_check_config" where
  "dns_config raw = json_unmarshal_struct dns_field
     \<lparr>dcc_hostname = [], dcc_expected_ip = None, dcc_dns_server = None, dcc_timeout = 0\<rparr> raw"

definition DNSChecker_ValidateConfig :: "string \<Rightarrow> goerr + unit" where
  "DNSChecker_ValidateConfig raw = (case dns_config raw of
     Inl e \<Rightarrow> Inl (Wrapped ''invalid dns config'' e)
   | Inr cfg \<Rightarrow> if dcc_hostname cfg = [] then Inl (Errorf ''hostname required'') else Inr ())"

definition DNSChecker_Target :: "string \<Rightarrow> goerr + string" where
  "DNSChecker_Target raw = (case dns_config raw of
     Inl e \<Rightarrow> Inl (Wrapped ''invalid dns config'' e) | Inr cfg \<Rightarrow> Inr (''dns://'' @ dcc_hostname cfg))"

definition DNSChecker_Host :: "string \<Rightarrow> goerr + string" where
  "DNSChecker_Host raw = (case dns_config raw of
     Inl e \<Rightarrow> Inl (Wrapped ''invalid dns config'' e) | Inr cfg \<Rightarrow> Inr (dcc_hostname cfg))"

text \<open>A pointer to the empty string counts as not set.\<close>

definition set_string :: "string option \<Rightarrow> string option" where
  "set_string v = (case v of None \<Rightarrow> None | Some s \<Rightarrow> if s = [] then None else Some s)"

definition DNSChecker_Check :: "network \<Rightarrow> monitor \<Rightarrow> check_result io" where
  "DNSChecker_Check net m = bindE clock_now (\<lambda>start.
     returnE (case dns_config (mon_check_config m) of
       Inl e \<Rightarrow> down_result m start 0 None (''invalid dns config: '' @ error_text e)
     | Inr cfg \<Rightarrow>
         let timeout = (if dcc_timeout cfg > 0 then go_seconds (dcc_timeout cfg) else seconds 10) in
         case net_lookup net (dcc_hostname cfg) (set_string (dcc_dns_server cfg)) timeout start of
           (d, Inl err) \<Rightarrow> down_result m start (milliseconds d) None (''dns lookup failed: '' @ err)
         | (d, Inr ips) \<Rightarrow>
             if ips = [] then down_result m start (milliseconds d) None ''dns lookup returned no results''
             else (case set_string (dcc_expected_ip cfg) of
               Some ip \<Rightarrow>
                 if ip \<notin> set ips then
                   down_result m start (milliseconds d) None
                     (''expected IP '' @ ip @ '' not found in results: ['' @ concat (map (\<lambda>i. i @ '' '') ips) @ '']'')
                 else up_result m start (milliseconds d) None
             | None \<Rightarrow> up_result m start (milliseconds d) None)))"

section \<open>HTTP\<close>

record http_check_config =
  hcc_url :: string
  hcc_method :: string
  hcc_expected_status :: int
  hcc_keyword :: "string option"
  hcc_timeout :: int
  hcc_body_limit :: int
  hcc_user_agent :: string

definition http_field :: "string \<Rightarrow> json \<Rightarrow> http_check_config \<Rightarrow> goerr + http_check_config" where
  "http_field k v c =
     (if k = ''url'' then map_sum id (\<lambda>x. c\<lparr>hcc_url := x\<rparr>) (into_string v (hcc_url c))
      else if k = ''method'' then map_sum id (\<lambda>x. c\<lparr>hcc_method := x\<rparr>) (into_string v (hcc_method c))
      else if k = ''expected_status'' then
        map_sum id (\<lambda>x. c\<lparr>hcc_expected_status := x\<rparr>) (into_int v (hcc_expected_status c))
      else if k = ''keyword'' then map_sum id (\<lambda>x. c\<lparr>hcc_keyword := x\<rparr>) (into_string_ptr v (hcc_keyword c))
      else if k = ''timeout'' then map_sum id (\<lambda>x. c\<lparr>hcc_timeout := x\<rparr>) (into_int v (hcc_timeout c))
      else if k = ''body_limit'' then map_sum id (\<lambda>x. c\<lparr>hcc_body_limit := x\<rparr>) (into_int v (hcc_body_limit c))
      else if k = ''user_agent'' then map_sum id (\<lambda>x. c\<lparr>hcc_user_agent := x\<rparr>) (into_string v (hcc_user_agent c))
      else Inr c)"

definition http_config :: "string \<Rightarrow> goerr + http_check_config" where
  "http_config raw = json_unmarshal_struct http_field
     \<lparr>hcc_url = [], hcc_method = [], hcc_expected_status = 0, hcc_keyword = None, hcc_timeout = 0,
      hcc_body_limit = 0, hcc_user_agent = []\<rparr> raw"

definition HTTPChecker_ValidateConfig :: "network \<Rightarrow> string \<Rightarrow> goerr + unit" where
  "HTTPChecker_ValidateConfig net raw = (case http_config raw of
     Inl e \<Rightarrow> Inl (Wrapped ''invalid http config'' e)
   | Inr cfg \<Rightarrow>
       if hcc_url cfg = [] then Inl (Errorf ''url required'')
       else case net_url_host net (hcc_url cfg) of
         Inl e \<Rightarrow> Inl (Wrapped ''invalid url'' e) | Inr _ \<Rightarrow> Inr ())"

definition method_or_get :: "http_check_config \<Rightarrow> string" where
  "method_or_get cfg = (if hcc_method cfg = [] then ''GET'' else hcc_method cfg)"

definition HTTPChecker_Target :: "string \<Rightarrow> goerr + string" where
  "HTTPChecker_Target raw = (case http_config raw of
     Inl e \<Rightarrow> Inl (Wrapped ''invalid http config'' e)
   | Inr cfg \<Rightarrow> Inr (method_or_get cfg @ '' '' @ hcc_url cfg))"

definition HTTPChecker_Host :: "network \<Rightarrow> string \<Rightarrow> goerr + string" where
  "HTTPChecker_Host net raw = (case http_config raw of
     Inl e \<Rightarrow> Inl (Wrapped ''invalid http config'' e)
   | Inr cfg \<Rightarrow> (case net_url_host net (hcc_url cfg) of
       Inl e \<Rightarrow> Inl (Wrapped ''invalid url'' e) | Inr h \<Rightarrow> Inr h))"

definition classifyError :: "string \<Rightarrow> string" where
  "classifyError errStr =
     (if str_contains errStr ''timeout'' \<or> str_contains errStr ''deadline exceeded'' then ''timeout''
      else if str_contains errStr ''tls'' \<or> str_contains errStr ''certificate'' \<or> str_contains errStr ''x509''
      then ''TLS error: '' @ errStr
      else if str_contains errStr ''no such host'' then ''DNS resolution failed''
      else if str_contains errStr ''connection refused'' then ''connection refused''
      else errStr)"

text \<open>\<open>io.ReadAll(io.LimitReader(body, n))\<close>: a failure past the limit is not seen.\<close>

definition read_limited :: "http_response \<Rightarrow> nat \<Rightarrow> string + string" where
  "read_limited resp n =
     (if length (hr_body resp) \<ge> n then Inr (take n (hr_body resp))
      else case hr_body_error resp of Some e \<Rightarrow> Inl e | None \<Rightarrow> Inr (hr_body resp))"

definition default_user_agent :: string where
  "default_user_agent = ''PingCast/1.0 (uptime monitor; https://pingcast.io)''"

definition judge_response :: "http_check_config \<Rightarrow> http_response \<Rightarrow> string option" where
  "judge_response cfg resp =
     (let expectedStatus = (if hcc_expected_status cfg = 0 then 200 else hcc_expected_status cfg) in
      if hr_status resp \<noteq> expectedStatus then
        Some (''expected status '' @ int_to_dec expectedStatus @ '', got '' @ int_to_dec (hr_status resp))
      else case set_string (hcc_keyword cfg) of
        None \<Rightarrow> None
      | Some kw \<Rightarrow>
          let bodyLimit = (if hcc_body_limit cfg > 0 then nat (hcc_body_limit cfg) else 1048576) in
          (case read_limited resp bodyLimit of
             Inl e \<Rightarrow> Some (''failed to read body: '' @ e)
           | Inr body \<Rightarrow>
               if \<not> str_contains body kw then Some (''keyword '' @ go_quote kw @ '' not found in response body'')
               else None))"

definition HTTPChecker_Check :: "network \<Rightarrow> int \<Rightarrow> monitor \<Rightarrow> check_result io" where
  "HTTPChecker_Check net default_secs m = bindE clock_now (\<lambda>start.
     returnE (case http_config (mon_check_config m) of
       Inl e \<Rightarrow> down_result m start 0 None (''invalid http config: '' @ error_text e)
     | Inr cfg \<Rightarrow>
         (case net_request_error net (method_or_get cfg) (hcc_url cfg) of
            Some e \<Rightarrow> down_result m start 0 None (''invalid request: '' @ e)
          | None \<Rightarrow>
              let ua = (if hcc_user_agent cfg = [] then default_user_agent else hcc_user_agent cfg);
                  secs = (if hcc_timeout cfg > 0 then hcc_timeout cfg else default_secs) in
              (case net_http net (method_or_get cfg) (hcc_url cfg) ua (go_seconds secs) start of
                 (d, Inl err) \<Rightarrow> down_result m start (milliseconds d) None (classifyError err)
               | (d, Inr resp) \<Rightarrow> (case judge_response cfg resp of
                   Some msg \<Rightarrow> down_result m start (milliseconds d) (Some (hr_status resp)) msg
                 | None \<Rightarrow> up_result m start (milliseconds d) (Some (hr_status resp)))))))"

section \<open>The registry\<close>

type_synonym registry = "(string \<times> string \<times> monitor_checker) list"

definition Registry_Get :: "registry \<Rightarrow> string \<Rightarrow> goerr + monitor_checker" where
  "Registry_Get r t = (case map_of r t of
     None \<Rightarrow> Inl (Errorf (''unknown monitor type: '' @ t)) | Some (label, c) \<Rightarrow> Inr c)"

definition Registry_ValidateConfig :: "registry \<Rightarrow> string \<Rightarrow> string \<Rightarrow> goerr + unit" where
  "Registry_ValidateConfig r t raw = (case Registry_Get r t of
     Inl e \<Rightarrow> Inl e | Inr c \<Rightarrow> MonitorChecker_ValidateConfig c raw)"

definition Registry_Target :: "registry \<Rightarrow> string \<Rightarrow> string \<Rightarrow> goerr + string" where
  "Registry_Target r t raw = (case Registry_Get r t of
     Inl e \<Rightarrow> Inl e | Inr c \<Rightarrow> MonitorChecker_Target c raw)"

definition Registry_Host :: "registry \<Rightarrow> string \<Rightarrow> string \<Rightarrow> goerr + string" where
  "Registry_Host r t raw = (case Registry_Get r t of
     Inl e \<Rightarrow> Inl e | Inr c \<Rightarrow> MonitorChecker_Host c raw)"

definition registry_port :: "registry \<Rightarrow> checker_registry" where
  "registry_port r = \<lparr>CheckerRegistry_Get = Registry_Get r,
     CheckerRegistry_ValidateConfig = Registry_ValidateConfig r,
     CheckerRegistry_Target = Registry_Target r, CheckerRegistry_Host = Registry_Host r\<rparr>"

text \<open>
  The registrations of \<open>bootstrap\<close>; \<open>secs\<close> is the default timeout: the configured one in
  the worker, 10 in the API.
\<close>

definition checkers :: "network \<Rightarrow> int \<Rightarrow> registry" where
  "checkers net secs =
     [(MonitorHTTP, ''HTTP'', \<lparr>MonitorChecker_Check = HTTPChecker_Check net secs,
         MonitorChecker_ValidateConfig = HTTPChecker_ValidateConfig net,
         MonitorChecker_Target = HTTPChecker_Target, MonitorChecker_Host = HTTPChecker_Host net\<rparr>),
      (MonitorTCP, ''TCP'', \<lparr>MonitorChecker_Check = TCPChecker_Check net (go_seconds secs),
         MonitorChecker_ValidateConfig = TCPChecker_ValidateConfig,
         MonitorChecker_Target = TCPChecker_Target, MonitorChecker_Host = TCPChecker_Host\<rparr>),
      (MonitorDNS, ''DNS'', \<lparr>MonitorChecker_Check = DNSChecker_Check net,
         MonitorChecker_ValidateConfig = DNSChecker_ValidateConfig,
         MonitorChecker_Target = DNSChecker_Target, MonitorChecker_Host = DNSChecker_Host\<rparr>)]"

lemma checkers_quiet: "checkers_quiet (registry_port (checkers net secs))"
  unfolding checkers_quiet_def
  by (auto simp: registry_port_def Registry_Get_def checkers_def TCPChecker_Check_def DNSChecker_Check_def
      HTTPChecker_Check_def clock_now_def split: if_splits option.splits intro!: viewing.rules)

end
