(* ===== verification/Monitoring_Invariants.thy ===== *)
theory Monitoring_Invariants
  imports Monitoring_Frame Crypto_Facts Checkers "HOL-Library.Sublist"
begin

text \<open>
  The two relations that the contracts of \<open>Monitoring_Frame\<close> are used with, for the
  monitoring service as it is deployed: with the key ring or without encryption, with the
  registered checkers over any network, in the API and in the worker.
\<close>

section \<open>Deployments\<close>

text \<open>What \<open>InitCipher\<close> can return: the cipher that does nothing, or an encryptor.\<close>

definition deployed_cipher :: "encryptor option \<Rightarrow> cipher" where
  "deployed_cipher k = (case k of None \<Rightarrow> NoOpCipher | Some e \<Rightarrow> Encryptor e)"

lemma deployed_cipher_quiet: "cipher_quiet (deployed_cipher k)"
  by (cases k) (simp_all add: deployed_cipher_def cipher_quiet_NoOp cipher_quiet_Encryptor)

definition api :: "encryptor option \<Rightarrow> network \<Rightarrow> monitoring_service" where
  "api k net = app_monitoring (deployed_cipher k) (registry_port (checkers net 10))"

definition worker :: "encryptor option \<Rightarrow> network \<Rightarrow> int \<Rightarrow> monitoring_service" where
  "worker k net secs = worker_monitoring (deployed_cipher k) (registry_port (checkers net secs))"

section \<open>One open incident per monitor\<close>

lemmas insert_statements =
  q_CreateMonitor_def q_InsertCheckResult_def q_CreateMaintenanceWindow_def
  q_CreateMonitorGroup_def q_CreateIncidentUpdate_def

lemmas update_statements =
  q_DeleteMonitor_def q_ToggleMonitorPause_def q_UpdateMonitor_def q_UpdateMonitorStatus_def
  q_BindChannelToMonitor_def q_UpsertUptimeHourly_def q_DeleteMaintenanceWindow_def
  q_UpdateMonitorGroup_def q_DeleteMonitorGroup_def q_AssignMonitorToGroup_def

lemma incidents_ok_cong: "t_incidents d' = t_incidents d \<Longrightarrow> incidents_ok d' = incidents_ok d"
  by (simp add: incidents_ok_def one_open_incident_def incident_keys_def)

interpretation ok_store: store_steps "db_keeps incidents_ok"
proof (unfold_locales, goal_cases)
  case (4 ci)
  show ?case by (rule q_CreateIncident_keeps)
next
  case (5 n t)
  show ?case by (rule q_ResolveIncident_keeps)
next
  case (6 n st)
  show ?case by (rule q_UpdateIncidentState_keeps)
qed (simp_all add: insert_statements update_statements,
     (intro keeping.bindE db_keeping.nextval db_keeping.gen_random_uuid db_keeping.statement;
      auto simp: Let_def one_row_def split: if_splits list.splits elim!: incidents_ok_cong [THEN iffD2, rotated])+)


interpretation ok_api: pg_ports "db_keeps incidents_ok" "deployed_cipher k"
    "registry_port (checkers net secs)" "Some PublishMonitorChanged" for k net secs
  by unfold_locales
     (auto simp: deployed_cipher_quiet checkers_quiet ok_store.PublishMonitorChanged)

interpretation ok_worker: pg_ports "db_keeps incidents_ok" "deployed_cipher k"
    "registry_port (checkers net secs)" None for k net secs
  by unfold_locales (auto simp: deployed_cipher_quiet checkers_quiet)

section \<open>History only grows\<close>

text \<open>
  What the service never undoes: the accounts are not touched; a monitor row stays, with
  its owner, its type and its date, also when the monitor is deleted; an incident keeps its
  monitor, start, cause and title; the timeline, the check results and the channel
  bindings are only appended to.
\<close>

definition monitor_key :: "monitor_row \<Rightarrow> uuid \<times> uuid \<times> string \<times> time" where
  "monitor_key r = (mnr_id r, mnr_user_id r, mnr_type r, mnr_created_at r)"

definition incident_key :: "incident_row \<Rightarrow> int \<times> uuid \<times> time \<times> string \<times> bool \<times> string option" where
  "incident_key r = (inr_id r, inr_monitor_id r, inr_started_at r, inr_cause r, inr_is_manual r, inr_title r)"

definition history :: "database \<Rightarrow> database \<Rightarrow> bool" where
  "history d d' \<longleftrightarrow>
     t_users d' = t_users d \<and> t_api_keys d' = t_api_keys d \<and> t_channels d' = t_channels d
     \<and> prefix (map monitor_key (t_monitors d)) (map monitor_key (t_monitors d'))
     \<and> prefix (map incident_key (t_incidents d)) (map incident_key (t_incidents d'))
     \<and> prefix (t_incident_updates d) (t_incident_updates d')
     \<and> prefix (t_check_results d) (t_check_results d')
     \<and> prefix (t_monitor_channels d) (t_monitor_channels d')"

lemma history_refl: "history d d"
  by (simp add: history_def)

lemma history_trans: "history a b \<Longrightarrow> history b c \<Longrightarrow> history a c"
  by (auto simp: history_def intro: prefix_order.trans)

abbreviation grows :: "world \<Rightarrow> world \<Rightarrow> bool" where
  "grows w w' \<equiv> history (w_db w) (w_db w')"

interpretation growing: world_rel grows
  by unfold_locales (auto simp: history_refl intro: history_trans)

lemma monitor_key_update:
  "(\<And>r. monitor_key (f r) = monitor_key r) \<Longrightarrow>
     map monitor_key (update_where p f rows) = map monitor_key rows"
  by (simp add: map_update_where)

lemma incident_key_update:
  "(\<And>r. incident_key (f r) = incident_key r) \<Longrightarrow>
     map incident_key (update_where p f rows) = map incident_key rows"
  by (simp add: map_update_where)

lemmas history_simps = history_def monitor_key_update incident_key_update monitor_key_def incident_key_def

interpretation grow_store: store_steps grows
  by unfold_locales
     (simp_all add: insert_statements update_statements history_refl q_CreateIncident_def
        q_ResolveIncident_def q_UpdateIncidentState_def,
      (intro growing.bindE growing.nextval growing.gen_random_uuid growing.statement;
       auto simp: Let_def one_row_def history_simps map_update_where split: if_splits list.splits)+)

interpretation grow_api: pg_ports grows "deployed_cipher k"
    "registry_port (checkers net secs)" "Some PublishMonitorChanged" for k net secs
  by unfold_locales
     (auto simp: deployed_cipher_quiet checkers_quiet grow_store.PublishMonitorChanged)

interpretation grow_worker: pg_ports grows "deployed_cipher k"
    "registry_port (checkers net secs)" None for k net secs
  by unfold_locales (auto simp: deployed_cipher_quiet checkers_quiet)

end
