(* ===== verification/System.thy ===== *)
theory System
  imports Monitoring_Invariants
begin

text \<open>
  The running system: the authenticated calls that the HTTP handlers of
  \<open>internal/adapter/http\<close> make to the monitoring service (the user comes from the session
  or the API key, the rest from the request), the check tasks of the worker, and everything
  else that happens around them. An execution is any sequence of such steps, with any
  failures of the external services.
\<close>

section \<open>Requests\<close>

text \<open>
  One constructor per handler; the arguments are what the request body and the path carry.
  A field that is absent from the body of \<open>CreateMonitor\<close> is the zero value, which the
  service replaces by a default; the body has no list of channels.
\<close>

datatype api_call =
    CallCreateMonitor string string string int int bool
  | CallUpdateMonitor uuid update_monitor_input
  | CallDeleteMonitor uuid
  | CallToggleMonitorPause uuid
  | CallCreateIncident uuid string string
  | CallUpdateIncidentState int string string
  | CallScheduleMaintenanceWindow uuid time time string
  | CallDeleteMaintenanceWindow int
  | CallCreateMonitorGroup string int
  | CallUpdateMonitorGroup int string int
  | CallDeleteMonitorGroup int
  | CallAssignMonitorToGroup uuid "int option"

abbreviation void :: "'a io \<Rightarrow> unit io" where
  "void m \<equiv> bindE m (\<lambda>_. returnE ())"

fun handle_call :: "monitoring_service \<Rightarrow> user \<Rightarrow> api_call \<Rightarrow> unit io" where
  "handle_call s u (CallCreateMonitor name ty cfg interval alert pub) = void (CreateMonitor s u
     \<lparr>cmo_name = name, cmo_type = ty, cmo_check_config = cfg, cmo_interval_seconds = interval,
      cmo_alert_after_failures = alert, cmo_is_public = pub, cmo_channel_ids = []\<rparr>)"
| "handle_call s u (CallUpdateMonitor i inp) = void (UpdateMonitor s u i inp)"
| "handle_call s u (CallDeleteMonitor i) = DeleteMonitor s (usr_id u) i"
| "handle_call s u (CallToggleMonitorPause i) = void (TogglePause s u i)"
| "handle_call s u (CallCreateIncident m title body) = void (CreateManualIncident s
     \<lparr>cmi_monitor_id = m, cmi_user_id = usr_id u, cmi_title = title, cmi_body = body\<rparr>)"
| "handle_call s u (CallUpdateIncidentState i st body) = void (ChangeIncidentState s
     \<lparr>csi_incident_id = i, csi_user_id = usr_id u, csi_new_state = st, csi_update_body = body\<rparr>)"
| "handle_call s u (CallScheduleMaintenanceWindow m from to reason) = void (ScheduleMaintenance s
     \<lparr>smi_monitor_id = m, smi_user_id = usr_id u, smi_starts_at = from, smi_ends_at = to,
      smi_reason = reason\<rparr>)"
| "handle_call s u (CallDeleteMaintenanceWindow i) = DeleteMaintenanceWindow s i (usr_id u)"
| "handle_call s u (CallCreateMonitorGroup name pos) = void (CreateMonitorGroup s (usr_id u) name pos)"
| "handle_call s u (CallUpdateMonitorGroup i name pos) = UpdateMonitorGroup s i (usr_id u) name pos"
| "handle_call s u (CallDeleteMonitorGroup i) = DeleteMonitorGroup s i (usr_id u)"
| "handle_call s u (CallAssignMonitorToGroup m g) = AssignMonitorGroup s m (usr_id u) g"

context monitoring_ports
begin

lemma handle_call: "steps_by R (handle_call s u c)"
  by (cases c) (simp_all, (intro world_rules CreateMonitor UpdateMonitor DeleteMonitor TogglePause
    CreateManualIncident ChangeIncidentState ScheduleMaintenance DeleteMaintenanceWindow groups)+)

end

section \<open>Executions\<close>

text \<open>
  A step is a request of any user, a check task, or a step of the surroundings: time
  passes, other services write their own tables, messages are consumed. The surroundings
  neither write the incidents nor the monitors. An execution starts before the first
  incident.
\<close>

inductive system_step :: "encryptor option \<Rightarrow> network \<Rightarrow> int \<Rightarrow> world \<Rightarrow> world \<Rightarrow> bool"
  for k net secs where
  request: "handle_call (api k net) u c w = (r, w') \<Longrightarrow> system_step k net secs w w'"
| check_task: "worker_handler (deployed_cipher k) (registry_port (checkers net secs)) m w = (r, w') \<Longrightarrow>
     system_step k net secs w w'"
| surroundings: "t_incidents (w_db w') = t_incidents (w_db w) \<Longrightarrow>
     t_monitors (w_db w') = t_monitors (w_db w) \<Longrightarrow> system_step k net secs w w'"

inductive reachable :: "encryptor option \<Rightarrow> network \<Rightarrow> int \<Rightarrow> world \<Rightarrow> bool"
  for k net secs where
  start: "t_incidents (w_db w) = [] \<Longrightarrow> distinct (map mnr_id (t_monitors (w_db w))) \<Longrightarrow>
     reachable k net secs w"
| step: "reachable k net secs w \<Longrightarrow> system_step k net secs w w' \<Longrightarrow> reachable k net secs w'"

context store_steps
begin

lemma worker_get: "steps_by R (pg_MonitorRepo_GetByID C m)"
  by (rule monitor_repo_rules)

end

section \<open>The invariant of the tables\<close>

definition monitor_keys :: "database \<Rightarrow> bool" where
  "monitor_keys d \<longleftrightarrow> unique_on mnr_id (\<lambda>_. True) (t_monitors d)"

text \<open>Every incident belongs to a monitor, as its foreign key says.\<close>

definition incidents_owned :: "database \<Rightarrow> bool" where
  "incidents_owned d \<longleftrightarrow> (\<forall>r \<in> set (t_incidents d). monitor_exists d (inr_monitor_id r))"

definition tables_ok :: "database \<Rightarrow> bool" where
  "tables_ok d \<longleftrightarrow> monitor_keys d \<and> incidents_owned d"

lemma tables_ok_cong:
  assumes "map mnr_id (t_monitors d') = map mnr_id (t_monitors d)"
    and "map inr_monitor_id (t_incidents d') = map inr_monitor_id (t_incidents d)"
  shows "tables_ok d' = tables_ok d"
proof -
  have m: "monitor_exists d' i \<longleftrightarrow> monitor_exists d i" for i
  proof -
    have "monitor_exists e i \<longleftrightarrow> i \<in> set (map mnr_id (t_monitors e))" for e
      by (auto simp: monitor_exists_def)
    then show ?thesis by (simp only: assms(1))
  qed
  have "incidents_owned e \<longleftrightarrow> (\<forall>x \<in> set (map inr_monitor_id (t_incidents e)). monitor_exists e x)" for e
    by (simp add: incidents_owned_def)
  then have "incidents_owned d' = incidents_owned d"
    by (simp only: assms(2) m)
  with assms(1) show ?thesis by (simp add: tables_ok_def monitor_keys_def unique_on_def)
qed

lemma tables_ok_same:
  "tables_ok d \<Longrightarrow> map mnr_id (t_monitors d') = map mnr_id (t_monitors d) \<Longrightarrow>
   map inr_monitor_id (t_incidents d') = map inr_monitor_id (t_incidents d) \<Longrightarrow> tables_ok d'"
  using tables_ok_cong by blast

lemma tables_ok_add_monitor:
  "tables_ok d \<Longrightarrow> \<not> monitor_exists d (mnr_id r) \<Longrightarrow> tables_ok (d\<lparr>t_monitors := t_monitors d @ [r]\<rparr>)"
  by (auto simp: tables_ok_def monitor_keys_def incidents_owned_def monitor_exists_def unique_on_snoc)

lemma tables_ok_add_incident:
  "tables_ok d \<Longrightarrow> monitor_exists d (inr_monitor_id r) \<Longrightarrow> tables_ok (d\<lparr>t_incidents := t_incidents d @ [r]\<rparr>)"
  by (auto simp: tables_ok_def monitor_keys_def incidents_owned_def monitor_exists_def)

interpretation keys_store: store_steps "db_keeps tables_ok"
  by unfold_locales
     (simp_all add: insert_statements update_statements q_CreateIncident_def q_ResolveIncident_def
        q_UpdateIncidentState_def,
      (intro keeping.bindE db_keeping.nextval db_keeping.gen_random_uuid db_keeping.statement;
       auto simp: Let_def one_row_def map_update_where tables_ok_add_monitor tables_ok_add_incident
         split: if_splits list.splits elim: tables_ok_same)+)

interpretation keys_api: pg_ports "db_keeps tables_ok" "deployed_cipher k"
    "registry_port (checkers net secs)" "Some PublishMonitorChanged" for k net secs
  by unfold_locales
     (auto simp: deployed_cipher_quiet checkers_quiet keys_store.PublishMonitorChanged)

interpretation keys_worker: pg_ports "db_keeps tables_ok" "deployed_cipher k"
    "registry_port (checkers net secs)" None for k net secs
  by unfold_locales (auto simp: deployed_cipher_quiet checkers_quiet)

end
