(* ===== verification/Result_Facts.thy ===== *)
theory Result_Facts
  imports Monitoring_Frame
begin

text \<open>
  What the statements on check results and uptime compute, and the equations of an
  operation when no call fails: the script of faults is empty.
\<close>

section \<open>Runs without faults\<close>

lemma external_ok: "w_faults w = [] \<Longrightarrow> external m w = m w"
  by (simp add: external_def)

lemma query_ok: "w_faults w = [] \<Longrightarrow> query q w = (q (w_db w) (w_db_clock w), w)"
  by (simp add: query_def external_ok)

lemma statement_ok: "w_faults w = [] \<Longrightarrow> statement q w = (case q (w_db w) (w_db_clock w) of
    Inl e \<Rightarrow> (Inl e, w) | Inr (x, d) \<Rightarrow> (Inr x, w\<lparr>w_db := d\<rparr>))"
  by (simp add: statement_def external_ok)

lemma tx_do_ok: "w_faults w = [] \<Longrightarrow> w_faults (snd (body w)) = [] \<Longrightarrow>
    tx_do body w = (case body w of (Inl e, w') \<Rightarrow> (Inl e, w'\<lparr>w_db := w_db w\<rparr>) | (Inr x, w') \<Rightarrow> (Inr x, w'))"
  by (auto simp: tx_do_def external_ok split: prod.splits sum.splits)

lemma PublishAlert_ok: "w_faults w = [] \<Longrightarrow>
    PublishAlert ev w = (Inr (), w\<lparr>w_alert_events := w_alert_events w @ [ev]\<rparr>)"
  by (simp add: PublishAlert_def external_ok effect_simps)

lemma PublishMonitorChanged_ok: "w_faults w = [] \<Longrightarrow>
    PublishMonitorChanged ev w = (Inr (), w\<lparr>w_monitor_events := w_monitor_events w @ [ev]\<rparr>)"
  by (simp add: PublishMonitorChanged_def external_ok effect_simps)

lemma nextval_apply: "nextval w = (Inr (w_next_serial w), w\<lparr>w_next_serial := w_next_serial w + 1\<rparr>)"
  by (simp add: nextval_def)

lemma gen_random_uuid_apply: "gen_random_uuid w = (Inr (w_next_uuid w), w\<lparr>w_next_uuid := w_next_uuid w + 1\<rparr>)"
  by (simp add: gen_random_uuid_def)

lemma record_metric_apply: "record_metric m w = (Inr (), w\<lparr>w_metrics := w_metrics w @ [m]\<rparr>)"
  by (simp add: record_metric_def effect_simps)

lemma clock_now_apply: "clock_now w = (Inr (w_app_clock w), w)"
  by (simp add: clock_now_def effect_simps)

lemmas run_simps = query_ok statement_ok PublishAlert_ok PublishMonitorChanged_ok
  nextval_apply gen_random_uuid_apply record_metric_apply clock_now_apply effect_simps

section \<open>The failure count\<close>

text \<open>
  The results of a monitor from the latest; those since the last success; the failures
  among them.
\<close>

definition results_of :: "database \<Rightarrow> uuid \<Rightarrow> check_result_row list" where
  "results_of d m = latest_first (filter (\<lambda>r. crr_monitor_id r = m) (t_check_results d))"

definition failure_run :: "database \<Rightarrow> uuid \<Rightarrow> nat" where
  "failure_run d m =
     length (filter (\<lambda>r. crr_status r = StatusDown) (takeWhile (\<lambda>r. crr_status r \<noteq> StatusUp) (results_of d m)))"

definition first_rank :: "('a \<Rightarrow> bool) \<Rightarrow> nat \<Rightarrow> 'a list \<Rightarrow> nat" where
  "first_rank p k xs = (case filter (\<lambda>(n, x). p x) (enumerate k xs) of
     [] \<Rightarrow> length xs + k | (n, _) # _ \<Rightarrow> n)"

lemma first_rank_Cons: "first_rank p k (x # xs) = (if p x then k else first_rank p (Suc k) xs)"
  by (simp add: first_rank_def cong del: list.case_cong_weak)

lemma first_rank_ge: "k \<le> first_rank p k xs"
  by (induction xs arbitrary: k)
     (simp_all add: first_rank_Cons first_rank_def [of p _ "[]"] Suc_leD)

lemma filter_before_rank:
  "length (filter (\<lambda>(n, x). q x \<and> n < first_rank p k xs) (enumerate k xs))
     = length (filter q (takeWhile (\<lambda>x. \<not> p x) xs))"
proof (induction xs arbitrary: k)
  case Nil
  then show ?case by simp
next
  case (Cons x xs)
  show ?case
  proof (cases "p x")
    case True
    have "filter (\<lambda>(n, x). q x \<and> n < k) (enumerate (Suc k) xs) = []"
      by (auto simp: filter_empty_conv in_set_enumerate_eq)
    with True show ?thesis by (simp add: first_rank_Cons)
  next
    case False
    with Cons [of "Suc k"] first_rank_ge [of "Suc k" p xs] show ?thesis
      by (simp add: first_rank_Cons)
  qed
qed

lemma ConsecutiveFailures_run:
  assumes "w_faults w = []" and "length (t_check_results (w_db w)) < 2 ^ 31"
  shows "pg_CheckResultRepo_ConsecutiveFailures m w = (Inr (int (failure_run (w_db w) m)), w)"
proof -
  let ?rows = "results_of (w_db w) m"
  have "failure_run (w_db w) m \<le> length ?rows"
    unfolding failure_run_def by (meson le_trans length_filter_le length_takeWhile_le)
  also have "\<dots> \<le> length (t_check_results (w_db w))"
    by (simp add: results_of_def latest_first_def)
  finally have "from_int4 (to_int4 (int (failure_run (w_db w) m))) = int (failure_run (w_db w) m)"
    using assms(2) by (intro from_to_int4) auto
  moreover have "q_ConsecutiveFailures m w = (Inr (to_int4 (int (failure_run (w_db w) m))), w)"
    using assms(1) filter_before_rank [of "\<lambda>r. crr_status r = StatusDown" "\<lambda>r. crr_status r = StatusUp" 1 ?rows]
    by (simp add: q_ConsecutiveFailures_def query_ok failure_run_def results_of_def first_rank_def Let_def
        cong del: list.case_cong_weak)
  ultimately show ?thesis
    by (simp add: pg_CheckResultRepo_ConsecutiveFailures_def effect_simps)
qed

end
