(* ===== verification/Effect_Facts.thy ===== *)
theory Effect_Facts
  imports Result_Facts
begin

text \<open>
  Reasoning about operations under every fault script: what a successful call tells, which
  operations only read the tables, and which leave the tables as they were when they fail.
\<close>

section \<open>Inversion\<close>

lemma bindE_InrE:
  assumes "bindE m f w = (Inr y, w')"
  obtains x w1 where "m w = (Inr x, w1)" and "f x w1 = (Inr y, w')"
  using assms by (auto simp: bindE_apply split: prod.splits sum.splits)

lemma mapErrE_InrE:
  assumes "mapErrE h m w = (Inr y, w')"
  obtains "m w = (Inr y, w')"
  using assms by (auto simp: mapErrE_apply split: prod.splits sum.splits)

lemma liftE_InrE:
  assumes "liftE r w = (Inr y, w')"
  obtains "r = Inr y" and "w' = w"
  using assms by (auto simp: liftE_apply)

lemma external_InrE:
  assumes "external m w = (Inr y, w')"
  obtains fs where "m (w\<lparr>w_faults := fs\<rparr>) = (Inr y, w')"
  using assms that [of "w_faults w"] that by (auto simp: external_def split: list.splits bool.splits)

lemma query_InrE:
  assumes "query q w = (Inr x, w')"
  obtains fs where "q (w_db w) (w_db_clock w) = Inr x" and "w' = w\<lparr>w_faults := fs\<rparr>"
  using assms unfolding query_def by (rule external_InrE) auto

lemma statement_InrE:
  assumes "statement q w = (Inr x, w')"
  obtains fs d where "q (w_db w) (w_db_clock w) = Inr (x, d)" and "w' = w\<lparr>w_faults := fs, w_db := d\<rparr>"
  using assms unfolding statement_def by (rule external_InrE) (auto split: sum.splits)

lemma tx_do_InrE:
  assumes "tx_do body w = (Inr x, w')"
  obtains fs gs w1 where "body (w\<lparr>w_faults := fs\<rparr>) = (Inr x, w1)" and "w' = w1\<lparr>w_faults := gs\<rparr>"
proof -
  from assms obtain fs where tx: "(case body (w\<lparr>w_faults := fs\<rparr>) of
       (Inl e, w') \<Rightarrow> (Inl e, w'\<lparr>w_db := w_db (w\<lparr>w_faults := fs\<rparr>)\<rparr>)
     | (Inr x, w') \<Rightarrow> (case w_faults w' of
           [] \<Rightarrow> (Inr x, w')
         | True # fs' \<Rightarrow> (Inl InfraError, w'\<lparr>w_faults := fs', w_db := w_db (w\<lparr>w_faults := fs\<rparr>)\<rparr>)
         | False # fs' \<Rightarrow> (Inr x, w'\<lparr>w_faults := fs'\<rparr>))) = (Inr x, w')"
    unfolding tx_do_def by (rule external_InrE)
  have id: "body (w\<lparr>w_faults := fs\<rparr>) = (Inr x, w') \<Longrightarrow> thesis"
    using that [of fs w' "w_faults w'"] by simp
  from tx show thesis
    by (auto intro: that id split: prod.splits sum.splits list.splits bool.splits)
qed

section \<open>Reading only\<close>

definition readonly :: "'a io \<Rightarrow> bool" where
  "readonly m \<longleftrightarrow> steps_by (\<lambda>w w'. w_db w' = w_db w) m"

interpretation reading: world_rel "\<lambda>w w'. w_db w' = w_db w"
  by unfold_locales auto

lemma readonly_query: "readonly (query q)"
  unfolding readonly_def by (rule reading.query)

lemma readonly_bindE: "readonly m \<Longrightarrow> (\<And>x. readonly (f x)) \<Longrightarrow> readonly (bindE m f)"
  unfolding readonly_def by (rule viewing.bindE)

lemma readonlyD: "readonly m \<Longrightarrow> m w = (r, w') \<Longrightarrow> w_db w' = w_db w"
  unfolding readonly_def by (rule steps_byD)

section \<open>Failing without a trace\<close>

definition atomic :: "'a io \<Rightarrow> bool" where
  "atomic m \<longleftrightarrow> (\<forall>w e w'. m w = (Inl e, w') \<longrightarrow> w_db w' = w_db w)"

lemma atomicD: "atomic m \<Longrightarrow> m w = (Inl e, w') \<Longrightarrow> w_db w' = w_db w"
  by (simp add: atomic_def)

lemma atomic_readonly: "readonly m \<Longrightarrow> atomic m"
  by (auto simp: atomic_def dest: readonlyD)

lemma atomic_external:
  assumes "atomic m"
  shows "atomic (external m)"
  unfolding atomic_def
proof (intro allI impI)
  fix w e w'
  assume "external m w = (Inl e, w')"
  then show "w_db w' = w_db w"
    unfolding external_def
    by (auto dest: atomicD [OF assms] split: list.splits bool.splits)
qed

lemma atomic_throwE: "atomic (throwE e)"
  by (simp add: atomic_def effect_simps)

lemma atomic_returnE: "atomic (returnE x)"
  by (simp add: atomic_def effect_simps)

lemma atomic_statement: "atomic (statement q)"
  unfolding statement_def
  by (rule atomic_external) (auto simp: atomic_def split: sum.splits prod.splits)

lemma atomic_tx_do: "atomic (tx_do body)"
  unfolding tx_do_def
  by (rule atomic_external) (auto simp: atomic_def split: sum.splits prod.splits list.splits bool.splits)

lemma atomic_bindE:
  assumes "readonly m" and "\<And>x. atomic (f x)"
  shows "atomic (bindE m f)"
  unfolding atomic_def
proof (intro allI impI)
  fix w e w'
  assume run: "bindE m f w = (Inl e, w')"
  obtain r w1 where m: "m w = (r, w1)" by (cases "m w")
  with assms(1) have w1: "w_db w1 = w_db w" by (rule readonlyD)
  show "w_db w' = w_db w"
  proof (cases r)
    case (Inl e')
    with run m w1 show ?thesis by (simp add: bindE_apply)
  next
    case (Inr x)
    with run m have "f x w1 = (Inl e, w')" by (simp add: bindE_apply)
    with assms(2) [of x] w1 show ?thesis by (auto dest: atomicD)
  qed
qed

lemma atomic_if: "(b \<Longrightarrow> atomic m) \<Longrightarrow> (\<not> b \<Longrightarrow> atomic k) \<Longrightarrow> atomic (if b then m else k)"
  by simp

lemmas atomic_rules = atomic_throwE atomic_returnE atomic_statement atomic_tx_do atomic_bindE atomic_if

text \<open>Never failing after a step: what follows an atomic operation and cannot fail itself.\<close>

definition total :: "'a io \<Rightarrow> bool" where
  "total m \<longleftrightarrow> (\<forall>w. \<exists>x w'. m w = (Inr x, w'))"

lemma atomic_bindE_total:
  assumes "atomic m" and "\<And>x. total (f x)"
  shows "atomic (bindE m f)"
  unfolding atomic_def
proof (intro allI impI)
  fix w e w'
  assume run: "bindE m f w = (Inl e, w')"
  obtain r w1 where m: "m w = (r, w1)" by (cases "m w")
  show "w_db w' = w_db w"
  proof (cases r)
    case (Inl e')
    with run m assms(1) show ?thesis by (auto simp: bindE_apply dest: atomicD)
  next
    case (Inr x)
    with run m have f: "f x w1 = (Inl e, w')" by (simp add: bindE_apply)
    obtain y w2 where "f x w1 = (Inr y, w2)" using assms(2) [of x] unfolding total_def by blast
    with f show ?thesis by simp
  qed
qed

end
