(* ===== verification/Tenancy.thy ===== *)
theory Tenancy
  imports System Effect_Facts
begin

text \<open>
  Isolation of tenants: what a request of one user can do to a monitor of another user, and
  to what hangs on it. The relation \<open>fenced\<close> is the frame "nothing of the foreign monitor
  changes"; it carries an assumption \<open>Q\<close> about the tables that the operation has
  established by an ownership check.
\<close>

section \<open>What belongs to a monitor\<close>

definition of_monitor :: "uuid \<Rightarrow> database \<Rightarrow> incident_update_row \<Rightarrow> bool" where
  "of_monitor m d x \<longleftrightarrow>
     (\<exists>r \<in> set (t_incidents d). inr_id r = iur_incident_id x \<and> inr_monitor_id r = m)"

text \<open>
  The monitor without its group, its incidents, results, windows and bindings; the groups
  of other users; the accounts, keys and channels.
\<close>

definition tenant_view where
  "tenant_view m u d =
     ((map (\<lambda>r. r\<lparr>mnr_group_id := None\<rparr>) (filter (\<lambda>r. mnr_id r = m) (t_monitors d)),
       filter (\<lambda>r. inr_monitor_id r = m) (t_incidents d),
       filter (of_monitor m d) (t_incident_updates d)),
      (filter (\<lambda>r. crr_monitor_id r = m) (t_check_results d),
       filter (\<lambda>r. uhr_monitor_id r = m) (t_uptime_hourly d),
       filter (\<lambda>r. mwr_monitor_id r = m) (t_maintenance_windows d),
       filter (\<lambda>b. fst b = m) (t_monitor_channels d)),
      (filter (\<lambda>g. mgr_user_id g \<noteq> u) (t_monitor_groups d),
       t_users d, t_api_keys d, t_channels d))"

definition foreign :: "uuid \<Rightarrow> uuid \<Rightarrow> database \<Rightarrow> bool" where
  "foreign m u d \<longleftrightarrow> monitor_exists d m \<and> (\<forall>r \<in> set (t_monitors d). mnr_id r = m \<longrightarrow> mnr_user_id r \<noteq> u)"

definition fenced :: "uuid \<Rightarrow> uuid \<Rightarrow> (database \<Rightarrow> bool) \<Rightarrow> world \<Rightarrow> world \<Rightarrow> bool" where
  "fenced m u Q w w' \<longleftrightarrow> (incidents_ok (w_db w) \<and> foreign m u (w_db w) \<and> Q (w_db w) \<longrightarrow>
     tenant_view m u (w_db w') = tenant_view m u (w_db w)
     \<and> incidents_ok (w_db w') \<and> foreign m u (w_db w') \<and> Q (w_db w'))"

interpretation tenant: world_rel "fenced m u Q" for m u Q
  by unfold_locales (auto simp: fenced_def)

lemma fenced_db: "w_db w' = w_db w \<Longrightarrow> fenced m u Q w w'"
  by (simp add: fenced_def)

lemma fenced_bindE:
  assumes "steps_by (fenced m u Q) a"
    and "\<And>w x w'. incidents_ok (w_db w) \<Longrightarrow> foreign m u (w_db w) \<Longrightarrow> Q (w_db w) \<Longrightarrow> a w = (Inr x, w') \<Longrightarrow>
           steps_by (fenced m u Q) (f x)"
  shows "steps_by (fenced m u Q) (bindE a f)"
proof (rule steps_byI)
  fix w
  obtain r w1 where a: "a w = (r, w1)" by (cases "a w")
  with assms(1) have w1: "fenced m u Q w w1" by (rule steps_byD)
  show "fenced m u Q w (snd (bindE a f w))"
  proof (cases r)
    case (Inl e)
    with a w1 show ?thesis by (simp add: bindE_apply)
  next
    case (Inr x)
    show ?thesis
    proof (cases "incidents_ok (w_db w) \<and> foreign m u (w_db w) \<and> Q (w_db w)")
      case True
      with assms(2) a Inr have "steps_by (fenced m u Q) (f x)" by blast
      then have "fenced m u Q w1 (snd (f x w1))" by (rule steps_by_snd)
      with w1 have "fenced m u Q w (snd (f x w1))" by (rule tenant.trans)
      with a Inr show ?thesis by (simp add: bindE_apply)
    next
      case False
      then show ?thesis by (auto simp: fenced_def)
    qed
  qed
qed

text \<open>A first call that establishes \<open>Q\<close>.\<close>

lemma fenced_establish:
  assumes "steps_by (fenced m u (\<lambda>_. True)) a"
    and "\<And>w x w'. incidents_ok (w_db w) \<Longrightarrow> foreign m u (w_db w) \<Longrightarrow> a w = (Inr x, w') \<Longrightarrow>
           Q x (w_db w')"
    and "\<And>x. steps_by (fenced m u (Q x)) (f x)"
  shows "steps_by (fenced m u (\<lambda>_. True)) (bindE a f)"
proof (rule steps_byI)
  fix w
  obtain r w1 where a: "a w = (r, w1)" by (cases "a w")
  with assms(1) have w1: "fenced m u (\<lambda>_. True) w w1" by (rule steps_byD)
  show "fenced m u (\<lambda>_. True) w (snd (bindE a f w))"
  proof (cases r)
    case (Inl e)
    with a w1 show ?thesis by (simp add: bindE_apply)
  next
    case (Inr x)
    have "fenced m u (Q x) w1 (snd (f x w1))" by (rule steps_by_snd [OF assms(3)])
    with w1 a Inr assms(2) [of w x w1] show ?thesis by (auto simp: fenced_def bindE_apply)
  qed
qed

section \<open>Primitives\<close>

lemma view_publish: "steps_by (fenced m u Q) (PublishMonitorChanged ev)"
  by (rule steps_byI, rule fenced_db, rule PublishMonitorChanged_db)

lemma view_metric: "steps_by (fenced m u Q) (record_metric x)"
  by (rule steps_byI, rule fenced_db, rule record_metric_db)

lemma fenced_durable: "durable w' = durable w \<Longrightarrow> fenced m u Q w w'"
  by (subst durable_eqD) (assumption, rule tenant.trans [OF tenant.faults tenant.entropy])

lemma view_encrypt: "steps_by (fenced m u Q) (encryptConfig (deployed_cipher k) cfg)"
proof -
  have "steps_by (fenced m u Q) (Cipher_Encrypt (deployed_cipher k) p)" for p
    using deployed_cipher_quiet [of k] unfolding cipher_quiet_def steps_by_def
    by (blast intro: fenced_durable)
  then show ?thesis unfolding encryptConfig_def by (intro tenant.world_rules)
qed

lemma view_decrypted: "steps_by (fenced m u Q) (decrypted_monitor C row)"
  unfolding decrypted_monitor_def by (intro tenant.world_rules)

section \<open>What a successful read tells\<close>

lemma GetByID_InrD:
  assumes "pg_MonitorRepo_GetByID C i w = (Inr x, w')"
  shows "w_db w' = w_db w" and "mon_id x = i"
    and "\<exists>r \<in> set (t_monitors (w_db w)). mnr_id r = i \<and> live r \<and> mnr_user_id r = mon_user_id x"
  using assms unfolding pg_MonitorRepo_GetByID_def q_GetMonitorByID_def decrypted_monitor_def Let_def
  by (auto elim!: bindE_InrE mapErrE_InrE query_InrE liftE_InrE simp: returnE_apply dest!: one_row_Inr)
     blast

lemma GetIncident_InrD:
  assumes "pg_IncidentRepo_GetByID i w = (Inr x, w')"
  shows "w_db w' = w_db w"
    and "\<exists>r \<in> set (t_incidents (w_db w)). inr_id r = i \<and> x = incidentFromRow r"
  using assms unfolding pg_IncidentRepo_GetByID_def q_GetIncidentByID_def
  by (auto elim!: bindE_InrE query_InrE simp: returnE_apply dest!: one_row_Inr)

lemma get_monitor: "steps_by (fenced m u Q) (pg_MonitorRepo_GetByID C i)"
  unfolding pg_MonitorRepo_GetByID_def q_GetMonitorByID_def
  by (intro tenant.world_rules view_decrypted)

lemma get_incident: "steps_by (fenced m u Q) (pg_IncidentRepo_GetByID i)"
  unfolding pg_IncidentRepo_GetByID_def q_GetIncidentByID_def by (intro tenant.world_rules)

lemma owned_other:
  assumes "foreign m u (w_db w)" and "pg_MonitorRepo_GetByID C i w = (Inr x, w')" and "mon_user_id x = u"
  shows "i \<noteq> m"
  using GetByID_InrD [OF assms(2)] assms(1,3) by (auto simp: foreign_def)

section \<open>Statements on what the user owns\<close>

lemma foreign_cong:
  "map (\<lambda>r. (mnr_id r, mnr_user_id r)) (t_monitors d') = map (\<lambda>r. (mnr_id r, mnr_user_id r)) (t_monitors d) \<Longrightarrow>
     foreign m u d' = foreign m u d"
proof -
  have "foreign m u e \<longleftrightarrow> (\<exists>x \<in> set (map (\<lambda>r. (mnr_id r, mnr_user_id r)) (t_monitors e)). fst x = m)
     \<and> (\<forall>x \<in> set (map (\<lambda>r. (mnr_id r, mnr_user_id r)) (t_monitors e)). fst x = m \<longrightarrow> snd x \<noteq> u)" for e
    by (simp add: foreign_def monitor_exists_def)
  then show "map (\<lambda>r. (mnr_id r, mnr_user_id r)) (t_monitors d') = map (\<lambda>r. (mnr_id r, mnr_user_id r)) (t_monitors d) \<Longrightarrow>
     foreign m u d' = foreign m u d"
    by (simp only:)
qed

lemma filter_update_other:
  "(\<And>x. x \<in> set xs \<Longrightarrow> q x \<Longrightarrow> \<not> p x \<and> \<not> p (f x)) \<Longrightarrow> filter p (update_where q f xs) = filter p xs"
  by (induction xs) (auto simp: update_where_def)

text \<open>An update of the user's monitor rows.\<close>

lemma update_own_monitors:
  assumes "\<And>r. r \<in> set (t_monitors d) \<Longrightarrow> p r \<Longrightarrow> mnr_user_id r = u"
    and "\<And>r. mnr_id (f r) = mnr_id r" and "\<And>r. mnr_user_id (f r) = mnr_user_id r"
    and "foreign m u d"
  shows "tenant_view m u (d\<lparr>t_monitors := update_where p f (t_monitors d)\<rparr>) = tenant_view m u d"
    and "foreign m u (d\<lparr>t_monitors := update_where p f (t_monitors d)\<rparr>)"
proof -
  have "filter (\<lambda>r. mnr_id r = m) (update_where p f (t_monitors d)) = filter (\<lambda>r. mnr_id r = m) (t_monitors d)"
    using assms by (intro filter_update_other) (auto simp: foreign_def)
  then show "tenant_view m u (d\<lparr>t_monitors := update_where p f (t_monitors d)\<rparr>) = tenant_view m u d"
    by (simp add: tenant_view_def of_monitor_def [abs_def])
  show "foreign m u (d\<lparr>t_monitors := update_where p f (t_monitors d)\<rparr>)"
    using assms by (subst foreign_cong) (simp_all add: map_update_where)
qed

lemma fenced_statement:
  assumes "\<And>d now x d'. q d now = Inr (x, d') \<Longrightarrow> foreign m u d \<Longrightarrow> incidents_ok d \<Longrightarrow> Q d \<Longrightarrow>
       tenant_view m u d' = tenant_view m u d \<and> incidents_ok d' \<and> foreign m u d' \<and> Q d'"
  shows "steps_by (fenced m u Q) (statement q)"
  by (rule tenant.statement) (use assms in \<open>auto simp: fenced_def\<close>)

abbreviation Top :: "database \<Rightarrow> bool" where
  "Top \<equiv> \<lambda>_. True"

lemma incidents_same: "incidents_ok d \<Longrightarrow> t_incidents d' = t_incidents d \<Longrightarrow> incidents_ok d'"
  using incidents_ok_cong by blast

lemma own_monitor_statements:
  "steps_by (fenced m u Top) (q_DeleteMonitor i u)"
  "steps_by (fenced m u Top) (q_ToggleMonitorPause i u)"
  "steps_by (fenced m u Top) (q_AssignMonitorToGroup i u g)"
  "ump_user_id arg = u \<Longrightarrow> steps_by (fenced m u Top) (q_UpdateMonitor arg)"
  unfolding q_DeleteMonitor_def q_ToggleMonitorPause_def q_AssignMonitorToGroup_def q_UpdateMonitor_def
  by (rule fenced_statement;
      auto simp: Let_def one_row_def split: if_splits list.splits
        elim: incidents_same intro!: update_own_monitors)+

text \<open>Inserts of rows that do not belong to the foreign monitor.\<close>

lemma new_monitor:
  "steps_by (fenced m u Top) (q_CreateMonitor arg)"
  unfolding q_CreateMonitor_def
  by (rule tenant.bindE, rule tenant.gen_random_uuid, rule fenced_statement)
     (auto simp: Let_def tenant_view_def of_monitor_def [abs_def] foreign_def monitor_exists_def
        split: if_splits elim: incidents_same)

lemma new_window:
  "cmw_monitor_id arg \<noteq> m \<Longrightarrow> steps_by (fenced m u Q) (q_CreateMaintenanceWindow arg)"
  if "\<And>d x. Q d \<Longrightarrow> Q (d\<lparr>t_maintenance_windows := x\<rparr>)"
  unfolding q_CreateMaintenanceWindow_def
  by (rule tenant.bindE, rule tenant.nextval, rule fenced_statement)
     (auto simp: Let_def tenant_view_def of_monitor_def [abs_def] foreign_def monitor_exists_def that
        split: if_splits elim: incidents_same)

lemma delete_window: "steps_by (fenced m u Top) (q_DeleteMaintenanceWindow i u)"
  unfolding q_DeleteMaintenanceWindow_def
  by (rule fenced_statement)
     (auto simp: tenant_view_def of_monitor_def [abs_def] foreign_def monitor_exists_def filter_filter
        intro!: filter_cong elim: incidents_same)

lemma group_statements:
  "steps_by (fenced m u Top) (q_CreateMonitorGroup u nm p)"
  "steps_by (fenced m u Top) (q_UpdateMonitorGroup i u nm p)"
  unfolding q_CreateMonitorGroup_def q_UpdateMonitorGroup_def
  by (intro tenant.bindE tenant.nextval fenced_statement;
      auto simp: Let_def tenant_view_def of_monitor_def [abs_def] foreign_def monitor_exists_def
        split: if_splits intro!: filter_update_other elim: incidents_same)+

lemma delete_group: "steps_by (fenced m u Top) (q_DeleteMonitorGroup i u)"
proof -
  have a: "map (\<lambda>r. r\<lparr>mnr_group_id := None\<rparr>) (filter (\<lambda>r. mnr_id r = m)
        (update_where p (\<lambda>r. r\<lparr>mnr_group_id := None\<rparr>) rows))
      = map (\<lambda>r. r\<lparr>mnr_group_id := None\<rparr>) (filter (\<lambda>r. mnr_id r = m) rows)" for p rows
    by (induction rows) (auto simp: update_where_def)
  have b: "foreign m u (d\<lparr>t_monitor_groups := g, t_monitors :=
        update_where p (\<lambda>r. r\<lparr>mnr_group_id := None\<rparr>) (t_monitors d)\<rparr>) = foreign m u d" for d g p
    by (rule foreign_cong) (simp add: map_update_where)
  show ?thesis
    unfolding q_DeleteMonitorGroup_def
    by (rule fenced_statement)
       (auto simp: Let_def tenant_view_def of_monitor_def [abs_def] a b filter_filter
          intro!: filter_cong elim: incidents_same)
qed

lemma of_monitor_cong:
  assumes "map (\<lambda>r. (inr_id r, inr_monitor_id r)) (t_incidents d') = map (\<lambda>r. (inr_id r, inr_monitor_id r)) (t_incidents d)"
  shows "of_monitor m d' = of_monitor m d"
proof -
  have "of_monitor m e = (\<lambda>x. (iur_incident_id x, m) \<in> set (map (\<lambda>r. (inr_id r, inr_monitor_id r)) (t_incidents e)))" for e
    by (force simp: of_monitor_def fun_eq_iff)
  then show ?thesis by (simp only: assms)
qed

text \<open>The incident that the caller may change: no incident of the foreign monitor has its key.\<close>

definition not_of :: "uuid \<Rightarrow> int \<Rightarrow> database \<Rightarrow> bool" where
  "not_of m i d \<longleftrightarrow> incident_exists d i \<and> (\<forall>r \<in> set (t_incidents d). inr_id r = i \<longrightarrow> inr_monitor_id r \<noteq> m)"

lemma update_own_incident:
  assumes "not_of m i d" and "\<And>r. inr_id (f r) = inr_id r" and "\<And>r. inr_monitor_id (f r) = inr_monitor_id r"
  shows "tenant_view m u (d\<lparr>t_incidents := update_where (\<lambda>r. inr_id r = i) f (t_incidents d)\<rparr>) = tenant_view m u d"
    and "not_of m i (d\<lparr>t_incidents := update_where (\<lambda>r. inr_id r = i) f (t_incidents d)\<rparr>)"
proof -
  have a: "filter (\<lambda>r. inr_monitor_id r = m) (update_where (\<lambda>r. inr_id r = i) f (t_incidents d))
      = filter (\<lambda>r. inr_monitor_id r = m) (t_incidents d)"
    using assms by (intro filter_update_other) (auto simp: not_of_def)
  have b: "of_monitor m (d\<lparr>t_incidents := update_where (\<lambda>r. inr_id r = i) f (t_incidents d)\<rparr>) = of_monitor m d"
    by (rule of_monitor_cong) (simp add: map_update_where assms)
  from a b show "tenant_view m u (d\<lparr>t_incidents := update_where (\<lambda>r. inr_id r = i) f (t_incidents d)\<rparr>) = tenant_view m u d"
    by (simp add: tenant_view_def)
  show "not_of m i (d\<lparr>t_incidents := update_where (\<lambda>r. inr_id r = i) f (t_incidents d)\<rparr>)"
    using assms by (auto simp: not_of_def set_update_where incident_exists_def)
qed


text \<open>The statements of the incident transactions.\<close>

lemma foreign_incidents [simp]: "foreign m u (d\<lparr>t_incidents := x\<rparr>) = foreign m u d"
  by (simp add: foreign_def monitor_exists_def)

lemma incidents_ok_update:
  assumes "incidents_ok d" and "\<And>r. inr_id (f r) = inr_id r" and "\<And>r. inr_monitor_id (f r) = inr_monitor_id r"
    and "\<And>r. is_open (f r) \<Longrightarrow> is_open r"
  shows "incidents_ok (d\<lparr>t_incidents := update_where p f (t_incidents d)\<rparr>)"
  using assms by (auto simp: incidents_ok_def one_open_incident_def incident_keys_def
    intro!: unique_on_update_shrink unique_on_keys_update)

lemma own_incident_statements:
  "steps_by (fenced m u (not_of m i)) (q_UpdateIncidentState i st)"
  "steps_by (fenced m u (not_of m i)) (q_ResolveIncident i (Some t))"
  unfolding q_UpdateIncidentState_def q_ResolveIncident_def
  by (rule fenced_statement;
      auto split: if_splits simp: is_open_def intro!: update_own_incident incidents_ok_update)+

lemma own_timeline: "steps_by (fenced m u (not_of m (ciu_incident_id arg))) (q_CreateIncidentUpdate arg)"
  unfolding q_CreateIncidentUpdate_def
  by (rule tenant.bindE, rule tenant.nextval, rule fenced_statement)
     (auto simp: Let_def tenant_view_def of_monitor_def [abs_def] foreign_def monitor_exists_def not_of_def
        incident_exists_def split: if_splits elim: incidents_same)

lemma new_incident:
  assumes "cii_monitor_id arg \<noteq> m"
  shows "steps_by (fenced m u Top) (q_CreateIncident arg)"
proof -
  have "tenant_view m u (d\<lparr>t_incidents := t_incidents d @ [r]\<rparr>) = tenant_view m u d"
    if "inr_monitor_id r \<noteq> m" for d r
  proof -
    have "of_monitor m (d\<lparr>t_incidents := t_incidents d @ [r]\<rparr>) = of_monitor m d"
      using that by (auto simp: of_monitor_def fun_eq_iff)
    with that show ?thesis by (simp add: tenant_view_def)
  qed
  with assms show ?thesis
    unfolding q_CreateIncident_def
    by (intro tenant.bindE tenant.nextval fenced_statement)
       (auto simp: Let_def foreign_def monitor_exists_def incidents_ok_def one_open_incident_def
          incident_keys_def unique_on_snoc incident_exists_def split: if_splits)
qed

section \<open>The operations\<close>

lemma api_ports [simp]:
  "MonitorRepo_GetByID (ms_monitors (api k net)) = pg_MonitorRepo_GetByID (deployed_cipher k)"
  "MonitorRepo_Create (ms_monitors (api k net)) = pg_MonitorRepo_Create (deployed_cipher k)"
  "MonitorRepo_CountByUserID (ms_monitors (api k net)) = pg_MonitorRepo_CountByUserID"
  "MonitorRepo_Update (ms_monitors (api k net)) = pg_MonitorRepo_Update (deployed_cipher k)"
  "MonitorRepo_Delete (ms_monitors (api k net)) = q_DeleteMonitor"
  "MonitorRepo_TogglePause (ms_monitors (api k net)) = pg_MonitorRepo_TogglePause (deployed_cipher k)"
  "IncidentRepo_GetByID (ms_incidents (api k net)) = pg_IncidentRepo_GetByID"
  "IncidentRepo_Create (ms_incidents (api k net)) = pg_IncidentRepo_Create"
  "IncidentRepo_UpdateState (ms_incidents (api k net)) = q_UpdateIncidentState"
  "IncidentRepo_Resolve (ms_incidents (api k net)) = pg_IncidentRepo_Resolve"
  "IncidentUpdateRepo_Create (ms_incident_updates (api k net)) = pg_IncidentUpdateRepo_Create"
  "ms_maintenance (api k net) = Some pg_MaintenanceWindowRepo"
  "ms_groups (api k net) = pg_MonitorGroupRepo"
  "ms_events (api k net) = Some PublishMonitorChanged"
  "ms_metrics (api k net) = True"
  by (simp_all add: api_def pg_service_defs pg_MonitorRepo_def pg_IncidentRepo_def pg_IncidentUpdateRepo_def
      pg_MonitorRepo_Delete_def [abs_def] pg_IncidentRepo_UpdateState_def [abs_def])

lemma view_published: "steps_by (fenced m u Q) (published (api k net) a mon)"
  unfolding published_def publishMonitorEvent_def
  by (simp, intro tenant.world_rules view_publish)

lemma view_metric_of: "steps_by (fenced m u Q) (metric_of (api k net) x)"
  by (simp add: metric_of_def view_metric)

lemma owned_monitor: "steps_by (fenced m u Q) (loadOwnedMonitor (api k net) i v)"
  unfolding loadOwnedMonitor_def by (simp, intro tenant.world_rules get_monitor)

lemma loadOwned_user:
  "loadOwnedMonitor (api k net) i u w = (Inr x, w') \<Longrightarrow> mon_user_id x = u"
  unfolding loadOwnedMonitor_def
  by (auto elim!: bindE_InrE simp: returnE_apply throwE_apply split: if_splits)

lemma patch_user: "patch_monitor s usr inp old = Inr mon \<Longrightarrow> mon_user_id mon = mon_user_id old"
  unfolding patch_monitor_def Let_def by (auto split: option.splits sum.splits)

lemma CreateMonitor_fenced:
  assumes "cmo_channel_ids inp = []"
  shows "steps_by (fenced m u Top) (CreateMonitor (api k net) usr inp)"
  unfolding CreateMonitor_def pg_MonitorRepo_Create_def pg_MonitorRepo_CountByUserID_def q_CountMonitorsByUserID_def
  by (simp add: assms pg_MonitorRepo_Create_def pg_MonitorRepo_CountByUserID_def q_CountMonitorsByUserID_def)
     (intro tenant.world_rules view_encrypt new_monitor view_decrypted view_metric_of view_published)

lemma UpdateMonitor_fenced: "steps_by (fenced m (usr_id usr) Top) (UpdateMonitor (api k net) usr i inp)"
  unfolding UpdateMonitor_def
proof (rule fenced_bindE [OF owned_monitor])
  fix w old w'
  assume "loadOwnedMonitor (api k net) i (usr_id usr) w = (Inr old, w')"
  then have u: "mon_user_id old = usr_id usr" by (rule loadOwned_user)
  show "steps_by (fenced m (usr_id usr) Top) (bindE (liftE (patch_monitor (api k net) usr inp old)) (\<lambda>mon.
     bindE (wrapE ''update monitor'' (MonitorRepo_Update (ms_monitors (api k net)) mon)) (\<lambda>_.
     published (api k net) ActionUpdate mon)))"
    by (rule fenced_bindE, rule tenant.liftE)
       (auto simp: liftE_apply pg_MonitorRepo_Update_def monitorToUpdateParams_def u
          dest!: patch_user intro!: tenant.world_rules view_encrypt own_monitor_statements view_published)
qed

lemma DeleteMonitor_fenced: "steps_by (fenced m u Top) (DeleteMonitor (api k net) u i)"
  unfolding DeleteMonitor_def
  by (simp, intro tenant.world_rules owned_monitor own_monitor_statements view_metric_of view_publish)

lemma TogglePause_fenced: "steps_by (fenced m (usr_id usr) Top) (TogglePause (api k net) usr i)"
  unfolding TogglePause_def
  by (simp add: pg_MonitorRepo_TogglePause_def,
      intro tenant.world_rules owned_monitor own_monitor_statements view_decrypted view_published)

lemma ScheduleMaintenance_fenced:
  "steps_by (fenced m (smi_user_id inp) Top) (ScheduleMaintenance (api k net) inp)"
proof -
  have body: "steps_by (fenced m (smi_user_id inp) Top)
    (if mon_user_id monitor \<noteq> smi_user_id inp then throwE (Sentinel ErrForbidden)
     else with_maintenance (api k net) (\<lambda>r. MaintenanceWindowRepo_Create r
       \<lparr>cmw_monitor_id = smi_monitor_id inp, cmw_starts_at = smi_starts_at inp,
        cmw_ends_at = smi_ends_at inp, cmw_reason = smi_reason inp\<rparr>))"
    if "foreign m (smi_user_id inp) (w_db w)"
      and "pg_MonitorRepo_GetByID (deployed_cipher k) (smi_monitor_id inp) w = (Inr monitor, w')"
    for w w' monitor
    using owned_other [OF that]
    by (auto simp: with_maintenance_def pg_MaintenanceWindowRepo_def pg_MaintenanceWindowRepo_Create_def
        intro!: tenant.world_rules new_window)
  show ?thesis
    unfolding ScheduleMaintenance_def api_ports
    by (rule tenant.if_split [OF tenant.throwE], rule fenced_bindE [OF get_monitor], erule body)
qed

lemma DeleteMaintenanceWindow_fenced: "steps_by (fenced m u Top) (DeleteMaintenanceWindow (api k net) i u)"
  by (simp add: DeleteMaintenanceWindow_def with_maintenance_def pg_MaintenanceWindowRepo_def delete_window)

lemma groups_fenced:
  "steps_by (fenced m u Top) (CreateMonitorGroup (api k net) u nm p)"
  "steps_by (fenced m u Top) (UpdateMonitorGroup (api k net) i u nm p)"
  "steps_by (fenced m u Top) (DeleteMonitorGroup (api k net) i u)"
  "steps_by (fenced m u Top) (AssignMonitorGroup (api k net) j u g)"
  unfolding CreateMonitorGroup_def UpdateMonitorGroup_def DeleteMonitorGroup_def AssignMonitorGroup_def
    api_ports pg_MonitorGroupRepo_def
  by (simp_all add: pg_MonitorGroupRepo_Create_def pg_MonitorGroupRepo_Update_def group_statements
      delete_group own_monitor_statements tenant.bindE tenant.returnE)

text \<open>The transactions on incidents.\<close>

lemma change_state_fenced:
  "steps_by (fenced m u (not_of m (csi_incident_id inp))) (change_state_tx (api k net) inp)"
proof -
  have "steps_by (fenced m u (not_of m (csi_incident_id inp)))
      (q_CreateIncidentUpdate \<lparr>ciu_incident_id = csi_incident_id inp, ciu_state = csi_new_state inp,
        ciu_body = csi_update_body inp, ciu_posted_by_user_id = csi_user_id inp\<rparr>)"
    using own_timeline [of m u "\<lparr>ciu_incident_id = csi_incident_id inp, ciu_state = csi_new_state inp,
        ciu_body = csi_update_body inp, ciu_posted_by_user_id = csi_user_id inp\<rparr>"] by simp
  then show ?thesis
    unfolding change_state_tx_def api_ports pg_IncidentRepo_Resolve_def pg_IncidentUpdateRepo_Create_def
    by (intro tenant.world_rules own_incident_statements)
qed

lemma ChangeIncidentState_fenced:
  "steps_by (fenced m (csi_user_id inp) Top) (ChangeIncidentState (api k net) inp)"
  unfolding ChangeIncidentState_def api_ports
proof (intro tenant.if_split tenant.throwE)
  let ?u = "csi_user_id inp" and ?i = "csi_incident_id inp" and ?C = "deployed_cipher k"
  define Q where "Q inc d \<longleftrightarrow> (inc_monitor_id inc \<noteq> m \<longrightarrow> not_of m ?i d)" for inc :: incident and d
  show "steps_by (fenced m ?u Top) (bindE (pg_IncidentRepo_GetByID ?i) (\<lambda>inc.
      bindE (pg_MonitorRepo_GetByID ?C (inc_monitor_id inc)) (\<lambda>monitor.
        if mon_user_id monitor \<noteq> ?u then throwE (Sentinel ErrForbidden)
        else bindE (liftE (CanTransitionTo (inc_state inc) (csi_new_state inp))) (\<lambda>_.
          tx_do (change_state_tx (api k net) inp)))))"
  proof (rule fenced_establish [where Q = Q, OF get_incident])
    fix w x w'
    assume ok: "incidents_ok (w_db w)" and run: "pg_IncidentRepo_GetByID ?i w = (Inr x, w')"
    obtain r where r: "r \<in> set (t_incidents (w_db w))" "inr_id r = ?i" "x = incidentFromRow r"
      using GetIncident_InrD(2) [OF run] by blast
    have keys: "unique_on inr_id (\<lambda>_. True) (t_incidents (w_db w))"
      using ok by (simp add: incidents_ok_def incident_keys_def)
    have "inr_monitor_id r' = inc_monitor_id x" if "r' \<in> set (t_incidents (w_db w))" "inr_id r' = ?i" for r'
    proof -
      have "r' = r" by (rule unique_on_eqD [OF keys]) (simp_all add: that r)
      then show ?thesis by (simp add: r(3))
    qed
    moreover have "incident_exists (w_db w) ?i"
      using r by (auto simp: incident_exists_def)
    ultimately show "Q x (w_db w')"
      unfolding GetIncident_InrD(1) [OF run] Q_def not_of_def by simp
  next
    fix inc
    have tx: "steps_by (fenced m ?u (Q inc)) (tx_do (change_state_tx (api k net) inp))" if "inc_monitor_id inc \<noteq> m"
      using change_state_fenced [of m ?u inp k net] that by (simp add: Q_def [abs_def] tenant.tx_do)
    show "steps_by (fenced m ?u (Q inc)) (bindE (pg_MonitorRepo_GetByID ?C (inc_monitor_id inc)) (\<lambda>monitor.
        if mon_user_id monitor \<noteq> ?u then throwE (Sentinel ErrForbidden)
        else bindE (liftE (CanTransitionTo (inc_state inc) (csi_new_state inp))) (\<lambda>_.
          tx_do (change_state_tx (api k net) inp))))"
    proof (rule fenced_bindE [OF get_monitor], rule tenant.if_split [OF tenant.throwE])
      fix w monitor w'
      assume "foreign m ?u (w_db w)" and "pg_MonitorRepo_GetByID ?C (inc_monitor_id inc) w = (Inr monitor, w')"
        and "\<not> mon_user_id monitor \<noteq> ?u"
      then have "inc_monitor_id inc \<noteq> m" using owned_other by blast
      then show "steps_by (fenced m ?u (Q inc)) (bindE (liftE (CanTransitionTo (inc_state inc) (csi_new_state inp)))
          (\<lambda>_. tx_do (change_state_tx (api k net) inp)))"
        by (intro tenant.bindE tenant.liftE tx)
    qed
  qed
qed

lemma CreateIncident_InrD:
  assumes "pg_IncidentRepo_Create ci w = (Inr x, w')"
  shows "incident_exists (w_db w') (inc_id x)"
    and "\<forall>r \<in> set (t_incidents (w_db w')). inr_id r = inc_id x \<longrightarrow> inr_monitor_id r = cii_monitor_id ci"
proof -
  have "\<exists>row. \<not> incident_exists (w_db w) (inr_id row) \<and> x = incidentFromRow row
      \<and> inr_monitor_id row = cii_monitor_id ci \<and> t_incidents (w_db w') = t_incidents (w_db w) @ [row]"
    using assms unfolding pg_IncidentRepo_Create_def q_CreateIncident_def Let_def
    by (auto elim!: bindE_InrE statement_InrE
        simp: nextval_def attemptE_apply returnE_apply throwE_apply bindE_apply statement_def external_def
        split: if_splits sum.splits prod.splits list.splits bool.splits)
  then show "incident_exists (w_db w') (inc_id x)"
    and "\<forall>r \<in> set (t_incidents (w_db w')). inr_id r = inc_id x \<longrightarrow> inr_monitor_id r = cii_monitor_id ci"
    by (auto simp: incident_exists_def)
qed

lemma create_incident_fenced:
  assumes "cii_monitor_id ci \<noteq> m"
  shows "steps_by (fenced m u Top) (pg_IncidentRepo_Create ci)"
  unfolding pg_IncidentRepo_Create_def
  by (intro tenant.world_rules) (rule new_incident, simp add: assms)

lemma manual_incident_fenced:
  assumes "cmi_monitor_id inp \<noteq> m"
  shows "steps_by (fenced m u Top) (manual_incident_tx (api k net) inp title body)"
  unfolding manual_incident_tx_def api_ports
proof (rule fenced_establish [where Q = "\<lambda>inc. not_of m (inc_id inc)"])
  show "steps_by (fenced m u Top) (wrapE ''create incident'' (pg_IncidentRepo_Create
       \<lparr>cii_monitor_id = cmi_monitor_id inp, cii_cause = title,
        cii_state = IncidentStateInvestigating, cii_is_manual = True, cii_title = Some title\<rparr>))"
    by (intro tenant.world_rules create_incident_fenced) (simp add: assms)
next
  fix w x w'
  assume "wrapE ''create incident'' (pg_IncidentRepo_Create
       \<lparr>cii_monitor_id = cmi_monitor_id inp, cii_cause = title,
        cii_state = IncidentStateInvestigating, cii_is_manual = True, cii_title = Some title\<rparr>) w = (Inr x, w')"
  then show "not_of m (inc_id x) (w_db w')"
    using assms by (elim mapErrE_InrE) (use CreateIncident_InrD in \<open>fastforce simp: not_of_def\<close>)
next
  fix created :: incident
  show "steps_by (fenced m u (not_of m (inc_id created)))
      (bindE (wrapE ''append initial update'' (pg_IncidentUpdateRepo_Create
       \<lparr>ciu_incident_id = inc_id created, ciu_state = IncidentStateInvestigating,
        ciu_body = body, ciu_posted_by_user_id = cmi_user_id inp\<rparr>)) (\<lambda>v. returnE (created, v)))"
    using own_timeline [of m u "\<lparr>ciu_incident_id = inc_id created, ciu_state = IncidentStateInvestigating,
        ciu_body = body, ciu_posted_by_user_id = cmi_user_id inp\<rparr>"]
    unfolding pg_IncidentUpdateRepo_Create_def by (auto intro!: tenant.world_rules)
qed

lemma CreateManualIncident_fenced:
  "steps_by (fenced m (cmi_user_id inp) Top) (CreateManualIncident (api k net) inp)"
  unfolding CreateManualIncident_def Let_def api_ports
  by (intro tenant.if_split tenant.throwE fenced_bindE get_monitor tenant.tx_do manual_incident_fenced)
     (auto dest: owned_other)

lemma handle_call_fenced: "steps_by (fenced m (usr_id usr) Top) (handle_call (api k net) usr c)"
proof (cases c)
  case (CallCreateIncident i title body)
  then show ?thesis
    using CreateManualIncident_fenced [of m "\<lparr>cmi_monitor_id = i, cmi_user_id = usr_id usr,
      cmi_title = title, cmi_body = body\<rparr>" k net] by (auto intro!: tenant.world_rules)
next
  case (CallUpdateIncidentState i st body)
  then show ?thesis
    using ChangeIncidentState_fenced [of m "\<lparr>csi_incident_id = i, csi_user_id = usr_id usr,
      csi_new_state = st, csi_update_body = body\<rparr>" k net] by (auto intro!: tenant.world_rules)
next
  case (CallScheduleMaintenanceWindow i t t' reason)
  then show ?thesis
    using ScheduleMaintenance_fenced [of m "\<lparr>smi_monitor_id = i, smi_user_id = usr_id usr,
      smi_starts_at = t, smi_ends_at = t', smi_reason = reason\<rparr>" k net] by (auto intro!: tenant.world_rules)
qed (auto intro!: tenant.world_rules CreateMonitor_fenced UpdateMonitor_fenced DeleteMonitor_fenced
       TogglePause_fenced DeleteMaintenanceWindow_fenced groups_fenced)

end
