(* ===== verification/Check_Facts.thy ===== *)
theory Check_Facts
  imports Result_Facts Monitoring_Invariants
begin

text \<open>
  What one check result does, when no call fails: which row it appends, when it opens an
  incident, when it closes one, and which alert is published.
\<close>

section \<open>The decision to open an incident\<close>

definition in_cooldown :: "database \<Rightarrow> time \<Rightarrow> uuid \<Rightarrow> bool" where
  "in_cooldown d now m \<longleftrightarrow>
     (\<exists>r \<in> set (t_incidents d). inr_monitor_id r = m \<and> resolved_after (now - seconds 300) r)"

definition in_window :: "database \<Rightarrow> time \<Rightarrow> uuid \<Rightarrow> bool" where
  "in_window d now m \<longleftrightarrow>
     (\<exists>r \<in> set (t_maintenance_windows d). mwr_monitor_id r = m \<and> window_covers now r)"

definition has_open :: "database \<Rightarrow> uuid \<Rightarrow> bool" where
  "has_open d m \<longleftrightarrow> (\<exists>r \<in> set (t_incidents d). is_open r \<and> inr_monitor_id r = m)"

definition incident_opens :: "database \<Rightarrow> time \<Rightarrow> monitor \<Rightarrow> bool" where
  "incident_opens d now m \<longleftrightarrow>
     mon_alert_after_failures m \<le> int (failure_run d (mon_id m))
     \<and> \<not> in_cooldown d now (mon_id m) \<and> \<not> in_window d now (mon_id m) \<and> \<not> has_open d (mon_id m)"

definition error_cause :: "check_result \<Rightarrow> string" where
  "error_cause res = (case res_error_message res of None \<Rightarrow> [] | Some e \<Rightarrow> e)"

definition auto_incident :: "int \<Rightarrow> time \<Rightarrow> monitor \<Rightarrow> check_result \<Rightarrow> incident_row" where
  "auto_incident i now m res =
     \<lparr>inr_id = i, inr_monitor_id = mon_id m, inr_started_at = now, inr_resolved_at = None,
      inr_cause = error_cause res, inr_state = IncidentStateInvestigating,
      inr_is_manual = False, inr_title = None\<rparr>"

definition alert_for :: "checker_registry \<Rightarrow> monitor \<Rightarrow> string \<Rightarrow> string \<Rightarrow> int \<Rightarrow> alert_event" where
  "alert_for reg m event cause i =
     \<lparr>ae_monitor_id = mon_id m, ae_user_id = mon_user_id m, ae_incident_id = i,
      ae_monitor_name = mon_name m,
      ae_monitor_target = (case CheckerRegistry_Target reg (mon_type m) (mon_check_config m) of
         Inl _ \<Rightarrow> [] | Inr t \<Rightarrow> t),
      ae_event = event, ae_cause = cause\<rparr>"

lemma handleDown_run:
  assumes ok: "w_faults w = []" and few: "length (t_check_results (w_db w)) < 2 ^ 31"
    and live: "monitor_exists (w_db w) (mon_id m)"
    and fresh: "\<not> incident_exists (w_db w) (w_next_serial w)"
    and run: "handleDown (pg_monitoring C reg events) m res w = (r, w')"
  shows "r = Inr ()"
    and "w_db w' = (if incident_opens (w_db w) (w_db_clock w) m
           then (w_db w)\<lparr>t_incidents := t_incidents (w_db w)
                  @ [auto_incident (w_next_serial w) (w_db_clock w) m res]\<rparr> else w_db w)"
    and "w_alert_events w' = w_alert_events w @ (if incident_opens (w_db w) (w_db_clock w) m
           then [alert_for reg m AlertDown (error_cause res) (w_next_serial w)] else [])"
proof -
  note count = ConsecutiveFailures_run [OF ok few, of "mon_id m"]
  have "r = Inr () \<and> w_db w' = (if incident_opens (w_db w) (w_db_clock w) m
           then (w_db w)\<lparr>t_incidents := t_incidents (w_db w)
                  @ [auto_incident (w_next_serial w) (w_db_clock w) m res]\<rparr> else w_db w)
    \<and> w_alert_events w' = w_alert_events w @ (if incident_opens (w_db w) (w_db_clock w) m
           then [alert_for reg m AlertDown (error_cause res) (w_next_serial w)] else [])"
    using run ok live fresh
    by (auto simp: handleDown_def pg_monitoring_def pg_CheckResultRepo_def count run_simps
        pg_IncidentRepo_def pg_IncidentRepo_IsInCooldown_def q_IsInCooldown_def in_maintenance_def
        pg_MaintenanceWindowRepo_def q_HasActiveMaintenanceWindow_def pg_IncidentRepo_Create_def
        q_CreateIncident_def IncidentState_Valid_def incident_opens_def in_cooldown_def in_window_def
        has_open_def error_cause_def auto_incident_def alert_for_def publishAlert_def metric_of_def
        isUniqueViolation_def Let_def incidentFromRow_def split: if_splits)
  then show "r = Inr ()"
    and "w_db w' = (if incident_opens (w_db w) (w_db_clock w) m
           then (w_db w)\<lparr>t_incidents := t_incidents (w_db w)
                  @ [auto_incident (w_next_serial w) (w_db_clock w) m res]\<rparr> else w_db w)"
    and "w_alert_events w' = w_alert_events w @ (if incident_opens (w_db w) (w_db_clock w) m
           then [alert_for reg m AlertDown (error_cause res) (w_next_serial w)] else [])"
    by simp_all
qed

section \<open>Recording a result\<close>

definition result_row :: "int \<Rightarrow> check_result \<Rightarrow> check_result_row" where
  "result_row i res =
     \<lparr>crr_id = i, crr_monitor_id = res_monitor_id res, crr_status = res_status res,
      crr_status_code = intToPgtypeInt4 (res_status_code res),
      crr_response_time_ms = to_int4 (res_response_time_ms res),
      crr_error_message = res_error_message res, crr_checked_at = res_checked_at res\<rparr>"

text \<open>
  The state in which a result can be recorded: no call fails, the monitor is live and is
  the one of the result, the sequence is ahead of the keys in use, and the table is small
  enough for the count to fit its column type.
\<close>

definition ready :: "world \<Rightarrow> monitor \<Rightarrow> check_result \<Rightarrow> bool" where
  "ready w m res \<longleftrightarrow>
     w_faults w = [] \<and> res_monitor_id res = mon_id m
     \<and> (\<exists>r \<in> set (t_monitors (w_db w)). mnr_id r = mon_id m \<and> live r)
     \<and> (\<forall>r \<in> set (t_check_results (w_db w)). crr_id r < w_next_serial w)
     \<and> (\<forall>r \<in> set (t_incidents (w_db w)). inr_id r < w_next_serial w)
     \<and> length (t_check_results (w_db w)) + 1 < 2 ^ 31"

definition status_of :: "database \<Rightarrow> uuid \<Rightarrow> string" where
  "status_of d m = (case filter (\<lambda>r. mnr_id r = m \<and> live r) (t_monitors d) of
     [] \<Rightarrow> [] | r # _ \<Rightarrow> mnr_current_status r)"

text \<open>The tables after the first three steps of \<open>ProcessCheckResult\<close>.\<close>

definition recorded :: "database \<Rightarrow> int \<Rightarrow> monitor \<Rightarrow> check_result \<Rightarrow> database \<Rightarrow> bool" where
  "recorded d i m res d' \<longleftrightarrow>
     t_check_results d' = t_check_results d @ [result_row i res]
     \<and> t_incidents d' = t_incidents d \<and> t_maintenance_windows d' = t_maintenance_windows d
     \<and> t_monitors d' = update_where (\<lambda>r. mnr_id r = mon_id m \<and> live r)
          (\<lambda>r. r\<lparr>mnr_current_status := res_status res\<rparr>) (t_monitors d)"

lemma RecordCheck_run:
  assumes "w_faults w = []" and "UptimeRepo_RecordCheck pg_UptimeRepo m t b w = (r, w')"
  shows "\<exists>us. w' = w\<lparr>w_db := (w_db w)\<lparr>t_uptime_hourly := us\<rparr>\<rparr>"
proof (cases "w' = w")
  case True
  then have "w' = w\<lparr>w_db := (w_db w)\<lparr>t_uptime_hourly := t_uptime_hourly (w_db w)\<rparr>\<rparr>" by simp
  then show ?thesis by blast
next
  case False
  with assms show ?thesis
    by (auto simp: pg_UptimeRepo_def pg_UptimeRepo_RecordCheck_def q_UpsertUptimeHourly_def
        statement_ok Let_def split: if_splits)
qed

lemma record_run:
  assumes "ready w m res"
  obtains w1 where
    "ProcessCheckResult (pg_monitoring C reg events) m res w =
       (if res_status res = StatusDown then handleDown (pg_monitoring C reg events) m res
        else if res_status res = StatusUp \<and> status_of (w_db w) (mon_id m) = StatusDown
        then handleRecovery (pg_monitoring C reg events) m else returnE ()) w1"
    and "recorded (w_db w) (w_next_serial w) m res (w_db w1)"
    and "w_faults w1 = []" and "w_next_serial w1 = w_next_serial w + 1"
    and "w_db_clock w1 = w_db_clock w" and "w_app_clock w1 = w_app_clock w"
    and "w_alert_events w1 = w_alert_events w"
proof -
  let ?S = "pg_monitoring C reg events"
  let ?row = "result_row (w_next_serial w) res"
  define wi where "wi = w\<lparr>w_metrics := w_metrics w
      @ [RecordCheck (mon_type m) (res_status res) (res_response_time_ms res * 1000000)],
    w_next_serial := w_next_serial w + 1,
    w_db := (w_db w)\<lparr>t_check_results := t_check_results (w_db w) @ [?row]\<rparr>\<rparr>"
  from assms obtain mr where mr: "mr \<in> set (t_monitors (w_db w))" "mnr_id mr = mon_id m" "live mr"
    by (auto simp: ready_def)
  obtain ru wu where u: "UptimeRepo_RecordCheck pg_UptimeRepo (mon_id m) (res_checked_at res)
      (res_status res = StatusUp) wi = (ru, wu)" by (cases "UptimeRepo_RecordCheck pg_UptimeRepo (mon_id m) (res_checked_at res)
      (res_status res = StatusUp) wi")
  have wi_ok: "w_faults wi = []" using assms by (simp add: wi_def ready_def)
  from RecordCheck_run [OF wi_ok u] obtain us where wu: "wu = wi\<lparr>w_db := (w_db wi)\<lparr>t_uptime_hourly := us\<rparr>\<rparr>"
    by blast
  obtain r0 rs where rows: "filter (\<lambda>r. mnr_id r = mon_id m \<and> live r) (t_monitors (w_db w)) = r0 # rs"
    using mr by (cases "filter (\<lambda>r. mnr_id r = mon_id m \<and> live r) (t_monitors (w_db w))")
      (auto simp: filter_empty_conv)
  have ins: "CheckResultRepo_Insert pg_CheckResultRepo res (w\<lparr>w_metrics := w_metrics w
      @ [RecordCheck (mon_type m) (res_status res) (res_response_time_ms res * 1000000)]\<rparr>) = (Inr (), wi)"
    using assms mr unfolding ready_def
    by (auto simp: pg_CheckResultRepo_def pg_CheckResultRepo_Insert_def q_InsertCheckResult_def
        checkResultToInsertParams_def run_simps Let_def monitor_exists_def wi_def result_row_def)
  define w1 where "w1 = wu\<lparr>w_db := (w_db wu)\<lparr>t_monitors := update_where (\<lambda>r. mnr_id r = mon_id m \<and> live r)
      (\<lambda>r. r\<lparr>mnr_current_status := res_status res\<rparr>) (t_monitors (w_db w))\<rparr>\<rparr>"
  have st: "MonitorRepo_UpdateStatus (pg_MonitorRepo C) (mon_id m) (res_status res) wu
      = (Inr (status_of (w_db w) (mon_id m)), w1)"
    using rows wi_ok
    by (simp add: pg_MonitorRepo_def pg_MonitorRepo_UpdateStatus_def q_UpdateMonitorStatus_def statement_ok
        wu one_row_def status_of_def w1_def wi_def Let_def)
  have "ProcessCheckResult ?S m res w =
       (if res_status res = StatusDown then handleDown ?S m res
        else if res_status res = StatusUp \<and> status_of (w_db w) (mon_id m) = StatusDown
        then handleRecovery ?S m else returnE ()) w1"
    unfolding ProcessCheckResult_def
    using ins u st by (simp add: pg_monitoring_def metric_of_def run_simps)
  moreover have "recorded (w_db w) (w_next_serial w) m res (w_db w1)"
    by (simp add: recorded_def w1_def wu wi_def)
  ultimately show ?thesis
    using that assms by (simp add: w1_def wu wi_def ready_def)
qed

section \<open>A failure and a recovery\<close>

lemma incident_opens_cong:
  assumes "t_check_results d' = t_check_results d" and "t_incidents d' = t_incidents d"
    and "t_maintenance_windows d' = t_maintenance_windows d"
  shows "incident_opens d' now m = incident_opens d now m"
  using assms
  by (simp add: incident_opens_def in_cooldown_def in_window_def has_open_def failure_run_def results_of_def)

definition with_result :: "world \<Rightarrow> check_result \<Rightarrow> database" where
  "with_result w res = (w_db w)\<lparr>t_check_results :=
     t_check_results (w_db w) @ [result_row (w_next_serial w) res]\<rparr>"

lemma down_run:
  assumes ready: "ready w m res" and down: "res_status res = StatusDown"
    and run: "ProcessCheckResult (pg_monitoring C reg events) m res w = (r, w')"
  shows "r = Inr ()"
    and "t_incidents (w_db w') = t_incidents (w_db w) @
           (if incident_opens (with_result w res) (w_db_clock w) m
            then [auto_incident (w_next_serial w + 1) (w_db_clock w) m res] else [])"
    and "w_alert_events w' = w_alert_events w @
           (if incident_opens (with_result w res) (w_db_clock w) m
            then [alert_for reg m AlertDown (error_cause res) (w_next_serial w + 1)] else [])"
proof -
  obtain w1 where pr: "ProcessCheckResult (pg_monitoring C reg events) m res w =
       (if res_status res = StatusDown then handleDown (pg_monitoring C reg events) m res
        else if res_status res = StatusUp \<and> status_of (w_db w) (mon_id m) = StatusDown
        then handleRecovery (pg_monitoring C reg events) m else returnE ()) w1"
    and rec: "recorded (w_db w) (w_next_serial w) m res (w_db w1)"
    and w1: "w_faults w1 = []" "w_next_serial w1 = w_next_serial w + 1" "w_db_clock w1 = w_db_clock w"
      "w_alert_events w1 = w_alert_events w"
    by (rule record_run [OF ready, of C reg events])
  from pr run down have hd: "handleDown (pg_monitoring C reg events) m res w1 = (r, w')" by simp
  have mons: "monitor_exists (w_db w1) (mon_id m)"
  proof -
    have "map mnr_id (t_monitors (w_db w1)) = map mnr_id (t_monitors (w_db w))"
      using rec by (simp add: recorded_def map_update_where)
    moreover have "mon_id m \<in> set (map mnr_id (t_monitors (w_db w)))"
      using ready by (force simp: ready_def)
    ultimately have "mon_id m \<in> set (map mnr_id (t_monitors (w_db w1)))" by simp
    then show ?thesis by (auto simp: monitor_exists_def)
  qed
  have fresh: "\<not> incident_exists (w_db w1) (w_next_serial w1)"
    using ready rec w1 by (auto simp: ready_def recorded_def incident_exists_def)
  have few: "length (t_check_results (w_db w1)) < 2 ^ 31"
    using ready rec by (simp add: ready_def recorded_def)
  have same: "incident_opens (w_db w1) now m = incident_opens (with_result w res) now m" for now
    using rec by (intro incident_opens_cong) (simp_all add: recorded_def with_result_def)
  note hd' = handleDown_run [OF w1(1) few mons fresh hd]
  show "r = Inr ()" by (rule hd'(1))
  show "t_incidents (w_db w') = t_incidents (w_db w) @
           (if incident_opens (with_result w res) (w_db_clock w) m
            then [auto_incident (w_next_serial w + 1) (w_db_clock w) m res] else [])"
    using hd'(2) rec by (simp add: same w1 recorded_def)
  show "w_alert_events w' = w_alert_events w @
           (if incident_opens (with_result w res) (w_db_clock w) m
            then [alert_for reg m AlertDown (error_cause res) (w_next_serial w + 1)] else [])"
    using hd'(3) by (simp add: same w1)
qed

definition resolve_row :: "time \<Rightarrow> incident_row \<Rightarrow> incident_row" where
  "resolve_row now r = r\<lparr>inr_resolved_at := Some now, inr_state := IncidentStateResolved\<rparr>"

text \<open>The open incident that the query finds is the only one.\<close>

lemma open_of:
  assumes ok: "incidents_ok d" and r: "r \<in> set (t_incidents d)" "inr_monitor_id r = m" "is_open r"
  shows "filter (\<lambda>x. inr_monitor_id x = m \<and> is_open x) (t_incidents d) = [r]"
proof -
  from ok have d: "distinct (map inr_monitor_id (filter is_open (t_incidents d)))"
    by (simp add: incidents_ok_def one_open_incident_def unique_on_def)
  have split: "filter (\<lambda>x. inr_monitor_id x = m \<and> is_open x) (t_incidents d)
      = filter (\<lambda>x. inr_monitor_id x = m) (filter is_open (t_incidents d))" by (simp add: conj_commute)
  have one: "filter (\<lambda>x. inr_monitor_id x = m) xs = [r]"
    if "distinct (map inr_monitor_id xs)" "r \<in> set xs" for xs
    using that r(2)
  proof (induction xs)
    case (Cons x xs)
    then show ?case by (auto simp: filter_empty_conv image_iff)
  qed simp
  show ?thesis unfolding split by (rule one [OF d]) (simp add: r)
qed

lemma handleRecovery_run:
  assumes ok: "w_faults w = []" and inv: "incidents_ok (w_db w)"
    and run: "handleRecovery (pg_monitoring C reg events) m w = (r, w')"
  shows "r = Inr ()"
    and "t_incidents (w_db w') = update_where (\<lambda>x. inr_monitor_id x = mon_id m \<and> is_open x)
           (resolve_row (w_app_clock w)) (t_incidents (w_db w))"
    and "w_alert_events w' = w_alert_events w @
           map (\<lambda>x. alert_for reg m AlertUp [] (inr_id x))
             (filter (\<lambda>x. inr_monitor_id x = mon_id m \<and> is_open x) (t_incidents (w_db w)))"
proof -
  let ?p = "\<lambda>x. inr_monitor_id x = mon_id m \<and> is_open x"
  have "r = Inr () \<and> t_incidents (w_db w') = update_where ?p (resolve_row (w_app_clock w)) (t_incidents (w_db w))
    \<and> w_alert_events w' = w_alert_events w @ map (\<lambda>x. alert_for reg m AlertUp [] (inr_id x)) (filter ?p (t_incidents (w_db w)))"
  proof (cases "has_open (w_db w) (mon_id m)")
    case False
    then have none: "filter ?p (t_incidents (w_db w)) = []"
      by (auto simp: has_open_def filter_empty_conv)
    then have "update_where ?p (resolve_row (w_app_clock w)) (t_incidents (w_db w)) = t_incidents (w_db w)"
      by (intro map_idI [of _ "\<lambda>x. if ?p x then resolve_row (w_app_clock w) x else x", folded update_where_def])
         (auto simp: filter_empty_conv)
    with run ok none show ?thesis
      by (auto simp: handleRecovery_def pg_monitoring_def pg_IncidentRepo_def pg_IncidentRepo_GetOpen_def
          q_GetOpenIncidentByMonitorID_def run_simps newest_first_def one_row_def)
  next
    case True
    then obtain x where x: "x \<in> set (t_incidents (w_db w))" "inr_monitor_id x = mon_id m" "is_open x"
      by (auto simp: has_open_def)
    note one = open_of [OF inv x]
    then have only: "newest_first (filter ?p (t_incidents (w_db w))) = [x]"
      by (simp add: newest_first_def)
    have upd: "update_where (\<lambda>y. inr_id y = inr_id x) f (t_incidents (w_db w)) = update_where ?p f (t_incidents (w_db w))" for f
    proof -
      have "inr_id y = inr_id x \<longleftrightarrow> ?p y" if "y \<in> set (t_incidents (w_db w))" for y
        using that x inv unique_on_eqD [of inr_id "\<lambda>_. True" "t_incidents (w_db w)" y x]
          unique_on_eqD [of inr_monitor_id is_open "t_incidents (w_db w)" y x]
        by (auto simp: incidents_ok_def one_open_incident_def incident_keys_def)
      then show ?thesis by (auto simp: update_where_def)
    qed
    from run ok only one show ?thesis
      by (auto simp: handleRecovery_def pg_monitoring_def pg_IncidentRepo_def pg_IncidentRepo_GetOpen_def
          q_GetOpenIncidentByMonitorID_def run_simps one_row_def pg_IncidentRepo_Resolve_def
          q_ResolveIncident_def upd publishAlert_def alert_for_def metric_of_def resolve_row_def [abs_def] Let_def)
  qed
  then show "r = Inr ()"
    and "t_incidents (w_db w') = update_where ?p (resolve_row (w_app_clock w)) (t_incidents (w_db w))"
    and "w_alert_events w' = w_alert_events w @ map (\<lambda>x. alert_for reg m AlertUp [] (inr_id x)) (filter ?p (t_incidents (w_db w)))"
    by simp_all
qed

end
