(* ===== verification/Demo.thy ===== *)
theory Demo
  imports Check_Facts
begin

text \<open>
  A small system that the concrete examples run on: one Pro user, one user on the free
  plan, a live public monitor of the first, and its last check results.
\<close>

definition demo_user :: user where
  "demo_user = \<lparr>usr_id = 1, usr_email = ''a@x.example'', usr_slug = ''acme'', usr_plan = PlanPro,
     usr_created_at = 0\<rparr>"

definition demo_user_row :: user_row where
  "demo_user_row =
     \<lparr>usrr_id = 1, usrr_email = ''a@x.example'', usrr_slug = ''acme'', usrr_password_hash = ''hash'',
      usrr_plan = PlanPro, usrr_lemon_squeezy_customer_id = None,
      usrr_lemon_squeezy_subscription_id = None, usrr_created_at = 0, usrr_deleted_at = None,
      usrr_subscription_variant = None, usrr_logo_url = None, usrr_accent_color = None,
      usrr_custom_footer_text = None\<rparr>"

definition demo_guest_row :: user_row where
  "demo_guest_row = demo_user_row\<lparr>usrr_id := 2, usrr_email := ''b@y.example'', usrr_slug := ''guest'',
     usrr_plan := PlanFree\<rparr>"

definition demo_monitor_row :: monitor_row where
  "demo_monitor_row =
     \<lparr>mnr_id = 7, mnr_user_id = 1, mnr_name = ''site'', mnr_interval_seconds = 60,
      mnr_alert_after_failures = 2, mnr_is_paused = False, mnr_is_public = True,
      mnr_current_status = StatusDown, mnr_created_at = 0, mnr_type = MonitorTCP,
      mnr_check_config = ''7'', mnr_deleted_at = None, mnr_group_id = None\<rparr>"

definition demo_monitor :: monitor where
  "demo_monitor =
     \<lparr>mon_id = 7, mon_user_id = 1, mon_name = ''site'', mon_type = MonitorTCP, mon_check_config = ''7'',
      mon_interval_seconds = 60, mon_alert_after_failures = 2, mon_is_paused = False,
      mon_is_public = True, mon_current_status = StatusDown, mon_created_at = 0\<rparr>"

definition demo_result_row :: "int \<Rightarrow> string \<Rightarrow> time \<Rightarrow> check_result_row" where
  "demo_result_row i st t =
     \<lparr>crr_id = i, crr_monitor_id = 7, crr_status = st, crr_status_code = None,
      crr_response_time_ms = 5, crr_error_message = None, crr_checked_at = t\<rparr>"

definition demo_incident_row :: incident_row where
  "demo_incident_row =
     \<lparr>inr_id = 3, inr_monitor_id = 7, inr_started_at = 0, inr_resolved_at = None,
      inr_cause = ''refused'', inr_state = IncidentStateInvestigating, inr_is_manual = False,
      inr_title = None\<rparr>"

definition demo_db :: database where
  "demo_db = empty_db\<lparr>t_users := [demo_user_row, demo_guest_row], t_monitors := [demo_monitor_row],
     t_check_results := [demo_result_row 1 StatusUp 100, demo_result_row 2 StatusDown 200]\<rparr>"

definition demo_world :: world where
  "demo_world = empty_world\<lparr>w_db := demo_db, w_next_serial := 10, w_next_uuid := 20,
     w_db_clock := seconds 1000, w_app_clock := seconds 1000\<rparr>"

text \<open>The same system with an open incident.\<close>

definition demo_outage :: world where
  "demo_outage = demo_world\<lparr>w_db := demo_db\<lparr>t_incidents := [demo_incident_row]\<rparr>\<rparr>"

definition demo_result :: "string \<Rightarrow> check_result" where
  "demo_result st =
     \<lparr>res_id = 0, res_monitor_id = 7, res_status = st, res_status_code = None,
      res_response_time_ms = 9, res_error_message = Some ''refused'', res_checked_at = 300\<rparr>"

text \<open>A network on which every connection is refused.\<close>

definition demo_net :: network where
  "demo_net =
     \<lparr>net_url_host = (\<lambda>u. Inr u), net_request_error = (\<lambda>m u. None),
      net_http = (\<lambda>m u b t now. (0, Inl ''refused'')), net_dial = (\<lambda>a t now. (0, Inl ''refused'')),
      net_lookup = (\<lambda>n s t now. (0, Inl ''refused''))\<rparr>"

lemmas demo_defs = demo_user_def demo_user_row_def demo_guest_row_def demo_monitor_row_def
  demo_monitor_def demo_result_row_def demo_incident_row_def demo_db_def demo_world_def
  demo_outage_def demo_result_def empty_db_def empty_world_def

lemma demo_ready: "ready demo_world demo_monitor (demo_result st)"
  by (simp add: ready_def demo_defs live_def)

lemma demo_outage_ready: "ready demo_outage demo_monitor (demo_result st)"
  by (simp add: ready_def demo_defs live_def)

lemma demo_outage_ok: "incidents_ok (w_db demo_outage)"
  by (simp add: demo_defs incidents_ok_def one_open_incident_def incident_keys_def unique_on_def is_open_def)

end
