(* ===== verification/System_Properties.thy ===== *)
theory System_Properties
  imports Tenancy Demo
begin

text \<open>
  Properties of whole executions: what holds in every reachable state, what no step undoes,
  and what a request of one user can do to another.
\<close>

section \<open>Invariants of reachable states\<close>

lemma step_keeps:
  assumes "store_steps (db_keeps I)"
    and api: "\<And>u c. steps_by (db_keeps I) (handle_call (api k net) u c)"
    and wk: "\<And>m. steps_by (db_keeps I) (worker_handler (deployed_cipher k) (registry_port (checkers net secs)) m)"
    and frame: "\<And>d d'. t_incidents d' = t_incidents d \<Longrightarrow> t_monitors d' = t_monitors d \<Longrightarrow> I d \<Longrightarrow> I d'"
    and step: "system_step k net secs w w'" and inv: "I (w_db w)"
  shows "I (w_db w')"
  using step
proof cases
  case (request u c r)
  then show ?thesis using steps_byD [OF api request] inv by simp
next
  case (check_task m r)
  then show ?thesis using steps_byD [OF wk check_task] inv by simp
next
  case surroundings
  then show ?thesis using frame inv by blast
qed

lemma worker_keeps_ok:
  "steps_by (db_keeps incidents_ok) (worker_handler (deployed_cipher k) (registry_port (checkers net secs)) m)"
  unfolding worker_handler_def worker_monitoring_def
  by (intro keeping.bindE keeping.mapErrE ok_store.worker_get ok_worker.RunCheck)

lemma worker_keeps_keys:
  "steps_by (db_keeps tables_ok) (worker_handler (deployed_cipher k) (registry_port (checkers net secs)) m)"
  unfolding worker_handler_def worker_monitoring_def
  by (intro keeping.bindE keeping.mapErrE keys_store.worker_get keys_worker.RunCheck)

lemma worker_grows:
  "steps_by grows (worker_handler (deployed_cipher k) (registry_port (checkers net secs)) m)"
  unfolding worker_handler_def worker_monitoring_def
  by (intro growing.bindE growing.mapErrE grow_store.worker_get grow_worker.RunCheck)

lemma api_keeps_ok: "steps_by (db_keeps incidents_ok) (handle_call (api k net) u c)"
  unfolding api_def app_monitoring_def by (rule ok_api.handle_call)

lemma api_keeps_keys: "steps_by (db_keeps tables_ok) (handle_call (api k net) u c)"
  unfolding api_def app_monitoring_def by (rule keys_api.handle_call)

lemma api_grows: "steps_by grows (handle_call (api k net) u c)"
  unfolding api_def app_monitoring_def by (rule grow_api.handle_call)

lemma reachable_ok: "reachable k net secs w \<Longrightarrow> incidents_ok (w_db w) \<and> tables_ok (w_db w)"
proof (induction rule: reachable.induct)
  case (start w)
  then show ?case
    by (simp add: incidents_ok_def one_open_incident_def incident_keys_def tables_ok_def
        monitor_keys_def incidents_owned_def unique_on_def)
next
  case (step w w')
  have "incidents_ok (w_db w')"
    by (rule step_keeps [OF ok_store.store_steps_axioms api_keeps_ok worker_keeps_ok _ step(2)])
       (use step incidents_ok_cong in blast)+
  moreover have "tables_ok (w_db w')"
    by (rule step_keeps [OF keys_store.store_steps_axioms api_keeps_keys worker_keeps_keys _ step(2)])
       (use step in \<open>auto elim: tables_ok_same\<close>)
  ultimately show ?case ..
qed

text \<open>The example system after its owner has reported an incident.\<close>

lemma demo_reachable: "reachable k net secs demo_world"
  by (rule reachable.start) (simp_all add: demo_defs)

definition demo_report :: api_call where
  "demo_report = CallCreateIncident 7 ''outage'' ''we look into it''"

lemma demo_trim: "trim_space ''outage'' = ''outage''" "trim_space ''we look into it'' = ''we look into it''"
  by code_simp+

lemma void_snd: "snd (void m w) = snd (m w)"
  by (auto simp: effect_simps split: prod.splits sum.splits)

lemma demo_config: "decryptConfig NoOpCipher ''7'' = Inr ''7''"
  by code_simp

lemma demo_get: "w_db w = demo_db \<Longrightarrow> w_faults w = [] \<Longrightarrow>
    pg_MonitorRepo_GetByID NoOpCipher 7 w = (Inr demo_monitor, w)"
  unfolding pg_MonitorRepo_GetByID_def q_GetMonitorByID_def decrypted_monitor_def
  by (simp add: run_simps one_row_def live_def demo_db_def demo_monitor_row_def toDomainMonitor_def
      demo_monitor_def demo_config Let_def from_int4_def)

definition demo_incident :: incident_row where
  "demo_incident =
     \<lparr>inr_id = 10, inr_monitor_id = 7, inr_started_at = seconds 1000, inr_resolved_at = None,
      inr_cause = ''outage'', inr_state = IncidentStateInvestigating, inr_is_manual = True,
      inr_title = Some ''outage''\<rparr>"

lemma demo_report_run:
  "t_incidents (w_db (snd (handle_call (api None demo_net) demo_user demo_report demo_world))) = [demo_incident]"
proof -
  have get: "pg_MonitorRepo_GetByID NoOpCipher 7 demo_world = (Inr demo_monitor, demo_world)"
    by (rule demo_get) (simp_all add: demo_world_def empty_world_def)
  have own: "mon_user_id demo_monitor = 1" "usr_id demo_user = 1"
    by (simp_all add: demo_monitor_def demo_user_def)
  define inp where "inp = \<lparr>cmi_monitor_id = 7, cmi_user_id = 1, cmi_title = ''outage'', cmi_body = ''we look into it''\<rparr>"
  have tx: "t_incidents (w_db (snd (manual_incident_tx (api None demo_net) inp ''outage'' ''we look into it'' demo_world))) = [demo_incident]
    \<and> w_faults (snd (manual_incident_tx (api None demo_net) inp ''outage'' ''we look into it'' demo_world)) = []
    \<and> fst (manual_incident_tx (api None demo_net) inp ''outage'' ''we look into it'' demo_world) \<noteq> Inl e" for e
    by (simp add: manual_incident_tx_def inp_def run_simps pg_IncidentRepo_Create_def q_CreateIncident_def
        pg_IncidentUpdateRepo_Create_def q_CreateIncidentUpdate_def IncidentState_Valid_def Let_def
        incident_exists_def monitor_exists_def user_exists_def demo_defs demo_incident_def)
  have "t_incidents (w_db (snd (tx_do (manual_incident_tx (api None demo_net) inp ''outage'' ''we look into it'') demo_world))) = [demo_incident]"
    using tx by (cases "manual_incident_tx (api None demo_net) inp ''outage'' ''we look into it'' demo_world")
      (auto simp: tx_do_ok demo_world_def empty_world_def split: sum.splits)
  moreover have "CreateManualIncident (api None demo_net) inp demo_world
      = tx_do (manual_incident_tx (api None demo_net) inp ''outage'' ''we look into it'') demo_world"
    by (simp add: CreateManualIncident_def inp_def demo_trim own get bindE_apply deployed_cipher_def Let_def)
  ultimately show ?thesis
    by (simp add: demo_report_def own void_snd inp_def)
qed

lemma demo_reported:
  "\<exists>w. reachable None demo_net 10 w \<and> demo_incident \<in> set (t_incidents (w_db w))"
proof -
  define w where "w = snd (handle_call (api None demo_net) demo_user demo_report demo_world)"
  have "system_step None demo_net 10 demo_world w"
    by (rule system_step.request [where u = demo_user and c = demo_report]) (simp add: w_def prod_eq_iff)
  then have "reachable None demo_net 10 w" using demo_reachable reachable.step by blast
  moreover have "demo_incident \<in> set (t_incidents (w_db w))" by (simp add: w_def demo_report_run)
  ultimately show ?thesis by blast
qed

section \<open>Properties\<close>

text \<open>C1: in every reachable state, whatever requests and check tasks have run in whatever
  order and whichever calls failed, no monitor has two open incidents, no two incidents and
  no two monitors share a key, and every incident belongs to a monitor.\<close>

theorem reachable_one_open_incident:
  assumes "reachable k net secs w"
    and "a \<in> set (t_incidents (w_db w))" and "b \<in> set (t_incidents (w_db w))"
  shows "(inr_monitor_id a = inr_monitor_id b \<and> inr_resolved_at a = None \<and> inr_resolved_at b = None \<longrightarrow> a = b)
    \<and> (inr_id a = inr_id b \<longrightarrow> a = b) \<and> monitor_exists (w_db w) (inr_monitor_id a)
    \<and> distinct (map mnr_id (t_monitors (w_db w)))"
proof -
  from reachable_ok [OF assms(1)]
  have open1: "unique_on inr_monitor_id is_open (t_incidents (w_db w))"
    and keys: "unique_on inr_id (\<lambda>_. True) (t_incidents (w_db w))"
    and mons: "distinct (map mnr_id (t_monitors (w_db w)))"
    and own: "\<forall>r \<in> set (t_incidents (w_db w)). monitor_exists (w_db w) (inr_monitor_id r)"
    by (simp_all add: incidents_ok_def one_open_incident_def incident_keys_def tables_ok_def
        monitor_keys_def incidents_owned_def unique_on_def)
  show ?thesis
    using unique_on_eqD [OF open1 assms(2,3)] unique_on_eqD [OF keys assms(2,3)] mons own assms(2)
    by (auto simp: is_open_def)
qed

lemma reachable_one_open_incident_witness:
  "\<exists>w. reachable None demo_net 10 w \<and> demo_incident \<in> set (t_incidents (w_db w))
     \<and> monitor_exists (w_db w) 7"
proof -
  obtain w where r: "reachable None demo_net 10 w" and m: "demo_incident \<in> set (t_incidents (w_db w))"
    using demo_reported by blast
  from reachable_one_open_incident [OF r m m] r m show ?thesis
    by (auto simp: demo_incident_def)
qed




end
