(* ===== verification/Check_Properties.thy ===== *)
theory Check_Properties
  imports Demo
begin

text \<open>
  The properties of the check pipeline of \<open>internal/app/monitoring.go\<close>: what the worker
  does with one check result when no call fails.
\<close>

section \<open>Recovery\<close>

lemma up_run:
  assumes ready: "ready w m res" and ok: "incidents_ok (w_db w)" and up: "res_status res = StatusUp"
    and run: "ProcessCheckResult (pg_monitoring C reg events) m res w = (r, w')"
  shows "r = Inr ()"
    and "t_incidents (w_db w') = (if status_of (w_db w) (mon_id m) = StatusDown
           then update_where (\<lambda>x. inr_monitor_id x = mon_id m \<and> is_open x)
                  (resolve_row (w_app_clock w)) (t_incidents (w_db w))
           else t_incidents (w_db w))"
    and "w_alert_events w' = w_alert_events w @ (if status_of (w_db w) (mon_id m) = StatusDown
           then map (\<lambda>x. alert_for reg m AlertUp [] (inr_id x))
                  (filter (\<lambda>x. inr_monitor_id x = mon_id m \<and> is_open x) (t_incidents (w_db w)))
           else [])"
proof -
  obtain w1 where pr: "ProcessCheckResult (pg_monitoring C reg events) m res w =
       (if res_status res = StatusDown then handleDown (pg_monitoring C reg events) m res
        else if res_status res = StatusUp \<and> status_of (w_db w) (mon_id m) = StatusDown
        then handleRecovery (pg_monitoring C reg events) m else returnE ()) w1"
    and rec: "recorded (w_db w) (w_next_serial w) m res (w_db w1)"
    and w1: "w_faults w1 = []" "w_app_clock w1 = w_app_clock w" "w_alert_events w1 = w_alert_events w"
    by (rule record_run [OF ready, of C reg events])
  have inc: "t_incidents (w_db w1) = t_incidents (w_db w)" using rec by (simp add: recorded_def)
  then have ok1: "incidents_ok (w_db w1)" using ok incidents_ok_cong by blast
  have "r = Inr () \<and> t_incidents (w_db w') = (if status_of (w_db w) (mon_id m) = StatusDown
           then update_where (\<lambda>x. inr_monitor_id x = mon_id m \<and> is_open x)
                  (resolve_row (w_app_clock w)) (t_incidents (w_db w))
           else t_incidents (w_db w))
     \<and> w_alert_events w' = w_alert_events w @ (if status_of (w_db w) (mon_id m) = StatusDown
           then map (\<lambda>x. alert_for reg m AlertUp [] (inr_id x))
                  (filter (\<lambda>x. inr_monitor_id x = mon_id m \<and> is_open x) (t_incidents (w_db w)))
           else [])"
  proof (cases "status_of (w_db w) (mon_id m) = StatusDown")
    case True
    with pr run up have "handleRecovery (pg_monitoring C reg events) m w1 = (r, w')" by simp
    from handleRecovery_run [OF w1(1) ok1 this] True show ?thesis by (simp add: inc w1)
  next
    case False
    with pr run up have "returnE () w1 = (r, w')" by simp
    with False inc w1 show ?thesis by (auto simp: returnE_apply)
  qed
  then show "r = Inr ()"
    and "t_incidents (w_db w') = (if status_of (w_db w) (mon_id m) = StatusDown
           then update_where (\<lambda>x. inr_monitor_id x = mon_id m \<and> is_open x)
                  (resolve_row (w_app_clock w)) (t_incidents (w_db w))
           else t_incidents (w_db w))"
    and "w_alert_events w' = w_alert_events w @ (if status_of (w_db w) (mon_id m) = StatusDown
           then map (\<lambda>x. alert_for reg m AlertUp [] (inr_id x))
                  (filter (\<lambda>x. inr_monitor_id x = mon_id m \<and> is_open x) (t_incidents (w_db w)))
           else [])"
    by simp_all
qed

section \<open>Properties\<close>

text \<open>C2: a failed check opens an incident, and publishes one alert for it, exactly when the
  run of failures with this one has reached the threshold of the monitor, no incident of it
  was closed in the last five minutes, no maintenance window is active and none is open.
  Otherwise incidents and alerts are as before. The handler never fails when its ports do not.\<close>

theorem down_result_opens_incident:
  assumes "ready w m res" and "res_status res = StatusDown"
    and "ProcessCheckResult (worker k net secs) m res w = (r, w')"
  shows "r = Inr ()
    \<and> t_incidents (w_db w') = t_incidents (w_db w) @
           (if incident_opens (with_result w res) (w_db_clock w) m
            then [auto_incident (w_next_serial w + 1) (w_db_clock w) m res] else [])
    \<and> w_alert_events w' = w_alert_events w @
           (if incident_opens (with_result w res) (w_db_clock w) m
            then [alert_for (ms_registry (worker k net secs)) m AlertDown (error_cause res) (w_next_serial w + 1)]
            else [])"
  using down_run [OF assms(1,2) assms(3) [unfolded worker_def worker_monitoring_def]]
  by (simp add: worker_def worker_monitoring_def pg_monitoring_def)

lemma down_result_opens_incident_witness:
  "t_incidents (w_db (snd (ProcessCheckResult (worker None demo_net 10) demo_monitor (demo_result StatusDown) demo_world)))
     = [auto_incident 11 (seconds 1000) demo_monitor (demo_result StatusDown)]"
proof -
  have "incident_opens (with_result demo_world (demo_result StatusDown)) (w_db_clock demo_world) demo_monitor"
    by (simp add: incident_opens_def with_result_def result_row_def failure_run_def results_of_def
        latest_first_def in_cooldown_def in_window_def has_open_def demo_defs insort_key_def)
  moreover have "res_status (demo_result StatusDown) = StatusDown" by (simp add: demo_defs)
  ultimately show ?thesis
    using down_result_opens_incident [OF demo_ready, of StatusDown None demo_net 10]
    by (cases "ProcessCheckResult (worker None demo_net 10) demo_monitor (demo_result StatusDown) demo_world")
       (auto simp: demo_defs)
qed

text \<open>C3: the first success after a failure closes the open incident of the monitor, if there is
  one, at the time of the worker's clock, and publishes one recovery alert for it; a success
  after a success changes no incident and publishes nothing.\<close>

theorem up_result_closes_incident:
  assumes "ready w m res" and "incidents_ok (w_db w)" and "res_status res = StatusUp"
    and "ProcessCheckResult (worker k net secs) m res w = (r, w')"
  shows "r = Inr ()
    \<and> t_incidents (w_db w') = (if status_of (w_db w) (mon_id m) = StatusDown
           then update_where (\<lambda>x. inr_monitor_id x = mon_id m \<and> is_open x)
                  (resolve_row (w_app_clock w)) (t_incidents (w_db w))
           else t_incidents (w_db w))
    \<and> w_alert_events w' = w_alert_events w @ (if status_of (w_db w) (mon_id m) = StatusDown
           then map (\<lambda>x. alert_for (ms_registry (worker k net secs)) m AlertUp [] (inr_id x))
                  (filter (\<lambda>x. inr_monitor_id x = mon_id m \<and> is_open x) (t_incidents (w_db w)))
           else [])"
  using up_run [OF assms(1,2,3) assms(4) [unfolded worker_def worker_monitoring_def]]
  by (simp add: worker_def worker_monitoring_def pg_monitoring_def)

lemma up_result_closes_incident_witness:
  "t_incidents (w_db (snd (ProcessCheckResult (worker None demo_net 10) demo_monitor (demo_result StatusUp) demo_outage)))
     = [resolve_row (seconds 1000) demo_incident_row]"
  using up_result_closes_incident [OF demo_outage_ready demo_outage_ok, of StatusUp None demo_net 10]
  by (cases "ProcessCheckResult (worker None demo_net 10) demo_monitor (demo_result StatusUp) demo_outage")
     (auto simp: status_of_def update_where_def is_open_def live_def resolve_row_def demo_defs)

text \<open>C8: the number that the failure threshold is compared with is the number of failures
  since the last success, counted from the latest result of the monitor.\<close>

theorem failures_since_last_success:
  assumes "w_faults w = []" and "length (t_check_results (w_db w)) < 2 ^ 31"
  shows "CheckResultRepo_ConsecutiveFailures pg_CheckResultRepo m w
    = (Inr (int (length (filter (\<lambda>r. crr_status r = StatusDown)
         (takeWhile (\<lambda>r. crr_status r \<noteq> StatusUp)
            (latest_first (filter (\<lambda>r. crr_monitor_id r = m) (t_check_results (w_db w)))))))), w)"
  using ConsecutiveFailures_run [OF assms, of m]
  by (simp add: pg_CheckResultRepo_def failure_run_def results_of_def)

lemma failures_since_last_success_witness:
  "CheckResultRepo_ConsecutiveFailures pg_CheckResultRepo 7 demo_world = (Inr 1, demo_world)"
  using failures_since_last_success [of demo_world 7]
  by (simp add: demo_defs latest_first_def insort_key_def)

end
