(* ===== verification/Incident_Properties.thy ===== *)
theory Incident_Properties
  imports System_Properties
begin

text \<open>
  The operations on incidents that users call: what a state change writes, that a failed
  call leaves the tables alone, and the life cycle of an incident.
\<close>

section \<open>What a state change writes\<close>

definition change_row :: "string \<Rightarrow> time \<Rightarrow> incident_row \<Rightarrow> incident_row" where
  "change_row st now r = (if st = IncidentStateResolved then resolve_row now r else r\<lparr>inr_state := st\<rparr>)"

lemma update_where_twice:
  assumes "\<And>x. k (g x) = k x"
  shows "update_where (\<lambda>x. k x = i) f (update_where (\<lambda>x. k x = i) g xs) = update_where (\<lambda>x. k x = i) (\<lambda>x. f (g x)) xs"
  using assms by (simp add: update_where_def)

definition update_row :: "world \<Rightarrow> change_incident_state_input \<Rightarrow> incident_update_row" where
  "update_row w inp =
     \<lparr>iur_id = w_next_serial w, iur_incident_id = csi_incident_id inp, iur_state = csi_new_state inp,
      iur_body = csi_update_body inp, iur_posted_by_user_id = csi_user_id inp, iur_posted_at = w_db_clock w\<rparr>"

lemma change_state_tx_InrD:
  assumes "change_state_tx (api k net) inp w = (Inr x, w')"
  shows "x = incidentUpdateFromRow (update_row w inp)
      \<and> w_db w' = (w_db w)\<lparr>t_incidents := update_where (\<lambda>r. inr_id r = csi_incident_id inp)
             (change_row (csi_new_state inp) (w_app_clock w)) (t_incidents (w_db w)),
           t_incident_updates := t_incident_updates (w_db w) @ [update_row w inp]\<rparr>"
  using assms
  unfolding change_state_tx_def api_ports pg_IncidentRepo_Resolve_def pg_IncidentUpdateRepo_Create_def
    q_UpdateIncidentState_def q_ResolveIncident_def q_CreateIncidentUpdate_def Let_def
  by (auto elim!: bindE_InrE mapErrE_InrE statement_InrE simp: returnE_apply clock_now_def readE_apply nextval_def
      change_row_def [abs_def] resolve_row_def [abs_def] update_where_twice [where k = inr_id] update_row_def
      split: if_splits)

lemma ChangeIncidentState_InrD:
  assumes "ChangeIncidentState (api k net) inp w = (Inr x, w')"
  shows "\<exists>r q. r \<in> set (t_incidents (w_db w)) \<and> inr_id r = csi_incident_id inp
      \<and> q \<in> set (t_monitors (w_db w)) \<and> mnr_id q = inr_monitor_id r \<and> live q \<and> mnr_user_id q = csi_user_id inp
      \<and> trim_space (csi_update_body inp) \<noteq> [] \<and> CanTransitionTo (inr_state r) (csi_new_state inp) = Inr ()
      \<and> x = incidentUpdateFromRow (update_row w inp)
      \<and> w_db w' = (w_db w)\<lparr>t_incidents := update_where (\<lambda>r. inr_id r = csi_incident_id inp)
             (change_row (csi_new_state inp) (w_app_clock w)) (t_incidents (w_db w)),
           t_incident_updates := t_incident_updates (w_db w) @ [update_row w inp]\<rparr>"
proof -
  from assms obtain inc w1 mon w2 where body: "trim_space (csi_update_body inp) \<noteq> []"
    and inc: "pg_IncidentRepo_GetByID (csi_incident_id inp) w = (Inr inc, w1)"
    and mon: "pg_MonitorRepo_GetByID (deployed_cipher k) (inc_monitor_id inc) w1 = (Inr mon, w2)"
    and own: "mon_user_id mon = csi_user_id inp"
    and can: "CanTransitionTo (inc_state inc) (csi_new_state inp) = Inr ()"
    and tx: "tx_do (change_state_tx (api k net) inp) w2 = (Inr x, w')"
    unfolding ChangeIncidentState_def api_ports
    by (auto split: if_splits elim!: bindE_InrE liftE_InrE simp: throwE_apply)
  note d1 = GetIncident_InrD [OF inc] and d2 = GetByID_InrD [OF mon]
  have quiet: "w_next_serial w2 = w_next_serial w \<and> w_db_clock w2 = w_db_clock w \<and> w_app_clock w2 = w_app_clock w"
    using inc mon unfolding pg_IncidentRepo_GetByID_def q_GetIncidentByID_def pg_MonitorRepo_GetByID_def
      q_GetMonitorByID_def decrypted_monitor_def Let_def
    by (auto elim!: bindE_InrE mapErrE_InrE query_InrE liftE_InrE simp: returnE_apply)
  from tx obtain fs gs w3 where b: "change_state_tx (api k net) inp (w2\<lparr>w_faults := fs\<rparr>) = (Inr x, w3)"
    and w': "w' = w3\<lparr>w_faults := gs\<rparr>" by (rule tx_do_InrE)
  from change_state_tx_InrD [OF b] d1 d2 quiet own body can w' show ?thesis
    by (force simp: update_row_def)
qed

section \<open>A failed request leaves the tables alone\<close>

lemma atomic_mapErrE: "atomic m \<Longrightarrow> atomic (mapErrE h m)"
  by (auto simp: atomic_def mapErrE_apply split: prod.splits sum.splits)

lemma atomic_void: "atomic m \<Longrightarrow> atomic (void m)"
  by (rule atomic_bindE_total) (simp_all add: total_def returnE_apply)

lemmas readonly_rules = reading.world_rules [folded readonly_def]

lemma readonly_get: "readonly (pg_MonitorRepo_GetByID C i)"
  unfolding pg_MonitorRepo_GetByID_def q_GetMonitorByID_def decrypted_monitor_def
  by (intro readonly_rules)

lemma readonly_get_incident: "readonly (pg_IncidentRepo_GetByID i)"
  unfolding pg_IncidentRepo_GetByID_def q_GetIncidentByID_def by (intro readonly_rules)

lemma readonly_encrypt: "readonly (encryptConfig (deployed_cipher k) cfg)"
proof -
  have "readonly (Cipher_Encrypt (deployed_cipher k) p)" for p
    unfolding readonly_def
  proof (rule steps_byI)
    fix w
    have "durable (snd (Cipher_Encrypt (deployed_cipher k) p w)) = durable w"
      using deployed_cipher_quiet [of k] unfolding cipher_quiet_def steps_by_def by blast
    then show "w_db (snd (Cipher_Encrypt (deployed_cipher k) p w)) = w_db w"
      by (subst durable_eqD) simp_all
  qed
  then show ?thesis unfolding encryptConfig_def by (intro readonly_rules)
qed

lemma readonly_owned: "readonly (loadOwnedMonitor (api k net) i u)"
  unfolding loadOwnedMonitor_def api_ports by (intro readonly_rules readonly_get)

lemma total_published: "total (published (api k net) a mon)"
  unfolding total_def published_def
  by (auto simp: effect_simps split: prod.splits sum.splits)

lemma total_metric: "total (bindE (metric_of (api k net) x) f)" if "\<And>y. total (f y)"
  using that by (auto simp: total_def metric_of_def record_metric_def effect_simps)

lemma total_logged: "total (logged m)"
  unfolding total_def by (auto simp: effect_simps split: prod.splits)

lemma NoOp_decrypts: "total (decrypted_monitor NoOpCipher row)"
  unfolding total_def decrypted_monitor_def
  by (auto simp: effect_simps decryptConfig_def NoOpCipher_def Let_def split: sum.splits)

lemma atomic_create: "atomic (pg_MonitorRepo_Create NoOpCipher mon)"
proof -
  have "readonly (encryptConfig NoOpCipher cfg)" for cfg
    using readonly_encrypt [of None] by (simp add: deployed_cipher_def)
  then show ?thesis
    unfolding pg_MonitorRepo_Create_def q_CreateMonitor_def
    by (intro atomic_bindE atomic_bindE_total atomic_statement NoOp_decrypts readonly_rules)
qed

lemma atomic_toggle: "atomic (pg_MonitorRepo_TogglePause NoOpCipher i u)"
  unfolding pg_MonitorRepo_TogglePause_def q_ToggleMonitorPause_def
  by (intro atomic_bindE_total atomic_statement NoOp_decrypts)

fun decrypts_after_write :: "api_call \<Rightarrow> bool" where
  "decrypts_after_write (CallCreateMonitor _ _ _ _ _ _) = True"
| "decrypts_after_write (CallToggleMonitorPause _) = True"
| "decrypts_after_write _ = False"

lemma atomic_calls:
  "atomic (ChangeIncidentState (api k net) ci)"
  "atomic (CreateManualIncident (api k net) mi)"
  "atomic (ScheduleMaintenance (api k net) si)"
  "atomic (UpdateMonitor (api k net) usr i ui)"
  "atomic (DeleteMonitor (api k net) u i)"
  "atomic (DeleteMaintenanceWindow (api k net) n u)"
  subgoal
    unfolding ChangeIncidentState_def api_ports
    by (intro atomic_rules readonly_get readonly_get_incident readonly_rules)
  subgoal
    unfolding CreateManualIncident_def Let_def api_ports
    by (intro atomic_rules readonly_get)
  subgoal
    unfolding ScheduleMaintenance_def with_maintenance_def api_ports option.case
      pg_MaintenanceWindowRepo_def maintenance_window_repo.simps pg_MaintenanceWindowRepo_Create_def q_CreateMaintenanceWindow_def
    by (intro atomic_throwE atomic_if atomic_bindE readonly_get atomic_bindE_total atomic_statement readonly_rules)
       (simp add: total_def returnE_apply)
  subgoal
    unfolding UpdateMonitor_def api_ports pg_MonitorRepo_Update_def q_UpdateMonitor_def
    by (intro atomic_bindE readonly_owned atomic_bindE_total atomic_mapErrE atomic_statement total_published
        readonly_encrypt readonly_rules)
  subgoal
    unfolding DeleteMonitor_def api_ports q_DeleteMonitor_def option.case
    by (intro atomic_bindE readonly_owned atomic_bindE_total atomic_statement total_metric total_logged)
  subgoal
    by (simp add: DeleteMaintenanceWindow_def with_maintenance_def pg_MaintenanceWindowRepo_def
        q_DeleteMaintenanceWindow_def atomic_statement)
  done

lemma atomic_groups:
  "atomic (CreateMonitorGroup (api k net) u nm p)"
  "atomic (UpdateMonitorGroup (api k net) n u nm p)"
  "atomic (DeleteMonitorGroup (api k net) n u)"
  "atomic (AssignMonitorGroup (api k net) i u g)"
  unfolding CreateMonitorGroup_def UpdateMonitorGroup_def DeleteMonitorGroup_def AssignMonitorGroup_def
    api_ports pg_MonitorGroupRepo_def
  by (simp_all add: pg_MonitorGroupRepo_Create_def pg_MonitorGroupRepo_Update_def q_CreateMonitorGroup_def
      q_UpdateMonitorGroup_def q_DeleteMonitorGroup_def q_AssignMonitorToGroup_def atomic_statement)
     (intro atomic_bindE_total atomic_bindE atomic_statement readonly_rules, simp add: total_def returnE_apply)

lemma atomic_request:
  assumes "k = None \<or> \<not> decrypts_after_write c"
  shows "atomic (handle_call (api k net) u c)"
proof (cases c)
  case (CallCreateMonitor name ty cfg interval alert pub)
  with assms have k: "k = None" by simp
  show ?thesis
    unfolding CallCreateMonitor handle_call.simps CreateMonitor_def api_ports k deployed_cipher_def option.case
      pg_MonitorRepo_CountByUserID_def q_CountMonitorsByUserID_def
    by (rule atomic_void) (simp, intro atomic_bindE atomic_bindE_total atomic_create total_metric total_published
        readonly_rules)
next
  case (CallToggleMonitorPause i)
  with assms have k: "k = None" by simp
  show ?thesis
    unfolding CallToggleMonitorPause handle_call.simps TogglePause_def api_ports k deployed_cipher_def option.case
    by (rule atomic_void, intro atomic_bindE readonly_owned atomic_bindE_total atomic_mapErrE atomic_toggle total_published)
qed (simp_all add: atomic_void atomic_calls atomic_groups)

section \<open>The life cycle\<close>

text \<open>Statements on other tables.\<close>

lemma other_tables:
  "steps_by (db_view t_incidents) (q_CreateMonitor cm)"
  "steps_by (db_view t_incidents) (q_DeleteMonitor i u)"
  "steps_by (db_view t_incidents) (q_ToggleMonitorPause i u)"
  "steps_by (db_view t_incidents) (q_UpdateMonitor um)"
  "steps_by (db_view t_incidents) (q_UpdateMonitorStatus i st)"
  "steps_by (db_view t_incidents) (q_InsertCheckResult ic)"
  "steps_by (db_view t_incidents) (q_UpsertUptimeHourly i t x)"
  "steps_by (db_view t_incidents) (q_CreateMaintenanceWindow cw)"
  "steps_by (db_view t_incidents) (q_DeleteMaintenanceWindow n u)"
  "steps_by (db_view t_incidents) (q_CreateMonitorGroup u nm p)"
  "steps_by (db_view t_incidents) (q_UpdateMonitorGroup n u nm p)"
  "steps_by (db_view t_incidents) (q_DeleteMonitorGroup n u)"
  "steps_by (db_view t_incidents) (q_AssignMonitorToGroup i u g)"
  unfolding insert_statements update_statements
  by (intro viewing.bindE db_viewing.nextval db_viewing.gen_random_uuid db_viewing.statement;
      auto simp: Let_def one_row_def split: if_splits list.splits)+

lemma view_io:
  "steps_by (db_view v) (PublishMonitorChanged ev)"
  "steps_by (db_view v) (PublishAlert ae)"
  "steps_by (db_view v) (record_metric x)"
  "steps_by (db_view v) (encryptConfig (deployed_cipher k) cfg)"
  "steps_by (db_view v) (pg_MonitorRepo_GetByID C i)"
  "steps_by (db_view v) (decrypted_monitor C row)"
proof -
  show "steps_by (db_view v) (PublishMonitorChanged ev)"
    by (rule steps_byI) (simp add: PublishMonitorChanged_db)
  show "steps_by (db_view v) (PublishAlert ae)"
    by (rule steps_byI) (simp add: PublishAlert_db)
  show "steps_by (db_view v) (record_metric x)"
    by (rule steps_byI) (simp add: record_metric_db)
  show "steps_by (db_view v) (encryptConfig (deployed_cipher k) cfg)"
    using readonly_encrypt [of k cfg] by (simp add: readonly_def steps_by_def)
  show "steps_by (db_view v) (pg_MonitorRepo_GetByID C i)"
    using readonly_get [of C i] by (simp add: readonly_def steps_by_def)
  show "steps_by (db_view v) (decrypted_monitor C row)"
    unfolding decrypted_monitor_def by (intro db_viewing.world_rules)
qed

lemma view_service:
  "steps_by (db_view v) (published (api k net) a mon)"
  "steps_by (db_view v) (metric_of (api k net) x)"
  "steps_by (db_view v) (loadOwnedMonitor (api k net) i u)"
  unfolding published_def publishMonitorEvent_def metric_of_def loadOwnedMonitor_def api_ports option.case
  by (intro db_viewing.world_rules view_io)+

fun on_incidents :: "api_call \<Rightarrow> bool" where
  "on_incidents (CallCreateIncident _ _ _) = True"
| "on_incidents (CallUpdateIncidentState _ _ _) = True"
| "on_incidents _ = False"

lemma other_calls: "\<not> on_incidents c \<Longrightarrow> steps_by (db_view t_incidents) (handle_call (api k net) u c)"
proof (cases c)
  case (CallCreateMonitor name ty cfg interval alert pub)
  show ?thesis
    unfolding CallCreateMonitor handle_call.simps CreateMonitor_def api_ports
      pg_MonitorRepo_CountByUserID_def q_CountMonitorsByUserID_def pg_MonitorRepo_Create_def
    by (simp, intro db_viewing.world_rules view_service view_io other_tables)
next
  case (CallScheduleMaintenanceWindow m t t' reason)
  show ?thesis
    unfolding CallScheduleMaintenanceWindow handle_call.simps ScheduleMaintenance_def with_maintenance_def api_ports option.case
      pg_MaintenanceWindowRepo_def maintenance_window_repo.simps pg_MaintenanceWindowRepo_Create_def
    by (intro db_viewing.world_rules view_service view_io other_tables)
qed (simp_all add: UpdateMonitor_def DeleteMonitor_def TogglePause_def DeleteMaintenanceWindow_def
       CreateMonitorGroup_def UpdateMonitorGroup_def DeleteMonitorGroup_def AssignMonitorGroup_def
       with_maintenance_def pg_MaintenanceWindowRepo_def pg_MonitorGroupRepo_def
       pg_MonitorRepo_Update_def pg_MonitorRepo_TogglePause_def pg_MonitorGroupRepo_Create_def
       pg_MonitorGroupRepo_Update_def,
     (intro db_viewing.world_rules view_service view_io other_tables)+)

text \<open>The three ways in which the service writes an incident.\<close>

lemma lifecycle_same: "lifecycle d \<Longrightarrow> t_incidents d' = t_incidents d \<Longrightarrow> lifecycle d'"
  by (simp add: lifecycle_def)

lemma view_lifecycle: "steps_by (db_view t_incidents) m \<Longrightarrow> steps_by (db_keeps lifecycle) m"
  unfolding steps_by_def using lifecycle_same by blast

lemma create_lifecycle:
  assumes "cii_state ci = IncidentStateInvestigating"
  shows "steps_by (db_keeps lifecycle) (pg_IncidentRepo_Create ci)"
  unfolding pg_IncidentRepo_Create_def q_CreateIncident_def
  by (intro keeping.rules db_keeping.world_rules db_keeping.statement)
     (auto simp: assms lifecycle_def lifecycle_row_def Let_def split: if_splits)

lemma resolve_lifecycle: "steps_by (db_keeps lifecycle) (pg_IncidentRepo_Resolve i t)"
  unfolding pg_IncidentRepo_Resolve_def q_ResolveIncident_def
  by (rule db_keeping.statement) (auto simp: lifecycle_def lifecycle_row_def set_update_where)

lemma manual_lifecycle: "steps_by (db_keeps lifecycle) (CreateManualIncident (api k net) inp)"
  unfolding CreateManualIncident_def manual_incident_tx_def api_ports Let_def pg_IncidentUpdateRepo_Create_def
  by (intro keeping.rules db_keeping.world_rules create_lifecycle view_lifecycle view_io
      q_CreateIncidentUpdate_view) simp

lemma change_lifecycle:
  assumes "ChangeIncidentState (api k net) inp w = (x, w')" and "incidents_ok (w_db w)" and "lifecycle (w_db w)"
  shows "lifecycle (w_db w')"
proof (cases x)
  case (Inl e)
  with assms(1,3) atomicD [OF atomic_calls(1)] show ?thesis by metis
next
  case (Inr y)
  with ChangeIncidentState_InrD [of k net inp w y w'] assms(1) obtain r where
    r: "r \<in> set (t_incidents (w_db w))" "inr_id r = csi_incident_id inp"
    and can: "CanTransitionTo (inr_state r) (csi_new_state inp) = Inr ()"
    and d: "w_db w' = (w_db w)\<lparr>t_incidents := update_where (\<lambda>r. inr_id r = csi_incident_id inp)
             (change_row (csi_new_state inp) (w_app_clock w)) (t_incidents (w_db w)),
           t_incident_updates := t_incident_updates (w_db w) @ [update_row w inp]\<rparr>"
    by blast
  have keys: "unique_on inr_id (\<lambda>_. True) (t_incidents (w_db w))"
    using assms(2) by (simp add: incidents_ok_def incident_keys_def)
  have only: "y = r" if "y \<in> set (t_incidents (w_db w))" "inr_id y = csi_incident_id inp" for y
    by (rule unique_on_eqD [OF keys]) (simp_all add: that r)
  have "inr_state r = IncidentStateResolved \<Longrightarrow> csi_new_state inp = IncidentStateResolved"
    using can by (auto simp: CanTransitionTo_def state_order_def IncidentState_Valid_def split: if_splits)
  then have "lifecycle_row (change_row (csi_new_state inp) (w_app_clock w) r)"
    using assms(3) r by (auto simp: change_row_def resolve_row_def lifecycle_row_def lifecycle_def)
  with only assms(3) show ?thesis
    by (fastforce simp: d lifecycle_def set_update_where)
qed

lemma request_lifecycle:
  assumes "handle_call (api k net) u c w = (x, w')" and "incidents_ok (w_db w)" and "lifecycle (w_db w)"
  shows "lifecycle (w_db w')"
proof (cases "on_incidents c")
  case False
  with assms show ?thesis using steps_byD [OF view_lifecycle [OF other_calls]] by blast
next
  case True
  then show ?thesis
  proof (cases c)
    case (CallCreateIncident m title body)
    with assms show ?thesis
      using steps_byD [OF keeping.bindE [OF manual_lifecycle keeping.returnE]] by fastforce
  next
    case (CallUpdateIncidentState i st body)
    let ?inp = "\<lparr>csi_incident_id = i, csi_user_id = usr_id u, csi_new_state = st, csi_update_body = body\<rparr>"
    obtain y w1 where run: "ChangeIncidentState (api k net) ?inp w = (y, w1)"
      by (cases "ChangeIncidentState (api k net) ?inp w")
    with assms(1) CallUpdateIncidentState have "w' = w1"
      by (auto simp: bindE_apply returnE_apply split: sum.splits)
    with change_lifecycle [OF run assms(2,3)] show ?thesis by simp
  qed simp_all
qed

lemma check_view:
  assumes "CheckerRegistry_Get (registry_port (checkers net secs)) ty = Inr chk"
  shows "steps_by (db_view v) (MonitorChecker_Check chk mon)"
proof (rule steps_byI)
  fix w
  have "durable (snd (MonitorChecker_Check chk mon w)) = durable w"
    using checkers_quiet [of net secs] assms unfolding checkers_quiet_def steps_by_def by blast
  then show "v (w_db (snd (MonitorChecker_Check chk mon w))) = v (w_db w)"
    by (subst durable_eqD) simp_all
qed

lemma worker_lifecycle:
  "steps_by (db_keeps lifecycle) (worker_handler (deployed_cipher k) (registry_port (checkers net secs)) m)"
proof -
  let ?s = "worker_monitoring (deployed_cipher k) (registry_port (checkers net secs))"
  have metric: "steps_by (db_keeps lifecycle) (metric_of ?s x)" for x
    unfolding metric_of_def by (intro keeping.rules view_lifecycle view_io)
  have alert: "steps_by (db_keeps lifecycle) (publishAlert ?s mon e c i)" for mon e c i
    unfolding publishAlert_def Let_def pg_service_defs monitoring_service.simps
    by (intro view_lifecycle view_io)
  have queries: "steps_by (db_keeps lifecycle) (q_ConsecutiveFailures i)"
    "steps_by (db_keeps lifecycle) (q_IsInCooldown i)" "steps_by (db_keeps lifecycle) (q_HasActiveMaintenanceWindow i)"
    "steps_by (db_keeps lifecycle) (q_GetOpenIncidentByMonitorID i)" for i
    unfolding q_ConsecutiveFailures_def q_IsInCooldown_def q_HasActiveMaintenanceWindow_def
      q_GetOpenIncidentByMonitorID_def by (rule db_keeping.query)+
  have ports: "MonitorRepo_UpdateStatus (ms_monitors ?s) = q_UpdateMonitorStatus"
    "CheckResultRepo_Insert (ms_check_results ?s) = pg_CheckResultRepo_Insert"
    "CheckResultRepo_ConsecutiveFailures (ms_check_results ?s) = pg_CheckResultRepo_ConsecutiveFailures"
    "UptimeRepo_RecordCheck (ms_uptime ?s) = pg_UptimeRepo_RecordCheck"
    "IncidentRepo_IsInCooldown (ms_incidents ?s) = q_IsInCooldown"
    "IncidentRepo_Create (ms_incidents ?s) = pg_IncidentRepo_Create"
    "IncidentRepo_GetOpen (ms_incidents ?s) = pg_IncidentRepo_GetOpen"
    "IncidentRepo_Resolve (ms_incidents ?s) = pg_IncidentRepo_Resolve"
    "ms_maintenance ?s = Some pg_MaintenanceWindowRepo"
    "MaintenanceWindowRepo_HasActive pg_MaintenanceWindowRepo = q_HasActiveMaintenanceWindow"
    by (simp_all add: pg_service_defs pg_MonitorRepo_def pg_CheckResultRepo_def pg_UptimeRepo_def pg_IncidentRepo_def
        pg_MaintenanceWindowRepo_def pg_MonitorRepo_UpdateStatus_def [abs_def] pg_IncidentRepo_IsInCooldown_def [abs_def])
  have down: "steps_by (db_keeps lifecycle) (handleDown ?s mon res)" for mon res
    unfolding handleDown_def in_maintenance_def Let_def ports option.case pg_CheckResultRepo_ConsecutiveFailures_def
    by (intro keeping.rules queries metric alert create_lifecycle) simp
  have up: "steps_by (db_keeps lifecycle) (handleRecovery ?s mon)" for mon
    unfolding handleRecovery_def ports pg_IncidentRepo_GetOpen_def clock_now_def
    by (intro keeping.rules queries metric alert resolve_lifecycle)
  have process: "steps_by (db_keeps lifecycle) (ProcessCheckResult ?s mon res)" for mon res
    unfolding ProcessCheckResult_def ports pg_CheckResultRepo_Insert_def pg_UptimeRepo_RecordCheck_def
    by (intro keeping.rules metric down up view_lifecycle [OF other_tables(5)] view_lifecycle [OF other_tables(6)]
        view_lifecycle [OF other_tables(7)])
  have check: "CheckerRegistry_Get (ms_registry ?s) ty = Inr chk \<Longrightarrow>
      steps_by (db_keeps lifecycle) (MonitorChecker_Check chk mon)" for ty chk mon
    by (rule view_lifecycle, rule check_view) (simp add: pg_service_defs)
  show ?thesis
    unfolding worker_handler_def RunCheck_def
    by (intro keeping.rules view_lifecycle view_io check process)
qed

text \<open>Nothing but requests and check tasks writes incidents, so the life cycle is an invariant.\<close>

lemma reachable_lifecycle: "reachable k net secs w \<Longrightarrow> lifecycle (w_db w)"
proof (induction rule: reachable.induct)
  case (start w)
  then show ?case by (simp add: lifecycle_def)
next
  case (step w w')
  from step.hyps(2) show ?case
  proof cases
    case (request u c r)
    then show ?thesis
      using request_lifecycle reachable_ok [OF step.hyps(1)] step.IH by blast
  next
    case (check_task m r)
    then show ?thesis using steps_byD [OF worker_lifecycle] step.IH by blast
  next
    case surroundings
    then show ?thesis using lifecycle_same step.IH by blast
  qed
qed

section \<open>Properties\<close>

text \<open>C9: a state change that succeeds was asked for by the owner of the incident's monitor, which is
  not deleted, with a non-empty text and a transition that the life cycle allows; it sets the
  state of that incident only, closes it at the current time if the new state is resolved, and
  appends one entry, with the given text, state and author, to the timeline.\<close>

theorem state_change_effect:
  assumes "ChangeIncidentState (api k net) inp w = (Inr x, w')"
  shows "\<exists>r q p'. r \<in> set (t_incidents (w_db w)) \<and> inr_id r = csi_incident_id inp
    \<and> q \<in> set (t_monitors (w_db w)) \<and> mnr_id q = inr_monitor_id r \<and> live q \<and> mnr_user_id q = csi_user_id inp
    \<and> trim_space (csi_update_body inp) \<noteq> []
    \<and> csi_new_state inp = phase_name p' \<and> (\<forall>p. inr_state r = phase_name p \<longrightarrow> phase_step p p')
    \<and> w_db w' = (w_db w)\<lparr>t_incidents := update_where (\<lambda>r. inr_id r = csi_incident_id inp)
          (\<lambda>r. if p' = Resolved then r\<lparr>inr_state := IncidentStateResolved, inr_resolved_at := Some (w_app_clock w)\<rparr>
               else r\<lparr>inr_state := phase_name p'\<rparr>) (t_incidents (w_db w)),
        t_incident_updates := t_incident_updates (w_db w) @ [update_row w inp]\<rparr>"
proof -
  from ChangeIncidentState_InrD [OF assms] obtain r q where
    rq: "r \<in> set (t_incidents (w_db w))" "inr_id r = csi_incident_id inp"
      "q \<in> set (t_monitors (w_db w))" "mnr_id q = inr_monitor_id r" "live q" "mnr_user_id q = csi_user_id inp"
      "trim_space (csi_update_body inp) \<noteq> []"
    and can: "CanTransitionTo (inr_state r) (csi_new_state inp) = Inr ()"
    and d: "w_db w' = (w_db w)\<lparr>t_incidents := update_where (\<lambda>r. inr_id r = csi_incident_id inp)
             (change_row (csi_new_state inp) (w_app_clock w)) (t_incidents (w_db w)),
           t_incident_updates := t_incident_updates (w_db w) @ [update_row w inp]\<rparr>"
    by blast
  from can have "IncidentState_Valid (csi_new_state inp)" by (auto simp: CanTransitionTo_def split: if_splits)
  then obtain p' where p': "csi_new_state inp = phase_name p'" by (rule Valid_phaseE)
  have "change_row (phase_name p') (w_app_clock w) = (\<lambda>r. if p' = Resolved
      then r\<lparr>inr_state := IncidentStateResolved, inr_resolved_at := Some (w_app_clock w)\<rparr>
      else r\<lparr>inr_state := phase_name p'\<rparr>)"
    by (cases p') (simp_all add: change_row_def resolve_row_def fun_eq_iff)
  with d have d': "w_db w' = (w_db w)\<lparr>t_incidents := update_where (\<lambda>r. inr_id r = csi_incident_id inp)
          (\<lambda>r. if p' = Resolved then r\<lparr>inr_state := IncidentStateResolved, inr_resolved_at := Some (w_app_clock w)\<rparr>
               else r\<lparr>inr_state := phase_name p'\<rparr>) (t_incidents (w_db w)),
        t_incident_updates := t_incident_updates (w_db w) @ [update_row w inp]\<rparr>"
    by (simp add: p')
  have "\<forall>p. inr_state r = phase_name p \<longrightarrow> phase_step p p'"
  proof (intro allI impI)
    fix p assume "inr_state r = phase_name p"
    with can p' have "CanTransitionTo (phase_name p) (phase_name p') = Inr ()" by (simp only:)
    then show "phase_step p p'" by (simp only: CanTransitionTo_phase)
  qed
  with rq p' d' show ?thesis by blast
qed

definition demo_change :: change_incident_state_input where
  "demo_change = \<lparr>csi_incident_id = 3, csi_user_id = 1, csi_new_state = IncidentStateResolved,
     csi_update_body = ''outage''\<rparr>"

lemma demo_change_runs: "\<exists>x w'. ChangeIncidentState (api None demo_net) demo_change demo_outage = (Inr x, w')"
proof -
  let ?tx = "change_state_tx (api None demo_net) demo_change demo_outage"
  have i: "pg_IncidentRepo_GetByID 3 demo_outage = (Inr (incidentFromRow demo_incident_row), demo_outage)"
    by (simp add: pg_IncidentRepo_GetByID_def q_GetIncidentByID_def run_simps one_row_def demo_defs)
  have m: "pg_MonitorRepo_GetByID NoOpCipher 7 demo_outage = (Inr demo_monitor, demo_outage)"
    unfolding pg_MonitorRepo_GetByID_def q_GetMonitorByID_def decrypted_monitor_def
    by (simp add: run_simps one_row_def live_def demo_defs toDomainMonitor_def demo_config Let_def from_int4_def)
  have tx: "fst ?tx \<noteq> Inl e \<and> w_faults (snd ?tx) = []" for e
    by (simp add: change_state_tx_def demo_change_def run_simps pg_IncidentRepo_Resolve_def q_ResolveIncident_def
        q_UpdateIncidentState_def pg_IncidentUpdateRepo_Create_def q_CreateIncidentUpdate_def Let_def
        IncidentState_Valid_def incident_exists_def user_exists_def update_where_def demo_defs)
  have "\<exists>x w'. tx_do (change_state_tx (api None demo_net) demo_change) demo_outage = (Inr x, w')"
    using tx by (cases ?tx) (auto simp: tx_do_ok demo_outage_def demo_world_def empty_world_def split: sum.splits)
  moreover have "CanTransitionTo IncidentStateInvestigating IncidentStateResolved = Inr ()"
    by (simp add: CanTransitionTo_def IncidentState_Valid_def state_order_def)
  ultimately show ?thesis
    by (simp add: ChangeIncidentState_def demo_change_def demo_trim i m bindE_apply liftE_apply deployed_cipher_def
        IncidentState_Valid_def demo_monitor_def demo_incident_row_def incidentFromRow_def)
qed

lemma state_change_effect_witness:
  "\<exists>w'. t_incidents (w_db w') = [resolve_row (seconds 1000) demo_incident_row]
     \<and> snd (ChangeIncidentState (api None demo_net) demo_change demo_outage) = w'"
proof -
  from demo_change_runs obtain x w' where run:
    "ChangeIncidentState (api None demo_net) demo_change demo_outage = (Inr x, w')" by blast
  from state_change_effect [OF run] obtain p' where p: "csi_new_state demo_change = phase_name p'"
    and d: "t_incidents (w_db w') = update_where (\<lambda>r. inr_id r = csi_incident_id demo_change)
          (\<lambda>r. if p' = Resolved then r\<lparr>inr_state := IncidentStateResolved, inr_resolved_at := Some (w_app_clock demo_outage)\<rparr>
               else r\<lparr>inr_state := phase_name p'\<rparr>) (t_incidents (w_db demo_outage))"
    by auto
  from p have "p' = Resolved" by (cases p') (simp_all add: demo_change_def)
  with d run show ?thesis by (simp add: demo_change_def update_where_def resolve_row_def demo_defs)
qed





end
