(* ===== verification/Data_Properties.thy ===== *)
theory Data_Properties
  imports Demo
begin

text \<open>
  Properties of the parts that compute on data: the incident life cycle, custom hostnames,
  the key ring, and the verdict of a check.
\<close>

section \<open>The incident life cycle\<close>

text \<open>C24: the transition check on state names implements the abstract life cycle: four phases in a
  linear order, moves forward or in place, and one step back from monitoring to identified.
  In particular nothing leaves the resolved phase.\<close>

theorem transitions_implement_life_cycle:
  assumes "IncidentState_Valid s"
  shows "(CanTransitionTo s t = Inr ()) =
      (\<exists>p q. s = phase_name p \<and> t = phase_name q
         \<and> (phase_rank p \<le> phase_rank q \<or> p = Monitoring \<and> q = Identified))"
proof -
  from assms obtain p where s: "s = phase_name p" by (rule Valid_phaseE)
  show ?thesis
  proof (cases "IncidentState_Valid t")
    case True
    then obtain q where t: "t = phase_name q" by (rule Valid_phaseE)
    show ?thesis
      unfolding s t CanTransitionTo_phase phase_step_iff less_eq_phase_def by auto
  next
    case False
    then have "\<nexists>q. t = phase_name q" by auto
    with False show ?thesis by (auto simp: CanTransitionTo_def)
  qed
qed

lemma transitions_implement_life_cycle_witness:
  "CanTransitionTo (phase_name Resolved) (phase_name Investigating) \<noteq> Inr ()"
  using transitions_implement_life_cycle [OF Valid_phase_name, of Resolved "phase_name Investigating"]
  by (auto simp del: phase_name.simps)

section \<open>Custom hostnames\<close>

text \<open>The hostnames that are accepted are exactly those that, trimmed and in lower case, have at
  most 253 bytes and at least two labels, each label but the last made of letters, digits and
  inner hyphens with at most 63 bytes, the last of two or more letters, and that are neither
  reserved nor below the apex domains of the service; the separate test for IP addresses
  rejects nothing that these rules accept.\<close>

theorem accepted_hostnames:
  "ValidateCustomHostname x = Inr () \<longleftrightarrow>
     (let h = to_lower (trim_space x); ls = split_on CHR ''.'' h in
        length h \<le> 253 \<and> 2 \<le> length ls
        \<and> (\<forall>l \<in> set (butlast ls). l \<noteq> [] \<and> length l \<le> 63 \<and> is_alnum (hd l) \<and> is_alnum (last l)
             \<and> (\<forall>c \<in> set l. is_alnum c \<or> c = CHR ''-''))
        \<and> 2 \<le> length (last ls) \<and> (\<forall>c \<in> set (last ls). is_alpha c)
        \<and> h \<notin> set ReservedDomains
        \<and> \<not> has_suffix h ''.pingcast.io'' \<and> \<not> has_suffix h ''.pingcast.kirillin.tech'')"
  unfolding ValidateCustomHostname_iff Let_def hostnameRegex_def label_ok_def tld_ok_def list_all_iff
  by blast

lemma accepted_hostnames_witness:
  "ValidateCustomHostname ''status.acme.com'' = Inr ()"
proof -
  have trim: "to_lower (trim_space ''status.acme.com'') = ''status.acme.com''"
    and split: "split_on CHR ''.'' ''status.acme.com'' = [''status'', ''acme'', ''com'']"
    and suf: "\<not> has_suffix ''status.acme.com'' ''.pingcast.io''"
      "\<not> has_suffix ''status.acme.com'' ''.pingcast.kirillin.tech''" "''status.acme.com'' \<notin> set ReservedDomains"
    by code_simp+
  have chars: "list_all is_alnum ''status''" "list_all is_alnum ''acme''" "list_all is_alpha ''com''"
    by code_simp+
  show ?thesis
    unfolding accepted_hostnames Let_def trim split
    using suf chars by (auto simp: list_all_iff)
qed

section \<open>The key ring\<close>

text \<open>A text encrypted under any ring is decrypted by every later ring that still holds the same
  key under the same version, and re-encryption under such a ring gives a text that decrypts
  to the same plaintext and needs no further re-encryption.\<close>

theorem key_rotation:
  assumes "Encrypt e p w = (Inr c, w1)" and "ReEncrypt e' c w2 = (Inr c', w3)"
    and "enc_keys e' (enc_primary e) = enc_keys e (enc_primary e)"
    and "\<And>A. enc_keys e (enc_primary e) = Some A \<Longrightarrow> aead_ok A"
    and "\<And>A. enc_keys e' (enc_primary e') = Some A \<Longrightarrow> aead_ok A"
  shows "Decrypt e' c = Inr p \<and> Decrypt e' c' = Inr p \<and> \<not> NeedsReEncryption e' c'"
  using Decrypt_Encrypt [OF assms(1,3,4)] ReEncrypt_step [OF assms(2,5)] by simp

lemma toy_runs:
  "\<exists>c w1 c' w3. Encrypt toy_ring ''k'' demo_world = (Inr c, w1) \<and> ReEncrypt toy_ring2 c demo_world = (Inr c', w3)"
proof -
  obtain c w1 where enc: "Encrypt toy_ring ''k'' demo_world = (Inr c, w1)"
    by (simp add: Encrypt_def read_random_def external_def effect_simps toy_ring_def demo_world_def empty_world_def)
  have "Decrypt toy_ring2 c = Inr ''k''"
    by (rule Decrypt_Encrypt [OF enc]) (auto simp: toy_ring_def toy_ring2_def toy_aead_ok)
  then have "\<exists>c' w3. ReEncrypt toy_ring2 c demo_world = (Inr c', w3)"
    by (auto simp: ReEncrypt_def Encrypt_def read_random_def external_def effect_simps toy_ring2_def
        demo_world_def empty_world_def)
  with enc show ?thesis by blast
qed

lemma key_rotation_witness:
  "\<exists>c c'. fst (Encrypt toy_ring ''k'' demo_world) = Inr c \<and> fst (ReEncrypt toy_ring2 c demo_world) = Inr c'
     \<and> Decrypt toy_ring2 c' = Inr ''k''"
proof -
  from toy_runs obtain c w1 c' w3 where
    r: "Encrypt toy_ring ''k'' demo_world = (Inr c, w1)" "ReEncrypt toy_ring2 c demo_world = (Inr c', w3)" by blast
  have ring: "enc_keys toy_ring2 (enc_primary toy_ring) = enc_keys toy_ring (enc_primary toy_ring)"
    by (simp add: toy_ring_def toy_ring2_def)
  have "Decrypt toy_ring2 c' = Inr ''k''"
    using key_rotation [OF r ring] by (simp add: toy_ring_def toy_ring2_def toy_aead_ok)
  with r show ?thesis by auto
qed

text \<open>The cipher that a start-up configuration gives is either the one that does nothing, for an
  empty key list, or a key ring whose primary version is a number from 1 to 255 for which
  the list has a key, so that encrypting can fail only for lack of randomness.\<close>

theorem configured_cipher:
  assumes "InitCipher gcm keys version = Inr C"
  shows "keys = [] \<and> C = NoOpCipher \<or>
    (\<exists>e v. C = Encryptor e \<and> atoi version = Some v \<and> 1 \<le> v \<and> v \<le> 255 \<and> enc_primary e = char_of v
       \<and> enc_primary e \<in> dom (enc_keys e) \<and> enc_keys e (CHR 0x00) = None
       \<and> (\<forall>p w. w_faults w = [] \<longrightarrow> (\<exists>c w'. Cipher_Encrypt C p w = (Inr c, w'))))"
proof (cases "keys = []")
  case True
  with assms show ?thesis by (simp add: InitCipher_def)
next
  case False
  with assms obtain ks v e where C: "C = Encryptor e" and v: "atoi version = Some v" "1 \<le> v" "v \<le> 255"
    and new: "NewEncryptor gcm (char_of v) ks = Inr e"
    by (auto simp: InitCipher_def split: sum.splits option.splits if_splits)
  note ring = NewEncryptor_ring [OF new]
  have "\<exists>c w'. Cipher_Encrypt C p w = (Inr c, w')" if "w_faults w = []" for p w
    using ring(1,2) that
    by (auto simp: C Encryptor_def Encrypt_def read_random_def external_def effect_simps)
  then have "\<exists>e v. C = Encryptor e \<and> atoi version = Some v \<and> 1 \<le> v \<and> v \<le> 255 \<and> enc_primary e = char_of v
       \<and> enc_primary e \<in> dom (enc_keys e) \<and> enc_keys e (CHR 0x00) = None
       \<and> (\<forall>p w. w_faults w = [] \<longrightarrow> (\<exists>c w'. Cipher_Encrypt C p w = (Inr c, w')))"
    using C v ring(1,2,3) by (intro exI [of _ e] exI [of _ v]) simp
  then show ?thesis ..
qed

text \<open>A list with one key of 32 zero bytes.\<close>

definition demo_keys :: string where
  "demo_keys = ''1:'' @ replicate 43 (CHR ''A'') @ ''=''"

lemma demo_keys_ok: "\<exists>C. InitCipher (\<lambda>k. toy_aead) demo_keys ''1'' = Inr C"
proof -
  have "case InitCipher (\<lambda>k. toy_aead) demo_keys ''1'' of Inl e \<Rightarrow> False | Inr C \<Rightarrow> True"
    by code_simp
  then show ?thesis by (auto split: sum.splits)
qed

lemma configured_cipher_witness:
  "\<exists>C e. InitCipher (\<lambda>k. toy_aead) demo_keys ''1'' = Inr C \<and> C = Encryptor e \<and> enc_primary e = CHR 0x01"
proof -
  obtain C where C: "InitCipher (\<lambda>k. toy_aead) demo_keys ''1'' = Inr C" using demo_keys_ok by blast
  have "atoi ''1'' = Some 1" and "demo_keys \<noteq> []" and one: "char_of (1 :: int) = CHR 0x01" by code_simp+
  with configured_cipher [OF C] obtain e v where "C = Encryptor e" "atoi ''1'' = Some v" "enc_primary e = char_of v"
    by auto
  with C \<open>atoi ''1'' = Some 1\<close> one show ?thesis by auto
qed

section \<open>The verdict of a check\<close>



text \<open>C26: an HTTP monitor whose request gets a response is up exactly when the response has the
  expected status, 200 if none is configured, and, if a keyword is configured, the keyword
  occurs in the part of the body that the configured limit, or else one mebibyte, lets
  through, read without an error.\<close>

theorem http_up_iff:
  assumes "http_config (mon_check_config m) = Inr cfg"
    and "net_request_error net (method_or_get cfg) (hcc_url cfg) = None"
    and "net_http net (method_or_get cfg) (hcc_url cfg)
           (if hcc_user_agent cfg = [] then default_user_agent else hcc_user_agent cfg)
           (go_seconds (if hcc_timeout cfg > 0 then hcc_timeout cfg else secs)) (w_app_clock w) = (d, Inr resp)"
    and "HTTPChecker_Check net secs m w = (Inr res, w')"
  shows "(res_status res = StatusUp) =
      (hr_status resp = (if hcc_expected_status cfg = 0 then 200 else hcc_expected_status cfg)
       \<and> (\<forall>kw. hcc_keyword cfg = Some kw \<and> kw \<noteq> [] \<longrightarrow>
            (let n = (if hcc_body_limit cfg > 0 then nat (hcc_body_limit cfg) else 1048576) in
             (n \<le> length (hr_body resp) \<or> hr_body_error resp = None)
             \<and> (\<exists>a b. take n (hr_body resp) = a @ kw @ b))))
    \<and> res_status_code res = Some (hr_status resp) \<and> res_response_time_ms res = milliseconds d"
proof -
  have judge: "judge_response cfg resp = None \<longleftrightarrow>
      hr_status resp = (if hcc_expected_status cfg = 0 then 200 else hcc_expected_status cfg)
       \<and> (\<forall>kw. hcc_keyword cfg = Some kw \<and> kw \<noteq> [] \<longrightarrow>
            (let n = (if hcc_body_limit cfg > 0 then nat (hcc_body_limit cfg) else 1048576) in
             (n \<le> length (hr_body resp) \<or> hr_body_error resp = None)
             \<and> (\<exists>a b. take n (hr_body resp) = a @ kw @ b)))"
    by (auto simp: judge_response_def set_string_def read_limited_def str_contains_iff Let_def
        split: option.splits)
  from assms have "res = (case judge_response cfg resp of
        Some msg \<Rightarrow> down_result m (w_app_clock w) (milliseconds d) (Some (hr_status resp)) msg
      | None \<Rightarrow> up_result m (w_app_clock w) (milliseconds d) (Some (hr_status resp)))"
    by (simp add: HTTPChecker_Check_def bindE_apply clock_now_apply returnE_apply Let_def)
  then show ?thesis
    unfolding judge [symmetric] by (auto simp: down_result_def up_result_def split: option.splits)
qed

text \<open>A site whose page contains the keyword \<open>ok\<close>.\<close>

definition demo_http :: string where
  "demo_http = [CHR ''{'', CHR 0x22, CHR ''u'', CHR ''r'', CHR ''l'', CHR 0x22, CHR '':'', CHR 0x22, CHR ''u'', CHR 0x22, CHR '','', CHR 0x22, 
     CHR ''k'', CHR ''e'', CHR ''y'', CHR ''w'', CHR ''o'', CHR ''r'', CHR ''d'', CHR 0x22, CHR '':'', CHR 0x22, CHR ''o'', CHR ''k'', CHR 0x22, CHR ''}'']"

definition demo_site :: network where
  "demo_site = demo_net\<lparr>net_http := (\<lambda>m u b t now. (5000000,
     Inr \<lparr>hr_status = 200, hr_body = ''all ok here'', hr_body_error = None\<rparr>))\<rparr>"

definition demo_http_config :: http_check_config where
  "demo_http_config =
     \<lparr>hcc_url = ''u'', hcc_method = [], hcc_expected_status = 0, hcc_keyword = Some ''ok'', hcc_timeout = 0,
      hcc_body_limit = 0, hcc_user_agent = []\<rparr>"

lemma demo_http_parses: "http_config demo_http = Inr demo_http_config"
  by code_simp

lemma http_up_iff_witness:
  "\<exists>res w'. HTTPChecker_Check demo_site 10 (demo_monitor\<lparr>mon_check_config := demo_http\<rparr>) demo_world = (Inr res, w')
     \<and> res_status res = StatusUp \<and> res_response_time_ms res = 5"
proof -
  let ?m = "demo_monitor\<lparr>mon_check_config := demo_http\<rparr>"
  obtain res w' where run: "HTTPChecker_Check demo_site 10 ?m demo_world = (Inr res, w')"
    by (simp add: HTTPChecker_Check_def bindE_apply clock_now_apply returnE_apply)
  have cfg: "http_config (mon_check_config ?m) = Inr demo_http_config" by (simp add: demo_http_parses)
  have req: "net_request_error demo_site (method_or_get demo_http_config) (hcc_url demo_http_config) = None"
    by (simp add: demo_site_def demo_net_def)
  have resp: "net_http demo_site (method_or_get demo_http_config) (hcc_url demo_http_config)
           (if hcc_user_agent demo_http_config = [] then default_user_agent else hcc_user_agent demo_http_config)
           (go_seconds (if hcc_timeout demo_http_config > 0 then hcc_timeout demo_http_config else 10)) (w_app_clock demo_world)
      = (5000000, Inr \<lparr>hr_status = 200, hr_body = ''all ok here'', hr_body_error = None\<rparr>)"
    by (simp add: demo_site_def)
  have kw: "\<exists>a b. ''all ok here'' = a @ ''ok'' @ b"
    by (intro exI [of _ "''all ''"] exI [of _ "'' here''"]) simp
  from http_up_iff [OF cfg req resp run] run kw show ?thesis
    by (auto simp: demo_http_config_def milliseconds_def)
qed

end
