(* ===== verification/Alerting.thy ===== *)
theory Alerting
  imports Channel_Store Monitoring Result_Facts
begin

text \<open>
  \<open>internal/app/alert.go\<close>: the delivery of alerts to channels, the dead-letter table, and
  the channels of a user; the consumers that \<open>bootstrap/notifier.go\<close> wires to it. The
  goroutines of one alert are run in the order of the list of channels; that the order
  does not matter to the outcome is a theorem.
\<close>

section \<open>The event as JSON (\<open>domain/alert.go\<close>)\<close>

definition json_member :: "string \<Rightarrow> string \<Rightarrow> string" where
  "json_member k v = json_marshal_string k @ '':'' @ v"

text \<open>\<open>json.Marshal(event)\<close>; the cause is left out when it is empty.\<close>

definition alert_event_json :: "alert_event \<Rightarrow> string" where
  "alert_event_json ev =
     ''{'' @ json_member ''monitor_id'' (json_marshal_string (uuid_string (ae_monitor_id ev)))
     @ '','' @ json_member ''user_id'' (json_marshal_string (uuid_string (ae_user_id ev)))
     @ '','' @ json_member ''incident_id'' (int_to_dec (ae_incident_id ev))
     @ '','' @ json_member ''monitor_name'' (json_marshal_string (ae_monitor_name ev))
     @ '','' @ json_member ''monitor_target'' (json_marshal_string (ae_monitor_target ev))
     @ '','' @ json_member ''event'' (json_marshal_string (ae_event ev))
     @ (if ae_cause ev = [] then [] else '','' @ json_member ''cause'' (json_marshal_string (ae_cause ev)))
     @ ''}''"

section \<open>Delivery\<close>

record alert_service =
  as_channels :: channel_repo
  as_monitors :: monitor_repo
  as_registry :: channel_registry
  as_failed_alerts :: failed_alert_repo
  as_metrics :: bool
  as_send_overrides :: "string \<rightharpoonup> (alert_event \<Rightarrow> unit io)"

definition alert_metric :: "alert_service \<Rightarrow> metric \<Rightarrow> unit io" where
  "alert_metric s m = (if as_metrics s then record_metric m else returnE ())"

definition deliveryReason :: "goerr \<Rightarrow> string" where
  "deliveryReason err = (case as_delivery_error err of Some (status, reason) \<Rightarrow> reason | None \<Rightarrow> ''unknown'')"

text \<open>The sender of a channel: the override of its type, or else what the registry builds.\<close>

definition sender_of :: "alert_service \<Rightarrow> notification_channel \<Rightarrow> goerr + (alert_event \<Rightarrow> unit io)" where
  "sender_of s ch =
     (case as_send_overrides s (ch_type ch) of
        Some override \<Rightarrow> Inr override
      | None \<Rightarrow> ChannelRegistry_CreateSender (as_registry s) (ch_type ch) (ch_id ch) (ch_config ch))"

text \<open>One goroutine: whether the alert went out through the channel.\<close>

definition deliver :: "alert_service \<Rightarrow> alert_event \<Rightarrow> notification_channel \<Rightarrow> bool io" where
  "deliver s ev ch =
     (case sender_of s ch of
        Inl err \<Rightarrow> bindE (alert_metric s (RecordAlertSent (ch_type ch) False ''config_error'')) (\<lambda>_. returnE False)
      | Inr send \<Rightarrow> bindE (attemptE (send ev)) (\<lambda>res. case res of
            Inl err \<Rightarrow> bindE (alert_metric s (RecordAlertSent (ch_type ch) False (deliveryReason err)))
                         (\<lambda>_. returnE False)
          | Inr _ \<Rightarrow> bindE (alert_metric s (RecordAlertSent (ch_type ch) True [])) (\<lambda>_. returnE True)))"

text \<open>All goroutines of the group, with the counters they share.\<close>

definition count_delivery :: "uuid \<Rightarrow> bool \<Rightarrow> int \<times> int \<times> uuid list \<Rightarrow> int \<times> int \<times> uuid list" where
  "count_delivery i ok = (\<lambda>(sent, failed, failedIDs).
     if ok then (sent + 1, failed, failedIDs) else (sent, failed + 1, failedIDs @ [i]))"

definition deliver_all :: "alert_service \<Rightarrow> alert_event \<Rightarrow> notification_channel list \<Rightarrow> (int \<times> int \<times> uuid list) io" where
  "deliver_all s ev channels =
     foldE (filter ch_is_enabled channels) (0, 0, [])
       (\<lambda>ch acc. bindE (deliver s ev ch) (\<lambda>ok. returnE (count_delivery (ch_id ch) ok acc)))"

text \<open>The attempts that are left; the sleep between two of them has no effect on the state.\<close>

primrec dlq_attempts :: "nat \<Rightarrow> alert_service \<Rightarrow> string \<Rightarrow> string \<Rightarrow> uuid list \<Rightarrow> unit io" where
  "dlq_attempts 0 s eventJSON errMsg failedIDs = returnE ()"
| "dlq_attempts (Suc n) s eventJSON errMsg failedIDs =
     bindE (attemptE (FailedAlertRepo_Create (as_failed_alerts s) eventJSON errMsg failedIDs)) (\<lambda>res. case res of
       Inl _ \<Rightarrow> dlq_attempts n s eventJSON errMsg failedIDs
     | Inr _ \<Rightarrow> alert_metric s RecordAlertDeadLettered)"

definition dlq_message :: "alert_event \<Rightarrow> int \<Rightarrow> int \<Rightarrow> string" where
  "dlq_message ev sent failed =
     int_to_dec failed @ ''/'' @ int_to_dec (sent + failed) @ '' channels failed for monitor ''
     @ uuid_string (ae_monitor_id ev)"

definition writeToDLQ :: "alert_service \<Rightarrow> alert_event \<Rightarrow> int \<Rightarrow> int \<Rightarrow> uuid list \<Rightarrow> unit io" where
  "writeToDLQ s ev sent failed failedIDs =
     dlq_attempts 3 s (alert_event_json ev) (dlq_message ev sent failed) failedIDs"

text \<open>The channels bound to the monitor, or else all channels of its owner.\<close>

definition channels_for :: "alert_service \<Rightarrow> alert_event \<Rightarrow> notification_channel list io" where
  "channels_for s ev =
     bindE (wrapE (''list channels for monitor '' @ uuid_string (ae_monitor_id ev))
              (ChannelRepo_ListForMonitor (as_channels s) (ae_monitor_id ev))) (\<lambda>channels.
     if channels = [] then
       wrapE (''list channels for user '' @ uuid_string (ae_user_id ev))
         (ChannelRepo_ListByUserID (as_channels s) (ae_user_id ev))
     else returnE channels)"

definition HandleAlert :: "alert_service \<Rightarrow> alert_event \<Rightarrow> unit io" where
  "HandleAlert s ev =
     bindE (channels_for s ev) (\<lambda>channels.
     if channels = [] then returnE ()
     else bindE (deliver_all s ev channels) (\<lambda>(sent, failed, failedIDs).
       if sent = 0 \<and> failed > 0 then
         bindE (alert_metric s RecordAlertAllFailed) (\<lambda>_.
         throwE (Errorf (''all '' @ int_to_dec failed @ '' channels failed for monitor ''
           @ uuid_string (ae_monitor_id ev))))
       else if failed > 0 then writeToDLQ s ev sent failed failedIDs
       else returnE ()))"

section \<open>Channels of a user\<close>

record create_channel_input =
  cci_name :: string
  cci_type :: string
  cci_config :: string

definition CreateChannel :: "alert_service \<Rightarrow> uuid \<Rightarrow> create_channel_input \<Rightarrow> notification_channel io" where
  "CreateChannel s u inp =
     (case ValidateChannelInput (cci_name inp) (cci_type inp) of
        Inl err \<Rightarrow> throwE err
      | Inr _ \<Rightarrow> (case ChannelRegistry_ValidateConfig (as_registry s) (cci_type inp) (cci_config inp) of
          Inl err \<Rightarrow> throwE (NewValidationError ''INVALID_CHANNEL_CONFIG'' (error_text err))
        | Inr _ \<Rightarrow> ChannelRepo_Create (as_channels s)
            \<lparr>ch_id = uuid_Nil, ch_user_id = u, ch_name = cci_name inp, ch_type = cci_type inp,
             ch_config = cci_config inp, ch_is_enabled = True, ch_created_at = 0\<rparr>))"

definition loadOwnedChannel :: "alert_service \<Rightarrow> uuid \<Rightarrow> uuid \<Rightarrow> notification_channel io" where
  "loadOwnedChannel s u c =
     bindE (ChannelRepo_GetByID (as_channels s) c) (\<lambda>ch.
       if ch_user_id ch \<noteq> u then throwE (Sentinel ErrForbidden) else returnE ch)"

text \<open>A configuration that the request leaves out is nil, here \<open>None\<close>.\<close>

definition UpdateChannel ::
    "alert_service \<Rightarrow> uuid \<Rightarrow> uuid \<Rightarrow> string \<Rightarrow> string option \<Rightarrow> bool \<Rightarrow> notification_channel io" where
  "UpdateChannel s u c name config isEnabled =
     bindE (loadOwnedChannel s u c) (\<lambda>ch.
     bindE (case config of
              None \<Rightarrow> returnE ch
            | Some cfg \<Rightarrow> (case ChannelRegistry_ValidateConfig (as_registry s) (ch_type ch) cfg of
                Inl err \<Rightarrow> throwE (NewValidationError ''INVALID_CHANNEL_CONFIG'' (error_text err))
              | Inr _ \<Rightarrow> returnE (ch\<lparr>ch_config := cfg\<rparr>))) (\<lambda>ch.
     let ch = ch\<lparr>ch_name := name, ch_is_enabled := isEnabled\<rparr> in
     bindE (ChannelRepo_Update (as_channels s) ch) (\<lambda>_. returnE ch)))"

definition DeleteChannel :: "alert_service \<Rightarrow> uuid \<Rightarrow> uuid \<Rightarrow> unit io" where
  "DeleteChannel s u c =
     bindE (loadOwnedChannel s u c) (\<lambda>_. ChannelRepo_Delete (as_channels s) c u)"

definition GetChannelByID :: "alert_service \<Rightarrow> uuid \<Rightarrow> uuid \<Rightarrow> notification_channel io" where
  "GetChannelByID s u c =
     bindE (ChannelRepo_GetByID (as_channels s) c) (\<lambda>ch.
       if ch_user_id ch \<noteq> u then throwE (Sentinel ErrForbidden) else returnE ch)"

definition ListChannels :: "alert_service \<Rightarrow> uuid \<Rightarrow> notification_channel list io" where
  "ListChannels s u = ChannelRepo_ListByUserID (as_channels s) u"

definition BindChannel :: "alert_service \<Rightarrow> uuid \<Rightarrow> uuid \<Rightarrow> uuid \<Rightarrow> unit io" where
  "BindChannel s u m c =
     bindE (MonitorRepo_GetByID (as_monitors s) m) (\<lambda>mon.
     if mon_user_id mon \<noteq> u then throwE (Sentinel ErrForbidden)
     else bindE (ChannelRepo_GetByID (as_channels s) c) (\<lambda>ch.
       if ch_user_id ch \<noteq> u then throwE (Sentinel ErrForbidden)
       else ChannelRepo_BindToMonitor (as_channels s) m c))"

definition UnbindChannel :: "alert_service \<Rightarrow> uuid \<Rightarrow> uuid \<Rightarrow> uuid \<Rightarrow> unit io" where
  "UnbindChannel s u m c =
     bindE (MonitorRepo_GetByID (as_monitors s) m) (\<lambda>mon.
     if mon_user_id mon \<noteq> u then throwE (Sentinel ErrForbidden)
     else ChannelRepo_UnbindFromMonitor (as_channels s) m c)"

section \<open>The notifier process (\<open>bootstrap/notifier.go\<close>)\<close>

text \<open>The service over the adapters; \<open>reg\<close> is the registry of the configured channel types.\<close>

definition notifier :: "cipher \<Rightarrow> channel_registry \<Rightarrow> alert_service" where
  "notifier C reg =
     \<lparr>as_channels = pg_ChannelRepo C, as_monitors = pg_MonitorRepo C, as_registry = reg,
      as_failed_alerts = pg_FailedAlertRepo, as_metrics = True, as_send_overrides = Map.empty\<rparr>"

text \<open>The advisory of a message whose deliveries are exhausted, as the consumer passes it on.\<close>

record max_delivery_advisory =
  mda_stream :: string
  mda_consumer :: string
  mda_stream_seq :: int

definition dlq_handler :: "max_delivery_advisory \<Rightarrow> string \<Rightarrow> unit io" where
  "dlq_handler adv data =
     pg_FailedAlertRepo_Create data
       (''max deliveries exhausted: stream='' @ mda_stream adv @ '' consumer='' @ mda_consumer adv
        @ '' seq='' @ int_to_dec (mda_stream_seq adv)) []"

text \<open>Advisories of other streams are dropped; an error of the handler is logged.\<close>

definition on_advisory :: "max_delivery_advisory \<Rightarrow> string \<Rightarrow> unit io" where
  "on_advisory adv data =
     (if mda_stream adv \<noteq> ''ALERTS'' then returnE () else logged (dlq_handler adv data))"

end
