(* ===== verification/Channels.thy ===== *)
theory Channels
  imports Alerting Checkers
begin

text \<open>
  The channel types of \<open>internal/adapter\<close> (\<open>telegram\<close>, \<open>smtp\<close>, \<open>webhook\<close>), the registry
  with its retries and circuit breakers (\<open>adapter/channel\<close>), the classification of
  delivery errors (\<open>adapter/httperr/classify.go\<close>). The other end of a request is the
  parameter \<open>outbound\<close>; the retry and breaker packages are the parameter
  \<open>delivery_library\<close>. A request that leaves the process is appended to \<open>w_outbox\<close>.
\<close>

section \<open>Errors of a delivery\<close>

text \<open>
  What is asked of a network error: whether it is a \<open>net.Error\<close> with \<open>Timeout()\<close>, whether
  it wraps \<open>context.DeadlineExceeded\<close>, and its text.
\<close>

record net_error =
  ne_timeout :: bool
  ne_deadline :: bool
  ne_text :: string

definition ClassifyNetError :: "net_error \<Rightarrow> goerr" where
  "ClassifyNetError err =
     (if ne_timeout err then NewDeliveryError ''timeout'' 0 (Errorf (ne_text err))
      else if ne_deadline err then NewDeliveryError ''timeout'' 0 (Errorf (ne_text err))
      else NewDeliveryError ''network_error'' 0 (Errorf (ne_text err)))"

definition ClassifyHTTPStatus :: "int \<Rightarrow> goerr \<Rightarrow> goerr" where
  "ClassifyHTTPStatus statusCode err =
     (if statusCode = 401 \<or> statusCode = 403 then NewDeliveryError ''auth_error'' statusCode err
      else if statusCode = 429 then NewDeliveryError ''rate_limited'' statusCode err
      else NewDeliveryError ''unknown'' statusCode err)"

section \<open>The other end\<close>

text \<open>The dialogue with a mail server, by the first step that fails.\<close>

datatype smtp_reply =
    SmtpSent
  | SmtpDial net_error
  | SmtpClient string
  | SmtpAuth string
  | SmtpMail string
  | SmtpRcpt string
  | SmtpData string
  | SmtpWrite string
  | SmtpClose string
  | SmtpQuit string

record outbound =
  out_request_error :: "string \<Rightarrow> string option"
  out_post :: "string \<Rightarrow> (string \<times> string) list \<Rightarrow> string \<Rightarrow> time \<Rightarrow> net_error + int"
  out_smtp :: "string \<Rightarrow> string \<Rightarrow> string \<Rightarrow> string \<Rightarrow> string \<Rightarrow> string \<Rightarrow> string \<Rightarrow> time \<Rightarrow> smtp_reply"
  out_url :: "string \<Rightarrow> string + string \<times> string"

definition leave :: "string \<Rightarrow> string \<Rightarrow> (time \<Rightarrow> 'a) \<Rightarrow> 'a \<Rightarrow> 'a io" where
  "leave target body reply lost =
     bindE (modifyE (\<lambda>w. w\<lparr>w_outbox := w_outbox w @ [\<lparr>ml_to = target, ml_subject = [], ml_body = body\<rparr>]\<rparr>)) (\<lambda>_.
     bindE (attemptE (external (readE (\<lambda>w. reply (w_app_clock w))))) (\<lambda>res.
     returnE (case res of Inl _ \<Rightarrow> lost | Inr x \<Rightarrow> x)))"

definition connection_lost :: net_error where
  "connection_lost = \<lparr>ne_timeout = False, ne_deadline = False, ne_text = ''connection lost''\<rparr>"

text \<open>
  \<open>http.NewRequestWithContext(POST, ...)\<close>, the headers and \<open>client.Do\<close>; \<open>bad status\<close> tells
  the statuses that are errors, with the name of the service for the message.
\<close>

definition post_json :: "outbound \<Rightarrow> string \<Rightarrow> (string \<times> string) list \<Rightarrow> string \<Rightarrow> (int \<Rightarrow> bool) \<Rightarrow> string \<Rightarrow> unit io" where
  "post_json out url headers body bad service =
     (case out_request_error out url of
        Some e \<Rightarrow> throwE (Wrapped ''create request'' (Errorf e))
      | None \<Rightarrow>
          bindE (leave url body (out_post out url ((''Content-Type'', ''application/json'') # headers) body)
                   (Inl connection_lost)) (\<lambda>resp.
          case resp of
            Inl err \<Rightarrow> throwE (ClassifyNetError err)
          | Inr status \<Rightarrow>
              if bad status then throwE (ClassifyHTTPStatus status (Errorf (service @ '' returned status '' @ int_to_dec status)))
              else returnE ()))"

section \<open>Telegram (\<open>adapter/telegram/sender.go\<close>)\<close>

record telegram_channel_config =
  tgc_chat_id :: int

definition telegram_field :: "string \<Rightarrow> json \<Rightarrow> telegram_channel_config \<Rightarrow> goerr + telegram_channel_config" where
  "telegram_field k v c =
     (if k = ''chat_id'' then map_sum id (\<lambda>x. c\<lparr>tgc_chat_id := x\<rparr>) (into_int v (tgc_chat_id c)) else Inr c)"

definition telegram_config :: "string \<Rightarrow> goerr + telegram_channel_config" where
  "telegram_config raw = json_unmarshal_struct telegram_field \<lparr>tgc_chat_id = 0\<rparr> raw"

definition escapeMarkdown :: "string \<Rightarrow> string" where
  "escapeMarkdown s =
     concat (map (\<lambda>c. if c \<in> {CHR ''_'', CHR ''*'', CHR 0x60, CHR ''[''} then [CHR 0x5C, c] else [c]) s)"

abbreviation newline :: string where
  "newline \<equiv> [CHR 0x0A]"

text \<open>The text of the message, none for an event that the sender does not know.\<close>

definition telegram_text :: "alert_event \<Rightarrow> string option" where
  "telegram_text ev =
     (let name = escapeMarkdown (ae_monitor_name ev); target = escapeMarkdown (ae_monitor_target ev);
          cause = escapeMarkdown (ae_cause ev); tick = [CHR 0x60] in
      if ae_event ev = AlertDown then
        Some ([CHR 0xF0, CHR 0x9F, CHR 0x94, CHR 0xB4] @ '' *'' @ name @ ''* is DOWN'' @ newline @ newline
          @ ''Target: '' @ tick @ target @ tick @ newline @ ''Cause: '' @ cause)
      else if ae_event ev = AlertUp then
        Some ([CHR 0xF0, CHR 0x9F, CHR 0x9F, CHR 0xA2] @ '' *'' @ name @ ''* is back UP'' @ newline @ newline
          @ ''Target: '' @ tick @ target @ tick)
      else None)"

definition telegram_payload :: "int \<Rightarrow> string \<Rightarrow> string" where
  "telegram_payload chatID txt =
     ''{'' @ json_member ''chat_id'' (int_to_dec chatID) @ '','' @ json_member ''parse_mode'' (json_marshal_string ''Markdown'')
     @ '','' @ json_member ''text'' (json_marshal_string txt) @ ''}''"

definition telegram_Send :: "outbound \<Rightarrow> string \<Rightarrow> int \<Rightarrow> alert_event \<Rightarrow> unit io" where
  "telegram_Send out token chatID ev =
     (case telegram_text ev of
        None \<Rightarrow> returnE ()
      | Some txt \<Rightarrow> post_json out (''https://api.telegram.org/bot'' @ token @ ''/sendMessage'') []
          (telegram_payload chatID txt) (\<lambda>status. status \<noteq> 200) ''telegram API'')"

record sender_factory =
  Factory_CreateSender :: "string \<Rightarrow> goerr + (alert_event \<Rightarrow> unit io)"
  Factory_ValidateConfig :: "string \<Rightarrow> goerr + unit"

definition telegram_CreateSender :: "outbound \<Rightarrow> string \<Rightarrow> string \<Rightarrow> goerr + (alert_event \<Rightarrow> unit io)" where
  "telegram_CreateSender out token config = (case telegram_config config of
     Inl e \<Rightarrow> Inl (Wrapped ''invalid telegram config'' e)
   | Inr cfg \<Rightarrow> if tgc_chat_id cfg = 0 then Inl (Errorf ''chat_id is required'')
               else Inr (telegram_Send out token (tgc_chat_id cfg)))"

definition telegram_ValidateConfig :: "string \<Rightarrow> goerr + unit" where
  "telegram_ValidateConfig raw = (case telegram_config raw of
     Inl e \<Rightarrow> Inl (Wrapped ''invalid telegram config'' e)
   | Inr cfg \<Rightarrow> if tgc_chat_id cfg = 0 then Inl (Errorf ''chat_id required'') else Inr ())"

section \<open>Mail (\<open>adapter/smtp\<close>)\<close>

record smtp_settings =
  smtp_host :: string
  smtp_port :: int
  smtp_user :: string
  smtp_pass :: string
  smtp_from :: string

record email_channel_config =
  emc_address :: string

definition email_field :: "string \<Rightarrow> json \<Rightarrow> email_channel_config \<Rightarrow> goerr + email_channel_config" where
  "email_field k v c =
     (if k = ''address'' then map_sum id (\<lambda>x. c\<lparr>emc_address := x\<rparr>) (into_string v (emc_address c)) else Inr c)"

definition email_config :: "string \<Rightarrow> goerr + email_channel_config" where
  "email_config raw = json_unmarshal_struct email_field \<lparr>emc_address = []\<rparr> raw"

definition email_text :: "alert_event \<Rightarrow> (string \<times> string) option" where
  "email_text ev =
     (let head = ''Monitor: '' @ ae_monitor_name ev @ newline @ ''Target: '' @ ae_monitor_target ev @ newline in
      if ae_event ev = AlertDown then
        Some (''[PingCast] '' @ ae_monitor_name ev @ '' is DOWN'',
              head @ ''Status: DOWN'' @ newline @ ''Cause: '' @ ae_cause ev)
      else if ae_event ev = AlertUp then
        Some (''[PingCast] '' @ ae_monitor_name ev @ '' is back UP'', head @ ''Status: UP'')
      else None)"

abbreviation crlf :: string where
  "crlf \<equiv> [CHR 0x0D, CHR 0x0A]"

definition email_message :: "string \<Rightarrow> string \<Rightarrow> string \<Rightarrow> string \<Rightarrow> string" where
  "email_message from_addr to_addr subject body =
     ''From: '' @ from_addr @ crlf @ ''To: '' @ to_addr @ crlf @ ''Subject: '' @ subject @ crlf
     @ ''Content-Type: text/plain; charset=UTF-8'' @ crlf @ crlf @ body"

definition smtp_error :: "smtp_reply \<Rightarrow> goerr option" where
  "smtp_error reply = (case reply of
     SmtpSent \<Rightarrow> None
   | SmtpDial err \<Rightarrow> Some (ClassifyNetError (err\<lparr>ne_timeout := False, ne_text := ''smtp dial: '' @ ne_text err\<rparr>))
   | SmtpClient e \<Rightarrow> Some (Wrapped ''smtp client'' (Errorf e))
   | SmtpAuth e \<Rightarrow> Some (NewDeliveryError ''auth_error'' 0 (Wrapped ''smtp auth'' (Errorf e)))
   | SmtpMail e \<Rightarrow> Some (Wrapped ''smtp mail'' (Errorf e))
   | SmtpRcpt e \<Rightarrow> Some (Wrapped ''smtp rcpt'' (Errorf e))
   | SmtpData e \<Rightarrow> Some (Wrapped ''smtp data'' (Errorf e))
   | SmtpWrite e \<Rightarrow> Some (Wrapped ''smtp write'' (Errorf e))
   | SmtpClose e \<Rightarrow> Some (Wrapped ''smtp close data'' (Errorf e))
   | SmtpQuit e \<Rightarrow> Some (Errorf e))"

definition email_Send :: "outbound \<Rightarrow> smtp_settings \<Rightarrow> string \<Rightarrow> alert_event \<Rightarrow> unit io" where
  "email_Send out c to_addr ev =
     (case email_text ev of
        None \<Rightarrow> returnE ()
      | Some (subject, body) \<Rightarrow>
          let msg = email_message (smtp_from c) to_addr subject body in
          bindE (leave to_addr msg
            (out_smtp out (JoinHostPort (smtp_host c) (int_to_dec (smtp_port c))) (smtp_host c)
               (smtp_user c) (smtp_pass c) (smtp_from c) to_addr msg) (SmtpDial connection_lost)) (\<lambda>reply.
          case smtp_error reply of None \<Rightarrow> returnE () | Some e \<Rightarrow> throwE e))"

definition email_CreateSender :: "outbound \<Rightarrow> smtp_settings \<Rightarrow> string \<Rightarrow> goerr + (alert_event \<Rightarrow> unit io)" where
  "email_CreateSender out c config = (case email_config config of
     Inl e \<Rightarrow> Inl (Wrapped ''invalid email config'' e)
   | Inr cfg \<Rightarrow> if emc_address cfg = [] then Inl (Errorf ''address is required'')
               else Inr (email_Send out c (emc_address cfg)))"

definition email_ValidateConfig :: "string \<Rightarrow> goerr + unit" where
  "email_ValidateConfig raw = (case email_config raw of
     Inl e \<Rightarrow> Inl (Wrapped ''invalid email config'' e)
   | Inr cfg \<Rightarrow> if emc_address cfg = [] then Inl (Errorf ''email address required'') else Inr ())"

section \<open>Webhooks (\<open>adapter/webhook/sender.go\<close>)\<close>

record webhook_channel_config =
  whc_url :: string
  whc_headers :: "(string \<times> string) list"

text \<open>
  A \<open>map[string]string\<close>: a later duplicate of a key replaces the value, \<open>null\<close> stands for
  the empty string; the list is the map, its order without meaning.
\<close>

fun into_string_map :: "(string \<times> json) list \<Rightarrow> (string \<times> string) list \<Rightarrow> goerr + (string \<times> string) list" where
  "into_string_map [] m = Inr m"
| "into_string_map ((k, v) # ms) m = (case into_string v [] of
     Inl e \<Rightarrow> Inl e
   | Inr x \<Rightarrow> into_string_map ms (filter (\<lambda>(k', _). k' \<noteq> k) m @ [(k, x)]))"

definition webhook_field :: "string \<Rightarrow> json \<Rightarrow> webhook_channel_config \<Rightarrow> goerr + webhook_channel_config" where
  "webhook_field k v c =
     (if k = ''url'' then map_sum id (\<lambda>x. c\<lparr>whc_url := x\<rparr>) (into_string v (whc_url c))
      else if k = ''headers'' then (case v of
          JNull \<Rightarrow> Inr (c\<lparr>whc_headers := []\<rparr>)
        | JObj ms \<Rightarrow> map_sum id (\<lambda>x. c\<lparr>whc_headers := x\<rparr>) (into_string_map ms (whc_headers c))
        | _ \<Rightarrow> Inl type_error)
      else Inr c)"

definition webhook_config :: "string \<Rightarrow> goerr + webhook_channel_config" where
  "webhook_config raw = json_unmarshal_struct webhook_field \<lparr>whc_url = [], whc_headers = []\<rparr> raw"

definition webhook_Send :: "outbound \<Rightarrow> string \<Rightarrow> (string \<times> string) list \<Rightarrow> alert_event \<Rightarrow> unit io" where
  "webhook_Send out url headers ev =
     post_json out url headers (alert_event_json ev) (\<lambda>status. status \<ge> 400) ''webhook''"

definition webhook_CreateSender :: "outbound \<Rightarrow> string \<Rightarrow> goerr + (alert_event \<Rightarrow> unit io)" where
  "webhook_CreateSender out config = (case webhook_config config of
     Inl e \<Rightarrow> Inl (Wrapped ''invalid webhook config'' e)
   | Inr cfg \<Rightarrow> Inr (webhook_Send out (whc_url cfg) (whc_headers cfg)))"

text \<open>\<open>out_url\<close> is \<open>url.Parse\<close>: an error, or the scheme and the host name.\<close>

definition webhook_ValidateConfig :: "outbound \<Rightarrow> string \<Rightarrow> goerr + unit" where
  "webhook_ValidateConfig out raw = (case webhook_config raw of
     Inl e \<Rightarrow> Inl (Wrapped ''invalid webhook config'' e)
   | Inr cfg \<Rightarrow>
       if whc_url cfg = [] then Inl (Errorf ''url required'')
       else case out_url out (whc_url cfg) of
         Inl e \<Rightarrow> Inl (Wrapped ''invalid url'' (Errorf e))
       | Inr (scheme, host) \<Rightarrow>
           if scheme \<noteq> ''http'' \<and> scheme \<noteq> ''https'' then Inl (Errorf ''url must use http or https scheme'')
           else if host = ''localhost'' \<or> host = ''127.0.0.1'' \<or> host = ''::1'' then
             Inl (Errorf ''webhook url cannot point to localhost'')
           else Inr ())"

section \<open>Retries and breakers (\<open>adapter/channel/retry.go\<close>)\<close>

text \<open>
  \<open>gobreaker\<close>'s \<open>Execute\<close>, by the name of the breaker, and \<open>backoff.Retry\<close> with a maximal
  number of tries. What is relied on: \<open>Execute\<close> runs its function once and returns its
  outcome, or refuses at once with an error; \<open>Retry\<close> calls the operation until it
  succeeds, at most that many times, and may give up earlier.
\<close>

record delivery_library =
  dl_execute :: "string \<Rightarrow> unit io \<Rightarrow> unit io"
  dl_retry :: "nat \<Rightarrow> unit io \<Rightarrow> unit io"

text \<open>Up to \<open>Suc n\<close> calls of \<open>m\<close>; the error of the last one is returned.\<close>

fun tries :: "nat \<Rightarrow> unit io \<Rightarrow> unit io" where
  "tries 0 m = m"
| "tries (Suc n) m = bindE (attemptE m) (\<lambda>res. case res of Inl _ \<Rightarrow> tries n m | Inr _ \<Rightarrow> returnE ())"

definition library_ok :: "delivery_library \<Rightarrow> bool" where
  "library_ok L \<longleftrightarrow>
     (\<forall>key m w. dl_execute L key m w = m w \<or> (\<exists>e. dl_execute L key m w = (Inl e, w)))
     \<and> (\<forall>n m w. 0 < n \<longrightarrow> (\<exists>k < n. dl_retry L n m w = tries k m w))"

definition RetryingSender_Send ::
    "delivery_library \<Rightarrow> string \<Rightarrow> (alert_event \<Rightarrow> unit io) \<Rightarrow> alert_event \<Rightarrow> unit io" where
  "RetryingSender_Send L key inner ev = dl_execute L key (dl_retry L 3 (inner ev))"

section \<open>The registry (\<open>adapter/channel/registry.go\<close>)\<close>

type_synonym channel_entries = "(string \<times> string \<times> sender_factory) list"

definition ChannelRegistry_Get :: "channel_entries \<Rightarrow> string \<Rightarrow> goerr + sender_factory" where
  "ChannelRegistry_Get entries t = (case map_of entries t of
     None \<Rightarrow> Inl (Errorf (''unknown channel type: '' @ t)) | Some (label, f) \<Rightarrow> Inr f)"

definition breaker_key :: "string \<Rightarrow> uuid \<Rightarrow> string" where
  "breaker_key t channelID = t @ '':'' @ uuid_string channelID"

definition channels_CreateSender ::
    "delivery_library \<Rightarrow> channel_entries \<Rightarrow> string \<Rightarrow> uuid \<Rightarrow> string \<Rightarrow> goerr + (alert_event \<Rightarrow> unit io)" where
  "channels_CreateSender L entries t channelID config =
     (case ChannelRegistry_Get entries t of
        Inl e \<Rightarrow> Inl e
      | Inr f \<Rightarrow> (case Factory_CreateSender f config of
          Inl e \<Rightarrow> Inl e
        | Inr inner \<Rightarrow> Inr (RetryingSender_Send L (breaker_key t channelID) inner)))"

definition channels_ValidateConfig :: "channel_entries \<Rightarrow> string \<Rightarrow> string \<Rightarrow> goerr + unit" where
  "channels_ValidateConfig entries t raw = (case ChannelRegistry_Get entries t of
     Inl e \<Rightarrow> Inl e | Inr f \<Rightarrow> Factory_ValidateConfig f raw)"

definition channels_port :: "delivery_library \<Rightarrow> channel_entries \<Rightarrow> channel_registry" where
  "channels_port L entries =
     \<lparr>ChannelRegistry_CreateSender = channels_CreateSender L entries,
      ChannelRegistry_ValidateConfig = channels_ValidateConfig entries\<rparr>"

definition telegram_factory :: "outbound \<Rightarrow> string \<Rightarrow> sender_factory" where
  "telegram_factory out token =
     \<lparr>Factory_CreateSender = telegram_CreateSender out token, Factory_ValidateConfig = telegram_ValidateConfig\<rparr>"

definition email_factory :: "outbound \<Rightarrow> smtp_settings \<Rightarrow> sender_factory" where
  "email_factory out c =
     \<lparr>Factory_CreateSender = email_CreateSender out c, Factory_ValidateConfig = email_ValidateConfig\<rparr>"

definition webhook_factory :: "outbound \<Rightarrow> sender_factory" where
  "webhook_factory out =
     \<lparr>Factory_CreateSender = webhook_CreateSender out, Factory_ValidateConfig = webhook_ValidateConfig out\<rparr>"

text \<open>\<open>bootstrap.NewNotifier\<close>: a type whose settings are missing is not registered.\<close>

definition notifier_channels :: "outbound \<Rightarrow> string \<Rightarrow> smtp_settings \<Rightarrow> channel_entries" where
  "notifier_channels out token c =
     (if token = [] then [] else [(ChannelTelegram, ''Telegram'', telegram_factory out token)])
     @ (if smtp_host c = [] then [] else [(ChannelEmail, ''Email'', email_factory out c)])
     @ [(ChannelWebhook, ''Webhook'', webhook_factory out)]"

section \<open>The table of breakers\<close>

text \<open>
  The map of the registry: per key a breaker, here a number, and the second of its last
  use. \<open>getOrCreateCB\<close> reuses or adds an entry; the loop of the registry evicts the
  entries that were not used for an hour.
\<close>

record cb_entry =
  cbe_breaker :: nat
  cbe_last_access :: int

type_synonym cb_table = "(string \<times> cb_entry) list"

definition getOrCreateCB :: "string \<Rightarrow> int \<Rightarrow> nat \<Rightarrow> cb_table \<Rightarrow> nat \<times> cb_table" where
  "getOrCreateCB key now new cbs =
     (case map_of cbs key of
        Some e \<Rightarrow> (cbe_breaker e, map (\<lambda>(k, x). (k, if k = key then x\<lparr>cbe_last_access := now\<rparr> else x)) cbs)
      | None \<Rightarrow> (new, cbs @ [(key, \<lparr>cbe_breaker = new, cbe_last_access = now\<rparr>)]))"

definition evict :: "int \<Rightarrow> cb_table \<Rightarrow> cb_table" where
  "evict now cbs = filter (\<lambda>(k, e). \<not> cbe_last_access e < now - 3600) cbs"

end
