(* ===== verification/Alert_Facts.thy ===== *)
theory Alert_Facts
  imports Channels Effect_Facts Demo "HOL-Library.Multiset"
begin

text \<open>
  What one delivery and a whole fan-out do, for senders that leave the state of the system
  alone: the counters, the recorded metrics and the row of the dead-letter table.
\<close>

section \<open>Senders\<close>

text \<open>
  Sending goes to another service: it changes nothing but the outbox and the script of
  faults. This is the contract between the service and its registry.
\<close>

definition at_rest :: "world \<Rightarrow> world" where
  "at_rest w = w\<lparr>w_faults := [], w_outbox := []\<rparr>"

definition sender_quiet :: "(alert_event \<Rightarrow> unit io) \<Rightarrow> bool" where
  "sender_quiet send \<longleftrightarrow> (\<forall>ev. steps_by (\<lambda>w w'. at_rest w' = at_rest w) (send ev))"

lemma at_rest_sel: "w_metrics (at_rest w) = w_metrics w" "w_db (at_rest w) = w_db w"
    "w_db_clock (at_rest w) = w_db_clock w"
  by (simp_all add: at_rest_def)

lemma at_rest_metrics: "at_rest (w\<lparr>w_metrics := ms\<rparr>) = (at_rest w)\<lparr>w_metrics := ms\<rparr>"
  by (simp add: at_rest_def)

locale alert_delivery =
  fixes s :: alert_service
  assumes metrics_on: "as_metrics s"
    and senders: "sender_of s ch = Inr send \<Longrightarrow> sender_quiet send"
begin

text \<open>The metric of a delivery tells its outcome; nothing else is changed.\<close>

lemma deliver_step:
  assumes "deliver s ev ch w = (r, w')"
  obtains ok reason where "r = Inr ok"
    and "at_rest w' = at_rest (w\<lparr>w_metrics := w_metrics w @ [RecordAlertSent (ch_type ch) ok reason]\<rparr>)"
proof (cases "sender_of s ch")
  case (Inl err)
  with assms that [of False "''config_error''"] metrics_on show thesis
    by (simp add: deliver_def alert_metric_def record_metric_def effect_simps)
next
  case (Inr send)
  obtain x w1 where run: "send ev w = (x, w1)" by (cases "send ev w")
  have "steps_by (\<lambda>w w'. at_rest w' = at_rest w) (send ev)"
    using senders [OF Inr] by (simp add: sender_quiet_def)
  from steps_byD [OF this run] have d:
    "at_rest (w1\<lparr>w_metrics := w_metrics w1 @ ms\<rparr>) = at_rest (w\<lparr>w_metrics := w_metrics w @ ms\<rparr>)" for ms
    using at_rest_sel(1) by (simp add: at_rest_metrics) metis
  show thesis
  proof (cases x)
    case (Inl e)
    with assms Inr run d metrics_on that [of False] show thesis
      by (auto simp: deliver_def alert_metric_def record_metric_def effect_simps)
  next
    case (Inr y)
    with assms \<open>sender_of s ch = Inr send\<close> run d metrics_on that [of True] show thesis
      by (auto simp: deliver_def alert_metric_def record_metric_def effect_simps)
  qed
qed

text \<open>An outcome: the channel, whether it was reached, the recorded reason.\<close>

lemma deliver_loop:
  assumes "foldE chs acc (\<lambda>ch acc. bindE (deliver s ev ch) (\<lambda>ok. returnE (count_delivery (ch_id ch) ok acc))) w
     = (r, w')"
  obtains outs where "map fst outs = chs"
    and "r = Inr (fold (\<lambda>(ch, ok, reason). count_delivery (ch_id ch) ok) outs acc)"
    and "at_rest w' = at_rest (w\<lparr>w_metrics := w_metrics w @ map (\<lambda>(ch, ok, reason). RecordAlertSent (ch_type ch) ok reason) outs\<rparr>)"
  using assms
proof (induction chs arbitrary: acc w thesis)
  case Nil
  then show ?case using Nil.prems(1) [of "[]"] by (simp add: returnE_apply)
next
  case (Cons ch chs)
  obtain x w1 where d: "deliver s ev ch w = (x, w1)" by (cases "deliver s ev ch w")
  from deliver_step [OF d] obtain ok reason where ok: "x = Inr ok"
    and w1: "at_rest w1 = at_rest (w\<lparr>w_metrics := w_metrics w @ [RecordAlertSent (ch_type ch) ok reason]\<rparr>)" .
  have m: "w_metrics w1 = w_metrics w @ [RecordAlertSent (ch_type ch) ok reason]"
    using arg_cong [OF w1, of w_metrics] by (simp add: at_rest_sel)
  from Cons.prems(2) have rest: "foldE chs (count_delivery (ch_id ch) ok acc)
      (\<lambda>ch acc. bindE (deliver s ev ch) (\<lambda>ok. returnE (count_delivery (ch_id ch) ok acc))) w1 = (r, w')"
    unfolding foldE.simps bindE_assoc bindE_returnE bindE_apply [of "deliver s ev ch"] d ok prod.case sum.case .
  obtain outs where outs: "map fst outs = chs"
      "r = Inr (fold (\<lambda>(ch, ok, reason). count_delivery (ch_id ch) ok) outs (count_delivery (ch_id ch) ok acc))"
      "at_rest w' = at_rest (w1\<lparr>w_metrics := w_metrics w1 @ map (\<lambda>(ch, ok, reason). RecordAlertSent (ch_type ch) ok reason) outs\<rparr>)"
    using Cons.IH [OF _ rest] by blast
  show ?case
  proof (rule Cons.prems(1) [of "(ch, ok, reason) # outs"])
    show "at_rest w' = at_rest (w\<lparr>w_metrics := w_metrics w @
        map (\<lambda>(ch, ok, reason). RecordAlertSent (ch_type ch) ok reason) ((ch, ok, reason) # outs)\<rparr>)"
      unfolding outs(3) at_rest_metrics w1 m by simp
  qed (simp_all add: outs)
qed

end

definition reached :: "notification_channel \<times> bool \<times> string \<Rightarrow> bool" where
  "reached = (\<lambda>(ch, ok, reason). ok)"

definition outcome_metric :: "notification_channel \<times> bool \<times> string \<Rightarrow> metric" where
  "outcome_metric = (\<lambda>(ch, ok, reason). RecordAlertSent (ch_type ch) ok reason)"

lemma tally:
  "fold (\<lambda>(ch, ok, reason). count_delivery (ch_id ch) ok) outs (a, b, ids) =
     (a + int (length (filter reached outs)), b + int (length (filter (\<lambda>x. \<not> reached x) outs)),
      ids @ map (ch_id \<circ> fst) (filter (\<lambda>x. \<not> reached x) outs))"
  by (induction outs arbitrary: a b ids) (auto simp: count_delivery_def reached_def)

context alert_delivery
begin

lemma deliver_all_run:
  assumes "deliver_all s ev chs w = (r, w')"
  obtains outs where "map fst outs = filter ch_is_enabled chs"
    and "r = Inr (int (length (filter reached outs)), int (length (filter (\<lambda>x. \<not> reached x) outs)),
                  map (ch_id \<circ> fst) (filter (\<lambda>x. \<not> reached x) outs))"
    and "at_rest w' = at_rest (w\<lparr>w_metrics := w_metrics w @ map outcome_metric outs\<rparr>)"
  using assms unfolding deliver_all_def
  by (rule deliver_loop) (simp add: tally outcome_metric_def)

end


section \<open>The deployed senders\<close>

text \<open>Each channel type sends at most one message; retries and breakers only repeat or refuse it.\<close>

lemma leave_quiet: "steps_by (\<lambda>w w'. at_rest w' = at_rest w) (leave target body reply lost)"
  unfolding leave_def
  by (intro viewing.rules)
     (auto simp: steps_by_def modifyE_apply external_def readE_apply at_rest_def split: list.splits bool.splits)

lemma post_quiet: "steps_by (\<lambda>w w'. at_rest w' = at_rest w) (post_json out url headers body bad service)"
  unfolding post_json_def by (intro viewing.rules leave_quiet)

lemma sender_quiets:
  "sender_quiet (telegram_Send out token chatID)"
  "sender_quiet (email_Send out c to_addr)"
  "sender_quiet (webhook_Send out url headers)"
  unfolding sender_quiet_def telegram_Send_def email_Send_def webhook_Send_def
  by (intro allI viewing.rules post_quiet leave_quiet)+

lemma tries_quiet:
  "steps_by (\<lambda>w w'. v w' = v w) m \<Longrightarrow> steps_by (\<lambda>w w'. v w' = v w) (tries n m)"
  by (induction n) (auto intro!: viewing.rules)

lemma retrying_quiet:
  assumes "library_ok L" and "sender_quiet inner"
  shows "sender_quiet (RetryingSender_Send L key inner)"
  unfolding sender_quiet_def
proof (intro allI steps_byI)
  fix ev w
  have m: "steps_by (\<lambda>w w'. at_rest w' = at_rest w) (inner ev)"
    using assms(2) by (simp add: sender_quiet_def)
  obtain k where retry: "dl_retry L 3 (inner ev) w = tries k (inner ev) w"
    using assms(1) unfolding library_ok_def by (metis zero_less_numeral)
  have "at_rest (snd (tries k (inner ev) w)) = at_rest w"
    using steps_by_snd [OF tries_quiet [of at_rest, OF m]] .
  moreover have "dl_execute L key (dl_retry L 3 (inner ev)) w = dl_retry L 3 (inner ev) w
      \<or> (\<exists>e. dl_execute L key (dl_retry L 3 (inner ev)) w = (Inl e, w))"
    using assms(1) by (simp add: library_ok_def)
  ultimately show "at_rest (snd (RetryingSender_Send L key inner ev w)) = at_rest w"
    unfolding RetryingSender_Send_def by (auto simp: retry)
qed

definition deployed_notifier :: "delivery_library \<Rightarrow> outbound \<Rightarrow> string \<Rightarrow> smtp_settings \<Rightarrow> cipher \<Rightarrow> alert_service" where
  "deployed_notifier L out token c C = notifier C (channels_port L (notifier_channels out token c))"

lemma deployed_ports [simp]:
  "as_channels (deployed_notifier L out token c C) = pg_ChannelRepo C"
  "as_monitors (deployed_notifier L out token c C) = pg_MonitorRepo C"
  "as_failed_alerts (deployed_notifier L out token c C) = pg_FailedAlertRepo"
  "as_metrics (deployed_notifier L out token c C)"
  "ChannelRepo_ListForMonitor (pg_ChannelRepo C) = pg_ChannelRepo_ListForMonitor C"
  "ChannelRepo_ListByUserID (pg_ChannelRepo C) = pg_ChannelRepo_ListByUserID C"
  by (simp_all add: deployed_notifier_def notifier_def pg_ChannelRepo_def)

lemma notifier_senders:
  assumes "library_ok L" and "sender_of (deployed_notifier L out token c C) ch = Inr send"
  shows "sender_quiet send"
proof -
  have "sender_quiet inner" if "ChannelRegistry_Get (notifier_channels out token c) t = Inr f"
      and "Factory_CreateSender f cfg = Inr inner" for t f cfg inner
    using that
    by (auto simp: ChannelRegistry_Get_def notifier_channels_def telegram_factory_def email_factory_def
        webhook_factory_def telegram_CreateSender_def email_CreateSender_def webhook_CreateSender_def
        sender_quiets split: if_splits sum.splits option.splits)
  with assms show ?thesis
    by (auto simp: deployed_notifier_def notifier_def sender_of_def channels_port_def channels_CreateSender_def
        split: sum.splits intro!: retrying_quiet)
qed

lemma notifier_delivery: "library_ok L \<Longrightarrow> alert_delivery (deployed_notifier L out token c C)"
  by unfold_locales (simp_all add: deployed_notifier_def notifier_def notifier_senders [unfolded deployed_notifier_def notifier_def])

text \<open>The library without refusals and with patient retries.\<close>

definition plain_library :: delivery_library where
  "plain_library = \<lparr>dl_execute = (\<lambda>key m. m), dl_retry = (\<lambda>n m. tries (n - 1) m)\<rparr>"

lemma plain_library_ok: "library_ok plain_library"
  unfolding library_ok_def plain_library_def by (auto intro!: exI [of _ "_ - Suc 0"])

interpretation notifying: alert_delivery "deployed_notifier plain_library out token c C" for out token c C
  by (rule notifier_delivery) (rule plain_library_ok)

section \<open>The dead-letter table\<close>

text \<open>The row is written at most once, and without it nothing is changed.\<close>

lemma dlq_attempts_run:
  assumes "as_failed_alerts s = pg_FailedAlertRepo" and "dlq_attempts n s event err ids w = (r, w')"
  shows "r = Inr () \<and> (w_db w' = w_db w \<or> (\<exists>i. w_db w' = (w_db w)\<lparr>t_failed_alerts := t_failed_alerts (w_db w) @
      [\<lparr>far_id = i, far_event = event, far_error = err, far_failed_channel_ids = ids,
        far_attempts = 0, far_created_at = w_db_clock w\<rparr>]\<rparr>))
    \<and> w_metrics w' \<in> {w_metrics w, w_metrics w @ [RecordAlertDeadLettered]}"
  using assms(2)
proof (induction n arbitrary: w)
  case 0
  then show ?case by (simp add: returnE_apply)
next
  case (Suc n)
  obtain x w1 where run: "pg_FailedAlertRepo_Create event err ids w = (x, w1)"
    by (cases "pg_FailedAlertRepo_Create event err ids w")
  show ?case
  proof (cases x)
    case (Inl e)
    from run Inl have w1: "w_db w1 = w_db w \<and> w_db_clock w1 = w_db_clock w \<and> w_metrics w1 = w_metrics w"
      unfolding pg_FailedAlertRepo_Create_def q_InsertFailedAlert_def statement_def external_def gen_random_uuid_def
      by (auto simp: effect_simps Let_def split: list.splits bool.splits if_splits sum.splits)
    from Suc.prems run Inl assms(1) have "dlq_attempts n s event err ids w1 = (r, w')"
      by (simp add: effect_simps pg_FailedAlertRepo_def)
    from Suc.IH [OF this] w1 show ?thesis by simp
  next
    case (Inr u)
    from run Inr have w1: "w_metrics w1 = w_metrics w \<and> (\<exists>i. w_db w1 = (w_db w)\<lparr>t_failed_alerts := t_failed_alerts (w_db w) @
      [\<lparr>far_id = i, far_event = event, far_error = err, far_failed_channel_ids = ids,
        far_attempts = 0, far_created_at = w_db_clock w\<rparr>]\<rparr>)"
      unfolding pg_FailedAlertRepo_Create_def q_InsertFailedAlert_def statement_def external_def gen_random_uuid_def
      by (auto simp: effect_simps Let_def split: list.splits bool.splits if_splits sum.splits)
    from Suc.prems run Inr assms(1) have "alert_metric s RecordAlertDeadLettered w1 = (r, w')"
      by (simp add: effect_simps pg_FailedAlertRepo_def)
    then have "r = Inr () \<and> w_db w' = w_db w1 \<and> w_metrics w' \<in> {w_metrics w1, w_metrics w1 @ [RecordAlertDeadLettered]}"
      by (auto simp: alert_metric_def record_metric_def effect_simps split: if_splits)
    with w1 show ?thesis by auto
  qed
qed

section \<open>Who is notified\<close>

text \<open>The rows of the channels of an alert: those bound to the monitor, or else those of the user.\<close>

definition bound_rows :: "database \<Rightarrow> uuid \<Rightarrow> channel_row list" where
  "bound_rows d m = sort_key chr_name
     (filter (\<lambda>r. (m, chr_id r) \<in> set (t_monitor_channels d) \<and> ch_live r) (t_channels d))"

definition user_rows :: "database \<Rightarrow> uuid \<Rightarrow> channel_row list" where
  "user_rows d u = sort_key chr_created_at (filter (\<lambda>r. chr_user_id r = u \<and> ch_live r) (t_channels d))"

definition alert_rows :: "database \<Rightarrow> alert_event \<Rightarrow> channel_row list" where
  "alert_rows d ev =
     (if bound_rows d (ae_monitor_id ev) = [] then user_rows d (ae_user_id ev)
      else bound_rows d (ae_monitor_id ev))"

lemma decrypted_rows:
  assumes "mapE (map toDomainChannel rows) (decrypted_channel C) w = (Inr chs, w')"
  shows "w' = w \<and> map ch_id chs = map chr_id rows \<and> map ch_type chs = map chr_type rows
    \<and> map ch_is_enabled chs = map chr_is_enabled rows \<and> map ch_user_id chs = map chr_user_id rows"
  using assms
proof (induction rows arbitrary: chs w w')
  case Nil
  then show ?case by (simp add: returnE_apply)
next
  case (Cons r rows)
  from Cons.prems obtain ch chs' w1 where
    one: "decrypted_channel C (toDomainChannel r) w = (Inr ch, w1)"
    and rest: "mapE (map toDomainChannel rows) (decrypted_channel C) w1 = (Inr chs', w')"
    and chs: "chs = ch # chs'"
    by (auto elim!: bindE_InrE simp: returnE_apply)
  from one have "w1 = w" "ch_id ch = chr_id r" "ch_type ch = chr_type r" "ch_is_enabled ch = chr_is_enabled r"
      "ch_user_id ch = chr_user_id r"
    unfolding decrypted_channel_def
    by (auto elim!: bindE_InrE liftE_InrE simp: returnE_apply toDomainChannel_def)
  with Cons.IH [OF rest] chs show ?case by simp
qed

end
