(* ===== verification/Alert_Traffic.thy ===== *)
theory Alert_Traffic
  imports Alert_Facts
begin

text \<open>
  How many messages the delivery of an alert sends: a channel type sends at most one, the
  retries at most three, and the rest of the handler none.
\<close>

section \<open>What leaves the process\<close>

lemma leave_outbox: "w_outbox (snd (leave target body reply lost w)) =
    w_outbox w @ [\<lparr>ml_to = target, ml_subject = [], ml_body = body\<rparr>]"
  by (auto simp: leave_def effect_simps external_def split: list.splits bool.splits)

text \<open>At most \<open>n\<close> messages more.\<close>

definition sends :: "nat \<Rightarrow> 'a io \<Rightarrow> bool" where
  "sends n m \<longleftrightarrow> (\<forall>w. \<exists>ms. w_outbox (snd (m w)) = w_outbox w @ ms \<and> length ms \<le> n)"

lemma sendsD: "sends n m \<Longrightarrow> m w = (r, w') \<Longrightarrow> \<exists>ms. w_outbox w' = w_outbox w @ ms \<and> length ms \<le> n"
  unfolding sends_def by (metis snd_conv)

lemma sends_mono: "sends n m \<Longrightarrow> n \<le> k \<Longrightarrow> sends k m"
  unfolding sends_def by (meson le_trans)

lemma sends_bindE:
  assumes "sends n m" and "\<And>x. sends k (f x)"
  shows "sends (n + k) (bindE m f)"
  unfolding sends_def
proof
  fix w
  obtain r w1 where m: "m w = (r, w1)" by (cases "m w")
  with assms(1) obtain ms where ms: "w_outbox w1 = w_outbox w @ ms" "length ms \<le> n"
    unfolding sends_def by (metis snd_conv)
  show "\<exists>ms. w_outbox (snd (bindE m f w)) = w_outbox w @ ms \<and> length ms \<le> n + k"
  proof (cases r)
    case (Inl e)
    with m ms show ?thesis by (intro exI [of _ ms]) (simp add: bindE_apply)
  next
    case (Inr x)
    from assms(2) [of x] obtain ms' where "w_outbox (snd (f x w1)) = w_outbox w1 @ ms'" "length ms' \<le> k"
      unfolding sends_def by blast
    with m ms Inr show ?thesis by (intro exI [of _ "ms @ ms'"]) (simp add: bindE_apply)
  qed
qed

lemma sends_0: "sends 0 m" if "steps_by (\<lambda>w w'. w_outbox w' = w_outbox w) m"
  using that by (simp add: sends_def steps_by_def)

lemma sends_attemptE: "sends n m \<Longrightarrow> sends n (attemptE m)"
  by (simp add: sends_def attemptE_apply split: prod.splits) (metis snd_conv)

lemma sends_leave: "sends 1 (leave target body reply lost)"
  by (simp add: sends_def leave_outbox)

lemma sends_post: "sends 1 (post_json out url headers body bad service)"
proof -
  have quiet: "sends 0 (case resp of Inl err \<Rightarrow> throwE (ClassifyNetError err)
      | Inr status \<Rightarrow> if bad status then throwE (e status) else returnE ())" for resp :: "net_error + int" and e
    by (rule sends_0) (intro viewing.rules)
  show ?thesis
    unfolding post_json_def
    by (auto intro: sends_mono [OF sends_0] viewing.throwE sends_bindE [OF sends_leave quiet, simplified] split: option.split)
qed

lemma sends_return: "sends n (returnE x)"
  by (simp add: sends_def returnE_apply)

lemma sends_senders:
  "sends 1 (telegram_Send out token chatID ev)"
  "sends 1 (email_Send out c to_addr ev)"
  "sends 1 (webhook_Send out url headers ev)"
proof -
  have quiet: "sends 0 (case smtp_error reply of None \<Rightarrow> returnE () | Some e \<Rightarrow> throwE e)" for reply
    by (rule sends_0) (intro viewing.rules)
  show "sends 1 (telegram_Send out token chatID ev)" "sends 1 (webhook_Send out url headers ev)"
    unfolding telegram_Send_def webhook_Send_def
    by (cases "telegram_text ev"; simp only: option.case sends_return sends_post) (rule sends_post)
  show "sends 1 (email_Send out c to_addr ev)"
    unfolding email_Send_def Let_def
    by (auto intro: sends_return sends_bindE [OF sends_leave quiet, simplified] split: option.split)
qed

lemma sends_tries: "sends 1 m \<Longrightarrow> sends (Suc n) (tries n m)"
proof (induction n)
  case (Suc n)
  have "sends (Suc n) (case res of Inl _ \<Rightarrow> tries n m | Inr _ \<Rightarrow> returnE ())" for res :: "goerr + unit"
    using Suc by (auto intro: sends_return split: sum.split)
  then have "sends (1 + Suc n) (tries (Suc n) m)"
    unfolding tries.simps by (rule sends_bindE [OF sends_attemptE [OF Suc.prems]])
  then show ?case by simp
qed simp

lemma sends_retrying:
  assumes "library_ok L" and "sends 1 (inner ev)"
  shows "sends 3 (RetryingSender_Send L key inner ev)"
  unfolding sends_def
proof
  fix w
  obtain k where k: "k < 3" and retry: "dl_retry L 3 (inner ev) w = tries k (inner ev) w"
    using assms(1) unfolding library_ok_def by (metis zero_less_numeral)
  obtain ms where ms: "w_outbox (snd (tries k (inner ev) w)) = w_outbox w @ ms" "length ms \<le> Suc k"
    using sends_tries [OF assms(2), of k] unfolding sends_def by blast
  from assms(1) consider "RetryingSender_Send L key inner ev w = tries k (inner ev) w"
    | e where "RetryingSender_Send L key inner ev w = (Inl e, w)"
    unfolding RetryingSender_Send_def library_ok_def by (metis retry)
  then show "\<exists>ms. w_outbox (snd (RetryingSender_Send L key inner ev w)) = w_outbox w @ ms \<and> length ms \<le> 3"
  proof cases
    case 1
    with ms k show ?thesis by (intro exI [of _ ms]) simp
  next
    case 2
    then show ?thesis by (intro exI [of _ "[]"]) simp
  qed
qed

lemma sends_metric: "sends 0 (alert_metric s m)"
  by (simp add: sends_def alert_metric_def record_metric_def effect_simps)

lemma sends_deliver:
  assumes "library_ok L"
  shows "sends 3 (deliver (deployed_notifier L out token c C) ev ch)"
proof (cases "sender_of (deployed_notifier L out token c C) ch")
  case (Inl err)
  then show ?thesis
    unfolding deliver_def by (auto intro: sends_mono [OF sends_bindE [OF sends_metric sends_return [of 0], simplified]])
next
  case (Inr send)
  have inner: "sends 1 (inner ev)" if "ChannelRegistry_Get (notifier_channels out token c) t = Inr f"
      and "Factory_CreateSender f cfg = Inr inner" for t f cfg inner
    using that
    by (auto simp: ChannelRegistry_Get_def notifier_channels_def telegram_factory_def email_factory_def
        webhook_factory_def telegram_CreateSender_def email_CreateSender_def webhook_CreateSender_def
        sends_senders [simplified] split: if_splits sum.splits option.splits)
  have "sends 3 (send ev)"
    using Inr
    by (auto simp: deployed_notifier_def notifier_def sender_of_def channels_port_def channels_CreateSender_def
        split: sum.splits intro!: sends_retrying [OF assms] inner)
  then have "sends (3 + 0) (deliver (deployed_notifier L out token c C) ev ch)"
    unfolding deliver_def Inr sum.case
  proof (rule sends_bindE [OF sends_attemptE])
    fix res :: "goerr + unit"
    show "sends 0 (case res of
        Inl err \<Rightarrow> bindE (alert_metric (deployed_notifier L out token c C) (RecordAlertSent (ch_type ch) False (deliveryReason err)))
          (\<lambda>_. returnE False)
      | Inr _ \<Rightarrow> bindE (alert_metric (deployed_notifier L out token c C) (RecordAlertSent (ch_type ch) True []))
          (\<lambda>_. returnE True))"
      using sends_bindE [OF sends_metric sends_return [of 0]] by (cases res) simp_all
  qed
  then show ?thesis by simp
qed

lemma sends_loop:
  assumes "library_ok L"
  shows "sends (3 * length chs) (foldE chs acc
    (\<lambda>ch acc. bindE (deliver (deployed_notifier L out token c C) ev ch) (\<lambda>ok. returnE (count_delivery (ch_id ch) ok acc))))"
proof (induction chs arbitrary: acc)
  case (Cons ch chs)
  from sends_bindE [OF sends_bindE [OF sends_deliver [OF assms] sends_return [of 0]] Cons.IH] show ?case
    by simp
qed (simp add: sends_return)

lemma sends_dlq: "as_failed_alerts s = pg_FailedAlertRepo \<Longrightarrow> sends 0 (dlq_attempts n s event err ids)"
proof (induction n)
  case (Suc n)
  have repo: "sends 0 (pg_FailedAlertRepo_Create event err ids)"
    unfolding pg_FailedAlertRepo_Create_def q_InsertFailedAlert_def
    by (rule sends_0)
       (auto simp: steps_by_def statement_def external_def gen_random_uuid_def effect_simps Let_def
         split: list.splits bool.splits sum.splits if_splits)
  have "sends 0 (case res of Inl _ \<Rightarrow> dlq_attempts n s event err ids
      | Inr _ \<Rightarrow> alert_metric s RecordAlertDeadLettered)" for res :: "goerr + unit"
    using Suc by (cases res) (simp_all add: sends_metric)
  from sends_bindE [OF sends_attemptE [OF repo] this] Suc.prems show ?case by (simp add: pg_FailedAlertRepo_def)
qed (simp add: sends_return)

end
