(* ===== verification/Alert_Properties.thy ===== *)
theory Alert_Properties
  imports Alert_Traffic
begin

text \<open>
  What the notifier guarantees for an alert: who gets it, when it is acknowledged, what a
  redelivery can repeat, what the dead-letter table holds, and that the order of the
  concurrent deliveries does not matter.
\<close>

section \<open>Runs of the handler\<close>

interpretation recording: world_rel "\<lambda>w w'. (w_db w', w_metrics w', w_outbox w') = (w_db w, w_metrics w, w_outbox w)"
  by unfold_locales auto

lemma channels_for_quiet:
  assumes "channels_for (deployed_notifier L out token c C) ev w = (r, w')"
  shows "w_db w' = w_db w \<and> w_metrics w' = w_metrics w \<and> w_outbox w' = w_outbox w"
proof -
  have "steps_by (\<lambda>w w'. (w_db w', w_metrics w', w_outbox w') = (w_db w, w_metrics w, w_outbox w)) (channels_for (deployed_notifier L out token c C) ev)"
    unfolding channels_for_def deployed_ports pg_ChannelRepo_ListForMonitor_def
      pg_ChannelRepo_ListByUserID_def q_ListChannelsForMonitor_def q_ListChannelsByUserID_def decrypted_channel_def
    by (intro recording.world_rules)
  from steps_byD [OF this assms] show ?thesis by simp
qed

lemma channels_for_InrD:
  assumes "channels_for (deployed_notifier L out token c C) ev w = (Inr chs, w')"
  shows "map ch_id chs = map chr_id (alert_rows (w_db w) ev) \<and> map ch_type chs = map chr_type (alert_rows (w_db w) ev)
    \<and> map ch_is_enabled chs = map chr_is_enabled (alert_rows (w_db w) ev)"
proof -
  have bound: "map ch_id cs = map chr_id (bound_rows (w_db v) m) \<and> map ch_type cs = map chr_type (bound_rows (w_db v) m)
      \<and> map ch_is_enabled cs = map chr_is_enabled (bound_rows (w_db v) m) \<and> w_db v' = w_db v"
    if "pg_ChannelRepo_ListForMonitor C m v = (Inr cs, v')" for m v cs v'
    using that unfolding pg_ChannelRepo_ListForMonitor_def q_ListChannelsForMonitor_def toDomainChannels_def
    by (auto elim!: bindE_InrE mapErrE_InrE query_InrE dest!: decrypted_rows simp: bound_rows_def)
  have own: "map ch_id cs = map chr_id (user_rows (w_db v) u) \<and> map ch_type cs = map chr_type (user_rows (w_db v) u)
      \<and> map ch_is_enabled cs = map chr_is_enabled (user_rows (w_db v) u)"
    if "pg_ChannelRepo_ListByUserID C u v = (Inr cs, v')" for u v cs v'
    using that unfolding pg_ChannelRepo_ListByUserID_def q_ListChannelsByUserID_def toDomainChannels_def
    by (auto elim!: bindE_InrE mapErrE_InrE query_InrE dest!: decrypted_rows simp: user_rows_def)
  from assms obtain cs w1 where
    cs: "pg_ChannelRepo_ListForMonitor C (ae_monitor_id ev) w = (Inr cs, w1)"
    and rest: "(if cs = [] then wrapE (''list channels for user '' @ uuid_string (ae_user_id ev))
         (pg_ChannelRepo_ListByUserID C (ae_user_id ev)) else returnE cs) w1 = (Inr chs, w')"
    unfolding channels_for_def deployed_ports by (elim bindE_InrE mapErrE_InrE)
  show ?thesis
  proof (cases "cs = []")
    case True
    with bound [OF cs] have "bound_rows (w_db w) (ae_monitor_id ev) = []" "w_db w1 = w_db w" by auto
    with True rest own show ?thesis by (auto elim!: mapErrE_InrE simp: alert_rows_def)
  next
    case False
    with bound [OF cs] have "bound_rows (w_db w) (ae_monitor_id ev) \<noteq> []" by auto
    with False rest bound [OF cs] show ?thesis by (simp add: alert_rows_def returnE_apply)
  qed
qed

lemma length_filter_cong: "map p xs = map q ys \<Longrightarrow> length (filter q ys) = length (filter p xs)"
  by (drule arg_cong [of _ _ "\<lambda>bs. length (filter id bs)"]) (simp add: filter_map o_def)

text \<open>The outcome of a delivery per row.\<close>

definition row_metric :: "channel_row \<times> bool \<times> string \<Rightarrow> metric" where
  "row_metric = (\<lambda>(r, ok, reason). RecordAlertSent (chr_type r) ok reason)"

definition missed :: "(channel_row \<times> bool \<times> string) list \<Rightarrow> uuid list" where
  "missed outs = map (chr_id \<circ> fst) (filter (\<lambda>(r, ok, reason). \<not> ok) outs)"

lemma outcomes_of_rows:
  assumes "map ch_id chs = map chr_id rows" and "map ch_type chs = map chr_type rows"
    and "map ch_is_enabled chs = map chr_is_enabled rows" and "map fst outs = filter ch_is_enabled chs"
  shows "\<exists>routs. map fst routs = filter chr_is_enabled rows
    \<and> map row_metric routs = map outcome_metric outs
    \<and> missed routs = map (ch_id \<circ> fst) (filter (\<lambda>x. \<not> reached x) outs)
    \<and> map (fst \<circ> snd) routs = map reached outs"
  using assms
proof (induction chs arbitrary: rows outs)
  case Nil
  then show ?case by (simp add: missed_def)
next
  case (Cons ch chs)
  from Cons.prems(1) obtain r rows' where rows: "rows = r # rows'" by (cases rows) auto
  show ?case
  proof (cases "ch_is_enabled ch")
    case False
    have "map fst outs = filter ch_is_enabled chs" using Cons.prems(4) False by simp
    with Cons.prems False rows show ?thesis using Cons.IH [of rows' outs] by simp
  next
    case True
    with Cons.prems(4) obtain ok reason outs' where outs: "outs = (ch, ok, reason) # outs'"
      and tl: "map fst outs' = filter ch_is_enabled chs"
      by (cases outs) auto
    obtain routs where ih: "map fst routs = filter chr_is_enabled rows'"
      "map row_metric routs = map outcome_metric outs'"
      "missed routs = map (ch_id \<circ> fst) (filter (\<lambda>x. \<not> reached x) outs')"
      "map (fst \<circ> snd) routs = map reached outs'"
      using Cons.IH [OF _ _ _ tl, of rows'] Cons.prems(1-3) unfolding rows list.map list.inject by blast
    have "chr_is_enabled r" "chr_type r = ch_type ch" "chr_id r = ch_id ch"
      using Cons.prems rows True by auto
    with ih rows outs show ?thesis
      by (intro exI [of _ "(r, ok, reason) # routs"])
         (simp add: row_metric_def outcome_metric_def missed_def reached_def o_def)
  qed
qed

lemma deployed_metric: "alert_metric (deployed_notifier L out token c C) m = record_metric m"
  by (simp add: alert_metric_def)

text \<open>Up to the verdict: the channels are known and each of them was tried once.\<close>

lemma HandleAlert_cases:
  assumes lib: "library_ok L" and run: "HandleAlert (deployed_notifier L out token c C) ev w = (r, w')"
  obtains (listing) e where "r = Inl e" and "w_db w' = w_db w" and "w_metrics w' = w_metrics w"
  | (nobody) "alert_rows (w_db w) ev = []" and "r = Inr ()" and "w_db w' = w_db w" and "w_metrics w' = w_metrics w"
  | (tried) outs w1 where "map fst outs = filter chr_is_enabled (alert_rows (w_db w) ev)"
    and "w_db w1 = w_db w" and "w_metrics w1 = w_metrics w @ map row_metric outs"
    and "(let sent = int (length (filter (fst \<circ> snd) outs)); failed = int (length (missed outs)) in
          if sent = 0 \<and> failed > 0 then bindE (record_metric RecordAlertAllFailed) (\<lambda>_.
            throwE (Errorf (''all '' @ int_to_dec failed @ '' channels failed for monitor '' @ uuid_string (ae_monitor_id ev))))
          else if failed > 0 then writeToDLQ (deployed_notifier L out token c C) ev sent failed (missed outs)
          else returnE ()) w1 = (r, w')"
proof -
  obtain chs_or w1 where lst: "channels_for (deployed_notifier L out token c C) ev w = (chs_or, w1)"
    by (cases "channels_for (deployed_notifier L out token c C) ev w")
  note quiet = channels_for_quiet [OF lst]
  show thesis
  proof (cases chs_or)
    case (Inl e)
    with run lst have "r = Inl e" "w' = w1" by (simp_all add: HandleAlert_def bindE_apply)
    with quiet listing show thesis by simp
  next
    case (Inr chs)
    note rows = channels_for_InrD [OF lst [unfolded Inr]]
    show thesis
    proof (cases "chs = []")
      case True
      with rows have "alert_rows (w_db w) ev = []" by simp
      with run lst Inr quiet True nobody show thesis by (simp add: HandleAlert_def effect_simps)
    next
      case False
      obtain x w2 where del: "deliver_all (deployed_notifier L out token c C) ev chs w1 = (x, w2)"
        by (cases "deliver_all (deployed_notifier L out token c C) ev chs w1")
      from alert_delivery.deliver_all_run [OF notifier_delivery [OF lib] del] obtain outs where
        outs: "map fst outs = filter ch_is_enabled chs"
        "x = Inr (int (length (filter reached outs)), int (length (filter (\<lambda>x. \<not> reached x) outs)),
                  map (ch_id \<circ> fst) (filter (\<lambda>x. \<not> reached x) outs))"
        and w2: "at_rest w2 = at_rest (w1\<lparr>w_metrics := w_metrics w1 @ map outcome_metric outs\<rparr>)" .
      from outcomes_of_rows [OF _ _ _ outs(1), of "alert_rows (w_db w) ev"] rows obtain routs where
        routs: "map fst routs = filter chr_is_enabled (alert_rows (w_db w) ev)"
        "map row_metric routs = map outcome_metric outs"
        "missed routs = map (ch_id \<circ> fst) (filter (\<lambda>x. \<not> reached x) outs)"
        "map (fst \<circ> snd) routs = map reached outs" by blast
      have sent: "length (filter (fst \<circ> snd) routs) = length (filter reached outs)"
        using arg_cong [OF routs(4), of "\<lambda>bs. length (filter id bs)"] by (simp add: filter_map o_def)
      have failed: "length (missed routs) = length (filter (\<lambda>x. \<not> reached x) outs)"
        by (simp add: routs(3))
      have d: "w_db w2 = w_db w" and ms: "w_metrics w2 = w_metrics w @ map row_metric routs"
        using arg_cong [OF w2, of w_db] arg_cong [OF w2, of w_metrics] quiet routs(2) by (simp_all add: at_rest_sel)
      show thesis
      proof (rule tried [OF routs(1) d ms])
        show "(let sent = int (length (filter (fst \<circ> snd) routs)); failed = int (length (missed routs)) in
          if sent = 0 \<and> failed > 0 then bindE (record_metric RecordAlertAllFailed) (\<lambda>_.
            throwE (Errorf (''all '' @ int_to_dec failed @ '' channels failed for monitor '' @ uuid_string (ae_monitor_id ev))))
          else if failed > 0 then writeToDLQ (deployed_notifier L out token c C) ev sent failed (missed routs)
          else returnE ()) w2 = (r, w')"
          using run
          unfolding HandleAlert_def bindE_apply [of "channels_for _ _"] lst Inr prod.case sum.case if_not_P [OF False]
            bindE_apply [of "deliver_all _ _ _"] del outs(2) sent failed Let_def routs(3) deployed_metric length_map .
      qed
    qed
  qed
qed

section \<open>Properties\<close>




text \<open>Handling an alert once sends at most three messages per enabled channel, however the
  deliveries, the retries and the writes to the dead-letter table go.\<close>

theorem at_most_three_messages_per_channel:
  assumes "library_ok L" and "HandleAlert (deployed_notifier L out token c C) ev w = (r, w')"
  shows "\<exists>ms. w_outbox w' = w_outbox w @ ms \<and> length ms \<le> 3 * length (filter chr_is_enabled (alert_rows (w_db w) ev))"
proof -
  let ?s = "deployed_notifier L out token c C"
  obtain lst w1 where run: "channels_for ?s ev w = (lst, w1)" by (cases "channels_for ?s ev w")
  have same: "w_outbox w1 = w_outbox w" using channels_for_quiet [OF run] by simp
  show ?thesis
  proof (cases lst)
    case (Inl e)
    with run assms(2) same show ?thesis by (simp add: HandleAlert_def bindE_apply)
  next
    case (Inr chs)
    from channels_for_InrD [OF run [unfolded Inr]]
    have n: "length (filter chr_is_enabled (alert_rows (w_db w) ev)) = length (filter ch_is_enabled chs)"
      by (auto dest: length_filter_cong)
    have verdict: "sends 0 (case acc of (sent, failed, failedIDs) \<Rightarrow>
       if sent = 0 \<and> failed > 0 then bindE (alert_metric ?s RecordAlertAllFailed) (\<lambda>_. throwE (err failed))
       else if failed > 0 then writeToDLQ ?s ev sent failed failedIDs else returnE ())" for acc :: "int \<times> int \<times> uuid list" and err
      using sends_bindE [OF sends_metric sends_0 [OF viewing.throwE]]
      by (auto simp: writeToDLQ_def sends_return intro: sends_dlq split: prod.split)
    let ?rest = "bindE (deliver_all ?s ev chs) (\<lambda>(sent, failed, failedIDs). if sent = 0 \<and> failed > 0 then
            bindE (alert_metric ?s RecordAlertAllFailed) (\<lambda>_. throwE (Errorf (''all '' @ int_to_dec failed
              @ '' channels failed for monitor '' @ uuid_string (ae_monitor_id ev))))
          else if failed > 0 then writeToDLQ ?s ev sent failed failedIDs else returnE ())"
    have handle: "HandleAlert ?s ev w = (if chs = [] then returnE () else ?rest) w1"
      unfolding HandleAlert_def bindE_apply [of "channels_for _ _"] run Inr prod.case sum.case ..
    have "sends (3 * length (filter ch_is_enabled chs) + 0) ?rest"
      unfolding deliver_all_def by (rule sends_bindE [OF sends_loop [OF assms(1)] verdict])
    then have "sends (3 * length (filter ch_is_enabled chs)) (if chs = [] then returnE () else ?rest)"
      by (simp only: add_0_right sends_return split: if_split) blast
    from sendsD [OF this trans [OF handle [symmetric] assms(2)]] same n show ?thesis by simp
  qed
qed


section \<open>The order of the deliveries\<close>

lemma deliver_all_outcomes:
  assumes "\<And>ch v. ch \<in> set chs \<Longrightarrow> w_faults v = [] \<Longrightarrow> \<exists>v'. deliver s ev ch v = (Inr (ok ch), v') \<and> w_faults v' = []"
    and "w_faults w = []"
  shows "\<exists>w'. foldE chs (a, b, ids) (\<lambda>ch acc. bindE (deliver s ev ch) (\<lambda>ok. returnE (count_delivery (ch_id ch) ok acc))) w
    = (Inr (a + int (length (filter ok chs)), b + int (length (filter (\<lambda>ch. \<not> ok ch) chs)),
        ids @ map ch_id (filter (\<lambda>ch. \<not> ok ch) chs)), w')"
  using assms
proof (induction chs arbitrary: a b ids w)
  case Nil
  then show ?case by (simp add: returnE_apply)
next
  case (Cons ch chs)
  from Cons.prems(1) [of ch w] Cons.prems(2) obtain v where
    d: "deliver s ev ch w = (Inr (ok ch), v)" and v: "w_faults v = []" by auto
  note ih = Cons.IH [OF Cons.prems(1) v, of "if ok ch then a + 1 else a" "if ok ch then b else b + 1"
    "if ok ch then ids else ids @ [ch_id ch]"]
  show ?case
    unfolding foldE.simps bindE_assoc bindE_returnE bindE_apply [of "deliver s ev ch"] d prod.case sum.case
    using ih by (cases "ok ch") (auto simp: count_delivery_def add.assoc)
qed

text \<open>The deliveries of an alert may finish in any order: when what happens on each channel does not
  depend on the others, every order gives the same counts and the same failed channels.\<close>

theorem delivery_order_is_irrelevant:
  assumes "\<And>ch v. ch \<in> set chs \<Longrightarrow> w_faults v = [] \<Longrightarrow> \<exists>v'. deliver s ev ch v = (Inr (ok ch), v') \<and> w_faults v' = []"
    and "w_faults w = []" and "mset chs' = mset chs"
  shows "\<exists>sent failed ids ids' w1 w2. deliver_all s ev chs w = (Inr (sent, failed, ids), w1)
    \<and> deliver_all s ev chs' w = (Inr (sent, failed, ids'), w2) \<and> mset ids' = mset ids"
proof -
  have enabled: "mset (filter ch_is_enabled chs') = mset (filter ch_is_enabled chs)"
    using assms(3) by (simp add: mset_filter)
  have each: "\<exists>v'. deliver s ev ch v = (Inr (ok ch), v') \<and> w_faults v' = []"
    if "ch \<in> set (filter ch_is_enabled xs)" "w_faults v = []" "mset xs = mset chs" for xs ch v
    using that assms(1) mset_eq_setD [OF that(3)] by simp
  have len: "length (filter p (filter ch_is_enabled chs')) = length (filter p (filter ch_is_enabled chs))"
    and ids: "mset (map ch_id (filter p (filter ch_is_enabled chs'))) = mset (map ch_id (filter p (filter ch_is_enabled chs)))" for p
    using enabled by (metis mset_filter size_mset, metis mset_filter mset_map)
  have run: "\<exists>w'. deliver_all s ev xs w = (Inr (int (length (filter ok (filter ch_is_enabled xs))),
      int (length (filter (\<lambda>ch. \<not> ok ch) (filter ch_is_enabled xs))),
      map ch_id (filter (\<lambda>ch. \<not> ok ch) (filter ch_is_enabled xs))), w')" if "mset xs = mset chs" for xs
  proof -
    have "\<exists>v'. deliver s ev ch v = (Inr (ok ch), v') \<and> w_faults v' = []"
      if "ch \<in> set (filter ch_is_enabled xs)" "w_faults v = []" for ch v
      by (rule each [of ch xs v]) (use that \<open>mset xs = mset chs\<close> in simp_all)
    from deliver_all_outcomes [where chs = "filter ch_is_enabled xs" and a = 0 and b = 0 and ids = "[]", OF this assms(2)] show ?thesis
      unfolding deliver_all_def by simp
  qed
  from run [OF refl] run [OF assms(3)] show ?thesis by (auto simp: len ids simp del: filter_filter mset_map)
qed

section \<open>An alert of the example system\<close>

text \<open>Two webhooks of the owner; one of them answers with an error.\<close>

definition demo_out :: outbound where
  "demo_out =
     \<lparr>out_request_error = (\<lambda>u. None), out_post = (\<lambda>u h b t. Inr (if u = ''https://ok'' then 200 else 503)),
      out_smtp = (\<lambda>a h u p f r m t. SmtpSent), out_url = (\<lambda>u. Inr (''https'', ''ok''))\<rparr>"

definition demo_smtp :: smtp_settings where
  "demo_smtp = \<lparr>smtp_host = ''mx'', smtp_port = 25, smtp_user = [], smtp_pass = [], smtp_from = ''p@x''\<rparr>"

definition ok_config :: string where
  "ok_config = ''{'' @ [CHR 0x22] @ ''url'' @ [CHR 0x22] @ '':'' @ [CHR 0x22] @ ''https://ok'' @ [CHR 0x22] @ ''}''"

definition bad_config :: string where
  "bad_config = ''{'' @ [CHR 0x22] @ ''url'' @ [CHR 0x22] @ '':'' @ [CHR 0x22] @ ''https://bad'' @ [CHR 0x22] @ ''}''"

definition demo_channel :: "uuid \<Rightarrow> string \<Rightarrow> string \<Rightarrow> notification_channel" where
  "demo_channel i ty cfg = \<lparr>ch_id = i, ch_user_id = 1, ch_name = ''hook'', ch_type = ty, ch_config = cfg,
     ch_is_enabled = True, ch_created_at = 0\<rparr>"

definition demo_channel_row :: "uuid \<Rightarrow> string \<Rightarrow> string \<Rightarrow> channel_row" where
  "demo_channel_row i ty cfg = \<lparr>chr_id = i, chr_user_id = 1, chr_name = ''hook'', chr_type = ty, chr_config = cfg,
     chr_is_enabled = True, chr_created_at = 0, chr_deleted_at = None\<rparr>"

definition demo_alert :: "string \<Rightarrow> alert_event" where
  "demo_alert event = \<lparr>ae_monitor_id = 7, ae_user_id = 1, ae_incident_id = 3, ae_monitor_name = ''site'',
     ae_monitor_target = ''tcp://site:7'', ae_event = event, ae_cause = ''refused''\<rparr>"

definition hooked :: "(uuid \<times> string) list \<Rightarrow> world" where
  "hooked hooks = demo_world\<lparr>w_db := demo_db\<lparr>t_channels := map (\<lambda>(i, cfg). demo_channel_row i ChannelWebhook cfg) hooks\<rparr>\<rparr>"

abbreviation demo_notifier :: alert_service where
  "demo_notifier \<equiv> deployed_notifier plain_library demo_out ''t'' demo_smtp NoOpCipher"

lemma demo_channel_sel [simp]:
  "ch_type (demo_channel i ty cfg) = ty" "ch_id (demo_channel i ty cfg) = i"
  "ch_config (demo_channel i ty cfg) = cfg" "ch_is_enabled (demo_channel i ty cfg)"
  by (simp_all add: demo_channel_def)

lemma demo_configs:
  "webhook_config ok_config = Inr \<lparr>whc_url = ''https://ok'', whc_headers = []\<rparr>"
  "webhook_config bad_config = Inr \<lparr>whc_url = ''https://bad'', whc_headers = []\<rparr>"
  "decryptChannelConfig NoOpCipher ok_config = Inr ok_config"
  "decryptChannelConfig NoOpCipher bad_config = Inr bad_config"
  by code_simp+

lemma plain_send: "RetryingSender_Send plain_library key inner ev = tries 2 (inner ev)"
  by (simp add: RetryingSender_Send_def plain_library_def)

lemma demo_delivers:
  assumes "w_faults w = []"
  shows "\<exists>w' ms. deliver demo_notifier ev (demo_channel i ChannelWebhook ok_config) w = (Inr True, w')
      \<and> w' = w\<lparr>w_outbox := ms, w_metrics := w_metrics w @ [RecordAlertSent ChannelWebhook True []]\<rparr>"
    and "\<exists>w' ms. deliver demo_notifier ev (demo_channel i ChannelWebhook bad_config) w = (Inr False, w')
      \<and> w' = w\<lparr>w_outbox := ms, w_metrics := w_metrics w @ [RecordAlertSent ChannelWebhook False ''unknown'']\<rparr>"
proof -
  have posts: "\<exists>ms. post_json demo_out url h b bad service v =
      (let status = (if url = ''https://ok'' then 200 else 503) in
       (if bad status then Inl (ClassifyHTTPStatus status (Errorf (service @ '' returned status '' @ int_to_dec status)))
        else Inr (), v\<lparr>w_outbox := ms\<rparr>))" if "w_faults v = []" for url h b bad service v
    using that by (auto simp: post_json_def leave_def demo_out_def effect_simps external_def Let_def)
  have sender: "sender_of demo_notifier (demo_channel i ChannelWebhook cfg) =
      map_sum id (\<lambda>c. RetryingSender_Send plain_library (breaker_key ChannelWebhook i) (webhook_Send demo_out (whc_url c) (whc_headers c)))
        (map_sum (Wrapped ''invalid webhook config'') id (webhook_config cfg))" for cfg
    by (simp add: sender_of_def deployed_notifier_def notifier_def channels_port_def channels_CreateSender_def
        ChannelRegistry_Get_def notifier_channels_def webhook_factory_def webhook_CreateSender_def
        demo_smtp_def split: sum.split)
  show "\<exists>w' ms. deliver demo_notifier ev (demo_channel i ChannelWebhook ok_config) w = (Inr True, w')
      \<and> w' = w\<lparr>w_outbox := ms, w_metrics := w_metrics w @ [RecordAlertSent ChannelWebhook True []]\<rparr>"
  proof -
    obtain ms where "webhook_Send demo_out ''https://ok'' [] ev w = (Inr (), w\<lparr>w_outbox := ms\<rparr>)"
      using posts [OF assms, of "''https://ok''" "[]" "alert_event_json ev" "\<lambda>status. status \<ge> 400" "''webhook''"]
      by (auto simp: webhook_Send_def Let_def)
    then show ?thesis
      by (auto simp: deliver_def sender demo_configs plain_send eval_nat_numeral
          effect_simps deployed_metric record_metric_def)
  qed
  show "\<exists>w' ms. deliver demo_notifier ev (demo_channel i ChannelWebhook bad_config) w = (Inr False, w')
      \<and> w' = w\<lparr>w_outbox := ms, w_metrics := w_metrics w @ [RecordAlertSent ChannelWebhook False ''unknown'']\<rparr>"
  proof -
    let ?e = "ClassifyHTTPStatus 503 (Errorf (''webhook returned status '' @ int_to_dec 503))"
    have send: "\<exists>ms. webhook_Send demo_out ''https://bad'' [] ev v = (Inl ?e, v\<lparr>w_outbox := ms\<rparr>)"
      if "w_faults v = []" for v
      using posts [OF that, of "''https://bad''" "[]" "alert_event_json ev" "\<lambda>status. status \<ge> 400" "''webhook''"]
      by (auto simp: webhook_Send_def Let_def)
    have "\<exists>ms. tries n (webhook_Send demo_out ''https://bad'' [] ev) v = (Inl ?e, v\<lparr>w_outbox := ms\<rparr>)"
      if "w_faults v = []" for n v
      using that
    proof (induction n arbitrary: v)
      case (Suc n)
      obtain ms where "webhook_Send demo_out ''https://bad'' [] ev v = (Inl ?e, v\<lparr>w_outbox := ms\<rparr>)"
        using send [OF Suc.prems] by blast
      moreover obtain ms' where "tries n (webhook_Send demo_out ''https://bad'' [] ev) (v\<lparr>w_outbox := ms\<rparr>)
          = (Inl ?e, v\<lparr>w_outbox := ms\<rparr>\<lparr>w_outbox := ms'\<rparr>)"
        using Suc.IH [of "v\<lparr>w_outbox := ms\<rparr>"] Suc.prems by auto
      ultimately show ?case by (simp add: effect_simps) blast
    qed (use send in simp)
    from this [OF assms, of 2] show ?thesis
      by (auto simp: deliver_def sender demo_configs plain_send
          effect_simps deployed_metric record_metric_def ClassifyHTTPStatus_def NewDeliveryError_def deliveryReason_def)
  qed
qed

lemma demo_listing:
  "\<exists>w. channels_for demo_notifier (demo_alert event) (hooked hooks) = (Inr (map (\<lambda>(i, cfg). demo_channel i ChannelWebhook cfg) hooks), w)
     \<and> w_faults w = [] \<and> w_next_uuid w = 20 \<and> w_db w = w_db (hooked hooks)"
  if "\<And>i cfg. (i, cfg) \<in> set hooks \<Longrightarrow> decryptChannelConfig NoOpCipher cfg = Inr cfg"
proof -
  have "filter (\<lambda>r. chr_user_id r = 1 \<and> ch_live r) (map (\<lambda>(i, cfg). demo_channel_row i ChannelWebhook cfg) hooks)
      = map (\<lambda>(i, cfg). demo_channel_row i ChannelWebhook cfg) hooks"
    by (rule filter_True) (auto simp: demo_channel_row_def)
  moreover have "sort_key chr_created_at (map (\<lambda>(i, cfg). demo_channel_row i ChannelWebhook cfg) hooks)
      = map (\<lambda>(i, cfg). demo_channel_row i ChannelWebhook cfg) hooks"
    by (rule sort_key_id_if_sorted) (auto simp: demo_channel_row_def comp_def case_prod_beta map_replicate_const)
  moreover have "mapE (map toDomainChannel (map (\<lambda>(i, cfg). demo_channel_row i ChannelWebhook cfg) hooks)) (decrypted_channel NoOpCipher) v
      = (Inr (map (\<lambda>(i, cfg). demo_channel i ChannelWebhook cfg) hooks), v)" for v
    using that
  proof (induction hooks)
    case (Cons h hooks)
    have "decrypted_channel NoOpCipher (toDomainChannel (demo_channel_row (fst h) ChannelWebhook (snd h))) v
        = (Inr (demo_channel (fst h) ChannelWebhook (snd h)), v)"
      using Cons.prems [of "fst h" "snd h"]
      by (simp add: effect_simps decrypted_channel_def demo_channel_row_def demo_channel_def toDomainChannel_def)
    moreover have "mapE (map toDomainChannel (map (\<lambda>(i, cfg). demo_channel_row i ChannelWebhook cfg) hooks)) (decrypted_channel NoOpCipher) v
        = (Inr (map (\<lambda>(i, cfg). demo_channel i ChannelWebhook cfg) hooks), v)"
      by (rule Cons.IH) (use Cons.prems in auto)
    ultimately show ?case by (cases h) (simp add: bindE_apply returnE_apply del: map_map)
  qed (simp add: returnE_apply)
  ultimately show ?thesis
    by (simp add: channels_for_def pg_ChannelRepo_ListForMonitor_def pg_ChannelRepo_ListByUserID_def
        q_ListChannelsForMonitor_def q_ListChannelsByUserID_def run_simps hooked_def demo_alert_def demo_world_def
        empty_world_def demo_db_def empty_db_def toDomainChannels_def)
qed

lemma demo_partial:
  "\<exists>w'. HandleAlert demo_notifier (demo_alert AlertDown) (hooked [(50, ok_config), (51, bad_config)]) = (Inr (), w')"
proof -
  from demo_listing [of "[(50, ok_config), (51, bad_config)]"] demo_configs obtain w where
    lst: "channels_for demo_notifier (demo_alert AlertDown) (hooked [(50, ok_config), (51, bad_config)])
      = (Inr [demo_channel 50 ChannelWebhook ok_config, demo_channel 51 ChannelWebhook bad_config], w)"
    and w: "w_faults w = []" by auto
  from demo_delivers(1) [OF w] obtain ms where
    one: "deliver demo_notifier (demo_alert AlertDown) (demo_channel 50 ChannelWebhook ok_config) w
      = (Inr True, w\<lparr>w_outbox := ms, w_metrics := w_metrics w @ [RecordAlertSent ChannelWebhook True []]\<rparr>)" by blast
  let ?w1 = "w\<lparr>w_outbox := ms, w_metrics := w_metrics w @ [RecordAlertSent ChannelWebhook True []]\<rparr>"
  have w1: "w_faults ?w1 = []" using w by simp
  from demo_delivers(2) [OF w1] obtain w2 where
    two: "deliver demo_notifier (demo_alert AlertDown) (demo_channel 51 ChannelWebhook bad_config) ?w1 = (Inr False, w2)" by blast
  obtain x w3 where dlq: "writeToDLQ demo_notifier (demo_alert AlertDown) 1 1 [51] w2 = (x, w3)"
    by (cases "writeToDLQ demo_notifier (demo_alert AlertDown) 1 1 [51] w2")
  from dlq_attempts_run [OF deployed_ports(3) dlq [unfolded writeToDLQ_def]] have "x = Inr ()" by simp
  with dlq show ?thesis
    by (simp add: HandleAlert_def bindE_apply lst deliver_all_def one two returnE_apply count_delivery_def)
qed

lemma demo_refused:
  "\<exists>e w'. HandleAlert demo_notifier (demo_alert AlertDown) (hooked [(51, bad_config)]) = (Inl e, w')"
proof -
  from demo_listing [of "[(51, bad_config)]"] demo_configs obtain w where
    lst: "channels_for demo_notifier (demo_alert AlertDown) (hooked [(51, bad_config)])
      = (Inr [demo_channel 51 ChannelWebhook bad_config], w)"
    and w: "w_faults w = []" by auto
  from demo_delivers(2) [OF w] obtain w2 where
    one: "deliver demo_notifier (demo_alert AlertDown) (demo_channel 51 ChannelWebhook bad_config) w = (Inr False, w2)" by blast
  show ?thesis
    by (simp add: HandleAlert_def bindE_apply lst deliver_all_def one returnE_apply count_delivery_def
        deployed_metric record_metric_def modifyE_apply throwE_apply)
qed

lemma demo_rows: "filter chr_is_enabled (alert_rows (w_db (hooked hooks)) (demo_alert event)) =
    map (\<lambda>(i, cfg). demo_channel_row i ChannelWebhook cfg) hooks" if "length hooks \<le> 2"
proof -
  have "sort_key chr_created_at (map (\<lambda>(i, cfg). demo_channel_row i ChannelWebhook cfg) hooks)
      = map (\<lambda>(i, cfg). demo_channel_row i ChannelWebhook cfg) hooks"
    by (rule sort_key_id_if_sorted) (auto simp: demo_channel_row_def comp_def case_prod_beta map_replicate_const)
  moreover have "filter (\<lambda>r. chr_user_id r = 1 \<and> ch_live r) (map (\<lambda>(i, cfg). demo_channel_row i ChannelWebhook cfg) hooks)
      = map (\<lambda>(i, cfg). demo_channel_row i ChannelWebhook cfg) hooks"
    by (rule filter_True) (auto simp: demo_channel_row_def)
  ultimately show ?thesis
    by (auto simp: alert_rows_def bound_rows_def user_rows_def hooked_def demo_alert_def demo_world_def demo_db_def
        empty_db_def demo_channel_row_def intro!: filter_True)
qed



lemma at_most_three_messages_per_channel_witness:
  "length (w_outbox (snd (HandleAlert demo_notifier (demo_alert AlertDown) (hooked [(51, bad_config)])))) \<le> 3"
proof -
  obtain e w' where run: "HandleAlert demo_notifier (demo_alert AlertDown) (hooked [(51, bad_config)]) = (Inl e, w')"
    using demo_refused by blast
  have rows: "length (filter chr_is_enabled (alert_rows (w_db (hooked [(51, bad_config)])) (demo_alert AlertDown))) = 1"
    by (simp add: demo_rows)
  have "w_outbox (hooked [(51, bad_config)]) = []" by (simp add: hooked_def demo_world_def empty_world_def)
  with at_most_three_messages_per_channel [OF plain_library_ok run, unfolded rows] show ?thesis by (simp add: run)
qed

definition telegram_demo_config :: string where
  "telegram_demo_config = ''{'' @ [CHR 0x22] @ ''chat_id'' @ [CHR 0x22] @ '':5}''"


lemma delivery_order_is_irrelevant_witness:
  "\<exists>sent failed ids ids' w1 w2.
     deliver_all demo_notifier (demo_alert AlertDown)
       [demo_channel 50 ChannelWebhook ok_config, demo_channel 51 ChannelWebhook bad_config] demo_world = (Inr (sent, failed, ids), w1)
   \<and> deliver_all demo_notifier (demo_alert AlertDown)
       [demo_channel 51 ChannelWebhook bad_config, demo_channel 50 ChannelWebhook ok_config] demo_world = (Inr (sent, failed, ids'), w2)
   \<and> mset ids' = mset ids"
proof (rule delivery_order_is_irrelevant [where ok = "\<lambda>ch. ch_id ch = 50"])
  fix ch and v :: world
  assume "ch \<in> set [demo_channel 50 ChannelWebhook ok_config, demo_channel 51 ChannelWebhook bad_config]" and v: "w_faults v = []"
  then show "\<exists>v'. deliver demo_notifier (demo_alert AlertDown) ch v = (Inr (ch_id ch = 50), v') \<and> w_faults v' = []"
    using demo_delivers [OF v, of "demo_alert AlertDown"] v by fastforce
qed (simp_all add: demo_world_def empty_world_def)

end
