(* ===== verification/Subscriber_Store.thy ===== *)
theory Subscriber_Store
  imports Account_Store
begin

text \<open>
  Status-page and newsletter subscribers, custom domains and their certificates:
  statements of \<open>sqlc/gen\<close> and repositories of \<open>adapter/postgres\<close>.
\<close>

section \<open>Status-page subscribers\<close>

definition q_ConfirmStatusSubscriber :: "string \<Rightarrow> status_subscriber_row io" where
  "q_ConfirmStatusSubscriber token = statement (\<lambda>d now.
     let p = (\<lambda>r. ssr_confirm_token r = token \<and> ssr_confirmed_at r = None);
         f = (\<lambda>r. r\<lparr>ssr_confirmed_at := Some now\<rparr>) in
     case one_row (map f (filter p (t_status_subscribers d))) of
       Inl e \<Rightarrow> Inl e
     | Inr r \<Rightarrow> Inr (r, d\<lparr>t_status_subscribers := update_where p f (t_status_subscribers d)\<rparr>))"

definition q_CreateStatusSubscriber ::
    "string \<Rightarrow> string \<Rightarrow> string \<Rightarrow> string \<Rightarrow> string option \<Rightarrow> status_subscriber_row io" where
  "q_CreateStatusSubscriber slug email ctok utok locale = bindE nextval (\<lambda>i. statement (\<lambda>d now.
     let r = \<lparr>ssr_id = i, ssr_slug = slug, ssr_email = email, ssr_confirm_token = ctok,
              ssr_unsubscribe_token = utok, ssr_confirmed_at = None, ssr_created_at = now,
              ssr_locale = locale\<rparr> in
     if \<exists>x \<in> set (t_status_subscribers d). ssr_id x = i \<or> ssr_slug x = slug \<and> ssr_email x = email
          \<or> ssr_confirm_token x = ctok \<or> ssr_unsubscribe_token x = utok
     then Inl unique_violation
     else Inr (r, d\<lparr>t_status_subscribers := t_status_subscribers d @ [r]\<rparr>)))"

definition q_ListConfirmedSubscribersBySlug :: "string \<Rightarrow> status_subscriber_row list io" where
  "q_ListConfirmedSubscribersBySlug slug = query (\<lambda>d now.
     Inr (sort_key ssr_created_at
       (filter (\<lambda>r. ssr_slug r = slug \<and> ssr_confirmed_at r \<noteq> None) (t_status_subscribers d))))"

definition q_UnsubscribeStatusSubscriber :: "string \<Rightarrow> status_subscriber_row io" where
  "q_UnsubscribeStatusSubscriber token = statement (\<lambda>d now.
     let p = (\<lambda>r. ssr_unsubscribe_token r = token) in
     case one_row (filter p (t_status_subscribers d)) of
       Inl e \<Rightarrow> Inl e
     | Inr r \<Rightarrow> Inr (r, d\<lparr>t_status_subscribers := filter (\<lambda>r. \<not> p r) (t_status_subscribers d)\<rparr>))"

definition rowToSub :: "status_subscriber_row \<Rightarrow> status_subscriber" where
  "rowToSub r =
     \<lparr>ss_id = ssr_id r, ss_slug = ssr_slug r, ss_email = ssr_email r,
      ss_confirm_token = ssr_confirm_token r, ss_unsubscribe_token = ssr_unsubscribe_token r,
      ss_confirmed_at = ssr_confirmed_at r, ss_created_at = ssr_created_at r, ss_locale = ssr_locale r\<rparr>"

lemma rowToSub_sel [simp]:
  "ss_email (rowToSub r) = ssr_email r"
  "ss_slug (rowToSub r) = ssr_slug r"
  "ss_confirmed_at (rowToSub r) = ssr_confirmed_at r"
  "ss_unsubscribe_token (rowToSub r) = ssr_unsubscribe_token r"
  "ss_locale (rowToSub r) = ssr_locale r"
  by (simp_all add: rowToSub_def)

definition pg_StatusSubscriberRepo :: status_subscriber_repo where
  "pg_StatusSubscriberRepo =
     \<lparr>StatusSubscriberRepo_Create = (\<lambda>slug email ctok utok locale.
        bindE (q_CreateStatusSubscriber slug email ctok utok locale) (\<lambda>row. returnE (rowToSub row))),
      StatusSubscriberRepo_Confirm = (\<lambda>token.
        bindE (q_ConfirmStatusSubscriber token) (\<lambda>row. returnE (rowToSub row))),
      StatusSubscriberRepo_Unsubscribe = (\<lambda>token.
        bindE (q_UnsubscribeStatusSubscriber token) (\<lambda>row. returnE (rowToSub row))),
      StatusSubscriberRepo_ListConfirmedBySlug = (\<lambda>slug.
        bindE (q_ListConfirmedSubscribersBySlug slug) (\<lambda>rows. returnE (map rowToSub rows)))\<rparr>"

section \<open>Newsletter subscribers\<close>

definition q_ConfirmBlogSubscriber :: "string \<Rightarrow> blog_subscriber_row io" where
  "q_ConfirmBlogSubscriber token = statement (\<lambda>d now.
     let p = (\<lambda>r. bsr_confirm_token r = token \<and> bsr_confirmed_at r = None);
         f = (\<lambda>r. r\<lparr>bsr_confirmed_at := Some now\<rparr>) in
     case one_row (map f (filter p (t_blog_subscribers d))) of
       Inl e \<Rightarrow> Inl e
     | Inr r \<Rightarrow> Inr (r, d\<lparr>t_blog_subscribers := update_where p f (t_blog_subscribers d)\<rparr>))"

definition q_CountConfirmedBlogSubscribers :: "int io" where
  "q_CountConfirmedBlogSubscribers = query (\<lambda>d now.
     Inr (int (length (filter (\<lambda>r. bsr_confirmed_at r \<noteq> None) (t_blog_subscribers d)))))"

definition q_CreateBlogSubscriber ::
    "string \<Rightarrow> string \<Rightarrow> string \<Rightarrow> string option \<Rightarrow> string option \<Rightarrow> blog_subscriber_row io" where
  "q_CreateBlogSubscriber email ctok utok source locale = bindE nextval (\<lambda>i. statement (\<lambda>d now.
     let r = \<lparr>bsr_id = i, bsr_email = email, bsr_confirm_token = ctok,
              bsr_unsubscribe_token = utok, bsr_confirmed_at = None, bsr_created_at = now,
              bsr_source = source, bsr_locale = locale\<rparr> in
     if \<exists>x \<in> set (t_blog_subscribers d). bsr_id x = i \<or> bsr_email x = email
          \<or> bsr_confirm_token x = ctok \<or> bsr_unsubscribe_token x = utok
     then Inl unique_violation
     else Inr (r, d\<lparr>t_blog_subscribers := t_blog_subscribers d @ [r]\<rparr>)))"

definition q_ListConfirmedBlogSubscribers :: "blog_subscriber_row list io" where
  "q_ListConfirmedBlogSubscribers = query (\<lambda>d now.
     Inr (sort_key (\<lambda>r. - bsr_created_at r)
       (filter (\<lambda>r. bsr_confirmed_at r \<noteq> None) (t_blog_subscribers d))))"

definition q_UnsubscribeBlogSubscriber :: "string \<Rightarrow> blog_subscriber_row io" where
  "q_UnsubscribeBlogSubscriber token = statement (\<lambda>d now.
     let p = (\<lambda>r. bsr_unsubscribe_token r = token) in
     case one_row (filter p (t_blog_subscribers d)) of
       Inl e \<Rightarrow> Inl e
     | Inr r \<Rightarrow> Inr (r, d\<lparr>t_blog_subscribers := filter (\<lambda>r. \<not> p r) (t_blog_subscribers d)\<rparr>))"

definition rowToBlogSub :: "blog_subscriber_row \<Rightarrow> blog_subscriber" where
  "rowToBlogSub r =
     \<lparr>bs_id = bsr_id r, bs_email = bsr_email r,
      bs_confirm_token = bsr_confirm_token r, bs_unsubscribe_token = bsr_unsubscribe_token r,
      bs_confirmed_at = bsr_confirmed_at r, bs_created_at = bsr_created_at r,
      bs_source = bsr_source r, bs_locale = bsr_locale r\<rparr>"

definition pg_BlogSubscriberRepo :: blog_subscriber_repo where
  "pg_BlogSubscriberRepo =
     \<lparr>BlogSubscriberRepo_Create = (\<lambda>email ctok utok source locale.
        bindE (q_CreateBlogSubscriber email ctok utok source locale) (\<lambda>row. returnE (rowToBlogSub row))),
      BlogSubscriberRepo_Confirm = (\<lambda>token.
        bindE (q_ConfirmBlogSubscriber token) (\<lambda>row. returnE (rowToBlogSub row))),
      BlogSubscriberRepo_Unsubscribe = (\<lambda>token.
        bindE (q_UnsubscribeBlogSubscriber token) (\<lambda>row. returnE (rowToBlogSub row))),
      BlogSubscriberRepo_ListConfirmed =
        bindE q_ListConfirmedBlogSubscribers (\<lambda>rows. returnE (map rowToBlogSub rows)),
      BlogSubscriberRepo_CountConfirmed = q_CountConfirmedBlogSubscribers\<rparr>"

section \<open>Custom domains\<close>

definition CustomDomainStatus_Valid :: "string \<Rightarrow> bool" where
  "CustomDomainStatus_Valid s \<longleftrightarrow>
     s \<in> set [CustomDomainPending, CustomDomainValidated, CustomDomainActive, CustomDomainFailed]"

definition q_CreateCustomDomain :: "uuid \<Rightarrow> string \<Rightarrow> string \<Rightarrow> custom_domain_row io" where
  "q_CreateCustomDomain u hostname token = bindE nextval (\<lambda>i. statement (\<lambda>d now.
     let r = \<lparr>cdr_id = i, cdr_user_id = u, cdr_hostname = hostname, cdr_validation_token = token,
              cdr_status = CustomDomainPending, cdr_last_error = None, cdr_dns_validated_at = None,
              cdr_cert_issued_at = None, cdr_created_at = now\<rparr> in
     if \<exists>x \<in> set (t_custom_domains d). cdr_id x = i \<or> cdr_hostname x = hostname then Inl unique_violation
     else if \<not> user_exists d u then Inl foreign_key_violation
     else Inr (r, d\<lparr>t_custom_domains := t_custom_domains d @ [r]\<rparr>)))"

text \<open>\<open>ON DELETE CASCADE\<close> takes the certificate with the domain.\<close>

definition q_DeleteCustomDomain :: "int \<Rightarrow> uuid \<Rightarrow> unit io" where
  "q_DeleteCustomDomain i u = statement (\<lambda>d now.
     let p = (\<lambda>r. cdr_id r = i \<and> cdr_user_id r = u);
         gone = cdr_id ` {r \<in> set (t_custom_domains d). p r} in
     Inr ((), d\<lparr>t_custom_domains := filter (\<lambda>r. \<not> p r) (t_custom_domains d),
       t_custom_domain_certs := filter (\<lambda>c. cdc_custom_domain_id c \<notin> gone) (t_custom_domain_certs d)\<rparr>))"

definition q_GetCustomDomainByHostname :: "string \<Rightarrow> custom_domain_row io" where
  "q_GetCustomDomainByHostname h = query (\<lambda>d now.
     one_row (filter (\<lambda>r. cdr_hostname r = h) (t_custom_domains d)))"

definition q_ListActiveCustomDomainHostnames :: "(string \<times> uuid) list io" where
  "q_ListActiveCustomDomainHostnames = query (\<lambda>d now.
     Inr (map (\<lambda>r. (cdr_hostname r, cdr_user_id r))
       (filter (\<lambda>r. cdr_status r = CustomDomainActive) (t_custom_domains d))))"

definition q_ListCustomDomainsByUserID :: "uuid \<Rightarrow> custom_domain_row list io" where
  "q_ListCustomDomainsByUserID u = query (\<lambda>d now.
     Inr (sort_key (\<lambda>r. - cdr_created_at r) (filter (\<lambda>r. cdr_user_id r = u) (t_custom_domains d))))"

definition q_ListPendingCustomDomains :: "custom_domain_row list io" where
  "q_ListPendingCustomDomains = query (\<lambda>d now.
     Inr (take 100 (sort_key cdr_created_at
       (filter (\<lambda>r. cdr_status r \<in> set [CustomDomainPending, CustomDomainValidated, CustomDomainFailed])
          (t_custom_domains d)))))"

text \<open>\<open>COALESCE($4, dns_validated_at)\<close>: a null argument keeps the old value.\<close>

definition coalesce :: "'a option \<Rightarrow> 'a option \<Rightarrow> 'a option" where
  "coalesce a b = (case a of Some x \<Rightarrow> Some x | None \<Rightarrow> b)"

definition q_UpdateCustomDomainStatus ::
    "int \<Rightarrow> string \<Rightarrow> string option \<Rightarrow> time option \<Rightarrow> time option \<Rightarrow> unit io" where
  "q_UpdateCustomDomainStatus i s e dns cert = statement (\<lambda>d now.
     if \<not> CustomDomainStatus_Valid s then Inl invalid_text_representation
     else Inr ((), d\<lparr>t_custom_domains := update_where (\<lambda>r. cdr_id r = i)
       (\<lambda>r. r\<lparr>cdr_status := s, cdr_last_error := e,
              cdr_dns_validated_at := coalesce dns (cdr_dns_validated_at r),
              cdr_cert_issued_at := coalesce cert (cdr_cert_issued_at r)\<rparr>) (t_custom_domains d)\<rparr>))"

definition rowToCustomDomain :: "custom_domain_row \<Rightarrow> custom_domain" where
  "rowToCustomDomain r =
     \<lparr>cd_id = cdr_id r, cd_user_id = cdr_user_id r, cd_hostname = cdr_hostname r,
      cd_validation_token = cdr_validation_token r, cd_status = cdr_status r,
      cd_last_error = cdr_last_error r, cd_dns_validated_at = cdr_dns_validated_at r,
      cd_cert_issued_at = cdr_cert_issued_at r, cd_created_at = cdr_created_at r\<rparr>"

lemma rowToCustomDomain_sel [simp]:
  "cd_id (rowToCustomDomain r) = cdr_id r"
  "cd_status (rowToCustomDomain r) = cdr_status r"
  "cd_hostname (rowToCustomDomain r) = cdr_hostname r"
  "cd_user_id (rowToCustomDomain r) = cdr_user_id r"
  by (simp_all add: rowToCustomDomain_def)

definition pg_CustomDomainRepo :: custom_domain_repo where
  "pg_CustomDomainRepo =
     \<lparr>CustomDomainRepo_Create = (\<lambda>u hostname token.
        bindE (q_CreateCustomDomain u hostname token) (\<lambda>row. returnE (rowToCustomDomain row))),
      CustomDomainRepo_ListByUserID = (\<lambda>u.
        bindE (q_ListCustomDomainsByUserID u) (\<lambda>rows. returnE (map rowToCustomDomain rows))),
      CustomDomainRepo_GetByHostname = (\<lambda>h.
        bindE (q_GetCustomDomainByHostname h) (\<lambda>row. returnE (rowToCustomDomain row))),
      CustomDomainRepo_ListPending =
        bindE q_ListPendingCustomDomains (\<lambda>rows. returnE (map rowToCustomDomain rows)),
      CustomDomainRepo_UpdateStatus = q_UpdateCustomDomainStatus,
      CustomDomainRepo_Delete = q_DeleteCustomDomain,
      CustomDomainRepo_ListActiveHostnames =
        bindE q_ListActiveCustomDomainHostnames (\<lambda>rows. returnE (map_of (rev rows)))\<rparr>"

section \<open>Certificates\<close>

definition q_GetCustomDomainCertByDomainID :: "int \<Rightarrow> custom_domain_cert_row io" where
  "q_GetCustomDomainCertByDomainID i = query (\<lambda>d now.
     one_row (filter (\<lambda>c. cdc_custom_domain_id c = i) (t_custom_domain_certs d)))"

definition q_ListCustomDomainCertsExpiringBefore :: "time \<Rightarrow> custom_domain_cert_row list io" where
  "q_ListCustomDomainCertsExpiringBefore t = query (\<lambda>d now.
     Inr (filter (\<lambda>c. cdc_expires_at c < t) (t_custom_domain_certs d)))"

definition q_ListExpiringHostnames :: "time \<Rightarrow> string list io" where
  "q_ListExpiringHostnames t = query (\<lambda>d now.
     Inr [cdr_hostname r. c \<leftarrow> t_custom_domain_certs d, r \<leftarrow> t_custom_domains d,
            cdr_id r = cdc_custom_domain_id c \<and> cdc_expires_at c < t \<and> cdr_status r = CustomDomainActive])"

definition q_UpsertCustomDomainCert :: "custom_domain_cert \<Rightarrow> unit io" where
  "q_UpsertCustomDomainCert a = bindE nextval (\<lambda>i. statement (\<lambda>d now.
     let p = (\<lambda>c. cdc_custom_domain_id c = cert_custom_domain_id a) in
     if \<exists>c \<in> set (t_custom_domain_certs d). p c then
       Inr ((), d\<lparr>t_custom_domain_certs := update_where p
         (\<lambda>c. c\<lparr>cdc_cert_pem := cert_cert_pem a, cdc_key_pem := cert_key_pem a,
                cdc_chain_pem := cert_chain_pem a, cdc_expires_at := cert_expires_at a,
                cdc_issued_at := now\<rparr>) (t_custom_domain_certs d)\<rparr>)
     else if \<exists>c \<in> set (t_custom_domain_certs d). cdc_id c = i then Inl unique_violation
     else if cert_custom_domain_id a \<notin> cdr_id ` set (t_custom_domains d) then Inl foreign_key_violation
     else Inr ((), d\<lparr>t_custom_domain_certs := t_custom_domain_certs d @
       [\<lparr>cdc_id = i, cdc_custom_domain_id = cert_custom_domain_id a, cdc_cert_pem = cert_cert_pem a,
         cdc_key_pem = cert_key_pem a, cdc_chain_pem = cert_chain_pem a,
         cdc_expires_at = cert_expires_at a, cdc_issued_at = now\<rparr>]\<rparr>)))"

definition rowToCert :: "custom_domain_cert_row \<Rightarrow> custom_domain_cert" where
  "rowToCert c =
     \<lparr>cert_custom_domain_id = cdc_custom_domain_id c, cert_cert_pem = cdc_cert_pem c,
      cert_key_pem = cdc_key_pem c, cert_chain_pem = cdc_chain_pem c,
      cert_expires_at = cdc_expires_at c\<rparr>"

definition pg_CustomDomainCertRepo :: custom_domain_cert_repo where
  "pg_CustomDomainCertRepo =
     \<lparr>CustomDomainCertRepo_Upsert = q_UpsertCustomDomainCert,
      CustomDomainCertRepo_GetByDomainID = (\<lambda>i.
        bindE (q_GetCustomDomainCertByDomainID i) (\<lambda>row. returnE (rowToCert row))),
      CustomDomainCertRepo_ListExpiringBefore = (\<lambda>t.
        bindE (q_ListCustomDomainCertsExpiringBefore t) (\<lambda>rows. returnE (map rowToCert rows))),
      CustomDomainCertRepo_ListExpiringHostnames = q_ListExpiringHostnames\<rparr>"

end
