(* ===== verification/Auth.thy ===== *)
theory Auth
  imports Account_Store Hostnames Effect_Facts
begin

text \<open>
  Accounts and sessions: the session store of \<open>internal/adapter/redis/session.go\<close> and
  \<open>AuthService\<close> of \<open>internal/app/auth.go\<close>. Password hashing (\<open>golang.org/x/crypto/bcrypt\<close>) and
  the address parser \<open>net/mail.ParseAddress\<close> are parameters. The theory shows how a run of each
  operation changes the sessions and the users.
\<close>

section \<open>Sessions in Redis\<close>

text \<open>
  A key with a value and the moment it expires, which is the moment of the command plus the
  time to live; a key that has expired reads as missing. The model has one clock for the
  process and for Redis. Values are kept as identifiers: \<open>uuid.Parse\<close> inverts
  \<open>uuid.UUID.String\<close>.
\<close>

definition session_entry :: "string \<Rightarrow> world \<Rightarrow> (string \<times> uuid \<times> time) option" where
  "session_entry key w = List.find (\<lambda>(k, u, t). k = key \<and> w_app_clock w < t) (w_sessions w)"

definition redis_set :: "string \<Rightarrow> uuid \<Rightarrow> duration \<Rightarrow> unit io" where
  "redis_set key u ttl = external (modifyE (\<lambda>w.
     w\<lparr>w_sessions := (key, u, w_app_clock w + ttl) # filter (\<lambda>(k, _). k \<noteq> key) (w_sessions w)\<rparr>))"

definition redis_get :: "string \<Rightarrow> uuid io" where
  "redis_get key = external (\<lambda>w. case session_entry key w of
       None \<Rightarrow> (Inl (Errorf ''redis: nil''), w) | Some (k, u, t) \<Rightarrow> (Inr u, w))"

definition redis_expire :: "string \<Rightarrow> duration \<Rightarrow> unit io" where
  "redis_expire key ttl = external (modifyE (\<lambda>w.
     w\<lparr>w_sessions := map (\<lambda>(k, u, t). if k = key \<and> w_app_clock w < t then (k, u, w_app_clock w + ttl)
                                    else (k, u, t)) (w_sessions w)\<rparr>))"

definition redis_del :: "string \<Rightarrow> unit io" where
  "redis_del key = external (modifyE (\<lambda>w. w\<lparr>w_sessions := filter (\<lambda>(k, _). k \<noteq> key) (w_sessions w)\<rparr>))"

definition session_key :: "string \<Rightarrow> string" where
  "session_key sessionID = ''session:'' @ sessionID"

text \<open>\<open>time.Until(expiresAt)\<close> reads the same clock again.\<close>

definition redis_SessionRepo_Create :: "string \<Rightarrow> uuid \<Rightarrow> time \<Rightarrow> unit io" where
  "redis_SessionRepo_Create sessionID u expiresAt = bindE clock_now (\<lambda>now.
     if expiresAt - now \<le> 0 then throwE (Errorf ''session already expired'')
     else redis_set (session_key sessionID) u (expiresAt - now))"

definition redis_SessionRepo_GetUserID :: "string \<Rightarrow> uuid io" where
  "redis_SessionRepo_GetUserID sessionID =
     wrapE ''session not found'' (redis_get (session_key sessionID))"

definition redis_SessionRepo_Touch :: "string \<Rightarrow> time \<Rightarrow> unit io" where
  "redis_SessionRepo_Touch sessionID expiresAt = bindE clock_now (\<lambda>now.
     if expiresAt - now \<le> 0 then throwE (Errorf ''session already expired'')
     else redis_expire (session_key sessionID) (expiresAt - now))"

definition redis_SessionRepo_Delete :: "string \<Rightarrow> unit io" where
  "redis_SessionRepo_Delete sessionID = redis_del (session_key sessionID)"

definition redis_SessionRepo :: session_repo where
  "redis_SessionRepo =
     \<lparr>SessionRepo_Create = redis_SessionRepo_Create,
      SessionRepo_GetUserID = redis_SessionRepo_GetUserID,
      SessionRepo_Touch = redis_SessionRepo_Touch,
      SessionRepo_Delete = redis_SessionRepo_Delete\<rparr>"

section \<open>The service\<close>

text \<open>
  What the code relies on of bcrypt: hashing draws a salt and touches nothing else, and a
  hash accepts the password it was made from and, up to the 72 bytes that bcrypt looks at,
  no other.
\<close>

record bcrypt =
  bc_GenerateFromPassword :: "string \<Rightarrow> string io"
  bc_CompareHashAndPassword :: "string \<Rightarrow> string \<Rightarrow> goerr option"

definition bcrypt_ok :: "bcrypt \<Rightarrow> bool" where
  "bcrypt_ok bc \<longleftrightarrow>
     (\<forall>p. steps_by (\<lambda>w w'. durable w' = durable w) (bc_GenerateFromPassword bc p))
     \<and> (\<forall>p h w w' q. bc_GenerateFromPassword bc p w = (Inr h, w') \<longrightarrow> length p \<le> 72 \<longrightarrow> length q \<le> 72 \<longrightarrow>
          (bc_CompareHashAndPassword bc h q = None \<longleftrightarrow> q = p))"

record auth_service =
  au_users :: user_repo
  au_sessions :: session_repo
  au_bcrypt :: bcrypt
  au_parse_address :: "string \<Rightarrow> bool"

definition sessionDuration :: duration where
  "sessionDuration = hours (30 * 24)"

definition HashPassword :: "bcrypt \<Rightarrow> string \<Rightarrow> string io" where
  "HashPassword bc password = wrapE ''hash password'' (bc_GenerateFromPassword bc password)"

definition CheckPassword :: "bcrypt \<Rightarrow> string \<Rightarrow> string \<Rightarrow> bool" where
  "CheckPassword bc hash password = (bc_CompareHashAndPassword bc hash password = None)"

definition generateToken :: "string io" where
  "generateToken = bindE (read_random 32) (\<lambda>b. returnE (hex_encode b))"

definition createSession :: "auth_service \<Rightarrow> uuid \<Rightarrow> string io" where
  "createSession s u =
     bindE (wrapE ''generate token'' generateToken) (\<lambda>token.
     bindE clock_now (\<lambda>now.
     bindE (wrapE ''create session'' (SessionRepo_Create (au_sessions s) token u (now + sessionDuration))) (\<lambda>_.
     returnE token)))"

definition Register :: "auth_service \<Rightarrow> string \<Rightarrow> string \<Rightarrow> string \<Rightarrow> (user \<times> string) io" where
  "Register s email slug password =
     bindE (liftE (ValidateEmail (au_parse_address s) email)) (\<lambda>_.
     bindE (liftE (ValidateSlug slug)) (\<lambda>_.
     bindE (liftE (ValidatePassword password)) (\<lambda>_.
     bindE (HashPassword (au_bcrypt s) password) (\<lambda>hash.
     bindE (mapErrE (\<lambda>err. if errors_is err ErrUserExists then err else Wrapped ''create user'' err)
       (UserRepo_Create (au_users s) email slug hash)) (\<lambda>u.
     bindE (createSession s (usr_id u)) (\<lambda>sessionID.
     returnE (u, sessionID)))))))"

text \<open>
  The comparison with the precomputed hash when the address is unknown only spends time; its
  result is thrown away.
\<close>

definition Login :: "auth_service \<Rightarrow> string \<Rightarrow> string \<Rightarrow> (user \<times> string) io" where
  "Login s email password =
     bindE (mapErrE (\<lambda>_. Errorf ''invalid email or password'') (UserRepo_GetByEmail (au_users s) email))
       (\<lambda>(u, hash).
     if \<not> CheckPassword (au_bcrypt s) hash password then throwE (Errorf ''invalid email or password'')
     else bindE (createSession s (usr_id u)) (\<lambda>sessionID. returnE (u, sessionID)))"

definition ValidateSession :: "auth_service \<Rightarrow> string \<Rightarrow> user io" where
  "ValidateSession s sessionID =
     bindE (mapErrE (\<lambda>_. Errorf ''invalid session'') (SessionRepo_GetUserID (au_sessions s) sessionID)) (\<lambda>userID.
     bindE (mapErrE (\<lambda>_. Errorf ''user not found'') (UserRepo_GetByID (au_users s) userID)) (\<lambda>u.
     bindE clock_now (\<lambda>now.
     bindE (logged (SessionRepo_Touch (au_sessions s) sessionID (now + sessionDuration))) (\<lambda>_.
     returnE u))))"

definition Logout :: "auth_service \<Rightarrow> string \<Rightarrow> unit io" where
  "Logout s sessionID = SessionRepo_Delete (au_sessions s) sessionID"

definition UpgradeToPro :: "auth_service \<Rightarrow> uuid \<Rightarrow> string \<Rightarrow> string \<Rightarrow> unit io" where
  "UpgradeToPro s u customerID subscriptionID =
     bindE (UserRepo_UpdatePlan (au_users s) u PlanPro) (\<lambda>_.
     UserRepo_UpdateLemonSqueezy (au_users s) u customerID subscriptionID)"

definition DowngradeToFree :: "auth_service \<Rightarrow> uuid \<Rightarrow> unit io" where
  "DowngradeToFree s u = UserRepo_UpdatePlan (au_users s) u PlanFree"

definition GetBranding :: "auth_service \<Rightarrow> uuid \<Rightarrow> branding io" where
  "GetBranding s u = UserRepo_GetBranding (au_users s) u"

definition UpdateBranding :: "auth_service \<Rightarrow> uuid \<Rightarrow> branding \<Rightarrow> unit io" where
  "UpdateBranding s u b = UserRepo_UpdateBranding (au_users s) u b"

definition GetUserByID :: "auth_service \<Rightarrow> uuid \<Rightarrow> user io" where
  "GetUserByID s i = UserRepo_GetByID (au_users s) i"

definition GetUserByEmail :: "auth_service \<Rightarrow> string \<Rightarrow> user io" where
  "GetUserByEmail s email =
     bindE (wrapE ''user not found'' (UserRepo_GetByEmail (au_users s) email)) (\<lambda>(u, hash). returnE u)"

text \<open>The service as the API process builds it.\<close>

definition accounts :: "bcrypt \<Rightarrow> (string \<Rightarrow> bool) \<Rightarrow> auth_service" where
  "accounts bc parse_address =
     \<lparr>au_users = pg_UserRepo, au_sessions = redis_SessionRepo, au_bcrypt = bc,
      au_parse_address = parse_address\<rparr>"

end
