(* ===== verification/Sha256.thy ===== *)
theory Sha256
  imports Prelude
begin

unbundle bit_operations_syntax

text \<open>
  The two functions of Go's standard library that the credentials of the program rest on:
  \<open>sha256.Sum256\<close> (FIPS 180-4), under which API keys are stored and looked up, and
  \<open>hmac.New(sha256.New, key)\<close> (RFC 2104), which signs the billing webhooks. The digest is
  computed on 32-bit words; no lemma assumes that it has no collisions.
\<close>

type_synonym word32 = "32 word"

definition sha256_k :: "word32 list" where
  "sha256_k =
    [1116352408, 1899447441, 3049323471, 3921009573, 961987163, 1508970993,
     2453635748, 2870763221, 3624381080, 310598401, 607225278, 1426881987,
     1925078388, 2162078206, 2614888103, 3248222580, 3835390401, 4022224774,
     264347078, 604807628, 770255983, 1249150122, 1555081692, 1996064986,
     2554220882, 2821834349, 2952996808, 3210313671, 3336571891, 3584528711,
     113926993, 338241895, 666307205, 773529912, 1294757372, 1396182291,
     1695183700, 1986661051, 2177026350, 2456956037, 2730485921, 2820302411,
     3259730800, 3345764771, 3516065817, 3600352804, 4094571909, 275423344,
     430227734, 506948616, 659060556, 883997877, 958139571, 1322822218,
     1537002063, 1747873779, 1955562222, 2024104815, 2227730452, 2361852424,
     2428436474, 2756734187, 3204031479, 3329325298]"

definition sha256_init :: "word32 list" where
  "sha256_init =
    [1779033703, 3144134277, 1013904242, 2773480762, 1359893119, 2600822924,
     528734635, 1541459225]"

section \<open>One block\<close>

definition small_sigma0 :: "word32 \<Rightarrow> word32" where
  "small_sigma0 x = word_rotr 7 x XOR word_rotr 18 x XOR drop_bit 3 x"

definition small_sigma1 :: "word32 \<Rightarrow> word32" where
  "small_sigma1 x = word_rotr 17 x XOR word_rotr 19 x XOR drop_bit 10 x"

definition big_sigma0 :: "word32 \<Rightarrow> word32" where
  "big_sigma0 x = word_rotr 2 x XOR word_rotr 13 x XOR word_rotr 22 x"

definition big_sigma1 :: "word32 \<Rightarrow> word32" where
  "big_sigma1 x = word_rotr 6 x XOR word_rotr 11 x XOR word_rotr 25 x"

text \<open>
  The message schedule from the sixteen words of the block: a window of the last sixteen
  words slides over it.
\<close>

primrec schedule :: "nat \<Rightarrow> word32 list \<Rightarrow> word32 list" where
  "schedule 0 win = []"
| "schedule (Suc n) win = win ! 0 #
     schedule n (tl win @ [small_sigma1 (win ! 14) + win ! 9 + small_sigma0 (win ! 1) + win ! 0])"

fun sha256_round :: "word32 \<times> word32 \<Rightarrow> word32 list \<Rightarrow> word32 list" where
  "sha256_round (k, x) [a, b, c, d, e, f, g, h] =
     (let t1 = h + big_sigma1 e + ((e AND f) XOR (NOT e AND g)) + k + x;
          t2 = big_sigma0 a + ((a AND b) XOR (a AND c) XOR (b AND c)) in
      [t1 + t2, a, b, c, d + t1, e, f, g])"
| "sha256_round _ st = st"

definition sha256_block :: "word32 list \<Rightarrow> word32 list \<Rightarrow> word32 list" where
  "sha256_block blk st = map2 (+) (fold sha256_round (zip sha256_k (schedule 64 blk)) st) st"

section \<open>Messages\<close>

definition word_of_bytes :: "string \<Rightarrow> word32" where
  "word_of_bytes bs = foldl (\<lambda>n c. 256 * n + of_char c) 0 bs"

definition bytes_of :: "nat \<Rightarrow> int \<Rightarrow> string" where
  "bytes_of k n = map (\<lambda>i. char_of (n div 256 ^ (k - 1 - i) mod 256)) [0 ..< k]"

fun chunks_of :: "nat \<Rightarrow> 'a list \<Rightarrow> 'a list list" where
  "chunks_of n xs = (if xs = [] \<or> n = 0 then [] else take n xs # chunks_of n (drop n xs))"

declare chunks_of.simps [simp del]

definition sha256_pad :: "string \<Rightarrow> string" where
  "sha256_pad msg =
     (let n = length msg; z = (119 - n mod 64) mod 64 in
      msg @ [CHR 0x80] @ replicate z (CHR 0x00) @ bytes_of 8 (8 * int n mod 2 ^ 64))"

definition sha256 :: "string \<Rightarrow> string" where
  "sha256 msg =
     concat (map (\<lambda>w. bytes_of 4 (uint w))
       (fold (\<lambda>blk. sha256_block (map word_of_bytes (chunks_of 4 blk)))
         (chunks_of 64 (sha256_pad msg)) sha256_init))"

section \<open>Keyed digests\<close>

definition hmac_sha256 :: "string \<Rightarrow> string \<Rightarrow> string" where
  "hmac_sha256 key msg =
     (let key' = (if length key > 64 then sha256 key else key);
          block = key' @ replicate (64 - length key') (CHR 0x00);
          pad = (\<lambda>b :: int. map (\<lambda>c. char_of (of_char c XOR b)) block) in
      sha256 (pad 0x5C @ sha256 (pad 0x36 @ msg)))"

section \<open>Sizes\<close>

lemma length_sha256_round [simp]: "length (sha256_round kx st) = length st"
  by (cases "(kx, st)" rule: sha256_round.cases) (simp_all add: Let_def)

lemma length_rounds [simp]: "length (fold sha256_round kxs st) = length st"
  by (induction kxs arbitrary: st) simp_all

lemma length_sha256_block [simp]: "length (sha256_block blk st) = length st"
  by (simp add: sha256_block_def)

lemma length_blocks: "length (fold (\<lambda>blk. sha256_block (f blk)) blks st) = length st"
  by (induction blks arbitrary: st) simp_all

lemma length_bytes_of [simp]: "length (bytes_of k n) = k"
  by (simp add: bytes_of_def)

text \<open>A digest has 32 bytes, and the padded message fills whole blocks.\<close>

lemma length_sha256: "length (sha256 msg) = 32"
proof -
  have "length (concat (map (\<lambda>w. bytes_of 4 (uint w)) ws)) = 4 * length ws" for ws :: "word32 list"
    by (induction ws) simp_all
  then show ?thesis by (simp add: sha256_def length_blocks sha256_init_def)
qed

lemma length_sha256_pad: "length (sha256_pad msg) mod 64 = 0"
proof -
  obtain r where r_def: "r = length msg mod 64" by simp
  then have r: "r < 64" by simp
  have "(119 - r) mod 64 = (if r \<le> 55 then 55 - r else 119 - r)"
  proof (cases "r \<le> 55")
    case True
    then have "119 - r = 55 - r + 64" by linarith
    moreover have "55 - r < 64" by linarith
    ultimately show ?thesis using True by (simp only: mod_add_self2 mod_less if_True)
  next
    case False
    then have "119 - r < 64" by linarith
    with False show ?thesis by (simp only: mod_less if_False)
  qed
  then have "r + (9 + (119 - r) mod 64) = (if r \<le> 55 then 64 else 128)"
    using r by (cases "r \<le> 55") simp_all
  then have "(r + (9 + (119 - r) mod 64)) mod 64 = 0"
    by (simp only: split: if_split) simp
  moreover have "(length msg + (9 + (119 - r) mod 64)) mod 64 = (r + (9 + (119 - r) mod 64)) mod 64"
    using mod_add_left_eq [of "length msg" 64 "9 + (119 - r) mod 64"] by (simp only: r_def)
  moreover have "length (sha256_pad msg) = length msg + (9 + (119 - r) mod 64)"
    by (simp only: sha256_pad_def Let_def r_def length_append length_replicate length_bytes_of list.size)
  ultimately show ?thesis by (simp only:)
qed


end
