(* ===== verification/Http.thy ===== *)
theory Http
  imports Auth Sha256 Json
begin

text \<open>
  The HTTP edge of the API: the error envelope (\<open>internal/adapter/httperr/response.go\<close>), the
  middleware chain of \<open>internal/adapter/http\<close> (\<open>setup.go\<close>, \<open>middleware.go\<close>,
  \<open>middleware_pro.go\<close>, \<open>ratelimit_mw.go\<close>) and the handlers of accounts and API keys of
  \<open>server.go\<close>. A handler is a function of the user that the chain put into the context; a
  request body is the value that \<open>BodyParser\<close> gives, \<open>None\<close> when it fails. Which handler a
  request is routed to is the web framework's doing.
\<close>

section \<open>Requests and responses\<close>

record request =
  rq_method :: string
  rq_path :: string
  rq_authorization :: string
  rq_session :: string
  rq_ip :: string
  rq_slug :: string

datatype cookie = KeepCookie | SetSessionCookie string | ClearSessionCookie

record 'b response =
  rsp_status :: int
  rsp_error :: "(string \<times> string) option"
  rsp_body :: "'b option"
  rsp_cookie :: cookie
  rsp_retry_after :: "int option"

definition send_status :: "int \<Rightarrow> 'b response" where
  "send_status status = \<lparr>rsp_status = status, rsp_error = None, rsp_body = None, rsp_cookie = KeepCookie, rsp_retry_after = None\<rparr>"

definition send_json :: "int \<Rightarrow> 'b \<Rightarrow> 'b response" where
  "send_json status b = (send_status status)\<lparr>rsp_body := Some b\<rparr>"

definition envelope :: "int \<Rightarrow> string \<Rightarrow> string \<Rightarrow> 'b response" where
  "envelope status code msg = (send_status status)\<lparr>rsp_error := Some (code, msg)\<rparr>"

type_synonym 'b handler = "user option \<Rightarrow> 'b response io"

section \<open>The error envelope\<close>

text \<open>
  \<open>errors.Is(e, target)\<close> on a \<open>*DomainError\<close> looks at the wrapped sentinel;
  \<open>errors.As(err, **fiber.Error)\<close> finds the first framework error of the chain.
\<close>

fun as_fiber_error :: "goerr \<Rightarrow> int option" where
  "as_fiber_error (FiberError c) = Some c"
| "as_fiber_error (DeliveryError n r e) = as_fiber_error e"
| "as_fiber_error (Wrapped p e) = as_fiber_error e"
| "as_fiber_error (Joined a b) = (case as_fiber_error a of Some c \<Rightarrow> Some c | None \<Rightarrow> as_fiber_error b)"
| "as_fiber_error _ = None"

definition domainStatusAndCode :: "sentinel \<Rightarrow> int \<times> string" where
  "domainStatusAndCode s =
     (if s = ErrNotFound then (404, ''NOT_FOUND'')
      else if s = ErrForbidden then (403, ''FORBIDDEN_TENANT'')
      else if s = ErrValidation then (422, ''VALIDATION_FAILED'')
      else if s = ErrConflict then (409, ''CONFLICT'')
      else (500, ''INTERNAL_ERROR''))"

definition classify_fiber :: "int \<Rightarrow> (int \<times> string \<times> string) option" where
  "classify_fiber c =
     (if c = 401 then Some (401, ''UNAUTHORIZED'', ''authentication required'')
      else if c = 404 then Some (404, ''NOT_FOUND'', ''resource not found'')
      else if c = 403 then Some (403, ''FORBIDDEN_TENANT'', ''access denied'')
      else if c = 400 then Some (400, ''MALFORMED_JSON'', ''request body is not valid JSON'')
      else None)"

definition classify :: "goerr \<Rightarrow> int \<times> string \<times> string" where
  "classify err = (case as_domain_error err of
     Some (s, c, message) \<Rightarrow>
       (let (status, code) = domainStatusAndCode s in (status, code, if message = [] then code else message))
   | None \<Rightarrow>
       if str_contains (error_text err) ''Query argument'' \<or> str_contains (error_text err) ''Path argument'' then
         (400, ''MALFORMED_PARAM'', error_text err)
       else if errors_is err ErrNotFound then (404, ''NOT_FOUND'', ''resource not found'')
       else if errors_is err ErrForbidden then (403, ''FORBIDDEN_TENANT'', ''access denied'')
       else if errors_is err ErrValidation then (422, ''VALIDATION_FAILED'', ''validation failed'')
       else if errors_is err ErrConflict then (409, ''CONFLICT'', ''conflict'')
       else if errors_is err ErrUserExists then (422, ''VALIDATION_FAILED'', ''email already registered'')
       else if errors_is err ErrIncidentExists then (409, ''CONFLICT'', ''active incident already exists'')
       else case as_fiber_error err of
           None \<Rightarrow> (500, ''INTERNAL_ERROR'', ''internal error'')
         | Some c \<Rightarrow> (case classify_fiber c of
             None \<Rightarrow> (500, ''INTERNAL_ERROR'', ''internal error'') | Some r \<Rightarrow> r))"

definition Write :: "goerr \<Rightarrow> 'b response" where
  "Write err = (let (status, code, msg) = classify err in envelope status code msg)"

definition WriteMalformedJSON :: "'b response" where
  "WriteMalformedJSON = envelope 400 ''MALFORMED_JSON'' ''request body is not valid JSON''"

definition WriteUnauthorized :: "'b response" where
  "WriteUnauthorized = envelope 401 ''UNAUTHORIZED'' ''authentication required''"

definition WriteForbiddenTenant :: "'b response" where
  "WriteForbiddenTenant = envelope 403 ''FORBIDDEN_TENANT'' ''access denied''"

definition WriteNotFound :: "string \<Rightarrow> 'b response" where
  "WriteNotFound what = envelope 404 ''NOT_FOUND''
     (if what = [] then ''resource not found'' else what @ '' not found'')"

definition WriteValidation :: "string \<Rightarrow> 'b response" where
  "WriteValidation message = envelope 422 ''VALIDATION_FAILED'' message"

definition WriteRateLimited :: "int \<Rightarrow> 'b response" where
  "WriteRateLimited secs = (envelope 429 ''RATE_LIMITED'' ''too many requests'')\<lparr>rsp_retry_after := Some secs\<rparr>"

text \<open>A call whose error ends the handler: \<open>if err != nil { return httperr.Write(c, err) }\<close>.\<close>

definition or_write :: "'a io \<Rightarrow> ('a \<Rightarrow> 'b response io) \<Rightarrow> 'b response io" where
  "or_write m f = bindE (attemptE m) (\<lambda>r. case r of Inl err \<Rightarrow> returnE (Write err) | Inr x \<Rightarrow> f x)"

section \<open>Authentication\<close>

definition requireUser :: "(user \<Rightarrow> 'b response io) \<Rightarrow> 'b handler" where
  "requireUser h = (\<lambda>u. case u of None \<Rightarrow> returnE WriteUnauthorized | Some x \<Rightarrow> h x)"

definition requiredScope :: "string \<Rightarrow> string \<Rightarrow> string" where
  "requiredScope m path =
     (let resource = (if has_prefix path ''/api/channels'' then ''channels''
                      else if has_prefix path ''/api/incidents'' then ''incidents'' else ''monitors'') in
      resource @ (if m = ''GET'' \<or> m = ''HEAD'' then '':read'' else '':write''))"

definition key_digest :: "string \<Rightarrow> string" where
  "key_digest rawKey = hex_encode (sha256 rawKey)"

text \<open>
  The use of the key is recorded by a goroutine, unless fifty of them are running:
  \<open>slot\<close> says whether there is room. The goroutine runs before the handler here; it writes
  nothing but the last use.
\<close>

definition authenticateWithAPIKey ::
    "auth_service \<Rightarrow> api_key_repo \<Rightarrow> bool \<Rightarrow> request \<Rightarrow> string \<Rightarrow> 'b handler \<Rightarrow> 'b response io" where
  "authenticateWithAPIKey auth keys slot rq rawKey next =
     bindE (attemptE (APIKeyRepo_GetByHash keys (key_digest rawKey))) (\<lambda>found. case found of
       Inl _ \<Rightarrow> returnE WriteUnauthorized
     | Inr k \<Rightarrow> bindE clock_now (\<lambda>now.
         if APIKey_IsExpired now k then returnE WriteUnauthorized
         else if \<not> APIKey_HasScope k (requiredScope (rq_method rq) (rq_path rq)) then returnE WriteForbiddenTenant
         else bindE (attemptE (GetUserByID auth (ak_user_id k))) (\<lambda>usr. case usr of
             Inl _ \<Rightarrow> returnE WriteUnauthorized
           | Inr u \<Rightarrow> bindE (if slot then logged (APIKeyRepo_Touch keys (ak_id k)) else returnE ()) (\<lambda>_.
               next (Some u)))))"

definition bearer :: "string \<Rightarrow> string option" where
  "bearer h = (if has_prefix h ''Bearer '' \<and> has_prefix (drop 7 h) ''pc_live_'' then Some (drop 7 h) else None)"

definition AuthMiddleware ::
    "auth_service \<Rightarrow> api_key_repo \<Rightarrow> bool \<Rightarrow> request \<Rightarrow> 'b handler \<Rightarrow> 'b response io" where
  "AuthMiddleware auth keys slot rq next = (case bearer (rq_authorization rq) of
     Some rawKey \<Rightarrow> authenticateWithAPIKey auth keys slot rq rawKey next
   | None \<Rightarrow>
       if rq_session rq = [] then returnE WriteUnauthorized
       else bindE (attemptE (ValidateSession auth (rq_session rq))) (\<lambda>r. case r of
           Inl _ \<Rightarrow> returnE (WriteUnauthorized\<lparr>rsp_cookie := ClearSessionCookie\<rparr>)
         | Inr u \<Rightarrow> next (Some u)))"

definition RequirePro :: "'b handler \<Rightarrow> 'b handler" where
  "RequirePro next = (\<lambda>u. case u of
     None \<Rightarrow> returnE WriteUnauthorized
   | Some x \<Rightarrow> if RequiresPro (usr_plan x)
              then returnE (envelope 402 ''PRO_REQUIRED'' ''this feature requires a Pro subscription'')
              else next u)"

section \<open>Rate limits\<close>

text \<open>The limiter is \<open>redis_rate\<close>: a parameter.\<close>

record rate_limiter =
  RateLimiter_Allow :: "string \<Rightarrow> bool io"
  RateLimiter_Reset :: "string \<Rightarrow> unit io"

record rate_limiters =
  rls_Register :: rate_limiter
  rls_Login :: rate_limiter
  rls_Status :: rate_limiter
  rls_Write :: rate_limiter
  rls_Read :: rate_limiter

definition rateLimitMW :: "rate_limiter \<Rightarrow> string \<Rightarrow> int \<Rightarrow> 'b handler \<Rightarrow> 'b handler" where
  "rateLimitMW limiter key retryAfterSecs next = (\<lambda>u.
     if key = [] then next u
     else bindE (attemptE (RateLimiter_Allow limiter key)) (\<lambda>r. case r of
         Inl _ \<Rightarrow> next u
       | Inr allowed \<Rightarrow> if allowed then next u else returnE (WriteRateLimited retryAfterSecs)))"

definition userKey :: "user option \<Rightarrow> string" where
  "userKey u = (case u of None \<Rightarrow> [] | Some x \<Rightarrow> uuid_string (usr_id x))"

definition ipSlugKey :: "request \<Rightarrow> string" where
  "ipSlugKey rq = rq_ip rq @ ''|'' @ rq_slug rq"

definition ipKey :: "request \<Rightarrow> string" where
  "ipKey rq = rq_ip rq"

section \<open>The chain\<close>

definition public_api :: "request \<Rightarrow> bool" where
  "public_api rq \<longleftrightarrow> (let path = rq_path rq in
     path \<in> {''/api/auth/register'', ''/api/auth/login'', ''/api/stats/public'',
             ''/api/billing/founder-status'', ''/api/public/lookup-domain''}
     \<or> has_prefix path ''/api/newsletter/''
     \<or> length path > 12 \<and> take 12 path = ''/api/status/''
     \<or> rq_method rq = ''GET'' \<and> has_prefix path ''/api/incidents/'' \<and> has_suffix path ''/updates'')"

definition authMiddlewareSelector ::
    "auth_service \<Rightarrow> api_key_repo \<Rightarrow> bool \<Rightarrow> request \<Rightarrow> 'b handler \<Rightarrow> 'b response io" where
  "authMiddlewareSelector auth keys slot rq next =
     (if length (rq_path rq) < 5 \<or> take 5 (rq_path rq) \<noteq> ''/api/'' then next None
      else if public_api rq then next None
      else AuthMiddleware auth keys slot rq next)"

definition apiRateLimitSelector :: "rate_limiters \<Rightarrow> request \<Rightarrow> 'b handler \<Rightarrow> 'b handler" where
  "apiRateLimitSelector rls rq next = (\<lambda>u. let path = rq_path rq in
     if \<not> has_prefix path ''/api/'' then next u
     else if path = ''/api/auth/register'' \<or> path = ''/api/auth/login'' then next u
     else if has_prefix path ''/api/status/'' then rateLimitMW (rls_Status rls) (ipSlugKey rq) 1 next u
     else if path = ''/api/stats/public'' then rateLimitMW (rls_Status rls) (ipSlugKey rq) 1 next u
     else if has_prefix path ''/api/newsletter/'' then rateLimitMW (rls_Status rls) (ipKey rq) 1 next u
     else if rq_method rq = ''GET'' \<or> rq_method rq = ''HEAD'' then rateLimitMW (rls_Read rls) (userKey u) 1 next u
     else rateLimitMW (rls_Write rls) (userKey u) 1 next u)"

definition pro_route :: "request \<Rightarrow> bool" where
  "pro_route rq \<longleftrightarrow> (let m = rq_method rq; path = rq_path rq in
     m = ''POST'' \<and> path = ''/api/incidents''
     \<or> m = ''PATCH'' \<and> path = ''/api/me/branding''
     \<or> path = ''/api/maintenance-windows'' \<and> m = ''POST''
     \<or> has_prefix path ''/api/maintenance-windows/'' \<and> m = ''DELETE''
     \<or> m = ''PATCH'' \<and> has_prefix path ''/api/incidents/'' \<and> has_suffix path ''/state''
     \<or> m = ''POST'' \<and> path = ''/api/import/atlassian''
     \<or> path = ''/api/custom-domains'' \<and> m = ''POST''
     \<or> has_prefix path ''/api/custom-domains/'' \<and> m = ''DELETE'')"

definition proGateSelector :: "request \<Rightarrow> 'b handler \<Rightarrow> 'b handler" where
  "proGateSelector rq next = (if pro_route rq then RequirePro next else next)"

text \<open>The chain of \<open>SetupApp\<close> in front of the generated routes.\<close>

definition api_chain ::
    "auth_service \<Rightarrow> api_key_repo \<Rightarrow> rate_limiters \<Rightarrow> bool \<Rightarrow> request \<Rightarrow> 'b handler \<Rightarrow> 'b response io" where
  "api_chain auth keys rls slot rq h =
     authMiddlewareSelector auth keys slot rq (apiRateLimitSelector rls rq (proGateSelector rq h))"

section \<open>Account handlers\<close>

record register_request =
  rgr_email :: string
  rgr_slug :: string
  rgr_password :: string

record auth_response =
  ar_user :: user
  ar_session_id :: string

definition setSessionCookie :: "string \<Rightarrow> 'b response \<Rightarrow> 'b response" where
  "setSessionCookie sessionID r = r\<lparr>rsp_cookie := SetSessionCookie sessionID\<rparr>"

definition Server_Register ::
    "auth_service \<Rightarrow> rate_limiters \<Rightarrow> request \<Rightarrow> register_request option \<Rightarrow> auth_response response io" where
  "Server_Register auth rls rq body = (case body of
     None \<Rightarrow> returnE WriteMalformedJSON
   | Some req \<Rightarrow>
       or_write (wrapE ''rate limiter'' (RateLimiter_Allow (rls_Register rls) (rq_ip rq))) (\<lambda>allowed.
       if \<not> allowed then returnE (WriteRateLimited 60)
       else or_write (Register auth (rgr_email req) (rgr_slug req) (rgr_password req)) (\<lambda>(u, sessionID).
         returnE (setSessionCookie sessionID (send_json 201 \<lparr>ar_user = u, ar_session_id = sessionID\<rparr>)))))"

record login_request =
  lgr_email :: string
  lgr_password :: string

definition Server_Login ::
    "auth_service \<Rightarrow> rate_limiters \<Rightarrow> login_request option \<Rightarrow> auth_response response io" where
  "Server_Login auth rls body = (case body of
     None \<Rightarrow> returnE WriteMalformedJSON
   | Some req \<Rightarrow>
       or_write (wrapE ''rate limiter'' (RateLimiter_Allow (rls_Login rls) (lgr_email req))) (\<lambda>allowed.
       if \<not> allowed then returnE (WriteRateLimited 60)
       else bindE (attemptE (Login auth (lgr_email req) (lgr_password req))) (\<lambda>r. case r of
           Inl _ \<Rightarrow> returnE WriteUnauthorized
         | Inr (u, sessionID) \<Rightarrow>
             bindE (logged (RateLimiter_Reset (rls_Login rls) (lgr_email req))) (\<lambda>_.
             returnE (setSessionCookie sessionID (send_json 200 \<lparr>ar_user = u, ar_session_id = sessionID\<rparr>))))))"

definition Server_Logout :: "auth_service \<Rightarrow> request \<Rightarrow> unit response io" where
  "Server_Logout auth rq =
     (if rq_session rq = [] then returnE WriteUnauthorized
      else bindE (logged (Logout auth (rq_session rq))) (\<lambda>_.
        returnE ((send_status 204)\<lparr>rsp_cookie := ClearSessionCookie\<rparr>)))"

definition Server_GetMe :: "user handler" where
  "Server_GetMe = requireUser (\<lambda>u. returnE (send_json 200 u))"

section \<open>API keys\<close>

record create_api_key_request =
  cak_name :: string
  cak_scopes :: "string list"
  cak_expires_in_days :: "int option"

text \<open>\<open>time.Duration(days) * 24 * time.Hour\<close>: a product of 64-bit integers, which wraps around.\<close>

definition days_duration :: "int \<Rightarrow> duration" where
  "days_duration days = signed_take_bit 63 (days * hours 24)"

definition expiry_of :: "time \<Rightarrow> int option \<Rightarrow> time option" where
  "expiry_of now days = (case days of None \<Rightarrow> None
     | Some d \<Rightarrow> if d > 0 then Some (now + days_duration d) else None)"

definition Server_ListAPIKeys :: "api_key_repo \<Rightarrow> api_key list handler" where
  "Server_ListAPIKeys keys = requireUser (\<lambda>u.
     or_write (APIKeyRepo_ListByUser keys (usr_id u)) (\<lambda>ks. returnE (send_json 200 ks)))"

definition Server_CreateAPIKey :: "api_key_repo \<Rightarrow> create_api_key_request option \<Rightarrow> (api_key \<times> string) handler" where
  "Server_CreateAPIKey keys body = requireUser (\<lambda>u. case body of
     None \<Rightarrow> returnE WriteMalformedJSON
   | Some req \<Rightarrow>
       if cak_name req = [] \<or> cak_scopes req = [] then returnE (WriteValidation ''name and scopes required'')
       else or_write (wrapE ''generate api key'' (read_random 32)) (\<lambda>b.
         let rawKey = ''pc_live_'' @ hex_encode b in
         bindE clock_now (\<lambda>now.
         or_write (APIKeyRepo_Create keys
           \<lparr>ak_id = uuid_Nil, ak_user_id = usr_id u, ak_key_hash = key_digest rawKey, ak_name = cak_name req,
            ak_scopes = cak_scopes req, ak_created_at = 0, ak_last_used_at = None,
            ak_expires_at = expiry_of now (cak_expires_in_days req)\<rparr>) (\<lambda>created.
         returnE (send_json 201 (created, rawKey))))))"

definition Server_RevokeAPIKey :: "api_key_repo \<Rightarrow> uuid \<Rightarrow> unit handler" where
  "Server_RevokeAPIKey keys i = requireUser (\<lambda>u.
     or_write (APIKeyRepo_Delete keys i (usr_id u)) (\<lambda>_. returnE (send_status 204)))"

end
