(* ===== verification/Auth_Facts.thy ===== *)
theory Auth_Facts
  imports Auth
begin

text \<open>
  Runs of the account service: what the session commands do to the table of sessions, and
  what a successful registration or login tells about the users.
\<close>

section \<open>The session table\<close>

lemma session_entry_Cons:
  "session_entry key (w\<lparr>w_sessions := (k, u, t) # ss\<rparr>) =
    (if k = key \<and> w_app_clock w < t then Some (k, u, t) else session_entry key (w\<lparr>w_sessions := ss\<rparr>))"
  by (simp add: session_entry_def)

lemma session_entry_cong:
  "w_sessions w' = w_sessions w \<Longrightarrow> w_app_clock w' = w_app_clock w \<Longrightarrow> session_entry key w' = session_entry key w"
  by (simp add: session_entry_def)

lemma session_entry_Some:
  assumes "session_entry key w = Some (k, u, t)"
  shows "k = key" and "w_app_clock w < t" and "(key, u, t) \<in> set (w_sessions w)"
  using find_Some_set [OF assms [unfolded session_entry_def]] by auto

lemma session_entry_removed:
  "session_entry key (w\<lparr>w_sessions := filter (\<lambda>(k, _). k \<noteq> key) ss\<rparr>) = None"
  by (auto simp: session_entry_def find_None_set)

lemma session_entry_expire:
  "session_entry key (w\<lparr>w_sessions := map (\<lambda>(k, u, t). if k = key' \<and> w_app_clock w < t
      then (k, u, w_app_clock w + ttl) else (k, u, t)) ss\<rparr>) =
    (if key = key' \<and> 0 < ttl
     then map_option (\<lambda>(k, u, t). (k, u, w_app_clock w + ttl)) (session_entry key (w\<lparr>w_sessions := ss\<rparr>))
     else if key = key' then None
     else session_entry key (w\<lparr>w_sessions := ss\<rparr>))"
  unfolding session_entry_def by (induction ss) auto

lemma redis_set_run: "w_faults w = [] \<Longrightarrow> redis_set key u ttl w =
    (Inr (), w\<lparr>w_sessions := (key, u, w_app_clock w + ttl) # filter (\<lambda>(k, _). k \<noteq> key) (w_sessions w)\<rparr>)"
  by (simp add: redis_set_def external_ok effect_simps)

lemma redis_get_run: "w_faults w = [] \<Longrightarrow> redis_get key w =
    (case session_entry key w of None \<Rightarrow> (Inl (Errorf ''redis: nil''), w) | Some (k, u, t) \<Rightarrow> (Inr u, w))"
  by (simp add: redis_get_def external_ok)

text \<open>Commands of the session store leave the tables alone.\<close>

lemma sessions_readonly [intro]:
  "readonly (redis_set key u ttl)" "readonly (redis_get key)" "readonly (redis_expire key ttl)" "readonly (redis_del key)"
  unfolding readonly_def redis_set_def redis_get_def redis_expire_def redis_del_def
  by (rule reading.external; simp add: steps_by_def effect_simps split: option.splits)+

lemma clock_readonly: "readonly clock_now"
  unfolding readonly_def by (rule reading.clock_now)

lemma readonly_mapErrE: "readonly m \<Longrightarrow> readonly (mapErrE h m)"
  unfolding readonly_def by (rule viewing.mapErrE)

lemma readonly_throwE: "readonly (throwE e)"
  unfolding readonly_def by (rule viewing.throwE)

lemma readonly_if: "readonly m \<Longrightarrow> readonly k \<Longrightarrow> readonly (if b then m else k)"
  by simp

lemma readonly_attemptE: "readonly m \<Longrightarrow> readonly (attemptE m)"
  unfolding readonly_def by (rule viewing.attemptE)

lemma readonly_returnE: "readonly (returnE x)"
  unfolding readonly_def by (rule viewing.returnE)

lemmas readonly_rules = readonly_query readonly_bindE readonly_mapErrE readonly_attemptE readonly_throwE
  readonly_returnE readonly_if clock_readonly

lemma session_repo_readonly [intro]:
  "readonly (SessionRepo_Create redis_SessionRepo sid u t)" "readonly (SessionRepo_GetUserID redis_SessionRepo sid)"
  "readonly (SessionRepo_Touch redis_SessionRepo sid t)" "readonly (SessionRepo_Delete redis_SessionRepo sid)"
  unfolding redis_SessionRepo_def session_repo.simps redis_SessionRepo_Create_def redis_SessionRepo_GetUserID_def
    redis_SessionRepo_Touch_def redis_SessionRepo_Delete_def
  by (intro readonly_rules sessions_readonly)+

section \<open>A new session\<close>

lemma sessionDuration_pos [simp]: "0 < sessionDuration" "\<not> sessionDuration \<le> 0"
  by (simp_all add: sessionDuration_def)

definition next_token :: "world \<Rightarrow> string" where
  "next_token w = hex_encode (map (w_entropy w) [w_entropy_pos w ..< w_entropy_pos w + 32])"

lemma createSession_InrD:
  assumes "createSession (accounts bc pa) u w = (Inr sid, w')"
  obtains fs where "sid = next_token w"
    and "w' = w\<lparr>w_faults := fs, w_entropy_pos := w_entropy_pos w + 32,
           w_sessions := (session_key sid, u, w_app_clock w + sessionDuration)
             # filter (\<lambda>(k, _). k \<noteq> session_key sid) (w_sessions w)\<rparr>"
proof -
  from assms obtain now w1 where
    token: "generateToken w = (Inr sid, w1)" and now: "now = w_app_clock w1"
    and create: "redis_SessionRepo_Create sid u (now + sessionDuration) w1 = (Inr (), w')"
    unfolding createSession_def
    by (elim bindE_InrE mapErrE_InrE)
      (auto simp: clock_now_apply returnE_apply accounts_def redis_SessionRepo_def)
  from token obtain fs where sid: "sid = next_token w"
    and w1: "w1 = w\<lparr>w_faults := fs, w_entropy_pos := w_entropy_pos w + 32\<rparr>"
    unfolding generateToken_def read_random_def next_token_def
    by (elim bindE_InrE external_InrE) (auto simp: returnE_apply)
  from create obtain gs where
    "w' = w1\<lparr>w_faults := gs, w_sessions := (session_key sid, u, w_app_clock w1 + sessionDuration)
       # filter (\<lambda>(k, _). k \<noteq> session_key sid) (w_sessions w1)\<rparr>"
    unfolding redis_SessionRepo_Create_def redis_set_def now
    by (elim bindE_InrE) (auto simp: clock_now_apply throwE_apply modifyE_apply sessionDuration_def elim!: external_InrE)
  with sid w1 that [of gs] show thesis by simp
qed

lemma createSession_run:
  assumes "w_faults w = []"
  shows "\<exists>w'. createSession (accounts bc pa) u w = (Inr (next_token w), w') \<and> w_faults w' = []"
  using assms
  unfolding createSession_def accounts_def generateToken_def read_random_def redis_SessionRepo_def
    redis_SessionRepo_Create_def next_token_def
  by (simp add: effect_simps external_ok clock_now_def sessionDuration_def redis_set_run)

section \<open>Registration\<close>

definition account_row :: "uuid \<Rightarrow> string \<Rightarrow> string \<Rightarrow> string \<Rightarrow> time \<Rightarrow> user_row" where
  "account_row i email slug hash now =
     \<lparr>usrr_id = i, usrr_email = email, usrr_slug = slug, usrr_password_hash = hash,
      usrr_plan = PlanFree, usrr_lemon_squeezy_customer_id = None,
      usrr_lemon_squeezy_subscription_id = None, usrr_created_at = now,
      usrr_deleted_at = None, usrr_subscription_variant = None, usrr_logo_url = None,
      usrr_accent_color = None, usrr_custom_footer_text = None\<rparr>"

lemma account_row_sel [simp]:
  "usrr_id (account_row i e s h t) = i" "usrr_email (account_row i e s h t) = e"
  "usrr_slug (account_row i e s h t) = s" "usrr_password_hash (account_row i e s h t) = h"
  "usrr_plan (account_row i e s h t) = PlanFree" "usr_live (account_row i e s h t)"
  by (simp_all add: account_row_def)

lemma CreateUser_InrD:
  assumes "UserRepo_Create pg_UserRepo email slug hash w = (Inr u, w')"
  obtains fs where "u = userFromRow (account_row (w_next_uuid w) email slug hash (w_db_clock w))"
    and "\<forall>x \<in> set (t_users (w_db w)). usrr_id x \<noteq> w_next_uuid w \<and> usrr_email x \<noteq> email \<and> usrr_slug x \<noteq> slug"
    and "w' = w\<lparr>w_next_uuid := w_next_uuid w + 1, w_faults := fs, w_db := (w_db w)\<lparr>t_users := t_users (w_db w)
           @ [account_row (w_next_uuid w) email slug hash (w_db_clock w)]\<rparr>\<rparr>"
  using assms that
  unfolding pg_UserRepo_def user_repo.simps pg_UserRepo_Create_def q_CreateUser_def account_row_def
  by (elim bindE_InrE mapErrE_InrE statement_InrE)
    (auto simp: gen_random_uuid_apply returnE_apply Let_def split: if_splits)

lemma Register_InrD:
  assumes "bcrypt_ok bc" and "Register (accounts bc pa) email slug password w = (Inr (u, sid), w')"
  obtains hash row t where
    "ValidateEmail pa email = Inr ()" "ValidateSlug slug = Inr ()" "ValidatePassword password = Inr ()"
    "\<And>q. length q \<le> 72 \<Longrightarrow> CheckPassword bc hash q \<longleftrightarrow> q = password"
    "row = account_row (w_next_uuid w) email slug hash t" "u = userFromRow row"
    "\<forall>x \<in> set (t_users (w_db w)). usrr_id x \<noteq> usrr_id row \<and> usrr_email x \<noteq> email \<and> usrr_slug x \<noteq> slug"
    "w_db w' = (w_db w)\<lparr>t_users := t_users (w_db w) @ [row]\<rparr>"
    "session_entry (session_key sid) w' = Some (session_key sid, usr_id u, w_app_clock w + sessionDuration)"
    "w_app_clock w' = w_app_clock w"
proof -
  from assms(2) obtain hash w1 w2 where
    valid: "ValidateEmail pa email = Inr ()" "ValidateSlug slug = Inr ()" "ValidatePassword password = Inr ()"
    and hash: "bc_GenerateFromPassword bc password w = (Inr hash, w1)"
    and create: "UserRepo_Create pg_UserRepo email slug hash w1 = (Inr u, w2)"
    and session: "createSession (accounts bc pa) (usr_id u) w2 = (Inr sid, w')"
    unfolding Register_def HashPassword_def
    by (elim bindE_InrE mapErrE_InrE liftE_InrE) (auto simp: accounts_def effect_simps elim!: mapErrE_InrE)
  have quiet: "durable w1 = durable w"
    using assms(1) hash unfolding bcrypt_ok_def by (blast dest: steps_byD)
  then have w1: "w1 = w\<lparr>w_faults := w_faults w1, w_entropy_pos := w_entropy_pos w1\<rparr>" by (rule durable_eqD)
  have len: "length password \<le> 72" using valid(3) by (simp add: ValidatePassword_def split: if_splits)
  have check: "CheckPassword bc hash q \<longleftrightarrow> q = password" if "length q \<le> 72" for q
    using assms(1) [unfolded bcrypt_ok_def, THEN conjunct2, rule_format, OF hash len that] by (simp add: CheckPassword_def)
  from create obtain fs where u: "u = userFromRow (account_row (w_next_uuid w1) email slug hash (w_db_clock w1))"
    and fresh: "\<forall>x \<in> set (t_users (w_db w1)). usrr_id x \<noteq> w_next_uuid w1 \<and> usrr_email x \<noteq> email \<and> usrr_slug x \<noteq> slug"
    and w2: "w2 = w1\<lparr>w_next_uuid := w_next_uuid w1 + 1, w_faults := fs, w_db := (w_db w1)\<lparr>t_users := t_users (w_db w1)
           @ [account_row (w_next_uuid w1) email slug hash (w_db_clock w1)]\<rparr>\<rparr>" by (rule CreateUser_InrD)
  from session obtain gs where w': "w' = w2\<lparr>w_faults := gs, w_entropy_pos := w_entropy_pos w2 + 32,
           w_sessions := (session_key sid, usr_id u, w_app_clock w2 + sessionDuration)
             # filter (\<lambda>(k, _). k \<noteq> session_key sid) (w_sessions w2)\<rparr>" by (rule createSession_InrD)
  have same: "w_next_uuid w1 = w_next_uuid w" "w_db w1 = w_db w" "w_app_clock w1 = w_app_clock w"
    by (subst w1, simp)+
  show thesis
    by (rule that [OF valid check, of "account_row (w_next_uuid w) email slug hash (w_db_clock w1)"])
      (use u fresh w2 w' same in \<open>auto simp: session_entry_def sessionDuration_def\<close>)
qed

lemma CreateUser_run:
  assumes "w_faults w = []"
    and "\<forall>x \<in> set (t_users (w_db w)). usrr_id x \<noteq> w_next_uuid w \<and> usrr_email x \<noteq> email \<and> usrr_slug x \<noteq> slug"
  shows "UserRepo_Create pg_UserRepo email slug hash w =
    (Inr (userFromRow (account_row (w_next_uuid w) email slug hash (w_db_clock w))),
     w\<lparr>w_next_uuid := w_next_uuid w + 1, w_db := (w_db w)\<lparr>t_users := t_users (w_db w)
       @ [account_row (w_next_uuid w) email slug hash (w_db_clock w)]\<rparr>\<rparr>)"
proof -
  have none: "\<not> (\<exists>x \<in> set (t_users (w_db w)). usrr_id x = w_next_uuid w \<or> usrr_email x = email \<or> usrr_slug x = slug)"
    using assms(2) by auto
  show ?thesis
    using assms(1) none
    by (simp add: pg_UserRepo_def pg_UserRepo_Create_def q_CreateUser_def account_row_def run_simps Let_def)
qed

lemma Register_run:
  assumes "w_faults w = []" and "ValidateEmail pa email = Inr ()" "ValidateSlug slug = Inr ()" "ValidatePassword password = Inr ()"
    and "bc_GenerateFromPassword bc password w = (Inr hash, w)"
    and "\<forall>x \<in> set (t_users (w_db w)). usrr_id x \<noteq> w_next_uuid w \<and> usrr_email x \<noteq> email \<and> usrr_slug x \<noteq> slug"
  shows "\<exists>u sid w1. Register (accounts bc pa) email slug password w = (Inr (u, sid), w1) \<and> w_faults w1 = []"
proof -
  note create = CreateUser_run [OF assms(1, 6), of hash]
  obtain w1 where session: "createSession (accounts bc pa) (w_next_uuid w) (snd (UserRepo_Create pg_UserRepo email slug hash w))
      = (Inr (next_token (snd (UserRepo_Create pg_UserRepo email slug hash w))), w1)" "w_faults w1 = []"
    using createSession_run [of "snd (UserRepo_Create pg_UserRepo email slug hash w)" bc pa "w_next_uuid w"] assms(1)
    unfolding create by auto
  have ports: "au_users (accounts bc pa) = pg_UserRepo" "au_bcrypt (accounts bc pa) = bc"
    "au_parse_address (accounts bc pa) = pa" by (simp_all add: accounts_def)
  show ?thesis
    using session
    unfolding Register_def HashPassword_def ports assms(2-4)
    by (simp add: bindE_apply liftE_apply mapErrE_apply assms(5) create returnE_apply)
qed

end
