(* ===== verification/Auth_Properties.thy ===== *)
theory Auth_Properties
  imports Auth_Facts Demo
begin

text \<open>
  What registration, login and sessions promise: an account opens with its own password and
  with no other, and a session answers for its user for thirty days after it was last used,
  until the user logs out.
\<close>

section \<open>Properties\<close>

lemma GetByEmail_run:
  "w_faults w = [] \<Longrightarrow> UserRepo_GetByEmail pg_UserRepo email w =
    (case filter (\<lambda>r. usrr_email r = email \<and> usr_live r) (t_users (w_db w)) of
       [] \<Rightarrow> (Inl ErrNoRows, w) | r # _ \<Rightarrow> (Inr (userFromRow r, usrr_password_hash r), w))"
  by (simp add: pg_UserRepo_def pg_UserRepo_GetByEmail_def q_GetUserByEmail_def run_simps one_row_def
      userFromGetByEmailRow_def split: list.splits)

lemma GetByID_run:
  "w_faults w = [] \<Longrightarrow> UserRepo_GetByID pg_UserRepo i w =
    (case filter (\<lambda>r. usrr_id r = i \<and> usr_live r) (t_users (w_db w)) of
       [] \<Rightarrow> (Inl ErrNoRows, w) | r # _ \<Rightarrow> (Inr (userFromRow r), w))"
  by (simp add: pg_UserRepo_def pg_UserRepo_GetByID_def q_GetUserByID_def run_simps one_row_def split: list.splits)


lemma session_lookup:
  assumes "w_faults w = []"
  shows "ValidateSession (accounts bc pa) sid w =
    (case session_entry (session_key sid) w of
       None \<Rightarrow> (Inl (Errorf ''invalid session''), w)
     | Some (k, i, t) \<Rightarrow> (case filter (\<lambda>r. usrr_id r = i \<and> usr_live r) (t_users (w_db w)) of
         [] \<Rightarrow> (Inl (Errorf ''user not found''), w)
       | r # _ \<Rightarrow> (Inr (userFromRow r), w\<lparr>w_sessions := map (\<lambda>(k, u, t). if k = session_key sid \<and> w_app_clock w < t
            then (k, u, w_app_clock w + sessionDuration) else (k, u, t)) (w_sessions w)\<rparr>)))"
  using assms
  by (auto simp: ValidateSession_def accounts_def redis_SessionRepo_def redis_SessionRepo_GetUserID_def
      redis_SessionRepo_Touch_def redis_get_run GetByID_run effect_simps clock_now_apply
      redis_expire_def external_ok split: option.splits list.splits)

text \<open>C34: the session of a login answers for the user who logged in during thirty days, and
  every use prolongs it to thirty days from then; after them, and after a logout, it answers
  for nobody.\<close>

theorem session_life:
  assumes "Login (accounts bc pa) email pw w = (Inr (u, sid), w1)"
    and "distinct (map usrr_id (t_users (w_db w)))"
    and "w_sessions w2 = w_sessions w1" and "t_users (w_db w2) = t_users (w_db w)" and "w_faults w2 = []"
  shows "(w_app_clock w2 < w_app_clock w + sessionDuration \<longrightarrow>
      (\<exists>w3. ValidateSession (accounts bc pa) sid w2 = (Inr u, w3) \<and> w_db w3 = w_db w2
        \<and> session_entry (session_key sid) w3 = Some (session_key sid, usr_id u, w_app_clock w2 + sessionDuration)))
    \<and> (\<not> w_app_clock w2 < w_app_clock w + sessionDuration \<longrightarrow>
        ValidateSession (accounts bc pa) sid w2 = (Inl (Errorf ''invalid session''), w2))
    \<and> (\<forall>w3 w4. Logout (accounts bc pa) sid w2 = (Inr (), w3) \<longrightarrow> w_sessions w4 = w_sessions w3 \<longrightarrow> w_faults w4 = [] \<longrightarrow>
        ValidateSession (accounts bc pa) sid w4 = (Inl (Errorf ''invalid session''), w4))"
proof -
  let ?key = "session_key sid"
  from assms(1) obtain hash v where
    found: "UserRepo_GetByEmail pg_UserRepo email w = (Inr (u, hash), v)"
    and session: "createSession (accounts bc pa) (usr_id u) v = (Inr sid, w1)"
    unfolding Login_def
    by (elim bindE_InrE mapErrE_InrE)
      (auto simp: accounts_def throwE_apply returnE_apply split: prod.splits if_splits elim!: bindE_InrE mapErrE_InrE)
  from found obtain row where row: "row \<in> set (t_users (w_db w))" "usr_live row" "u = userFromRow row"
    and v: "w_app_clock v = w_app_clock w"
    unfolding pg_UserRepo_def user_repo.simps pg_UserRepo_GetByEmail_def q_GetUserByEmail_def
    by (elim bindE_InrE query_InrE) (auto simp: returnE_apply userFromGetByEmailRow_def dest!: one_row_Inr)
  have unique: "x = row" if "x \<in> set (t_users (w_db w))" "usrr_id x = usr_id u" for x
    using that assms(2) row by (auto dest: inj_onD simp: distinct_map)
  have some: "filter (\<lambda>r. usrr_id r = usr_id u \<and> usr_live r) (t_users (w_db w2)) \<noteq> []"
    using row assms(4) by (auto simp: filter_empty_conv)
  have user: "userFromRow x = u"
    if "filter (\<lambda>r. usrr_id r = usr_id u \<and> usr_live r) (t_users (w_db w2)) = x # xs" for x xs
  proof -
    have "x \<in> set (filter (\<lambda>r. usrr_id r = usr_id u \<and> usr_live r) (t_users (w_db w2)))" unfolding that by simp
    with unique [of x] row(3) assms(4) show ?thesis by simp
  qed
  from session obtain fs where w1: "w1 = v\<lparr>w_faults := fs, w_entropy_pos := w_entropy_pos v + 32,
      w_sessions := (?key, usr_id u, w_app_clock w + sessionDuration) # filter (\<lambda>(k, _). k \<noteq> ?key) (w_sessions v)\<rparr>"
    unfolding v [symmetric] by (rule createSession_InrD)
  have entry: "session_entry ?key w2 = (if w_app_clock w2 < w_app_clock w + sessionDuration
      then Some (?key, usr_id u, w_app_clock w + sessionDuration) else None)"
    using assms(3) w1 by (auto simp: session_entry_def find_None_set)
  have logout: "session_entry ?key w4 = None" if "Logout (accounts bc pa) sid w2 = (Inr (), w3)" "w_sessions w4 = w_sessions w3" for w3 w4
    using that assms(5) unfolding Logout_def accounts_def redis_SessionRepo_def redis_SessionRepo_Delete_def redis_del_def
    by (auto simp: external_ok modifyE_apply session_entry_def find_None_set)
  have prolonged: "session_entry ?key (w2\<lparr>w_sessions := map (\<lambda>(k, u, t). if k = ?key \<and> w_app_clock w2 < t
      then (k, u, w_app_clock w2 + sessionDuration) else (k, u, t)) (w_sessions w2)\<rparr>)
    = map_option (\<lambda>(k, u, t). (k, u, w_app_clock w2 + sessionDuration)) (session_entry ?key w2)"
    using session_entry_expire [where key = ?key and w = w2 and key' = ?key and ttl = sessionDuration and ss = "w_sessions w2"] by simp
  show ?thesis
    using session_lookup [OF assms(5), of bc pa sid] entry prolonged some user logout session_lookup [of _ bc pa sid]
    by (auto split: list.splits)
qed

section \<open>Examples\<close>

text \<open>A hash that keeps the password readable satisfies what the code relies on.\<close>

definition plain_bcrypt :: bcrypt where
  "plain_bcrypt =
     \<lparr>bc_GenerateFromPassword = (\<lambda>p. returnE (CHR ''$'' # p)),
      bc_CompareHashAndPassword = (\<lambda>h q. if h = CHR ''$'' # q then None else Some (Errorf ''mismatch''))\<rparr>"

lemma plain_bcrypt_ok: "bcrypt_ok plain_bcrypt"
  by (auto simp: bcrypt_ok_def plain_bcrypt_def steps_by_def returnE_apply)

abbreviation demo_accounts :: auth_service where
  "demo_accounts \<equiv> accounts plain_bcrypt (\<lambda>s. str_contains s ''@'')"

lemma demo_registers:
  "\<exists>u sid w1. Register demo_accounts ''new@x.example'' ''new-one'' ''long enough'' demo_world = (Inr (u, sid), w1) \<and> w_faults w1 = []"
proof (rule Register_run)
  show "ValidateEmail (\<lambda>s. str_contains s ''@'') ''new@x.example'' = Inr ()" "ValidateSlug ''new-one'' = Inr ()"
    "ValidatePassword ''long enough'' = Inr ()"
    by code_simp+
  show "bc_GenerateFromPassword plain_bcrypt ''long enough'' demo_world = (Inr (CHR ''$'' # ''long enough''), demo_world)"
    by (simp add: plain_bcrypt_def returnE_apply)
qed (simp_all add: demo_defs)


lemma session_life_witness:
  "\<exists>u sid w1 w2 w3. Login demo_accounts ''a@x.example'' ''secret 12'' w1 = (Inr (u, sid), w2)
    \<and> ValidateSession demo_accounts sid w2 = (Inr u, w3)"
proof -
  let ?w = "demo_world\<lparr>w_db := demo_db\<lparr>t_users := [demo_user_row\<lparr>usrr_password_hash := ''$secret 12''\<rparr>, demo_guest_row]\<rparr>\<rparr>"
  have ok: "w_faults ?w = []" by (simp add: demo_defs)
  obtain w1 where s: "createSession demo_accounts 1 ?w = (Inr (next_token ?w), w1)" "w_faults w1 = []"
    using createSession_run [OF ok] by blast
  have found: "UserRepo_GetByEmail pg_UserRepo ''a@x.example'' ?w = (Inr (demo_user, ''$secret 12''), ?w)"
    unfolding GetByEmail_run [OF ok] by (simp add: demo_defs userFromRow_def)
  have run: "Login demo_accounts ''a@x.example'' ''secret 12'' ?w = (Inr (demo_user, next_token ?w), w1)"
    using s by (simp add: Login_def accounts_def found CheckPassword_def plain_bcrypt_def bindE_apply mapErrE_apply
        returnE_apply demo_user_def)
  from s(1) have same: "w_app_clock w1 = w_app_clock ?w" "t_users (w_db w1) = t_users (w_db ?w)"
    by (auto elim: createSession_InrD)
  have "distinct (map usrr_id (t_users (w_db ?w)))" by (simp add: demo_defs)
  from session_life [OF run this refl same(2) s(2)] same(1) run show ?thesis by auto blast
qed

end
