(* ===== verification/Http_Properties.thy ===== *)
theory Http_Properties
  imports Http Auth_Properties
begin

text \<open>
  What the middleware chain guarantees for every handler behind it, and what an API key is
  worth: a request reaches a handler only with a user that a live session or an unexpired
  key with the right scope stands for.
\<close>

section \<open>Passing a request on\<close>

text \<open>The tables without the column that an API key's use is recorded in.\<close>

definition forget_use :: "database \<Rightarrow> database" where
  "forget_use d = d\<lparr>t_api_keys := map (\<lambda>r. r\<lparr>akr_last_used_at := None\<rparr>) (t_api_keys d)\<rparr>"

abbreviation untouched :: "world \<Rightarrow> world \<Rightarrow> bool" where
  "untouched w w' \<equiv> forget_use (w_db w') = forget_use (w_db w)"

definition refused :: "goerr + 'b response \<Rightarrow> bool" where
  "refused r \<longleftrightarrow> (\<exists>resp. r = Inr resp \<and> rsp_status resp \<in> {401, 402, 403, 429} \<and> rsp_body resp = None)"

lemma refused_simps [simp]:
  "refused (Inr WriteUnauthorized)" "refused (Inr (WriteUnauthorized\<lparr>rsp_cookie := c\<rparr>))"
  "refused (Inr WriteForbiddenTenant)" "refused (Inr (WriteRateLimited n))" "refused (Inr (envelope 402 code msg))"
  by (simp_all add: refused_def WriteUnauthorized_def WriteForbiddenTenant_def WriteRateLimited_def envelope_def send_status_def)

text \<open>
  A stage of the chain either answers itself, with a refusal, or runs what comes next in a
  state with the same tables, for a user that it vouches for.
\<close>

definition vouches :: "(world \<Rightarrow> user \<Rightarrow> bool) \<Rightarrow> 'b response io \<Rightarrow> 'b handler \<Rightarrow> bool" where
  "vouches G m next \<longleftrightarrow> (\<forall>w r w'. m w = (r, w') \<longrightarrow> refused r \<and> untouched w w'
     \<or> (\<exists>u w1. G w u \<and> untouched w w1 \<and> next (Some u) w1 = (r, w')))"

lemma vouchesD:
  "vouches G m next \<Longrightarrow> m w = (r, w') \<Longrightarrow> refused r \<and> untouched w w'
     \<or> (\<exists>u w1. G w u \<and> untouched w w1 \<and> next (Some u) w1 = (r, w'))"
  by (simp add: vouches_def)

lemma vouches_through:
  assumes "vouches G m next"
    and "\<And>u. vouches (\<lambda>w x. x = u \<and> P u) (next (Some u)) h"
  shows "vouches (\<lambda>w x. G w x \<and> P x) m h"
  unfolding vouches_def
proof (intro allI impI)
  fix w r w'
  assume "m w = (r, w')"
  from vouchesD [OF assms(1) this]
  show "refused r \<and> untouched w w' \<or> (\<exists>u w1. (G w u \<and> P u) \<and> untouched w w1 \<and> h (Some u) w1 = (r, w'))"
  proof
    assume "\<exists>u w1. G w u \<and> untouched w w1 \<and> next (Some u) w1 = (r, w')"
    then obtain u w1 where u: "G w u" "untouched w w1" "next (Some u) w1 = (r, w')" by blast
    from vouchesD [OF assms(2) u(3)] u(1, 2) show ?thesis by auto
  qed blast
qed

section \<open>The stages\<close>

definition limiter_ok :: "rate_limiter \<Rightarrow> bool" where
  "limiter_ok l \<longleftrightarrow> (\<forall>k. readonly (RateLimiter_Allow l k))"

definition limiters_ok :: "rate_limiters \<Rightarrow> bool" where
  "limiters_ok rls \<longleftrightarrow> limiter_ok (rls_Status rls) \<and> limiter_ok (rls_Read rls) \<and> limiter_ok (rls_Write rls)"

lemma rate_limit_vouches:
  assumes "limiter_ok l"
  shows "vouches (\<lambda>w x. x = u \<and> True) (rateLimitMW l k s next (Some u)) next"
  unfolding vouches_def
proof (intro allI impI)
  fix w r w'
  assume run: "rateLimitMW l k s next (Some u) w = (r, w')"
  obtain a v where a: "RateLimiter_Allow l k w = (a, v)" by (cases "RateLimiter_Allow l k w")
  then have "w_db v = w_db w" using assms readonlyD unfolding limiter_ok_def by blast
  with run a show "refused r \<and> untouched w w' \<or> (\<exists>x w1. (x = u \<and> True) \<and> untouched w w1 \<and> next (Some x) w1 = (r, w'))"
    by (auto simp: rateLimitMW_def bindE_apply attemptE_apply returnE_apply split: if_splits sum.splits)
qed

lemma rate_selector_vouches:
  assumes "limiters_ok rls"
  shows "vouches (\<lambda>w x. x = u \<and> True) (apiRateLimitSelector rls rq next (Some u)) next"
proof -
  have "vouches (\<lambda>w x. x = u \<and> True) (next (Some u)) next" by (auto simp: vouches_def)
  then show ?thesis
    using assms rate_limit_vouches unfolding limiters_ok_def apiRateLimitSelector_def Let_def
    by (auto split: if_splits)
qed

lemma pro_gate_vouches:
  "vouches (\<lambda>w x. x = u \<and> (pro_route rq \<longrightarrow> usr_plan u = PlanPro)) (proGateSelector rq h (Some u)) h"
  by (auto simp: vouches_def proGateSelector_def RequirePro_def RequiresPro_def returnE_apply split: if_splits)

section \<open>Who the user is\<close>

definition live_account :: "database \<Rightarrow> user \<Rightarrow> bool" where
  "live_account d u \<longleftrightarrow> (\<exists>row \<in> set (t_users d). usr_live row \<and> u = userFromRow row)"

text \<open>The key of the request stands for the user: stored under its digest, not expired, with the scope.\<close>

definition key_stands_for :: "request \<Rightarrow> string \<Rightarrow> world \<Rightarrow> user \<Rightarrow> bool" where
  "key_stands_for rq rawKey w u \<longleftrightarrow> (\<exists>k \<in> set (t_api_keys (w_db w)).
     akr_key_hash k = key_digest rawKey \<and> akr_user_id k = usr_id u
     \<and> (case akr_expires_at k of None \<Rightarrow> True | Some t \<Rightarrow> w_app_clock w \<le> t)
     \<and> requiredScope (rq_method rq) (rq_path rq) \<in> set (akr_scopes k))"

definition session_stands_for :: "request \<Rightarrow> world \<Rightarrow> user \<Rightarrow> bool" where
  "session_stands_for rq w u \<longleftrightarrow> (\<exists>t > w_app_clock w. (session_key (rq_session rq), usr_id u, t) \<in> set (w_sessions w))"

definition authenticated :: "request \<Rightarrow> world \<Rightarrow> user \<Rightarrow> bool" where
  "authenticated rq w u \<longleftrightarrow> live_account (w_db w) u
     \<and> (case bearer (rq_authorization rq) of Some rawKey \<Rightarrow> key_stands_for rq rawKey w u
        | None \<Rightarrow> session_stands_for rq w u)"

lemma external_world:
  assumes "external m w = (r, w')" and "\<And>v. snd (m v) = v"
  obtains fs where "w' = w\<lparr>w_faults := fs\<rparr>" and "r = Inl InfraError \<or> r = fst (m (w\<lparr>w_faults := fs\<rparr>))"
  using assms(1) that [of "w_faults w'"] assms(2)
  by (auto simp: external_def prod_eq_iff split: list.splits bool.splits)

lemma query_world:
  assumes "query q w = (r, w')"
  obtains fs where "w' = w\<lparr>w_faults := fs\<rparr>" and "\<And>x. r = Inr x \<Longrightarrow> q (w_db w) (w_db_clock w) = Inr x"
  using assms unfolding query_def by (rule external_world) (auto intro: that)

lemma GetByHash_world:
  assumes "APIKeyRepo_GetByHash pg_APIKeyRepo h w = (r, w')"
  obtains fs where "w' = w\<lparr>w_faults := fs\<rparr>"
    and "\<And>k. r = Inr k \<Longrightarrow> \<exists>row \<in> set (t_api_keys (w_db w)). akr_key_hash row = h \<and> k = apiKeyFromRow row"
proof -
  obtain q v where q: "q_GetAPIKeyByHash h w = (q, v)" by (cases "q_GetAPIKeyByHash h w")
  then obtain fs where fs: "v = w\<lparr>w_faults := fs\<rparr>"
    and rows: "\<And>x. q = Inr x \<Longrightarrow> one_row (filter (\<lambda>r. akr_key_hash r = h) (t_api_keys (w_db w))) = Inr x"
    unfolding q_GetAPIKeyByHash_def by (rule query_world) auto
  from assms q have "w' = v" "\<And>k. r = Inr k \<Longrightarrow> \<exists>x. q = Inr x \<and> k = apiKeyFromRow x"
    by (auto simp: pg_APIKeyRepo_def pg_APIKeyRepo_GetByHash_def effect_simps split: sum.splits)
  with fs rows show thesis by (intro that [of fs]) (auto dest!: one_row_Inr, blast)
qed

lemma GetUser_world:
  assumes "UserRepo_GetByID pg_UserRepo i w = (r, w')"
  obtains fs where "w' = w\<lparr>w_faults := fs\<rparr>" and "\<And>u. r = Inr u \<Longrightarrow> live_account (w_db w) u \<and> usr_id u = i"
proof -
  obtain q v where q: "q_GetUserByID i w = (q, v)" by (cases "q_GetUserByID i w")
  then obtain fs where fs: "v = w\<lparr>w_faults := fs\<rparr>"
    and rows: "\<And>x. q = Inr x \<Longrightarrow> one_row (filter (\<lambda>r. usrr_id r = i \<and> usr_live r) (t_users (w_db w))) = Inr x"
    unfolding q_GetUserByID_def by (rule query_world) auto
  from assms q have "w' = v" "\<And>u. r = Inr u \<Longrightarrow> \<exists>x. q = Inr x \<and> u = userFromRow x"
    by (auto simp: pg_UserRepo_def pg_UserRepo_GetByID_def effect_simps split: sum.splits)
  with fs rows show thesis by (intro that [of fs]) (auto simp: live_account_def dest!: one_row_Inr, blast)
qed

lemma touch_untouched:
  assumes "logged (APIKeyRepo_Touch pg_APIKeyRepo i) w = (r, w')"
  shows "r = Inr () \<and> untouched w w'"
proof -
  have "steps_by untouched (logged (APIKeyRepo_Touch pg_APIKeyRepo i))"
    unfolding pg_APIKeyRepo_def api_key_repo.simps q_TouchAPIKey_def
    by (intro viewing.bindE viewing.attemptE viewing.returnE db_viewing.statement)
      (auto simp: forget_use_def update_where_def)
  then have "untouched w w'" using assms by (rule steps_byD)
  then show ?thesis using assms by (auto simp: effect_simps split: prod.splits)
qed

lemma session_world:
  assumes "ValidateSession (accounts bc pa) sid w = (r, w')"
  shows "w_db w' = w_db w \<and> (\<forall>u. r = Inr u \<longrightarrow> live_account (w_db w) u
    \<and> (\<exists>t > w_app_clock w. (session_key sid, usr_id u, t) \<in> set (w_sessions w)))"
proof -
  have users: "readonly (UserRepo_GetByID pg_UserRepo i)" for i
    unfolding pg_UserRepo_def user_repo.simps pg_UserRepo_GetByID_def q_GetUserByID_def
    by (intro readonly_rules)
  have "readonly (ValidateSession (accounts bc pa) sid)"
    unfolding ValidateSession_def accounts_def auth_service.simps
    by (intro readonly_rules users session_repo_readonly)
  with assms have db: "w_db w' = w_db w" by (blast dest: readonlyD)
  show ?thesis
  proof (intro conjI allI impI db)
    fix u
    assume "r = Inr u"
    with assms have "ValidateSession (accounts bc pa) sid w = (Inr u, w')" by simp
    then obtain i w1 w2 where get: "redis_SessionRepo_GetUserID sid w = (Inr i, w1)"
      and user: "UserRepo_GetByID pg_UserRepo i w1 = (Inr u, w2)"
      unfolding ValidateSession_def
      by (elim bindE_InrE mapErrE_InrE)
        (auto simp: accounts_def redis_SessionRepo_def clock_now_apply returnE_apply effect_simps split: prod.splits)
    have "snd (redis_get k v) = v\<lparr>w_faults := w_faults (snd (redis_get k v))\<rparr>" for k v
      by (auto simp: redis_get_def external_def split: list.splits bool.splits option.splits)
    from get obtain fs t where w1: "w1 = w\<lparr>w_faults := fs\<rparr>" and entry: "session_entry (session_key sid) w = Some (session_key sid, i, t)"
      unfolding redis_SessionRepo_GetUserID_def redis_get_def
      by (elim mapErrE_InrE external_InrE) (auto simp: session_entry_def dest: find_Some_set split: option.splits)
    from user w1 show "live_account (w_db w) u" by (auto elim: GetUser_world)
    from user have "usr_id u = i" by (auto elim: GetUser_world)
    with session_entry_Some [OF entry] show "\<exists>t > w_app_clock w. (session_key sid, usr_id u, t) \<in> set (w_sessions w)" by auto
  qed
qed

lemma api_key_vouches:
  "vouches (\<lambda>w u. live_account (w_db w) u \<and> key_stands_for rq rawKey w u)
    (authenticateWithAPIKey (accounts bc pa) pg_APIKeyRepo slot rq rawKey next) next"
  unfolding vouches_def
proof (intro allI impI)
  fix w r w'
  assume run: "authenticateWithAPIKey (accounts bc pa) pg_APIKeyRepo slot rq rawKey next w = (r, w')"
  obtain found w1 where get: "APIKeyRepo_GetByHash pg_APIKeyRepo (key_digest rawKey) w = (found, w1)"
    by (cases "APIKeyRepo_GetByHash pg_APIKeyRepo (key_digest rawKey) w")
  from get obtain fs where w1: "w1 = w\<lparr>w_faults := fs\<rparr>"
    and key: "\<And>k. found = Inr k \<Longrightarrow> \<exists>row \<in> set (t_api_keys (w_db w)). akr_key_hash row = key_digest rawKey \<and> k = apiKeyFromRow row"
    by (rule GetByHash_world) (rule that; assumption)
  obtain usr w2 where usr: "GetUserByID (accounts bc pa) (case found of Inl _ \<Rightarrow> 0 | Inr k \<Rightarrow> ak_user_id k) w1 = (usr, w2)"
    by (cases "GetUserByID (accounts bc pa) (case found of Inl _ \<Rightarrow> 0 | Inr k \<Rightarrow> ak_user_id k) w1")
  then obtain gs where w2: "w2 = w1\<lparr>w_faults := gs\<rparr>"
    and user: "\<And>u. usr = Inr u \<Longrightarrow> live_account (w_db w1) u \<and> usr_id u = (case found of Inl _ \<Rightarrow> 0 | Inr k \<Rightarrow> ak_user_id k)"
    unfolding GetUserByID_def accounts_def auth_service.simps by (rule GetUser_world) (rule that; assumption)
  obtain t w3 where touch: "(if slot then logged (APIKeyRepo_Touch pg_APIKeyRepo (case found of Inl _ \<Rightarrow> 0 | Inr k \<Rightarrow> ak_id k))
      else returnE ()) w2 = (t, w3)"
    by (cases "(if slot then logged (APIKeyRepo_Touch pg_APIKeyRepo (case found of Inl _ \<Rightarrow> 0 | Inr k \<Rightarrow> ak_id k)) else returnE ()) w2")
  have w3: "t = Inr ()" "untouched w2 w3"
    using touch touch_untouched by (cases slot; fastforce simp: returnE_apply)+
  show "refused r \<and> untouched w w' \<or> (\<exists>u w1. (live_account (w_db w) u \<and> key_stands_for rq rawKey w u)
      \<and> untouched w w1 \<and> next (Some u) w1 = (r, w'))"
  proof (cases found)
    case (Inl e)
    with run get w1 show ?thesis by (auto simp: authenticateWithAPIKey_def bindE_apply attemptE_apply returnE_apply)
  next
    case (Inr k)
    let ?scope = "APIKey_HasScope k (requiredScope (rq_method rq) (rq_path rq))"
    have go: "authenticateWithAPIKey (accounts bc pa) pg_APIKeyRepo slot rq rawKey next w =
      (if APIKey_IsExpired (w_app_clock w) k then (Inr WriteUnauthorized, w1)
       else if \<not> ?scope then (Inr WriteForbiddenTenant, w1)
       else case usr of Inl _ \<Rightarrow> (Inr WriteUnauthorized, w2) | Inr u \<Rightarrow> next (Some u) w3)"
      using get usr touch w3 Inr w1
      by (auto simp: authenticateWithAPIKey_def bindE_apply attemptE_apply returnE_apply clock_now_apply split: sum.splits)
    show ?thesis
    proof (cases "APIKey_IsExpired (w_app_clock w) k \<or> \<not> ?scope \<or> (\<exists>e. usr = Inl e)")
      case True
      with run go w1 w2 show ?thesis by (auto split: if_splits)
    next
      case False
      then obtain u where u: "usr = Inr u" by (cases usr) auto
      from key [OF Inr] False u user [OF u] Inr w1 have "live_account (w_db w) u \<and> key_stands_for rq rawKey w u"
        by (auto simp: key_stands_for_def APIKey_IsExpired_def APIKey_HasScope_iff not_less split: option.splits)
      moreover have "untouched w w3" using w1 w2 w3 by simp
      moreover have "next (Some u) w3 = (r, w')" using run go False u by auto
      ultimately show ?thesis by blast
    qed
  qed
qed

lemma AuthMiddleware_vouches:
  "vouches (authenticated rq) (AuthMiddleware (accounts bc pa) pg_APIKeyRepo slot rq next) next"
proof (cases "bearer (rq_authorization rq)")
  case (Some rawKey)
  with api_key_vouches [of rq rawKey bc pa slot "next"] show ?thesis
    by (simp add: AuthMiddleware_def authenticated_def [abs_def])
next
  case None
  show ?thesis
    unfolding vouches_def
  proof (intro allI impI)
    fix w r w'
    assume run: "AuthMiddleware (accounts bc pa) pg_APIKeyRepo slot rq next w = (r, w')"
    obtain s w1 where s: "ValidateSession (accounts bc pa) (rq_session rq) w = (s, w1)"
      by (cases "ValidateSession (accounts bc pa) (rq_session rq) w")
    note sw = session_world [OF s]
    show "refused r \<and> untouched w w' \<or> (\<exists>u w1. authenticated rq w u \<and> untouched w w1 \<and> next (Some u) w1 = (r, w'))"
    proof (cases "rq_session rq = [] \<or> (\<exists>e. s = Inl e)")
      case True
      with run None s sw show ?thesis
        by (auto simp: AuthMiddleware_def bindE_apply attemptE_apply returnE_apply split: if_splits)
    next
      case False
      then obtain u where u: "s = Inr u" by (cases s) auto
      with sw None have "authenticated rq w u" by (simp add: authenticated_def session_stands_for_def)
      moreover have "next (Some u) w1 = (r, w')"
        using run None s u False by (simp add: AuthMiddleware_def bindE_apply attemptE_apply)
      ultimately show ?thesis using sw by metis
    qed
  qed
qed

section \<open>Properties\<close>

text \<open>Behind the middleware chain a handler of a protected API route runs only for a live
  account that the request's session, or its unexpired API key with the scope of the method and
  path, stands for, on the Pro plan where the route asks for it, and with the tables as they were
  but for the last use of a key; every other request is refused with 401, 402, 403 or 429 and
  changes no table.\<close>

theorem protected_routes:
  assumes "limiters_ok rls" and "has_prefix (rq_path rq) ''/api/''" and "\<not> public_api rq"
    and "api_chain (accounts bc pa) pg_APIKeyRepo rls slot rq h w = (r, w')"
  shows "refused r \<and> untouched w w'
    \<or> (\<exists>u w1. authenticated rq w u \<and> (pro_route rq \<longrightarrow> usr_plan u = PlanPro) \<and> untouched w w1 \<and> h (Some u) w1 = (r, w'))"
proof -
  have protected: "\<not> (length (rq_path rq) < 5 \<or> take 5 (rq_path rq) \<noteq> ''/api/'')"
    using assms(2) by (auto simp: has_prefix_iff)
  have "vouches (\<lambda>w x. x = u \<and> (pro_route rq \<longrightarrow> usr_plan u = PlanPro))
      (apiRateLimitSelector rls rq (proGateSelector rq h) (Some u)) h" for u
    using vouches_through [OF rate_selector_vouches [OF assms(1)] pro_gate_vouches]
    by (rule back_subst [of "\<lambda>G. vouches G _ _"]) auto
  from vouches_through [OF AuthMiddleware_vouches this]
  have "vouches (\<lambda>w x. authenticated rq w x \<and> (pro_route rq \<longrightarrow> usr_plan x = PlanPro))
      (api_chain (accounts bc pa) pg_APIKeyRepo rls slot rq h) h"
    using assms(3) protected by (simp add: api_chain_def authMiddlewareSelector_def)
  from vouchesD [OF this assms(4)] show ?thesis by blast
qed

section \<open>API keys\<close>

lemma bearer_key [simp]: "bearer (''Bearer '' @ ''pc_live_'' @ x) = Some (''pc_live_'' @ x)"
proof -
  have "has_prefix (''Bearer '' @ ''pc_live_'' @ x) ''Bearer ''" "has_prefix (''pc_live_'' @ x) ''pc_live_''"
    by (auto simp only: has_prefix_iff)
  then show ?thesis by (simp add: bearer_def)
qed

lemma CreateKey_InrD:
  assumes "APIKeyRepo_Create pg_APIKeyRepo k w = (Inr k', w')"
  obtains row where "t_api_keys (w_db w') = t_api_keys (w_db w) @ [row]" "k' = apiKeyFromRow row"
    "akr_key_hash row = ak_key_hash k" "akr_user_id row = ak_user_id k" "akr_scopes row = ak_scopes k"
    "akr_expires_at row = ak_expires_at k" "\<forall>x \<in> set (t_api_keys (w_db w)). akr_key_hash x \<noteq> ak_key_hash k"
proof -
  from assms obtain row w1 where create: "q_CreateAPIKey (ak_user_id k) (ak_key_hash k) (ak_name k) (ak_scopes k) (ak_expires_at k) w
      = (Inr row, w1)" and k': "k' = apiKeyFromRow row" and w': "w' = w1"
    unfolding pg_APIKeyRepo_def api_key_repo.simps pg_APIKeyRepo_Create_def
    by (elim bindE_InrE mapErrE_InrE) (auto simp: returnE_apply)
  from create show thesis
    unfolding q_CreateAPIKey_def
    by (elim bindE_InrE statement_InrE)
      (rule that [of row], auto simp: gen_random_uuid_apply Let_def k' w' split: if_splits)
qed

lemma or_write_body:
  assumes "or_write m f w = (Inr resp, w')" and "rsp_body resp = Some b"
  obtains x w1 where "m w = (Inr x, w1)" and "f x w1 = (Inr resp, w')"
  using assms that
  by (auto simp: or_write_def bindE_apply attemptE_apply returnE_apply Write_def envelope_def send_status_def
      split: prod.splits sum.splits)

lemma CreateAPIKey_body:
  assumes "Server_CreateAPIKey pg_APIKeyRepo (Some req) (Some u) w = (Inr resp, w')" and "rsp_body resp = Some (k, raw)"
  obtains row x where "raw = ''pc_live_'' @ x" "t_api_keys (w_db w') = t_api_keys (w_db w) @ [row]" "k = apiKeyFromRow row"
    "akr_key_hash row = key_digest raw" "akr_user_id row = usr_id u" "akr_scopes row = cak_scopes req"
    "akr_expires_at row = expiry_of (w_app_clock w) (cak_expires_in_days req)"
    "\<forall>y \<in> set (t_api_keys (w_db w)). akr_key_hash y \<noteq> key_digest raw"
proof -
  from assms(1) have "\<not> (cak_name req = [] \<or> cak_scopes req = [])"
    using assms(2) by (auto simp: Server_CreateAPIKey_def requireUser_def WriteValidation_def envelope_def send_status_def returnE_apply)
  with assms(1) have run: "or_write (wrapE ''generate api key'' (read_random 32)) (\<lambda>b.
         let rawKey = ''pc_live_'' @ hex_encode b in
         bindE clock_now (\<lambda>now.
         or_write (APIKeyRepo_Create pg_APIKeyRepo
           \<lparr>ak_id = uuid_Nil, ak_user_id = usr_id u, ak_key_hash = key_digest rawKey, ak_name = cak_name req,
            ak_scopes = cak_scopes req, ak_created_at = 0, ak_last_used_at = None,
            ak_expires_at = expiry_of now (cak_expires_in_days req)\<rparr>) (\<lambda>created.
         returnE (send_json 201 (created, rawKey))))) w = (Inr resp, w')"
    by (simp add: Server_CreateAPIKey_def requireUser_def)
  from or_write_body [OF run assms(2)] obtain b w1 where rnd: "wrapE ''generate api key'' (read_random 32) w = (Inr b, w1)"
    and rest: "bindE clock_now (\<lambda>now.
         or_write (APIKeyRepo_Create pg_APIKeyRepo
           \<lparr>ak_id = uuid_Nil, ak_user_id = usr_id u, ak_key_hash = key_digest (''pc_live_'' @ hex_encode b), ak_name = cak_name req,
            ak_scopes = cak_scopes req, ak_created_at = 0, ak_last_used_at = None,
            ak_expires_at = expiry_of now (cak_expires_in_days req)\<rparr>) (\<lambda>created.
         returnE (send_json 201 (created, ''pc_live_'' @ hex_encode b)))) w1 = (Inr resp, w')"
    unfolding Let_def by blast
  from rnd have w1: "w_db w1 = w_db w" "w_app_clock w1 = w_app_clock w"
    unfolding read_random_def by (elim mapErrE_InrE external_InrE, auto)+
  from rest have "or_write (APIKeyRepo_Create pg_APIKeyRepo
           \<lparr>ak_id = uuid_Nil, ak_user_id = usr_id u, ak_key_hash = key_digest (''pc_live_'' @ hex_encode b), ak_name = cak_name req,
            ak_scopes = cak_scopes req, ak_created_at = 0, ak_last_used_at = None,
            ak_expires_at = expiry_of (w_app_clock w1) (cak_expires_in_days req)\<rparr>) (\<lambda>created.
         returnE (send_json 201 (created, ''pc_live_'' @ hex_encode b))) w1 = (Inr resp, w')"
    by (simp add: bindE_apply clock_now_apply)
  from or_write_body [OF this assms(2)] obtain k' w2 where
    create: "APIKeyRepo_Create pg_APIKeyRepo
           \<lparr>ak_id = uuid_Nil, ak_user_id = usr_id u, ak_key_hash = key_digest (''pc_live_'' @ hex_encode b), ak_name = cak_name req,
            ak_scopes = cak_scopes req, ak_created_at = 0, ak_last_used_at = None,
            ak_expires_at = expiry_of (w_app_clock w1) (cak_expires_in_days req)\<rparr> w1 = (Inr k', w2)"
    and ret: "returnE (send_json 201 (k', ''pc_live_'' @ hex_encode b)) w2 = (Inr resp, w')"
    by blast
  from ret have resp: "resp = send_json 201 (k', ''pc_live_'' @ hex_encode b)" and w2: "w' = w2"
    by (simp_all add: returnE_apply)
  from resp assms(2) have "k = k'" "raw = ''pc_live_'' @ hex_encode b" by (simp_all add: send_json_def)
  with create w1 w2 show thesis
    by (elim CreateKey_InrD) (rule that, auto)
qed

text \<open>C35: the key that the API hands out once opens the account it was made for, with exactly the
  scopes and until exactly the moment it was made with: for any later request that carries it
  the middleware runs the handler for the owner when the key has not expired and has the scope,
  answers 403 when the scope is missing, and 401 when it has expired.\<close>

theorem created_key_authenticates:
  assumes "Server_CreateAPIKey pg_APIKeyRepo (Some req) (Some u) w = (Inr resp, w1)" and "rsp_body resp = Some (k, raw)"
    and "t_api_keys (w_db w2) = t_api_keys (w_db w1)" and "w_faults w2 = []"
    and "filter (\<lambda>r. usrr_id r = usr_id u \<and> usr_live r) (t_users (w_db w2)) = [row]"
    and "rq_authorization rq = ''Bearer '' @ raw"
  shows "\<exists>w3. untouched w2 w3 \<and> AuthMiddleware (accounts bc pa) pg_APIKeyRepo slot rq next w2 =
    (if \<exists>t. expiry_of (w_app_clock w) (cak_expires_in_days req) = Some t \<and> t < w_app_clock w2 then (Inr WriteUnauthorized, w2)
     else if requiredScope (rq_method rq) (rq_path rq) \<notin> set (cak_scopes req) then (Inr WriteForbiddenTenant, w2)
     else next (Some (userFromRow row)) w3)"
proof -
  from assms(1, 2) obtain kr x where raw: "raw = ''pc_live_'' @ x"
    and keys: "t_api_keys (w_db w1) = t_api_keys (w_db w) @ [kr]"
    and kr: "akr_key_hash kr = key_digest raw" "akr_user_id kr = usr_id u" "akr_scopes kr = cak_scopes req"
      "akr_expires_at kr = expiry_of (w_app_clock w) (cak_expires_in_days req)"
    and fresh: "\<forall>y \<in> set (t_api_keys (w_db w)). akr_key_hash y \<noteq> key_digest raw"
    by (rule CreateAPIKey_body) (rule that; assumption)
  have "filter (\<lambda>r. akr_key_hash r = key_digest raw) (t_api_keys (w_db w2)) = [kr]"
    using keys kr fresh assms(3) by (simp add: filter_empty_conv)
  then have found: "APIKeyRepo_GetByHash pg_APIKeyRepo (key_digest raw) w2 = (Inr (apiKeyFromRow kr), w2)"
    using assms(4) by (simp add: pg_APIKeyRepo_def pg_APIKeyRepo_GetByHash_def q_GetAPIKeyByHash_def run_simps one_row_def)
  have user: "GetUserByID (accounts bc pa) (usr_id u) w2 = (Inr (userFromRow row), w2)"
    using assms(4, 5) by (simp add: GetUserByID_def accounts_def GetByID_run)
  obtain t w3 where touch: "(if slot then logged (APIKeyRepo_Touch pg_APIKeyRepo (akr_id kr)) else returnE ()) w2 = (t, w3)"
    by (cases "(if slot then logged (APIKeyRepo_Touch pg_APIKeyRepo (akr_id kr)) else returnE ()) w2")
  have w3: "t = Inr ()" "untouched w2 w3"
    using touch touch_untouched by (cases slot; fastforce simp: returnE_apply)+
  have id: "ak_id (apiKeyFromRow kr) = akr_id kr" by (simp add: apiKeyFromRow_def)
  have b: "bearer (rq_authorization rq) = Some raw" unfolding assms(6) raw by (rule bearer_key)
  have "AuthMiddleware (accounts bc pa) pg_APIKeyRepo slot rq next w2 =
    (if APIKey_IsExpired (w_app_clock w2) (apiKeyFromRow kr) then (Inr WriteUnauthorized, w2)
     else if \<not> APIKey_HasScope (apiKeyFromRow kr) (requiredScope (rq_method rq) (rq_path rq)) then (Inr WriteForbiddenTenant, w2)
     else next (Some (userFromRow row)) w3)"
    using touch w3(1) user found kr(2) id
    by (cases slot) (auto simp: AuthMiddleware_def b authenticateWithAPIKey_def bindE_apply attemptE_apply returnE_apply
        clock_now_apply split: prod.splits sum.splits)
  moreover have "APIKey_IsExpired (w_app_clock w2) (apiKeyFromRow kr)
      \<longleftrightarrow> (\<exists>t. expiry_of (w_app_clock w) (cak_expires_in_days req) = Some t \<and> t < w_app_clock w2)"
    by (simp add: APIKey_IsExpired_def kr(4) split: option.splits)
  moreover have "APIKey_HasScope (apiKeyFromRow kr) sc \<longleftrightarrow> sc \<in> set (cak_scopes req)" for sc
    by (simp add: APIKey_HasScope_iff kr(3))
  ultimately show ?thesis by (intro exI [of _ w3] conjI w3(2)) (simp only:)
qed

text \<open>A key lives for the number of days that was asked for, up to 106751 days; from the next day
  on the product of 64-bit integers wraps around, and the key is made with an expiry in the past.\<close>

theorem api_key_lifetime:
  assumes "0 < days" and "days \<le> 106751"
  shows "expiry_of now (Some days) = Some (now + hours (24 * days))
    \<and> (\<exists>t < now. expiry_of now (Some 106752) = Some t)"
proof -
  have "days * hours 24 < 2 ^ 63" "- (2 ^ 63) \<le> days * hours 24" using assms by simp_all
  then have "days_duration days = days * hours 24"
    by (simp add: days_duration_def signed_take_bit_int_eq_self)
  moreover have "days_duration 106752 < 0" by (simp add: days_duration_def signed_take_bit_eq_take_bit_shift take_bit_eq_mod)
  ultimately show ?thesis using assms by (simp add: expiry_of_def)
qed

section \<open>Examples\<close>

definition open_limiter :: rate_limiter where
  "open_limiter = \<lparr>RateLimiter_Allow = (\<lambda>k. returnE True), RateLimiter_Reset = (\<lambda>k. returnE ())\<rparr>"

definition open_limiters :: rate_limiters where
  "open_limiters = \<lparr>rls_Register = open_limiter, rls_Login = open_limiter, rls_Status = open_limiter,
     rls_Write = open_limiter, rls_Read = open_limiter\<rparr>"

definition demo_request :: "string \<Rightarrow> string \<Rightarrow> request" where
  "demo_request auth sess = \<lparr>rq_method = ''POST'', rq_path = ''/api/incidents'', rq_authorization = auth,
     rq_session = sess, rq_ip = ''198.51.100.7'', rq_slug = []\<rparr>"

lemma demo_request_sel [simp]:
  "rq_method (demo_request a s) = ''POST''" "rq_path (demo_request a s) = ''/api/incidents''"
  "rq_authorization (demo_request a s) = a" "rq_session (demo_request a s) = s"
  by (simp_all add: demo_request_def)

lemma protected_routes_witness:
  "\<exists>w u. authenticated (demo_request [] ''tok'') w u \<and> usr_plan u = PlanPro"
proof -
  let ?w = "demo_world\<lparr>w_sessions := [(session_key ''tok'', 1, seconds 2000)]\<rparr>"
  let ?h = "\<lambda>u. returnE (send_json 200 ())"
  have ok: "limiters_ok open_limiters" by (simp add: limiters_ok_def limiter_ok_def open_limiters_def open_limiter_def readonly_returnE)
  have quiet: "w_faults ?w = []" by (simp add: demo_defs)
  have api: "has_prefix (rq_path (demo_request [] ''tok'')) ''/api/''" by simp
  have closed: "\<not> public_api (demo_request [] ''tok'')"
    by (simp add: public_api_def Let_def)
  obtain u v where valid: "ValidateSession demo_accounts ''tok'' ?w = (Inr u, v)" and pro: "usr_plan u = PlanPro"
    unfolding session_lookup [OF quiet] by (simp add: session_entry_def demo_defs)
  have gate: "proGateSelector (demo_request [] ''tok'') ?h (Some u) v = (Inr (send_json 200 ()), v)"
    using pro by (simp add: proGateSelector_def RequirePro_def RequiresPro_def returnE_apply)
  have key: "uuid_string i \<noteq> []" for i by (simp add: uuid_string_def Let_def uuid_hex_def)
  have run: "api_chain demo_accounts pg_APIKeyRepo open_limiters True (demo_request [] ''tok'') ?h ?w = (Inr (send_json 200 ()), v)"
    using valid gate key
    by (simp add: api_chain_def authMiddlewareSelector_def closed AuthMiddleware_def bearer_def Let_def bindE_apply
        attemptE_apply apiRateLimitSelector_def rateLimitMW_def userKey_def open_limiters_def open_limiter_def returnE_apply)
  have "pro_route (demo_request [] ''tok'')" by (simp add: pro_route_def Let_def)
  with protected_routes [OF ok api closed run] show ?thesis
    by (auto simp: refused_def send_json_def send_status_def)
qed

lemma created_key_authenticates_witness:
  "\<exists>raw w1. \<forall>slot. \<exists>w3. AuthMiddleware demo_accounts pg_APIKeyRepo slot
    (demo_request (''Bearer '' @ raw) []) (\<lambda>u. returnE (send_json 200 u)) w1 = (Inr (send_json 200 (Some demo_user)), w3)"
proof -
  let ?req = "\<lparr>cak_name = ''ci'', cak_scopes = [''incidents:write''], cak_expires_in_days = Some 30\<rparr>"
  obtain k raw w1 where run: "Server_CreateAPIKey pg_APIKeyRepo (Some ?req) (Some demo_user) demo_world
      = (Inr (send_json 201 (k, raw)), w1)" and same: "t_users (w_db w1) = t_users (w_db demo_world)"
    and clock: "w_app_clock w1 = w_app_clock demo_world" and quiet: "w_faults w1 = []"
    by (simp add: Server_CreateAPIKey_def requireUser_def or_write_def effect_simps read_random_def external_ok demo_defs
        clock_now_apply pg_APIKeyRepo_def pg_APIKeyRepo_Create_def q_CreateAPIKey_def run_simps Let_def user_exists_def)
  have body: "rsp_body (send_json 201 (k, raw)) = Some (k, raw)" by (simp add: send_json_def)
  have user: "filter (\<lambda>r. usrr_id r = usr_id demo_user \<and> usr_live r) (t_users (w_db w1)) = [demo_user_row]"
    unfolding same by (simp add: demo_defs)
  have auth: "rq_authorization (demo_request (''Bearer '' @ raw) []) = ''Bearer '' @ raw" by simp
  have scope: "requiredScope (rq_method (demo_request (''Bearer '' @ raw) [])) (rq_path (demo_request (''Bearer '' @ raw) []))
      = ''incidents:write''"
    by (simp add: requiredScope_def Let_def)
  have life: "expiry_of t (Some 30) = Some (t + hours 720)" for t
    by (simp add: expiry_of_def days_duration_def signed_take_bit_int_eq_self)
  have row: "userFromRow demo_user_row = demo_user" by (simp add: demo_defs userFromRow_def)
  have "\<exists>w3. AuthMiddleware demo_accounts pg_APIKeyRepo slot (demo_request (''Bearer '' @ raw) [])
      (\<lambda>u. returnE (send_json 200 u)) w1 = (Inr (send_json 200 (Some demo_user)), w3)" for slot
    using created_key_authenticates [OF run body refl quiet user auth, of plain_bcrypt "\<lambda>s. str_contains s ''@''" slot
        "\<lambda>u. returnE (send_json 200 u)"]
    unfolding scope row by (auto simp: life clock returnE_apply)
  then show ?thesis by blast
qed

lemma api_key_lifetime_witness: "expiry_of 0 (Some 365) = Some (hours 8760)"
  using api_key_lifetime [of 365 0] by simp

end
