(* ===== verification/Billing.thy ===== *)
theory Billing
  imports Http Alerting Channels
begin

text \<open>
  Subscriptions: \<open>BillingService\<close> of \<open>internal/app/billing.go\<close> with its cap on founder seats,
  and the webhooks of \<open>internal/adapter/http/webhook.go\<close>, through which the payment provider
  changes plans and Telegram attaches channels. A request body of the payment webhook is
  decoded as \<open>json.Unmarshal\<close> does it.
\<close>

section \<open>The founder cap\<close>

record billing_service =
  bl_users :: user_repo
  bl_founder_cap :: int

record founder_status =
  fs_available :: bool
  fs_used :: int
  fs_cap :: int

definition FounderStatus :: "billing_service \<Rightarrow> founder_status io" where
  "FounderStatus s = bindE (UserRepo_CountActiveFounderSubscriptions (bl_users s)) (\<lambda>used.
     returnE \<lparr>fs_available = (used < bl_founder_cap s), fs_used = used, fs_cap = bl_founder_cap s\<rparr>)"

definition SetSubscriptionVariant :: "billing_service \<Rightarrow> uuid \<Rightarrow> string \<Rightarrow> unit io" where
  "SetSubscriptionVariant s u variant = UserRepo_SetSubscriptionVariant (bl_users s) u variant"

definition chosen_variant :: "billing_service \<Rightarrow> string \<Rightarrow> string io" where
  "chosen_variant s requestedVariant =
     (if requestedVariant = ''founder'' then
        bindE (UserRepo_AcquireFounderCapLock (bl_users s)) (\<lambda>_.
        bindE (UserRepo_CountActiveFounderSubscriptions (bl_users s)) (\<lambda>used.
        returnE (if used \<ge> bl_founder_cap s then ''retail'' else requestedVariant)))
      else returnE requestedVariant)"

definition TagFromWebhook :: "billing_service \<Rightarrow> uuid \<Rightarrow> string \<Rightarrow> string io" where
  "TagFromWebhook s u requestedVariant = tx_do (
     bindE (chosen_variant s requestedVariant) (\<lambda>chosen.
     bindE (UserRepo_SetSubscriptionVariant (bl_users s) u chosen) (\<lambda>_.
     returnE chosen)))"

text \<open>The answer of \<open>/api/billing/founder-status\<close>, kept for a minute: the cache is a status and
  the moment it expires.\<close>

definition GetFounderStatus ::
    "billing_service \<Rightarrow> founder_status \<times> time \<Rightarrow> (founder_status response \<times> (founder_status \<times> time)) io" where
  "GetFounderStatus s cache = bindE clock_now (\<lambda>now.
     if now < snd cache then returnE (send_json 200 (fst cache), cache)
     else bindE (attemptE (FounderStatus s)) (\<lambda>r. case r of
         Inl err \<Rightarrow> returnE (Write (Wrapped ''get founder status'' err), cache)
       | Inr status \<Rightarrow> returnE (send_json 200 status, (status, now + seconds 60))))"

section \<open>The payment webhook\<close>

record lemon_webhook =
  lw_event_name :: string
  lw_customer_id :: int
  lw_status :: string
  lw_user_email :: string
  lw_variant_id :: int
  lw_id :: string

definition into_object :: "(string \<Rightarrow> json \<Rightarrow> 'c \<Rightarrow> goerr + 'c) \<Rightarrow> json \<Rightarrow> 'c \<Rightarrow> goerr + 'c" where
  "into_object f v c = (case v of JObj ms \<Rightarrow> into_struct f ms c | JNull \<Rightarrow> Inr c | _ \<Rightarrow> Inl type_error)"

definition lemon_attribute :: "string \<Rightarrow> json \<Rightarrow> lemon_webhook \<Rightarrow> goerr + lemon_webhook" where
  "lemon_attribute k v c =
     (if k = ''customer_id'' then map_sum id (\<lambda>x. c\<lparr>lw_customer_id := x\<rparr>) (into_int v (lw_customer_id c))
      else if k = ''status'' then map_sum id (\<lambda>x. c\<lparr>lw_status := x\<rparr>) (into_string v (lw_status c))
      else if k = ''user_email'' then map_sum id (\<lambda>x. c\<lparr>lw_user_email := x\<rparr>) (into_string v (lw_user_email c))
      else if k = ''variant_id'' then map_sum id (\<lambda>x. c\<lparr>lw_variant_id := x\<rparr>) (into_int v (lw_variant_id c))
      else Inr c)"

definition lemon_data :: "string \<Rightarrow> json \<Rightarrow> lemon_webhook \<Rightarrow> goerr + lemon_webhook" where
  "lemon_data k v c =
     (if k = ''attributes'' then into_object lemon_attribute v c
      else if k = ''id'' then map_sum id (\<lambda>x. c\<lparr>lw_id := x\<rparr>) (into_string v (lw_id c))
      else Inr c)"

definition lemon_meta :: "string \<Rightarrow> json \<Rightarrow> lemon_webhook \<Rightarrow> goerr + lemon_webhook" where
  "lemon_meta k v c =
     (if k = ''event_name'' then map_sum id (\<lambda>x. c\<lparr>lw_event_name := x\<rparr>) (into_string v (lw_event_name c))
      else Inr c)"

definition lemon_field :: "string \<Rightarrow> json \<Rightarrow> lemon_webhook \<Rightarrow> goerr + lemon_webhook" where
  "lemon_field k v c =
     (if k = ''meta'' then into_object lemon_meta v c
      else if k = ''data'' then into_object lemon_data v c else Inr c)"

definition parse_lemon :: "string \<Rightarrow> goerr + lemon_webhook" where
  "parse_lemon body = json_unmarshal_struct lemon_field
     \<lparr>lw_event_name = [], lw_customer_id = 0, lw_status = [], lw_user_email = [], lw_variant_id = 0, lw_id = []\<rparr> body"

record webhook_handler =
  wh_auth :: auth_service
  wh_alerts :: alert_service
  wh_billing :: billing_service
  wh_lemon_squeezy_secret :: string
  wh_founder_variant_id :: string
  wh_telegram_bot_token :: string

definition verifySignature :: "webhook_handler \<Rightarrow> string \<Rightarrow> string \<Rightarrow> bool" where
  "verifySignature h payload signature \<longleftrightarrow> hex_encode (hmac_sha256 (wh_lemon_squeezy_secret h) payload) = signature"

definition requested_variant :: "webhook_handler \<Rightarrow> lemon_webhook \<Rightarrow> string" where
  "requested_variant h wh =
     (if wh_founder_variant_id h \<noteq> [] \<and> int_to_dec (lw_variant_id wh) = wh_founder_variant_id h
      then ''founder'' else ''retail'')"

definition subscription_event :: "webhook_handler \<Rightarrow> user \<Rightarrow> lemon_webhook \<Rightarrow> unit response io" where
  "subscription_event h u wh =
     (let event = lw_event_name wh in
      if event = ''subscription_created'' \<or> event = ''subscription_updated'' then
        if lw_status wh = ''active'' then
          bindE (attemptE (UpgradeToPro (wh_auth h) (usr_id u) (int_to_dec (lw_customer_id wh)) (lw_id wh))) (\<lambda>r. case r of
            Inl _ \<Rightarrow> returnE (send_status 500)
          | Inr _ \<Rightarrow> bindE (logged (TagFromWebhook (wh_billing h) (usr_id u) (requested_variant h wh))) (\<lambda>_.
              returnE (send_status 200)))
        else returnE (send_status 200)
      else if event = ''subscription_cancelled'' then
        bindE (attemptE (DowngradeToFree (wh_auth h) (usr_id u))) (\<lambda>r. case r of
            Inl _ \<Rightarrow> returnE (send_status 500) | Inr _ \<Rightarrow> returnE (send_status 200))
      else returnE (send_status 200))"

definition HandleLemonSqueezy :: "webhook_handler \<Rightarrow> string \<Rightarrow> string \<Rightarrow> unit response io" where
  "HandleLemonSqueezy h body sig =
     (if wh_lemon_squeezy_secret h = [] then
        returnE (envelope 503 ''WEBHOOK_DISABLED'' ''webhook processing disabled: secret not configured'')
      else if \<not> verifySignature h body sig then returnE (send_status 401)
      else case parse_lemon body of
        Inl _ \<Rightarrow> returnE (send_status 400)
      | Inr wh \<Rightarrow> bindE (attemptE (GetUserByEmail (wh_auth h) (lw_user_email wh))) (\<lambda>r. case r of
            Inl _ \<Rightarrow> returnE (send_status 200)
          | Inr u \<Rightarrow> subscription_event h u wh))"

section \<open>The Telegram webhook\<close>

text \<open>
  The body is the message that \<open>BodyParser\<close> gives, \<open>None\<close> when it fails; \<open>uuid.Parse\<close> is a
  parameter.
\<close>

record telegram_message =
  tm_chat_id :: int
  tm_text :: string

definition cut_prefix :: "string \<Rightarrow> string \<Rightarrow> string option" where
  "cut_prefix s p = (if has_prefix s p then Some (drop (length p) s) else None)"

definition HandleTelegramWebhook ::
    "(string \<Rightarrow> uuid option) \<Rightarrow> webhook_handler \<Rightarrow> string \<Rightarrow> telegram_message option \<Rightarrow> unit response io" where
  "HandleTelegramWebhook parse_uuid h pathToken body =
     (if wh_telegram_bot_token h = [] then returnE (send_status 401)
      else if pathToken \<noteq> wh_telegram_bot_token h then returnE (send_status 401)
      else case body of
        None \<Rightarrow> returnE (send_status 400)
      | Some msg \<Rightarrow> (case cut_prefix (tm_text msg) ''/start '' of
            None \<Rightarrow> returnE (send_status 200)
          | Some userIDStr \<Rightarrow> (case parse_uuid userIDStr of
                None \<Rightarrow> returnE (send_status 200)
              | Some userID \<Rightarrow>
                  bindE (logged (CreateChannel (wh_alerts h) userID
                    \<lparr>cci_name = ''Telegram '' @ int_to_dec (tm_chat_id msg), cci_type = ChannelTelegram,
                     cci_config = ''{'' @ json_member ''chat_id'' (int_to_dec (tm_chat_id msg)) @ ''}''\<rparr>)) (\<lambda>_.
                  returnE (send_status 200)))))"

section \<open>Concurrent deliveries\<close>

text \<open>
  Webhook deliveries run at the same time. A delivery's transaction is cut into its
  statements: \<open>TagFromWebhook\<close> takes the advisory lock, which waits until no open transaction
  holds it, counts the committed founders, writes the tag, which others see at the commit,
  and commits, which releases the lock; it may roll back at any point. Deliveries that ask
  for another variant skip the lock. Meanwhile other statements commit too: upgrades of users
  who are no lapsed founders, downgrades, new accounts.
\<close>

datatype tagging = Waiting | HoldsLock | Counted int | Wrote string | Done

record tag_state =
  ts_users :: "user_row list"
  ts_lock :: "nat option"
  ts_pc :: "nat \<Rightarrow> tagging"

definition set_variant :: "uuid \<Rightarrow> string \<Rightarrow> user_row list \<Rightarrow> user_row list" where
  "set_variant u v = update_where (\<lambda>r. usrr_id r = u \<and> usr_live r)
     (\<lambda>r. r\<lparr>usrr_subscription_variant := if v = [] then None else Some v\<rparr>)"

definition set_plan :: "uuid \<Rightarrow> string \<Rightarrow> user_row list \<Rightarrow> user_row list" where
  "set_plan u p = update_where (\<lambda>r. usrr_id r = u \<and> usr_live r) (\<lambda>r. r\<lparr>usrr_plan := p\<rparr>)"

definition lapsed_founder :: "user_row \<Rightarrow> bool" where
  "lapsed_founder r \<longleftrightarrow> usr_live r \<and> usrr_subscription_variant r = Some ''founder'' \<and> usrr_plan r \<noteq> PlanPro"

text \<open>Delivery \<open>p\<close> asks for variant \<open>snd (job p)\<close> for user \<open>fst (job p)\<close>.\<close>

inductive tag_step :: "int \<Rightarrow> (nat \<Rightarrow> uuid \<times> string) \<Rightarrow> tag_state \<Rightarrow> tag_state \<Rightarrow> bool"
  for cap job where
  lock: "ts_pc s p = Waiting \<Longrightarrow> snd (job p) = ''founder'' \<Longrightarrow> ts_lock s = None \<Longrightarrow>
    tag_step cap job s (s\<lparr>ts_lock := Some p, ts_pc := (ts_pc s)(p := HoldsLock)\<rparr>)"
| count: "ts_pc s p = HoldsLock \<Longrightarrow>
    tag_step cap job s (s\<lparr>ts_pc := (ts_pc s)(p := Counted (int (length (filter is_founder (ts_users s)))))\<rparr>)"
| writes: "ts_pc s p = Counted used \<Longrightarrow>
    tag_step cap job s (s\<lparr>ts_pc := (ts_pc s)(p := Wrote (if used \<ge> cap then ''retail'' else ''founder''))\<rparr>)"
| skip: "ts_pc s p = Waiting \<Longrightarrow> snd (job p) \<noteq> ''founder'' \<Longrightarrow>
    tag_step cap job s (s\<lparr>ts_pc := (ts_pc s)(p := Wrote (snd (job p)))\<rparr>)"
| commit: "ts_pc s p = Wrote v \<Longrightarrow>
    tag_step cap job s (s\<lparr>ts_users := set_variant (fst (job p)) v (ts_users s),
      ts_lock := (if ts_lock s = Some p then None else ts_lock s), ts_pc := (ts_pc s)(p := Done)\<rparr>)"
| rollback: "ts_pc s p \<noteq> Waiting \<Longrightarrow> ts_pc s p \<noteq> Done \<Longrightarrow>
    tag_step cap job s (s\<lparr>ts_lock := (if ts_lock s = Some p then None else ts_lock s), ts_pc := (ts_pc s)(p := Done)\<rparr>)"
| upgrade: "\<forall>r \<in> set (ts_users s). usrr_id r = u \<longrightarrow> \<not> lapsed_founder r \<Longrightarrow>
    tag_step cap job s (s\<lparr>ts_users := set_plan u PlanPro (ts_users s)\<rparr>)"
| downgrade: "tag_step cap job s (s\<lparr>ts_users := set_plan u PlanFree (ts_users s)\<rparr>)"
| registration: "\<not> is_founder r \<Longrightarrow> usrr_id r \<notin> usrr_id ` set (ts_users s) \<Longrightarrow> tag_step cap job s (s\<lparr>ts_users := ts_users s @ [r]\<rparr>)"

inductive_cases tag_stepE: "tag_step cap job s s'"

definition tag_init :: "user_row list \<Rightarrow> tag_state" where
  "tag_init users = \<lparr>ts_users = users, ts_lock = None, ts_pc = (\<lambda>_. Waiting)\<rparr>"

end
