(* ===== verification/Billing_Properties.thy ===== *)
theory Billing_Properties
  imports Billing Auth_Properties
begin

text \<open>
  The cap on founder seats: it holds under every interleaving of webhook deliveries as long as
  no lapsed founder comes back, one delivery by itself is such an interleaving, and a lapsed
  founder who comes back takes a seat beyond the cap. The payment webhook acts on signed
  bodies and on the payer's account only.
\<close>

section \<open>Counting seats\<close>

definition seats :: "user_row list \<Rightarrow> int" where
  "seats rows = int (length (filter is_founder rows))"

lemma seats_simps [simp]:
  "seats [] = 0" "seats (r # rows) = (if is_founder r then 1 else 0) + seats rows" "seats (xs @ ys) = seats xs + seats ys"
  by (simp_all add: seats_def)

lemma seats_map_le:
  assumes "\<And>r. r \<in> set rows \<Longrightarrow> is_founder (f r) \<Longrightarrow> is_founder r"
  shows "seats (map f rows) \<le> seats rows"
  using assms by (induction rows) auto

lemma update_where_map: "update_where p f rows = map (\<lambda>r. if p r then f r else r) rows"
  by (simp add: update_where_def)

lemma seats_upgrade:
  "\<forall>r \<in> set rows. usrr_id r = u \<longrightarrow> \<not> lapsed_founder r \<Longrightarrow> seats (set_plan u PlanPro rows) \<le> seats rows"
  unfolding set_plan_def update_where_map
  by (rule seats_map_le) (auto simp: is_founder_def lapsed_founder_def split: if_splits)

lemma seats_downgrade: "seats (set_plan u PlanFree rows) \<le> seats rows"
  unfolding set_plan_def update_where_map
  by (rule seats_map_le) (auto simp: is_founder_def split: if_splits)

lemma seats_other_variant: "v \<noteq> ''founder'' \<Longrightarrow> seats (set_variant u v rows) \<le> seats rows"
  unfolding set_variant_def update_where_map
  by (rule seats_map_le) (auto simp: is_founder_def split: if_splits)

lemma seats_founder:
  assumes "distinct (map usrr_id rows)"
  shows "seats (set_variant u v rows) \<le> seats rows + 1"
proof -
  have none: "usrr_id r \<noteq> u \<Longrightarrow> (if usrr_id r = u \<and> usr_live r then g r else r) = r" for r g by simp
  have same: "u \<notin> usrr_id ` set xs \<Longrightarrow> set_variant u v xs = xs" for xs
    by (auto simp: set_variant_def update_where_map intro!: map_idI)
  show ?thesis
    using assms
  proof (induction rows)
    case (Cons r rows)
    show ?case
    proof (cases "usrr_id r = u")
      case True
      with Cons.prems same [of rows] have "set_variant u v rows = rows" by auto
      then show ?thesis by (auto simp: set_variant_def update_where_map)
    next
      case False
      with Cons show ?thesis by (auto simp: set_variant_def update_where_map)
    qed
  qed (simp add: set_variant_def update_where_map)
qed

lemma ids_kept [simp]:
  "map usrr_id (set_variant u v rows) = map usrr_id rows" "map usrr_id (set_plan u p rows) = map usrr_id rows"
  by (induction rows) (simp_all add: set_variant_def set_plan_def update_where_map)

section \<open>Every interleaving\<close>

text \<open>Inside the critical section a delivery holds the lock, and what it has read is still true.\<close>

definition critical :: "tagging \<Rightarrow> bool" where
  "critical t \<longleftrightarrow> t = HoldsLock \<or> (\<exists>n. t = Counted n) \<or> t = Wrote ''founder''"

definition fits :: "int \<Rightarrow> user_row list \<Rightarrow> tagging \<Rightarrow> bool" where
  "fits cap rows t \<longleftrightarrow> (\<forall>n. t = Counted n \<longrightarrow> seats rows \<le> n) \<and> (t = Wrote ''founder'' \<longrightarrow> seats rows < cap)"

definition cap_inv :: "int \<Rightarrow> tag_state \<Rightarrow> bool" where
  "cap_inv cap s \<longleftrightarrow> seats (ts_users s) \<le> cap \<and> distinct (map usrr_id (ts_users s))
     \<and> (\<forall>p. critical (ts_pc s p) \<longrightarrow> ts_lock s = Some p) \<and> (\<forall>p. fits cap (ts_users s) (ts_pc s p))"

lemma critical_simps [simp]:
  "critical HoldsLock" "critical (Counted n)" "critical (Wrote v) \<longleftrightarrow> v = ''founder''" "\<not> critical Waiting" "\<not> critical Done"
  by (simp_all add: critical_def)

lemma fits_simps [simp]:
  "fits cap rows HoldsLock" "fits cap rows (Counted n) \<longleftrightarrow> seats rows \<le> n"
  "fits cap rows (Wrote v) \<longleftrightarrow> (v = ''founder'' \<longrightarrow> seats rows < cap)" "fits cap rows Waiting" "fits cap rows Done"
  by (auto simp: fits_def)

lemma not_critical_fits: "\<not> critical t \<Longrightarrow> fits cap rows t"
  by (auto simp: critical_def fits_def)

lemma fits_fewer: "fits cap rows t \<Longrightarrow> seats rows' \<le> seats rows \<Longrightarrow> fits cap rows' t"
  by (auto simp: fits_def)

lemma cap_inv_fewer:
  assumes "cap_inv cap s" and "seats rows \<le> seats (ts_users s)" and "distinct (map usrr_id rows)"
  shows "cap_inv cap (s\<lparr>ts_users := rows\<rparr>)"
  using assms unfolding cap_inv_def by (auto intro: fits_fewer)

lemma cap_inv_unlocked:
  assumes "cap_inv cap s" and "ts_lock s = None" and "seats rows \<le> cap" and "distinct (map usrr_id rows)"
  shows "cap_inv cap (s\<lparr>ts_users := rows\<rparr>)"
  using assms unfolding cap_inv_def by (auto intro: not_critical_fits)

lemma cap_inv_move:
  assumes "cap_inv cap s" and "fits cap (ts_users s) t" and "critical t \<Longrightarrow> l = Some p"
    and "l = ts_lock s \<or> ts_lock s = None \<or> ts_lock s = Some p"
  shows "cap_inv cap (s\<lparr>ts_lock := l, ts_pc := (ts_pc s)(p := t)\<rparr>)"
  using assms unfolding cap_inv_def by auto

lemma cap_inv_holds: "cap_inv cap s \<Longrightarrow> critical (ts_pc s p) \<Longrightarrow> ts_lock s = Some p"
  by (simp add: cap_inv_def)

lemma cap_inv_fits: "cap_inv cap s \<Longrightarrow> fits cap (ts_users s) (ts_pc s p)"
  by (simp add: cap_inv_def)

lemma cap_inv_stay:
  assumes "cap_inv cap s" and "fits cap (ts_users s) t" and "critical t \<Longrightarrow> ts_lock s = Some p"
  shows "cap_inv cap (s\<lparr>ts_pc := (ts_pc s)(p := t)\<rparr>)"
  using assms unfolding cap_inv_def by auto

lemma cap_inv_step:
  assumes "tag_step cap job s s'" and "cap_inv cap s"
  shows "cap_inv cap s'"
  using assms
proof (induction rule: tag_step.induct)
  case (lock s p)
  then show ?case by (intro cap_inv_move) auto
next
  case (count s p)
  with cap_inv_holds [of cap s p] show ?case by (intro cap_inv_stay) (simp_all add: seats_def)
next
  case (writes s p used)
  with cap_inv_holds [of cap s p] cap_inv_fits [of cap s p] show ?case by (intro cap_inv_stay) auto
next
  case (skip s p)
  then show ?case by (intro cap_inv_stay) simp_all
next
  case (commit s p v)
  let ?l = "if ts_lock s = Some p then None else ts_lock s"
  let ?s = "s\<lparr>ts_lock := ?l, ts_pc := (ts_pc s)(p := Done)\<rparr>"
  have finished: "cap_inv cap ?s" by (rule cap_inv_move [OF commit.prems]) auto
  have distinct: "distinct (map usrr_id (set_variant (fst (job p)) v (ts_users s)))"
    using commit.prems by (simp add: cap_inv_def)
  have swap: "s\<lparr>ts_users := rows, ts_lock := ?l, ts_pc := (ts_pc s)(p := Done)\<rparr> = ?s\<lparr>ts_users := rows\<rparr>" for rows
    by (cases s) simp
  show ?case
  proof (cases "v = ''founder''")
    case True
    with commit have "ts_lock s = Some p" "seats (ts_users s) < cap"
      using cap_inv_holds [of cap s p] cap_inv_fits [of cap s p] by auto
    moreover have "distinct (map usrr_id (ts_users s))" using commit.prems by (simp add: cap_inv_def)
    ultimately show ?thesis
      unfolding swap using seats_founder [of "ts_users s" "fst (job p)" v]
      by (intro cap_inv_unlocked [OF finished _ _ distinct]) auto
  next
    case False
    show ?thesis
      unfolding swap using seats_other_variant [OF False] by (intro cap_inv_fewer [OF finished _ distinct]) simp
  qed
next
  case (rollback s p)
  then show ?case by (intro cap_inv_move) auto
next
  case (upgrade s u)
  then show ?case by (intro cap_inv_fewer seats_upgrade) (auto simp: cap_inv_def)
next
  case (downgrade s u)
  then show ?case by (intro cap_inv_fewer seats_downgrade) (auto simp: cap_inv_def)
next
  case (registration r s)
  then show ?case by (intro cap_inv_fewer) (auto simp: cap_inv_def)
qed

lemma cap_inv_reachable: "(tag_step cap job)\<^sup>*\<^sup>* s s' \<Longrightarrow> cap_inv cap s \<Longrightarrow> cap_inv cap s'"
  by (induction rule: rtranclp_induct) (auto intro: cap_inv_step)

section \<open>Single deliveries\<close>

definition billing :: "int \<Rightarrow> billing_service" where
  "billing cap = \<lparr>bl_users = pg_UserRepo, bl_founder_cap = cap\<rparr>"

lemma billing_sel [simp]: "bl_users (billing cap) = pg_UserRepo" "bl_founder_cap (billing cap) = cap"
  by (simp_all add: billing_def)

lemma statement_db:
  assumes "update_user u f w = (r, w')"
  shows "w_db w' = w_db w \<and> (\<exists>e. r = Inl e)
    \<or> w_db w' = (w_db w)\<lparr>t_users := update_where (\<lambda>r. usrr_id r = u \<and> usr_live r) f (t_users (w_db w))\<rparr> \<and> r = Inr ()"
  using assms unfolding update_user_def statement_def external_def by (auto split: list.splits bool.splits)

lemma pg_user_writes:
  "UserRepo_SetSubscriptionVariant pg_UserRepo u v = update_user u (\<lambda>r. r\<lparr>usrr_subscription_variant := if v = [] then None else Some v\<rparr>)"
  "UserRepo_UpdatePlan pg_UserRepo u p = update_user u (\<lambda>r. r\<lparr>usrr_plan := p\<rparr>)"
  "UserRepo_UpdateLemonSqueezy pg_UserRepo u c i = update_user u (\<lambda>r. r\<lparr>usrr_lemon_squeezy_customer_id := Some c,
     usrr_lemon_squeezy_subscription_id := Some i\<rparr>)"
  by (auto simp: pg_UserRepo_def pg_UserRepo_SetSubscriptionVariant_def q_SetSubscriptionVariant_def
      pg_UserRepo_UpdatePlan_def q_UpdateUserPlan_def pg_UserRepo_UpdateLemonSqueezy_def q_UpdateUserLemonSqueezy_def)

lemma TagFromWebhook_InrD:
  assumes "TagFromWebhook (billing cap) u v w = (Inr chosen, w')"
  shows "chosen = (if v = ''founder'' \<and> cap \<le> seats (t_users (w_db w)) then ''retail'' else v)
    \<and> w_db w' = (w_db w)\<lparr>t_users := set_variant u chosen (t_users (w_db w))\<rparr>"
proof -
  from assms obtain fs gs w1 where
    body: "bindE (chosen_variant (billing cap) v) (\<lambda>chosen.
       bindE (UserRepo_SetSubscriptionVariant pg_UserRepo u chosen) (\<lambda>_. returnE chosen)) (w\<lparr>w_faults := fs\<rparr>) = (Inr chosen, w1)"
    and w': "w' = w1\<lparr>w_faults := gs\<rparr>"
    unfolding TagFromWebhook_def billing_sel by (rule tx_do_InrE)
  from body obtain w2 where choice: "chosen_variant (billing cap) v (w\<lparr>w_faults := fs\<rparr>) = (Inr chosen, w2)"
    and tagged: "UserRepo_SetSubscriptionVariant pg_UserRepo u chosen w2 = (Inr (), w1)"
    by (elim bindE_InrE) (auto simp: returnE_apply)
  from choice have "w_db w2 = w_db w \<and> chosen = (if v = ''founder'' \<and> cap \<le> seats (t_users (w_db w)) then ''retail'' else v)"
    unfolding chosen_variant_def billing_sel pg_UserRepo_def user_repo.simps q_AcquireFounderCapLock_def
      q_CountActiveFounderSubscriptions_def seats_def
    by (cases "v = ''founder''") (auto simp: returnE_apply elim!: bindE_InrE query_InrE)
  moreover from statement_db [OF tagged [unfolded pg_user_writes]]
  have "w_db w1 = (w_db w2)\<lparr>t_users := set_variant u chosen (t_users (w_db w2))\<rparr>"
    by (auto simp: set_variant_def)
  ultimately show ?thesis by (simp add: w')
qed

lemma TagFromWebhook_InlD: "TagFromWebhook (billing cap) u v w = (Inl e, w') \<Longrightarrow> w_db w' = w_db w"
  unfolding TagFromWebhook_def by (rule atomicD [OF atomic_tx_do])

definition set_ids :: "uuid \<Rightarrow> string \<Rightarrow> string \<Rightarrow> user_row list \<Rightarrow> user_row list" where
  "set_ids u c i = update_where (\<lambda>r. usrr_id r = u \<and> usr_live r)
     (\<lambda>r. r\<lparr>usrr_lemon_squeezy_customer_id := Some c, usrr_lemon_squeezy_subscription_id := Some i\<rparr>)"

lemma seats_set_ids [simp]: "seats (set_ids u c i rows) = seats rows"
  by (induction rows) (auto simp: set_ids_def update_where_map is_founder_def)

lemma ids_set_ids [simp]: "map usrr_id (set_ids u c i rows) = map usrr_id rows"
  by (induction rows) (simp_all add: set_ids_def update_where_map)

lemma accounts_users [simp]: "au_users (accounts bc pa) = pg_UserRepo"
  by (simp add: accounts_def)

lemma UpgradeToPro_cases:
  assumes "UpgradeToPro (accounts bc pa) u c i w = (r, w')"
  obtains (none) "w_db w' = w_db w" "r \<noteq> Inr ()"
    | (plan) "w_db w' = (w_db w)\<lparr>t_users := set_plan u PlanPro (t_users (w_db w))\<rparr>" "r \<noteq> Inr ()"
    | (both) "w_db w' = (w_db w)\<lparr>t_users := set_ids u c i (set_plan u PlanPro (t_users (w_db w)))\<rparr>" "r = Inr ()"
proof -
  obtain r1 w1 where upd: "update_user u (\<lambda>r. r\<lparr>usrr_plan := PlanPro\<rparr>) w = (r1, w1)"
    by (cases "update_user u (\<lambda>r. r\<lparr>usrr_plan := PlanPro\<rparr>) w")
  show thesis
  proof (cases r1)
    case (Inl e)
    with assms upd statement_db [OF upd] none show thesis
      by (auto simp: UpgradeToPro_def pg_user_writes bindE_apply)
  next
    case (Inr x)
    with assms upd have ids: "update_user u (\<lambda>r. r\<lparr>usrr_lemon_squeezy_customer_id := Some c,
        usrr_lemon_squeezy_subscription_id := Some i\<rparr>) w1 = (r, w')"
      by (simp add: UpgradeToPro_def pg_user_writes bindE_apply)
    from statement_db [OF upd] Inr have "w_db w1 = (w_db w)\<lparr>t_users := set_plan u PlanPro (t_users (w_db w))\<rparr>"
      by (auto simp: set_plan_def)
    with statement_db [OF ids] both plan show thesis by (auto simp: set_ids_def)
  qed
qed

text \<open>What a subscription event does to the users.\<close>

definition active_event :: "lemon_webhook \<Rightarrow> bool" where
  "active_event wh \<longleftrightarrow> (lw_event_name wh = ''subscription_created'' \<or> lw_event_name wh = ''subscription_updated'')
     \<and> lw_status wh = ''active''"

definition webhooks :: "bcrypt \<Rightarrow> (string \<Rightarrow> bool) \<Rightarrow> alert_service \<Rightarrow> int \<Rightarrow> string \<Rightarrow> string \<Rightarrow> string \<Rightarrow> webhook_handler" where
  "webhooks bc pa al cap secret founder_id token =
     \<lparr>wh_auth = accounts bc pa, wh_alerts = al, wh_billing = billing cap, wh_lemon_squeezy_secret = secret,
      wh_founder_variant_id = founder_id, wh_telegram_bot_token = token\<rparr>"

lemma webhooks_sel [simp]:
  "wh_auth (webhooks bc pa al cap secret fid token) = accounts bc pa"
  "wh_billing (webhooks bc pa al cap secret fid token) = billing cap"
  "wh_lemon_squeezy_secret (webhooks bc pa al cap secret fid token) = secret"
  "wh_founder_variant_id (webhooks bc pa al cap secret fid token) = fid"
  by (simp_all add: webhooks_def)

lemma subscription_event_cases:
  assumes "subscription_event (webhooks bc pa al cap secret fid token) u wh w = (r, w')"
  obtains (idle) "w_db w' = w_db w"
    | (paid) chosen rows where "active_event wh" "rows = set_plan (usr_id u) PlanPro (t_users (w_db w))
         \<or> rows = set_ids (usr_id u) (int_to_dec (lw_customer_id wh)) (lw_id wh) (set_plan (usr_id u) PlanPro (t_users (w_db w)))"
         "w_db w' = (w_db w)\<lparr>t_users := rows\<rparr> \<or> w_db w' = (w_db w)\<lparr>t_users := set_variant (usr_id u) chosen rows\<rparr>
           \<and> (chosen = ''founder'' \<longrightarrow> seats rows < cap)"
    | (ended) "lw_event_name wh = ''subscription_cancelled''"
         "w_db w' = (w_db w)\<lparr>t_users := set_plan (usr_id u) PlanFree (t_users (w_db w))\<rparr>"
proof -
  let ?c = "int_to_dec (lw_customer_id wh)" and ?i = "lw_id wh" and ?u = "usr_id u" and ?v = "requested_variant (webhooks bc pa al cap secret fid token) wh"
  have end_case: thesis if ev: "lw_event_name wh = ''subscription_cancelled''"
  proof -
    obtain r1 w1 where plan: "update_user ?u (\<lambda>r. r\<lparr>usrr_plan := PlanFree\<rparr>) w = (r1, w1)"
      by (cases "update_user ?u (\<lambda>r. r\<lparr>usrr_plan := PlanFree\<rparr>) w")
    with assms ev have "w' = w1"
      by (auto simp: subscription_event_def DowngradeToFree_def pg_user_writes bindE_apply attemptE_apply returnE_apply split: sum.splits)
    with statement_db [OF plan] idle ended ev show thesis by (auto simp: set_plan_def)
  qed
  have pay_case: thesis if ev: "active_event wh"
  proof -
    obtain r1 w1 where up: "UpgradeToPro (accounts bc pa) ?u ?c ?i w = (r1, w1)"
      by (cases "UpgradeToPro (accounts bc pa) ?u ?c ?i w")
    obtain r2 w2 where tag: "TagFromWebhook (billing cap) ?u ?v w1 = (r2, w2)"
      by (cases "TagFromWebhook (billing cap) ?u ?v w1")
    from ev assms up tag have w': "w' = (if r1 = Inr () then w2 else w1)"
      by (cases r1) (auto simp: active_event_def subscription_event_def bindE_apply attemptE_apply returnE_apply Let_def)
    from up show thesis
    proof (cases rule: UpgradeToPro_cases)
      case none
      with w' idle show thesis by simp
    next
      case plan
      with w' paid [OF ev disjI1 [OF refl]] show thesis by simp
    next
      case both
      let ?rows = "set_ids ?u ?c ?i (set_plan ?u PlanPro (t_users (w_db w)))"
      show thesis
      proof (cases r2)
        case (Inl e)
        with TagFromWebhook_InlD tag have "w_db w2 = w_db w1" by blast
        with both w' paid [OF ev disjI2 [OF refl]] show thesis by simp
      next
        case (Inr chosen)
        with TagFromWebhook_InrD tag have t: "chosen = (if ?v = ''founder'' \<and> cap \<le> seats (t_users (w_db w1)) then ''retail'' else ?v)"
          "w_db w2 = (w_db w1)\<lparr>t_users := set_variant ?u chosen (t_users (w_db w1))\<rparr>" by blast+
        then have "chosen = ''founder'' \<longrightarrow> seats ?rows < cap" using both(1) by (auto split: if_splits)
        with both w' t(2) paid [OF ev disjI2 [OF refl], of chosen] show thesis by simp
      qed
    qed
  qed
  show thesis
  proof (cases "active_event wh \<or> lw_event_name wh = ''subscription_cancelled''")
    case True
    with pay_case end_case show thesis by blast
  next
    case False
    with assms have "w' = w"
      by (auto simp: active_event_def subscription_event_def Let_def returnE_apply split: if_splits)
    with idle show thesis by simp
  qed
qed

text \<open>A delivery acts on nobody but the payer, and only when its body is signed.\<close>

definition payer_change :: "uuid \<Rightarrow> user_row \<Rightarrow> user_row \<Rightarrow> bool" where
  "payer_change u r r' \<longleftrightarrow> r' = r \<or> usrr_id r = u \<and> usr_live r
     \<and> (\<exists>p v c i. r' = r\<lparr>usrr_plan := p, usrr_subscription_variant := v, usrr_lemon_squeezy_customer_id := c,
          usrr_lemon_squeezy_subscription_id := i\<rparr>)"

lemma payer_change_trans: "payer_change u r r' \<Longrightarrow> payer_change u r' r'' \<Longrightarrow> payer_change u r r''"
  by (auto simp: payer_change_def; blast)

lemma payer_changes:
  "list_all2 (payer_change u) rows (set_plan u p rows)" "list_all2 (payer_change u) rows (set_variant u v rows)"
  "list_all2 (payer_change u) rows (set_ids u c i rows)"
proof -
  have "r\<lparr>usrr_plan := p\<rparr> = r\<lparr>usrr_plan := p, usrr_subscription_variant := usrr_subscription_variant r,
      usrr_lemon_squeezy_customer_id := usrr_lemon_squeezy_customer_id r,
      usrr_lemon_squeezy_subscription_id := usrr_lemon_squeezy_subscription_id r\<rparr>"
    "r\<lparr>usrr_subscription_variant := x\<rparr> = r\<lparr>usrr_plan := usrr_plan r, usrr_subscription_variant := x,
      usrr_lemon_squeezy_customer_id := usrr_lemon_squeezy_customer_id r,
      usrr_lemon_squeezy_subscription_id := usrr_lemon_squeezy_subscription_id r\<rparr>"
    "r\<lparr>usrr_lemon_squeezy_customer_id := y, usrr_lemon_squeezy_subscription_id := z\<rparr> = r\<lparr>usrr_plan := usrr_plan r,
      usrr_subscription_variant := usrr_subscription_variant r, usrr_lemon_squeezy_customer_id := y,
      usrr_lemon_squeezy_subscription_id := z\<rparr>" for r :: user_row and p x y z
    by (cases r; simp)+
  then have one: "usrr_id r = u \<Longrightarrow> usr_live r \<Longrightarrow> payer_change u r (r\<lparr>usrr_plan := p\<rparr>)
      \<and> payer_change u r (r\<lparr>usrr_subscription_variant := x\<rparr>)
      \<and> payer_change u r (r\<lparr>usrr_lemon_squeezy_customer_id := y, usrr_lemon_squeezy_subscription_id := z\<rparr>)" for r p x y z
    unfolding payer_change_def by metis
  have refl: "payer_change u r r" for r by (simp add: payer_change_def)
  show "list_all2 (payer_change u) rows (set_plan u p rows)" "list_all2 (payer_change u) rows (set_variant u v rows)"
    "list_all2 (payer_change u) rows (set_ids u c i rows)"
    unfolding set_plan_def set_variant_def set_ids_def update_where_map list_all2_map2
    using one refl by (auto intro!: list_all2_refl)
qed

lemma payer_changes_trans:
  "list_all2 (payer_change u) xs ys \<Longrightarrow> list_all2 (payer_change u) ys zs \<Longrightarrow> list_all2 (payer_change u) xs zs"
  by (rule list_all2_trans [OF payer_change_trans])

lemma payer_InrD:
  assumes "GetUserByEmail (accounts bc pa) email w = (Inr u, w')"
  shows "w_db w' = w_db w \<and> (\<exists>row \<in> set (t_users (w_db w)). usr_live row \<and> usrr_email row = email \<and> u = userFromRow row)"
  using assms
  unfolding GetUserByEmail_def accounts_users pg_UserRepo_def user_repo.simps pg_UserRepo_GetByEmail_def q_GetUserByEmail_def
  by (elim bindE_InrE mapErrE_InrE query_InrE) (auto simp: returnE_apply userFromGetByEmailRow_def dest!: one_row_Inr)

lemma payer_InlD:
  assumes "GetUserByEmail (accounts bc pa) email w = (Inl e, w')"
  shows "w_db w' = w_db w"
proof -
  have "readonly (GetUserByEmail (accounts bc pa) email)"
    unfolding GetUserByEmail_def accounts_users pg_UserRepo_def user_repo.simps pg_UserRepo_GetByEmail_def q_GetUserByEmail_def
    by (intro readonly_rules | auto simp: readonly_returnE split: prod.splits)+
  from readonlyD [OF this assms] show ?thesis .
qed

lemma webhook_cases:
  assumes "HandleLemonSqueezy (webhooks bc pa al cap secret fid token) body sig w = (r, w')"
  obtains (idle) "w_db w' = w_db w"
    | (event) wh u w1 row where "secret \<noteq> []" "verifySignature (webhooks bc pa al cap secret fid token) body sig"
      "parse_lemon body = Inr wh" "row \<in> set (t_users (w_db w))" "usr_live row" "usrr_email row = lw_user_email wh"
      "u = userFromRow row" "w_db w1 = w_db w"
      "subscription_event (webhooks bc pa al cap secret fid token) u wh w1 = (r, w')"
proof (cases "secret = [] \<or> \<not> verifySignature (webhooks bc pa al cap secret fid token) body sig \<or> (\<exists>e. parse_lemon body = Inl e)")
  case True
  with assms have "w' = w" by (auto simp: HandleLemonSqueezy_def returnE_apply split: if_splits)
  with idle show thesis by simp
next
  case False
  then obtain wh where wh: "parse_lemon body = Inr wh" by (cases "parse_lemon body") auto
  obtain found w1 where get: "GetUserByEmail (accounts bc pa) (lw_user_email wh) w = (found, w1)"
    by (cases "GetUserByEmail (accounts bc pa) (lw_user_email wh) w")
  show thesis
  proof (cases found)
    case (Inl e)
    with assms False wh get have "w' = w1"
      by (auto simp: HandleLemonSqueezy_def bindE_apply attemptE_apply returnE_apply)
    with payer_InlD get Inl idle show thesis by metis
  next
    case (Inr u)
    with get payer_InrD have u: "w_db w1 = w_db w"
      "\<exists>row \<in> set (t_users (w_db w)). usr_live row \<and> usrr_email row = lw_user_email wh \<and> u = userFromRow row" by blast+
    from assms False wh get Inr have "subscription_event (webhooks bc pa al cap secret fid token) u wh w1 = (r, w')"
      by (simp add: HandleLemonSqueezy_def bindE_apply attemptE_apply)
    with u False wh event show thesis by blast
  qed
qed

section \<open>Properties\<close>

text \<open>C36: however many webhook deliveries run at once, with whatever upgrades, downgrades and new
  accounts between their statements, the founder seats in use never exceed the cap, unless a
  lapsed founder is upgraded again.\<close>

theorem founder_cap_holds:
  assumes "(tag_step cap job)\<^sup>*\<^sup>* (tag_init rows) s"
    and "seats rows \<le> cap" and "distinct (map usrr_id rows)"
  shows "seats (ts_users s) \<le> cap"
proof -
  have "cap_inv cap (tag_init rows)" using assms(2, 3) by (simp add: cap_inv_def tag_init_def)
  with cap_inv_reachable [OF assms(1)] show ?thesis by (simp add: cap_inv_def)
qed

text \<open>C37: a single run of TagFromWebhook is one of these interleavings: its effect on the users is
  reached by the steps of its own delivery, which ends without the lock.\<close>

theorem tagging_refines_steps:
  assumes "TagFromWebhook (billing cap) u v w = (r, w')"
  shows "\<exists>s. (tag_step cap (\<lambda>_. (u, v)))\<^sup>*\<^sup>* (tag_init (t_users (w_db w))) s \<and> ts_users s = t_users (w_db w')
    \<and> ts_lock s = None \<and> (\<forall>chosen. r = Inr chosen \<longrightarrow> ts_pc s 0 = Done)"
proof (cases r)
  case (Inl e)
  with assms TagFromWebhook_InlD have "w_db w' = w_db w" by blast
  with Inl show ?thesis by (intro exI [of _ "tag_init (t_users (w_db w))"]) (simp add: tag_init_def)
next
  case (Inr chosen)
  let ?job = "\<lambda>_ :: nat. (u, v)" and ?rows = "t_users (w_db w)" and ?pc = "\<lambda>t p. if p = (0 :: nat) then t else Waiting"
  let ?st = "\<lambda>l t rows. \<lparr>ts_users = rows, ts_lock = l, ts_pc = ?pc t\<rparr>"
  from TagFromWebhook_InrD assms Inr have chosen: "chosen = (if v = ''founder'' \<and> cap \<le> seats ?rows then ''retail'' else v)"
    and users: "t_users (w_db w') = set_variant u chosen ?rows" by fastforce+
  have pc: "(?pc t)(0 := t') = ?pc t'" "(\<lambda>_. Waiting)(0 := t') = ?pc t'" for t t' by auto
  have start: "(tag_step cap ?job)\<^sup>*\<^sup>* (tag_init ?rows) (?st (if v = ''founder'' then Some 0 else None) (Wrote chosen) ?rows)"
  proof (cases "v = ''founder''")
    case True
    have "tag_step cap ?job (tag_init ?rows) (?st (Some 0) HoldsLock ?rows)"
      using tag_step.lock [of "tag_init ?rows" 0 ?job cap] True by (simp add: tag_init_def pc)
    moreover have "tag_step cap ?job (?st (Some 0) HoldsLock ?rows) (?st (Some 0) (Counted (seats ?rows)) ?rows)"
      using tag_step.count [folded seats_def, of "?st (Some 0) HoldsLock ?rows" 0 cap ?job] by (simp add: pc)
    moreover have choice: "chosen = (if cap \<le> seats ?rows then ''retail'' else ''founder'')" using chosen True by simp
    have "tag_step cap ?job (?st (Some 0) (Counted (seats ?rows)) ?rows) (?st (Some 0) (Wrote chosen) ?rows)"
      unfolding choice
      using tag_step.writes [of "?st (Some 0) (Counted (seats ?rows)) ?rows" 0 "seats ?rows" cap ?job] True
      by (simp add: pc)
    ultimately show ?thesis using True by simp
  next
    case False
    with chosen have same: "chosen = v" by simp
    show ?thesis
      unfolding same using tag_step.skip [of "tag_init ?rows" 0 ?job cap] False by (simp add: tag_init_def pc r_into_rtranclp)
  qed
  have "tag_step cap ?job (?st (if v = ''founder'' then Some 0 else None) (Wrote chosen) ?rows)
      (?st None Done (set_variant u chosen ?rows))"
    using tag_step.commit [of "?st (if v = ''founder'' then Some 0 else None) (Wrote chosen) ?rows" 0 chosen cap ?job]
    by (cases "v = ''founder''") (simp_all add: pc)
  with start show ?thesis using users by (intro exI [of _ "?st None Done (set_variant u chosen ?rows)"]) auto
qed

text \<open>C38: the payment webhook changes the tables only for a body with a valid signature that names a
  subscription event and the address of a live account, and then only the plan, the variant and
  the provider's identifiers of that account.\<close>

theorem webhook_acts_on_the_payer:
  assumes "HandleLemonSqueezy (webhooks bc pa al cap secret fid token) body sig w = (r, w')"
  shows "w_db w' = w_db w
    \<or> secret \<noteq> [] \<and> sig = hex_encode (hmac_sha256 secret body)
      \<and> (\<exists>wh row rows. parse_lemon body = Inr wh \<and> (active_event wh \<or> lw_event_name wh = ''subscription_cancelled'')
          \<and> row \<in> set (t_users (w_db w)) \<and> usr_live row \<and> usrr_email row = lw_user_email wh
          \<and> w_db w' = (w_db w)\<lparr>t_users := rows\<rparr> \<and> list_all2 (payer_change (usrr_id row)) (t_users (w_db w)) rows)"
  using assms
proof (cases rule: webhook_cases)
  case idle
  then show ?thesis by simp
next
  case (event wh u w1 row)
  have sig: "sig = hex_encode (hmac_sha256 secret body)" using event(2) by (simp add: verifySignature_def)
  have acts: ?thesis if "w_db w' = (w_db w)\<lparr>t_users := rows\<rparr>"
      "list_all2 (payer_change (usrr_id row)) (t_users (w_db w)) rows"
      "active_event wh \<or> lw_event_name wh = ''subscription_cancelled''" for rows
    using that event(1, 3-6) sig by blast
  from event(9) show ?thesis
  proof (cases rule: subscription_event_cases)
    case (paid chosen rows)
    have rows: "list_all2 (payer_change (usrr_id row)) (t_users (w_db w)) rows"
      using paid(2) event(7, 8) payer_changes(1) payer_changes_trans [OF payer_changes(1) payer_changes(3)] by auto
    note tagged = payer_changes_trans [OF this payer_changes(2), of chosen]
    from paid(3) show ?thesis
    proof (elim disjE conjE)
      assume "w_db w' = (w_db w1)\<lparr>t_users := rows\<rparr>"
      then show ?thesis using event(8) by (intro acts [OF _ rows disjI1 [OF paid(1)]]) simp
    next
      assume "w_db w' = (w_db w1)\<lparr>t_users := set_variant (usr_id u) chosen rows\<rparr>"
      then show ?thesis using event(7, 8) by (intro acts [OF _ tagged disjI1 [OF paid(1)]]) simp
    qed
  next
    case ended
    show ?thesis
      using ended(2) event(7, 8) by (intro acts [OF _ payer_changes(1) disjI2 [OF ended(1)]]) simp
  qed (use event in simp_all)
qed

text \<open>A delivery whose payer is no lapsed founder keeps the founder seats within the cap, whatever
  fails on the way.\<close>

theorem webhook_keeps_cap:
  assumes "HandleLemonSqueezy (webhooks bc pa al cap secret fid token) body sig w = (r, w')"
    and "distinct (map usrr_id (t_users (w_db w)))"
    and "\<And>wh row. parse_lemon body = Inr wh \<Longrightarrow> row \<in> set (t_users (w_db w)) \<Longrightarrow> usrr_email row = lw_user_email wh
      \<Longrightarrow> \<not> lapsed_founder row"
  shows "seats (t_users (w_db w')) \<le> max cap (seats (t_users (w_db w)))"
  using assms(1)
proof (cases rule: webhook_cases)
  case (event wh u w1 row)
  have "\<forall>x \<in> set (t_users (w_db w)). usrr_id x = usrr_id row \<longrightarrow> \<not> lapsed_founder x"
    using assms(2, 3) event by (auto dest: inj_onD simp: distinct_map)
  note up = seats_upgrade [OF this]
  from event(9) show ?thesis
  proof (cases rule: subscription_event_cases)
    case (paid chosen rows)
    have rows: "seats rows \<le> seats (t_users (w_db w))" "distinct (map usrr_id rows)"
      using paid(2) up event(7, 8) assms(2) by auto
    have "seats (set_variant (usrr_id row) chosen rows) \<le> max cap (seats rows)" if "chosen = ''founder'' \<longrightarrow> seats rows < cap"
      using that seats_founder [OF rows(2), of "usrr_id row" chosen] seats_other_variant [of chosen "usrr_id row" rows]
      by (cases "chosen = ''founder''") auto
    with paid(3) rows(1) event(7, 8) show ?thesis by auto
  next
    case ended
    with seats_downgrade [of "usr_id u" "t_users (w_db w)"] event(8) show ?thesis by simp
  qed (use event in simp_all)
qed simp

lemma seats_return:
  assumes "distinct (map usrr_id rows)" and "row \<in> set rows" and "lapsed_founder row"
  shows "seats (set_plan (usrr_id row) PlanPro rows) = seats rows + 1"
  using assms
proof (induction rows)
  case (Cons r rows)
  have same: "u \<notin> usrr_id ` set xs \<Longrightarrow> set_plan u PlanPro xs = xs" for u xs
    by (auto simp: set_plan_def update_where_map intro!: map_idI)
  show ?case
  proof (cases "r = row")
    case True
    with Cons.prems same [of "usrr_id row" rows] have "set_plan (usrr_id row) PlanPro rows = rows" by auto
    then show ?thesis using True Cons.prems(3) by (auto simp: set_plan_def update_where_map is_founder_def lapsed_founder_def)
  next
    case False
    with Cons.prems have "row \<in> set rows" "usrr_id r \<noteq> usrr_id row" by auto
    with Cons show ?thesis by (auto simp: set_plan_def update_where_map)
  qed
qed simp

text \<open>A founder who cancelled and subscribes again takes a seat whether or not one is left: when
  the transaction that checks the cap then fails, the delivery is acknowledged all the same, and
  one more founder seat is in use than before, beyond a cap that was full.\<close>

theorem returning_founder_exceeds_cap:
  assumes "secret \<noteq> []" and "parse_lemon body = Inr wh" and "active_event wh"
    and "w_faults w = [False, False, False, True]"
    and "filter (\<lambda>r. usrr_email r = lw_user_email wh \<and> usr_live r) (t_users (w_db w)) = [row]" and "lapsed_founder row"
    and "distinct (map usrr_id (t_users (w_db w)))"
  shows "\<exists>w'. HandleLemonSqueezy (webhooks bc pa al cap secret fid token) body (hex_encode (hmac_sha256 secret body)) w
      = (Inr (send_status 200), w') \<and> seats (t_users (w_db w')) = seats (t_users (w_db w)) + 1"
proof -
  let ?h = "webhooks bc pa al cap secret fid token"
  let ?w = "\<lambda>fs d. w\<lparr>w_faults := fs, w_db := d\<rparr>"
  let ?plan = "(w_db w)\<lparr>t_users := set_plan (usrr_id row) PlanPro (t_users (w_db w))\<rparr>"
  let ?ids = "set_ids (usrr_id row) (int_to_dec (lw_customer_id wh)) (lw_id wh) (t_users ?plan)"
  have row: "row \<in> set (t_users (w_db w))" using arg_cong [OF assms(5), of set] by auto
  have get: "GetUserByEmail (accounts bc pa) (lw_user_email wh) w = (Inr (userFromRow row), w\<lparr>w_faults := [False, False, True]\<rparr>)"
    using assms(4, 5)
    by (simp add: GetUserByEmail_def pg_UserRepo_def pg_UserRepo_GetByEmail_def q_GetUserByEmail_def query_def external_def
        one_row_def userFromGetByEmailRow_def effect_simps)
  have up: "UpgradeToPro (accounts bc pa) (usrr_id row) (int_to_dec (lw_customer_id wh)) (lw_id wh) (w\<lparr>w_faults := [False, False, True]\<rparr>)
      = (Inr (), ?w [True] (?plan\<lparr>t_users := ?ids\<rparr>))"
    by (simp add: UpgradeToPro_def pg_user_writes update_user_def statement_def external_def bindE_apply set_plan_def set_ids_def)
  have tag: "TagFromWebhook (billing cap) (usrr_id row) v (?w [True] (?plan\<lparr>t_users := ?ids\<rparr>))
      = (Inl InfraError, ?w [] (?plan\<lparr>t_users := ?ids\<rparr>))" for v
    by (simp add: TagFromWebhook_def tx_do_def external_def)
  have "HandleLemonSqueezy ?h body (hex_encode (hmac_sha256 secret body)) w
      = (Inr (send_status 200), ?w [] (?plan\<lparr>t_users := ?ids\<rparr>))"
    using assms(1-3) get up tag
    by (auto simp: HandleLemonSqueezy_def verifySignature_def subscription_event_def active_event_def bindE_apply attemptE_apply
        returnE_apply Let_def)
  moreover have "seats (set_plan (usrr_id row) PlanPro (t_users (w_db w))) = seats (t_users (w_db w)) + 1"
    using assms(6, 7) row by (intro seats_return)
  ultimately show ?thesis by simp
qed

section \<open>Examples\<close>

definition demo_event :: string where
  "demo_event = ''{\"meta\":{\"event_name\":\"subscription_created\"},\"data\":{\"id\":\"9\",\"attributes\":{\"status\":\"active\",\"user_email\":\"b@y.example\",\"variant_id\":5}}}''"

definition demo_lemon :: lemon_webhook where
  "demo_lemon = \<lparr>lw_event_name = ''subscription_created'', lw_customer_id = 0, lw_status = ''active'',
     lw_user_email = ''b@y.example'', lw_variant_id = 5, lw_id = ''9''\<rparr>"

lemma demo_event_parses: "parse_lemon demo_event = Inr demo_lemon"
  by code_simp

lemma founder_cap_holds_witness:
  "\<exists>s. (tag_step 1 (\<lambda>p. (1, ''founder'')))\<^sup>*\<^sup>* (tag_init [demo_user_row, demo_guest_row]) s \<and> ts_lock s = Some 3
    \<and> seats (ts_users s) \<le> 1"
proof -
  let ?s = "(tag_init [demo_user_row, demo_guest_row])\<lparr>ts_lock := Some 3, ts_pc := (\<lambda>_. Waiting)(3 := HoldsLock)\<rparr>"
  have "tag_step 1 (\<lambda>p. (1, ''founder'')) (tag_init [demo_user_row, demo_guest_row]) ?s"
    using tag_step.lock [of "tag_init [demo_user_row, demo_guest_row]" 3 "\<lambda>p. (1, ''founder'')" 1]
    by (simp add: tag_init_def)
  then have run: "(tag_step 1 (\<lambda>p. (1, ''founder'')))\<^sup>*\<^sup>* (tag_init [demo_user_row, demo_guest_row]) ?s" by blast
  have "seats [demo_user_row, demo_guest_row] \<le> 1" "distinct (map usrr_id [demo_user_row, demo_guest_row])"
    by (simp_all add: demo_defs is_founder_def)
  from founder_cap_holds [OF run this] run show ?thesis by (intro exI [of _ ?s]) simp
qed

lemma tagging_refines_steps_witness:
  "\<exists>s. (tag_step 1 (\<lambda>_. (1, ''founder'')))\<^sup>*\<^sup>* (tag_init (t_users (w_db demo_world))) s
    \<and> ts_users s = t_users (w_db (snd (TagFromWebhook (billing 1) 1 ''founder'' demo_world)))"
  using tagging_refines_steps [of 1 1 "''founder''" demo_world, OF prod.collapse [symmetric]] by blast

lemma webhook_acts_on_the_payer_witness:
  "\<forall>al. \<exists>r w'. HandleLemonSqueezy (webhooks plain_bcrypt (\<lambda>s. True) al 1 ''key'' ''5'' ''t'') demo_event
      (hex_encode (hmac_sha256 ''key'' demo_event)) demo_world = (r, w')
    \<and> (w_db w' = w_db demo_world \<or> (\<exists>rows. w_db w' = (w_db demo_world)\<lparr>t_users := rows\<rparr>
         \<and> list_all2 (payer_change 2) (t_users (w_db demo_world)) rows))"
proof
  fix al
  let ?run = "HandleLemonSqueezy (webhooks plain_bcrypt (\<lambda>s. True) al 1 ''key'' ''5'' ''t'') demo_event
      (hex_encode (hmac_sha256 ''key'' demo_event)) demo_world"
  obtain r w' where run: "?run = (r, w')" by (cases ?run)
  have "usrr_id row = 2" if "row \<in> set (t_users (w_db demo_world))" "usrr_email row = lw_user_email demo_lemon" for row
    using that by (auto simp: demo_defs demo_lemon_def)
  with webhook_acts_on_the_payer [OF run] run show "\<exists>r w'. ?run = (r, w') \<and> (w_db w' = w_db demo_world
      \<or> (\<exists>rows. w_db w' = (w_db demo_world)\<lparr>t_users := rows\<rparr> \<and> list_all2 (payer_change 2) (t_users (w_db demo_world)) rows))"
    unfolding demo_event_parses by auto
qed

lemma webhook_keeps_cap_witness:
  "\<forall>al. seats (t_users (w_db (snd (HandleLemonSqueezy (webhooks plain_bcrypt (\<lambda>s. True) al 1 ''key'' ''5'' ''t'') demo_event
      (hex_encode (hmac_sha256 ''key'' demo_event)) demo_world)))) \<le> 1"
proof
  fix al
  have "distinct (map usrr_id (t_users (w_db demo_world)))" by (simp add: demo_defs)
  moreover have "\<not> lapsed_founder row" if "row \<in> set (t_users (w_db demo_world))" for row
    using that by (auto simp: demo_defs lapsed_founder_def)
  moreover have "seats (t_users (w_db demo_world)) = 0" by (simp add: demo_defs is_founder_def)
  ultimately show "seats (t_users (w_db (snd (HandleLemonSqueezy (webhooks plain_bcrypt (\<lambda>s. True) al 1 ''key'' ''5'' ''t'') demo_event
      (hex_encode (hmac_sha256 ''key'' demo_event)) demo_world)))) \<le> 1"
    using webhook_keeps_cap [of plain_bcrypt "\<lambda>s. True" al 1 "''key''" "''5''" "''t''" demo_event
        "hex_encode (hmac_sha256 ''key'' demo_event)" demo_world, OF prod.collapse [symmetric]] by auto
qed

lemma returning_founder_exceeds_cap_witness:
  "\<forall>al. \<exists>w w'. HandleLemonSqueezy (webhooks plain_bcrypt (\<lambda>s. True) al 1 ''key'' ''5'' ''t'') demo_event
      (hex_encode (hmac_sha256 ''key'' demo_event)) w = (Inr (send_status 200), w')
    \<and> seats (t_users (w_db w)) = 1 \<and> seats (t_users (w_db w')) = 2"
proof
  fix al
  let ?row = "demo_guest_row\<lparr>usrr_subscription_variant := Some ''founder''\<rparr>"
  let ?w = "demo_world\<lparr>w_faults := [False, False, False, True],
    w_db := demo_db\<lparr>t_users := [demo_user_row\<lparr>usrr_subscription_variant := Some ''founder''\<rparr>, ?row]\<rparr>\<rparr>"
  have facts: "active_event demo_lemon" "w_faults ?w = [False, False, False, True]"
    "filter (\<lambda>r. usrr_email r = lw_user_email demo_lemon \<and> usr_live r) (t_users (w_db ?w)) = [?row]" "lapsed_founder ?row"
    "distinct (map usrr_id (t_users (w_db ?w)))"
    by (simp_all add: demo_defs demo_lemon_def active_event_def lapsed_founder_def)
  have key: "''key'' \<noteq> []" by simp
  have one: "seats (t_users (w_db ?w)) = 1" by (simp add: demo_defs is_founder_def)
  from returning_founder_exceeds_cap [OF key demo_event_parses facts, of plain_bcrypt "\<lambda>s. True" al 1 "''5''" "''t''"]
  obtain w' where run: "HandleLemonSqueezy (webhooks plain_bcrypt (\<lambda>s. True) al 1 ''key'' ''5'' ''t'') demo_event
      (hex_encode (hmac_sha256 ''key'' demo_event)) ?w = (Inr (send_status 200), w')"
    and more: "seats (t_users (w_db w')) = seats (t_users (w_db ?w)) + 1" by blast
  from more have two: "seats (t_users (w_db w')) = 2" unfolding one by simp
  from run one two
  show "\<exists>w w'. HandleLemonSqueezy (webhooks plain_bcrypt (\<lambda>s. True) al 1 ''key'' ''5'' ''t'') demo_event
      (hex_encode (hmac_sha256 ''key'' demo_event)) w = (Inr (send_status 200), w')
    \<and> seats (t_users (w_db w)) = 1 \<and> seats (t_users (w_db w')) = 2" by blast
qed

end
