(* ===== verification/Calendar.thy ===== *)
theory Calendar
  imports Domain
begin

text \<open>
  The part of Go's \<open>time\<close> package that formats and shifts dates: a \<open>time\<close> of the model is a
  number of nanoseconds since 1970-01-01 00:00 UTC, and a date of the proleptic Gregorian
  calendar is counted in years that start in March, so that the leap day comes last.
\<close>

section \<open>Days and dates\<close>

abbreviation day_length :: duration where
  "day_length \<equiv> hours 24"

definition zero_time :: time where
  "zero_time = seconds (- 62135596800)"

definition days_of_era :: "int \<Rightarrow> int \<Rightarrow> int" where
  "days_of_era yoe doy = yoe * 365 + yoe div 4 - yoe div 100 + doy"

text \<open>Days before the month \<open>mp\<close>, counted from March.\<close>

definition days_before :: "int \<Rightarrow> int" where
  "days_before mp = (153 * mp + 2) div 5"

definition days_of_date :: "int \<times> int \<times> int \<Rightarrow> int" where
  "days_of_date = (\<lambda>(y, m, d).
     let y' = (if m \<le> 2 then y - 1 else y); era = y' div 400; yoe = y' mod 400;
         mp = (if m > 2 then m - 3 else m + 9)
     in era * 146097 + days_of_era yoe (days_before mp + d - 1) - 719468)"

definition date_of_days :: "int \<Rightarrow> int \<times> int \<times> int" where
  "date_of_days n =
     (let z = n + 719468; era = z div 146097; doe = z mod 146097;
          yoe = (doe - doe div 1460 + doe div 36524 - doe div 146096) div 365;
          doy = doe - (365 * yoe + yoe div 4 - yoe div 100);
          mp = (5 * doy + 2) div 153; d = doy - days_before mp + 1;
          m = (if mp < 10 then mp + 3 else mp - 9); y = yoe + era * 400
      in (if m \<le> 2 then y + 1 else y, m, d))"

definition date_of :: "time \<Rightarrow> int \<times> int \<times> int" where
  "date_of t = date_of_days (t div day_length)"

text \<open>\<open>t.AddDate(years, 0, 0)\<close> in UTC: the day of the month is normalised, February 29 becomes March 1.\<close>

definition add_years :: "int \<Rightarrow> time \<Rightarrow> time" where
  "add_years n t = (case date_of t of (y, m, d) \<Rightarrow>
     (days_of_date (y + n, m, 1) + d - 1) * day_length + t mod day_length)"

section \<open>Formats\<close>

definition pad :: "nat \<Rightarrow> int \<Rightarrow> string" where
  "pad w n = (let s = int_to_dec n in replicate (w - length s) CHR ''0'' @ s)"

text \<open>\<open>t.UTC().Format(time.RFC3339)\<close>.\<close>

definition rfc3339 :: "time \<Rightarrow> string" where
  "rfc3339 t = (case date_of t of (y, m, d) \<Rightarrow>
     let s = (t mod day_length) div 1000000000 in
     pad 4 y @ ''-'' @ pad 2 m @ ''-'' @ pad 2 d @ ''T'' @ pad 2 (s div 3600) @ '':'' @
     pad 2 (s div 60 mod 60) @ '':'' @ pad 2 (s mod 60) @ ''Z'')"

section \<open>Durations\<close>

text \<open>Integer division of Go truncates towards zero.\<close>

definition go_div :: "int \<Rightarrow> int \<Rightarrow> int" where
  "go_div a b = sgn a * sgn b * (\<bar>a\<bar> div \<bar>b\<bar>)"

definition max_duration :: duration where
  "max_duration = 2 ^ 63 - 1"

definition min_duration :: duration where
  "min_duration = - (2 ^ 63)"

text \<open>\<open>t.Sub(u)\<close> saturates at the 64-bit durations.\<close>

definition time_sub :: "time \<Rightarrow> time \<Rightarrow> duration" where
  "time_sub t u = max min_duration (min max_duration (t - u))"

end
