(* ===== verification/Scheduler.thy ===== *)
theory Scheduler
  imports Monitoring Checkers Calendar
begin

text \<open>
  The scheduler process: the table of scheduled monitors and its dispatch loop
  (\<open>internal/adapter/checker/leader_scheduler.go\<close>), the publisher of check tasks
  (\<open>internal/adapter/nats/check_publisher.go\<close>), the handler of monitor changes
  (\<open>internal/bootstrap/scheduler.go\<close>), and several instances of it that elect a leader through
  a distributed lock. The lock (redsync) is a parameter.
\<close>

section \<open>The schedule\<close>

text \<open>\<open>lastTick\<close> is the zero time until the first dispatch, which is \<open>None\<close>.\<close>

record scheduled_monitor =
  sm_monitor :: monitor
  sm_last_tick :: "time option"

type_synonym schedule = "uuid \<Rightarrow> scheduled_monitor option"

definition LeaderScheduler_Add :: "monitor \<Rightarrow> schedule \<Rightarrow> schedule" where
  "LeaderScheduler_Add m s = s(mon_id m := Some \<lparr>sm_monitor = m, sm_last_tick = None\<rparr>)"

definition LeaderScheduler_Remove :: "uuid \<Rightarrow> schedule \<Rightarrow> schedule" where
  "LeaderScheduler_Remove i s = s(i := None)"

text \<open>
  \<open>now.Sub(lastTick)\<close>: the zero time lies more than the longest duration before any time at
  which the process runs.
\<close>

definition since_tick :: "time \<Rightarrow> scheduled_monitor \<Rightarrow> duration" where
  "since_tick now sm = (case sm_last_tick sm of None \<Rightarrow> max_duration | Some t \<Rightarrow> time_sub now t)"

definition due :: "time \<Rightarrow> scheduled_monitor \<Rightarrow> bool" where
  "due now sm \<longleftrightarrow> \<not> mon_is_paused (sm_monitor sm)
     \<and> \<not> since_tick now sm < go_seconds (mon_interval_seconds (sm_monitor sm))"

definition CheckPublisher_Publish :: "uuid \<Rightarrow> unit io" where
  "CheckPublisher_Publish i = wrapE ''publish check task''
     (external (modifyE (\<lambda>w. w\<lparr>w_check_tasks := w_check_tasks w @ [i]\<rparr>)))"

text \<open>
  The body of the loop over the schedule for the monitor under key \<open>k\<close>. Go visits a map in an
  arbitrary order, so the order of the keys is an argument.
\<close>

definition dispatch_one :: "time \<Rightarrow> uuid \<Rightarrow> schedule \<Rightarrow> schedule io" where
  "dispatch_one now k s = (case s k of
       None \<Rightarrow> returnE s
     | Some sm \<Rightarrow>
         if \<not> due now sm then returnE s
         else bindE (attemptE (CheckPublisher_Publish (mon_id (sm_monitor sm)))) (\<lambda>r. case r of
                Inl _ \<Rightarrow> returnE s
              | Inr _ \<Rightarrow> returnE (s(k := Some (sm\<lparr>sm_last_tick := Some now\<rparr>)))))"

definition dispatchDueChecks :: "uuid list \<Rightarrow> schedule \<Rightarrow> schedule io" where
  "dispatchDueChecks order s = bindE clock_now (\<lambda>now. foldE order s (dispatch_one now))"

definition DispatchAll :: "uuid list \<Rightarrow> schedule \<Rightarrow> unit io" where
  "DispatchAll order s = forE order (\<lambda>k. case s k of
       None \<Rightarrow> returnE ()
     | Some sm \<Rightarrow> if mon_is_paused (sm_monitor sm) then returnE ()
                  else CheckPublisher_Publish (mon_id (sm_monitor sm)))"

text \<open>The keys of a schedule, each once.\<close>

definition enumerates :: "uuid list \<Rightarrow> schedule \<Rightarrow> bool" where
  "enumerates order s \<longleftrightarrow> distinct order \<and> set order = dom s"

section \<open>Filling the schedule\<close>

text \<open>\<open>NewScheduler\<close> loads the active monitors, then follows the change events.\<close>

definition load_schedule :: "monitor_repo \<Rightarrow> schedule io" where
  "load_schedule repo = bindE (wrapE ''load active monitors'' (MonitorRepo_ListActive repo))
     (\<lambda>active. returnE (fold LeaderScheduler_Add active Map.empty))"

definition event_monitor :: "monitor_changed_event \<Rightarrow> monitor" where
  "event_monitor ev =
     \<lparr>mon_id = mce_monitor_id ev, mon_user_id = uuid_Nil, mon_name = mce_name ev, mon_type = mce_type ev,
      mon_check_config = mce_check_config ev, mon_interval_seconds = mce_interval_seconds ev,
      mon_alert_after_failures = mce_alert_after_failures ev, mon_is_paused = mce_is_paused ev,
      mon_is_public = False, mon_current_status = [], mon_created_at = zero_time\<rparr>"

definition on_monitor_changed :: "monitor_changed_event \<Rightarrow> schedule \<Rightarrow> schedule" where
  "on_monitor_changed ev s =
     (if mce_action ev \<in> {ActionCreate, ActionUpdate, ActionResume} then LeaderScheduler_Add (event_monitor ev) s
      else if mce_action ev \<in> {ActionDelete, ActionPause} then LeaderScheduler_Remove (mce_monitor_id ev) s
      else s)"

section \<open>Leader election\<close>

text \<open>
  \<open>port.DistributedMutex\<close> for instance \<open>i\<close> at a time, on the state of the lock service. The
  harness runs without election on \<open>noopMutex\<close>.
\<close>

record 'l distributed_mutex =
  DistributedMutex_Lock :: "nat \<Rightarrow> time \<Rightarrow> 'l \<Rightarrow> (goerr + unit) \<times> 'l"
  DistributedMutex_Extend :: "nat \<Rightarrow> time \<Rightarrow> 'l \<Rightarrow> (goerr + bool) \<times> 'l"
  DistributedMutex_Unlock :: "nat \<Rightarrow> time \<Rightarrow> 'l \<Rightarrow> (goerr + bool) \<times> 'l"

definition noopMutex :: "'l distributed_mutex" where
  "noopMutex = \<lparr>DistributedMutex_Lock = (\<lambda>_ _ l. (Inr (), l)),
                DistributedMutex_Extend = (\<lambda>_ _ l. (Inr True, l)),
                DistributedMutex_Unlock = (\<lambda>_ _ l. (Inr True, l))\<rparr>"

text \<open>
  One tick of \<open>Run\<close> up to the dispatch: the new state of the lock, whether the instance is the
  leader afterwards, and whether it goes on to dispatch.
\<close>

definition leader_tick :: "'l distributed_mutex \<Rightarrow> nat \<Rightarrow> time \<Rightarrow> bool \<Rightarrow> 'l \<Rightarrow> 'l \<times> bool \<times> bool" where
  "leader_tick M i now isLeader l =
     (if \<not> isLeader then (case DistributedMutex_Lock M i now l of
          (Inl _, l') \<Rightarrow> (l', False, False)
        | (Inr _, l') \<Rightarrow> (l', True, False))
      else (case DistributedMutex_Extend M i now l of
          (Inr True, l') \<Rightarrow> (l', True, True)
        | (_, l') \<Rightarrow> (l', False, False)))"

text \<open>\<open>Stop\<close>: the lock is released only by a leader, and its failure is only logged.\<close>

definition leader_stop :: "'l distributed_mutex \<Rightarrow> nat \<Rightarrow> time \<Rightarrow> bool \<Rightarrow> 'l \<Rightarrow> 'l" where
  "leader_stop M i now isLeader l = (if isLeader then snd (DistributedMutex_Unlock M i now l) else l)"

section \<open>Several instances\<close>

text \<open>
  An instance waits for its next tick, has extended the lock at a time and is about to read
  the clock and the schedule, or is publishing: the time of the extension, the time that the
  dispatch works with, and the keys still to visit. The goroutine that holds \<open>s.mu\<close> keeps
  change events out until the dispatch is over.
\<close>

datatype dispatching = Idle | Fenced time | Publishing time time "uuid list"

record scheduler_instance =
  in_schedule :: schedule
  in_leader :: bool
  in_stopped :: bool
  in_pc :: dispatching

record 'l cluster =
  cl_world :: world
  cl_lock :: 'l
  cl_inst :: "nat \<Rightarrow> scheduler_instance"

abbreviation upd_inst :: "nat \<Rightarrow> (scheduler_instance \<Rightarrow> scheduler_instance) \<Rightarrow> 'l cluster \<Rightarrow> 'l cluster" where
  "upd_inst i f c \<equiv> c\<lparr>cl_inst := (cl_inst c)(i := f (cl_inst c i))\<rparr>"

abbreviation cl_now :: "'l cluster \<Rightarrow> time" where
  "cl_now c \<equiv> w_app_clock (cl_world c)"

text \<open>
  Steps of any instance \<open>i\<close>. \<open>select\<close> picks any of the ready cases, so a cancelled instance may
  still take ticks. A monitor change is delivered to one instance: all of them share the durable
  consumer \<open>checker-worker\<close>.
\<close>

inductive cluster_step :: "'l distributed_mutex \<Rightarrow> 'l cluster \<Rightarrow> 'l cluster \<Rightarrow> bool" for M where
  tick: "in_pc (cl_inst c i) = Idle \<Longrightarrow>
    leader_tick M i (cl_now c) (in_leader (cl_inst c i)) (cl_lock c) = (l', leader', go) \<Longrightarrow>
    cluster_step M c (upd_inst i (\<lambda>x. x\<lparr>in_leader := leader', in_pc := (if go then Fenced (cl_now c) else Idle)\<rparr>)
      (c\<lparr>cl_lock := l'\<rparr>))"
| begin_dispatch: "in_pc (cl_inst c i) = Fenced e \<Longrightarrow> enumerates order (in_schedule (cl_inst c i)) \<Longrightarrow>
    cluster_step M c (upd_inst i (\<lambda>x. x\<lparr>in_pc := Publishing e (cl_now c) order\<rparr>) c)"
| publish: "in_pc (cl_inst c i) = Publishing e now (k # ks) \<Longrightarrow>
    dispatch_one now k (in_schedule (cl_inst c i)) (cl_world c) = (Inr s', w') \<Longrightarrow>
    cluster_step M c (upd_inst i (\<lambda>x. x\<lparr>in_schedule := s', in_pc := Publishing e now ks\<rparr>) (c\<lparr>cl_world := w'\<rparr>))"
| finish: "in_pc (cl_inst c i) = Publishing e now [] \<Longrightarrow>
    cluster_step M c (upd_inst i (\<lambda>x. x\<lparr>in_pc := Idle\<rparr>) c)"
| change: "(\<forall>e now ks. in_pc (cl_inst c i) \<noteq> Publishing e now ks) \<Longrightarrow>
    cluster_step M c (upd_inst i (\<lambda>x. x\<lparr>in_schedule := on_monitor_changed ev (in_schedule x)\<rparr>) c)"
| stop: "cluster_step M c (upd_inst i (\<lambda>x. x\<lparr>in_leader := False, in_stopped := True\<rparr>)
    (c\<lparr>cl_lock := leader_stop M i (cl_now c) (in_leader (cl_inst c i)) (cl_lock c)\<rparr>))"
| pass: "cl_now c \<le> w_app_clock w' \<Longrightarrow> cluster_step M c (c\<lparr>cl_world := w'\<rparr>)"

inductive_cases cluster_stepE: "cluster_step M c c'"

inductive cluster_run :: "'l distributed_mutex \<Rightarrow> 'l cluster \<Rightarrow> 'l cluster \<Rightarrow> bool" for M where
  start: "cluster_run M c c"
| step: "cluster_run M c c' \<Longrightarrow> cluster_step M c' c'' \<Longrightarrow> cluster_run M c c''"

text \<open>Every instance starts idle, running and without leadership.\<close>

definition fresh_instance :: "schedule \<Rightarrow> scheduler_instance" where
  "fresh_instance s = \<lparr>in_schedule = s, in_leader = False, in_stopped = False, in_pc = Idle\<rparr>"

definition fresh_cluster :: "'l cluster \<Rightarrow> bool" where
  "fresh_cluster c \<longleftrightarrow> (\<forall>i. \<exists>s. cl_inst c i = fresh_instance s)"

text \<open>The time of the extension under which an instance dispatches.\<close>

definition fenced_at :: "scheduler_instance \<Rightarrow> time option" where
  "fenced_at x = (case in_pc x of Idle \<Rightarrow> None | Fenced e \<Rightarrow> Some e | Publishing e _ _ \<Rightarrow> Some e)"

text \<open>
  What the code relies on of the lock, with its expiry: who owns the key at a time. A
  successful \<open>Lock\<close> or \<open>Extend\<close> gives it to the caller until the expiry, and no call of an
  instance takes it from another.
\<close>

definition spares :: "('l \<Rightarrow> time \<Rightarrow> nat option) \<Rightarrow> nat \<Rightarrow> time \<Rightarrow> 'l \<Rightarrow> 'l \<Rightarrow> bool" where
  "spares holder i t l l' \<longleftrightarrow> (\<forall>s j. t \<le> s \<longrightarrow> j \<noteq> i \<longrightarrow> holder l s = Some j \<longrightarrow> holder l' s = Some j)"

definition grants :: "('l \<Rightarrow> time \<Rightarrow> nat option) \<Rightarrow> duration \<Rightarrow> nat \<Rightarrow> time \<Rightarrow> 'l \<Rightarrow> bool" where
  "grants holder expiry i t l' \<longleftrightarrow> (\<forall>s. t \<le> s \<longrightarrow> s < t + expiry \<longrightarrow> holder l' s = Some i)"

definition lease_of :: "duration \<Rightarrow> 'l distributed_mutex \<Rightarrow> ('l \<Rightarrow> time \<Rightarrow> nat option) \<Rightarrow> bool" where
  "lease_of expiry M holder \<longleftrightarrow>
     (\<forall>i t l. spares holder i t l (snd (DistributedMutex_Lock M i t l))
        \<and> spares holder i t l (snd (DistributedMutex_Extend M i t l))
        \<and> spares holder i t l (snd (DistributedMutex_Unlock M i t l))
        \<and> (fst (DistributedMutex_Lock M i t l) = Inr () \<longrightarrow> grants holder expiry i t (snd (DistributedMutex_Lock M i t l)))
        \<and> (fst (DistributedMutex_Extend M i t l) = Inr True \<longrightarrow>
             grants holder expiry i t (snd (DistributedMutex_Extend M i t l))))"

text \<open>The expiry that \<open>NewScheduler\<close> asks for.\<close>

definition leader_expiry :: duration where
  "leader_expiry = seconds 10"

end
