(* ===== verification/Scheduler_Properties.thy ===== *)
theory Scheduler_Properties
  imports Scheduler Demo
begin

text \<open>
  What a dispatch publishes, how often a monitor is checked, and who dispatches: at most one
  of several instances, as long as leases last and nobody is told to stop.
\<close>

section \<open>One dispatch\<close>

definition keyed :: "schedule \<Rightarrow> bool" where
  "keyed s \<longleftrightarrow> (\<forall>k sm. s k = Some sm \<longrightarrow> mon_id (sm_monitor sm) = k)"

definition due_key :: "time \<Rightarrow> schedule \<Rightarrow> uuid \<Rightarrow> bool" where
  "due_key now s k \<longleftrightarrow> (case s k of None \<Rightarrow> False | Some sm \<Rightarrow> due now sm)"

definition mark :: "time \<Rightarrow> uuid list \<Rightarrow> schedule \<Rightarrow> schedule" where
  "mark now ks s = (\<lambda>k. if k \<in> set ks then map_option (\<lambda>sm. sm\<lparr>sm_last_tick := Some now\<rparr>) (s k) else s k)"

lemma mark_Nil [simp]: "mark now [] s = s"
  by (simp add: mark_def)

lemma mark_mark: "mark now ks (mark now [k] s) = mark now (k # ks) s"
  by (auto simp: mark_def fun_eq_iff option.map_comp comp_def)

lemma keyed_mark: "keyed s \<Longrightarrow> keyed (mark now ks s)"
  by (auto simp: keyed_def mark_def split: if_splits)

lemma keyed_empty: "keyed Map.empty"
  by (simp add: keyed_def)

lemma keyed_change: "keyed s \<Longrightarrow> keyed (on_monitor_changed ev s)"
  by (auto simp: keyed_def on_monitor_changed_def LeaderScheduler_Add_def LeaderScheduler_Remove_def event_monitor_def)

lemma due_key_mark: "k \<notin> set ks \<Longrightarrow> due_key now (mark t ks s) k = due_key now s k"
  by (simp add: due_key_def mark_def)

text \<open>Apart from the fault script, publishing changes the task log only.\<close>

definition published_tasks :: "uuid list \<Rightarrow> world \<Rightarrow> world \<Rightarrow> bool" where
  "published_tasks ps w w' \<longleftrightarrow> (\<exists>fs. w' = w\<lparr>w_faults := fs, w_check_tasks := w_check_tasks w @ ps\<rparr>
     \<and> (w_faults w = [] \<longrightarrow> fs = []))"

lemma published_tasks_Nil: "published_tasks [] w w"
  unfolding published_tasks_def by (rule exI [of _ "w_faults w"]) simp

lemma published_tasks_trans:
  "published_tasks ps u v \<Longrightarrow> published_tasks qs v w \<Longrightarrow> published_tasks (ps @ qs) u w"
  unfolding published_tasks_def by auto

lemma published_tasksD:
  assumes "published_tasks ps w w'"
  shows "w_check_tasks w' = w_check_tasks w @ ps" "w_db w' = w_db w" "w_app_clock w' = w_app_clock w"
    "w_alert_events w' = w_alert_events w" "w_faults w = [] \<Longrightarrow> w_faults w' = []"
  using assms unfolding published_tasks_def by auto

lemma Publish_cases:
  obtains w' e where "CheckPublisher_Publish i w = (Inl e, w')" "published_tasks [] w w'" "w_faults w \<noteq> []"
  | w' where "CheckPublisher_Publish i w = (Inr (), w')" "published_tasks [i] w w'"
proof (cases "w_faults w")
  case Nil
  have "published_tasks [i] w (w\<lparr>w_check_tasks := w_check_tasks w @ [i]\<rparr>)"
    unfolding published_tasks_def using Nil by (intro exI [of _ "[]"]) simp
  with Nil show ?thesis
    by (intro that(2)) (simp_all add: CheckPublisher_Publish_def external_def effect_simps)
next
  case (Cons b fs)
  show ?thesis
  proof (cases b)
    case True
    have "published_tasks [] w (w\<lparr>w_faults := fs\<rparr>)"
      unfolding published_tasks_def using Cons by (intro exI [of _ fs]) simp
    with Cons True show ?thesis
      by (intro that(1)) (simp_all add: CheckPublisher_Publish_def external_def effect_simps)
  next
    case False
    have "published_tasks [i] w (w\<lparr>w_faults := fs, w_check_tasks := w_check_tasks w @ [i]\<rparr>)"
      unfolding published_tasks_def using Cons by (intro exI [of _ fs]) simp
    with Cons False show ?thesis
      by (intro that(2)) (simp_all add: CheckPublisher_Publish_def external_def effect_simps)
  qed
qed

lemma dispatch_one_cases:
  assumes "keyed s"
  obtains (skip) w' where "dispatch_one now k s w = (Inr s, w')" "published_tasks [] w w'"
      "due_key now s k \<Longrightarrow> w_faults w \<noteq> []"
  | (publish) w' where "dispatch_one now k s w = (Inr (mark now [k] s), w')" "published_tasks [k] w w'" "due_key now s k"
proof (cases "due_key now s k")
  case False
  then have "dispatch_one now k s w = (Inr s, w)"
    by (auto simp: dispatch_one_def due_key_def effect_simps split: option.splits)
  with False show ?thesis by (intro skip [of w]) (simp_all add: published_tasks_Nil)
next
  case True
  then obtain sm where sm: "s k = Some sm" "due now sm" by (auto simp: due_key_def split: option.splits)
  with assms have id: "mon_id (sm_monitor sm) = k" by (simp add: keyed_def)
  have mk: "s(k \<mapsto> sm\<lparr>sm_last_tick := Some now\<rparr>) = mark now [k] s"
    using sm by (auto simp: mark_def fun_eq_iff)
  show ?thesis
  proof (rule Publish_cases [of k w])
    fix w' e assume "CheckPublisher_Publish k w = (Inl e, w')" "published_tasks [] w w'" "w_faults w \<noteq> []"
    with sm id show ?thesis by (intro skip [of w']) (simp_all add: dispatch_one_def effect_simps)
  next
    fix w' assume "CheckPublisher_Publish k w = (Inr (), w')" "published_tasks [k] w w'"
    with sm id mk True show ?thesis by (intro publish [of w']) (simp_all add: dispatch_one_def effect_simps)
  qed
qed

lemma dispatch_fold:
  assumes "keyed s" "distinct order"
  obtains ps w' where "foldE order s (dispatch_one now) w = (Inr (mark now ps s), w')"
    "published_tasks ps w w'" "distinct ps" "set ps \<subseteq> set (filter (due_key now s) order)"
    "w_faults w = [] \<Longrightarrow> ps = filter (due_key now s) order"
  using assms
proof (induction order arbitrary: s w thesis)
  case Nil
  then show ?case by (metis foldE.simps(1) returnE_apply mark_Nil published_tasks_Nil filter.simps(1) distinct.simps(1) subset_refl list.set(1))
next
  case (Cons k order)
  from Cons.prems have d: "distinct order" "k \<notin> set order" and ky: "keyed s" by auto
  show ?case
  proof (rule dispatch_one_cases [OF ky, of now k w])
    fix w' assume one: "dispatch_one now k s w = (Inr s, w')" "published_tasks [] w w'"
      "due_key now s k \<Longrightarrow> w_faults w \<noteq> []"
    obtain ps w'' where rest: "foldE order s (dispatch_one now) w' = (Inr (mark now ps s), w'')"
      "published_tasks ps w' w''" "distinct ps" "set ps \<subseteq> set (filter (due_key now s) order)"
      "w_faults w' = [] \<Longrightarrow> ps = filter (due_key now s) order"
      by (rule Cons.IH [OF _ ky d(1), of w']) (rule that; assumption)
    show ?case
      by (rule Cons.prems(1) [of ps w''])
         (use one rest published_tasks_trans [OF one(2) rest(2)] published_tasksD(5) [OF one(2)] in
           \<open>auto simp: effect_simps\<close>)
  next
    fix w' assume one: "dispatch_one now k s w = (Inr (mark now [k] s), w')" "published_tasks [k] w w'" "due_key now s k"
    let ?s = "mark now [k] s"
    have same: "filter (due_key now ?s) order = filter (due_key now s) order"
      using d(2) by (intro filter_cong refl due_key_mark) auto
    obtain ps w'' where rest: "foldE order ?s (dispatch_one now) w' = (Inr (mark now ps ?s), w'')"
      "published_tasks ps w' w''" "distinct ps" "set ps \<subseteq> set (filter (due_key now s) order)"
      "w_faults w' = [] \<Longrightarrow> ps = filter (due_key now s) order"
      by (rule Cons.IH [OF _ keyed_mark [OF ky] d(1), of now "[k]" w', unfolded same]) (rule that; assumption)
    show ?case
      by (rule Cons.prems(1) [of "k # ps" w''])
         (use one rest d(2) published_tasks_trans [OF one(2) rest(2)] published_tasksD(5) [OF one(2)] in
           \<open>auto simp: effect_simps mark_mark\<close>)
  qed
qed

lemma dispatchDueChecks_fold: "dispatchDueChecks order s w = foldE order s (dispatch_one (w_app_clock w)) w"
  by (simp add: dispatchDueChecks_def clock_now_def effect_simps)

lemma due_keyD: "due_key now s k \<Longrightarrow> \<exists>sm. s k = Some sm \<and> due now sm"
  by (auto simp: due_key_def split: option.splits)

text \<open>A dispatch never fails; it publishes due monitors only, each at most once, and every one
  of them when the broker takes the messages. Exactly the published monitors get the new tick, and
  the tables are untouched.\<close>

theorem dispatch_publishes_due:
  assumes "keyed s" "enumerates order s"
  shows "\<exists>ps w'. dispatchDueChecks order s w = (Inr (mark (w_app_clock w) ps s), w')
    \<and> w_check_tasks w' = w_check_tasks w @ ps \<and> distinct ps
    \<and> (\<forall>k \<in> set ps. due_key (w_app_clock w) s k)
    \<and> (w_faults w = [] \<longrightarrow> set ps = {k. due_key (w_app_clock w) s k})
    \<and> w_db w' = w_db w"
proof -
  let ?now = "w_app_clock w"
  from assms have d: "distinct order" "set order = dom s" by (simp_all add: enumerates_def)
  obtain ps w' where run: "foldE order s (dispatch_one ?now) w = (Inr (mark ?now ps s), w')"
    "published_tasks ps w w'" "distinct ps" "set ps \<subseteq> set (filter (due_key ?now s) order)"
    "w_faults w = [] \<Longrightarrow> ps = filter (due_key ?now s) order"
    by (rule dispatch_fold [OF assms(1) d(1), of ?now w]) (rule that; assumption)
  show ?thesis
    using run d published_tasksD [OF run(2)]
    by (intro exI [of _ ps] exI [of _ w']) (auto simp: dispatchDueChecks_fold dest: due_keyD)
qed

section \<open>The history of one scheduler\<close>

text \<open>
  \<open>sched_run K s0 w0 hist last s w\<close>: a leader that started from schedule \<open>s0\<close> in \<open>w0\<close> has dispatched at
  some ticks and received changes of monitors outside \<open>K\<close>; \<open>hist\<close> lists the published checks with
  the times of their dispatches and \<open>last\<close> is the time of the last event when that was a tick.
  Between the events the world goes its way; the clock does not go back.
\<close>

inductive sched_run ::
    "uuid set \<Rightarrow> schedule \<Rightarrow> world \<Rightarrow> (time \<times> uuid) list \<Rightarrow> time option \<Rightarrow> schedule \<Rightarrow> world \<Rightarrow> bool"
  for K s0 w0 where
  start: "sched_run K s0 w0 [] None s0 w0"
| tick: "sched_run K s0 w0 hist l s w \<Longrightarrow> enumerates order s \<Longrightarrow> dispatchDueChecks order s w = (Inr s', w') \<Longrightarrow>
    w_check_tasks w' = w_check_tasks w @ ps \<Longrightarrow>
    sched_run K s0 w0 (hist @ map (Pair (w_app_clock w)) ps) (Some (w_app_clock w)) s' w'"
| change: "sched_run K s0 w0 hist l s w \<Longrightarrow> mce_monitor_id ev \<notin> K \<Longrightarrow>
    sched_run K s0 w0 hist None (on_monitor_changed ev s) w"
| idle: "sched_run K s0 w0 hist l s w \<Longrightarrow> w_app_clock w \<le> w_app_clock w' \<Longrightarrow>
    (w_faults w = [] \<longrightarrow> w_faults w' = []) \<Longrightarrow> sched_run K s0 w0 hist None s w'"

definition fresh_schedule :: "schedule \<Rightarrow> bool" where
  "fresh_schedule s \<longleftrightarrow> keyed s \<and> (\<forall>k sm. s k = Some sm \<longrightarrow> sm_last_tick sm = None)"

text \<open>The monitors that the product accepts: from 30 seconds to one day.\<close>

abbreviation interval_of :: "scheduled_monitor \<Rightarrow> int" where
  "interval_of sm \<equiv> mon_interval_seconds (sm_monitor sm)"

lemma go_seconds_exact:
  assumes "0 < n" "n \<le> 86400"
  shows "go_seconds n = seconds n"
proof -
  have "0 \<le> n * 1000000000" "n * 1000000000 < 2 ^ 63" using assms by auto
  then show ?thesis
    unfolding go_seconds_def sint_sbintrunc' by (simp add: signed_take_bit_int_eq_self)
qed

lemma due_iff:
  assumes "0 < interval_of sm" "interval_of sm \<le> 86400" "sm_last_tick sm = Some t"
  shows "due now sm \<longleftrightarrow> \<not> mon_is_paused (sm_monitor sm) \<and> t + seconds (interval_of sm) \<le> now"
  using assms(1,2) unfolding due_def go_seconds_exact [OF assms(1,2)]
  by (auto simp: since_tick_def assms(3) time_sub_def max_duration_def min_duration_def)

lemma due_first:
  assumes "0 < interval_of sm" "interval_of sm \<le> 86400" "sm_last_tick sm = None"
  shows "due now sm \<longleftrightarrow> \<not> mon_is_paused (sm_monitor sm)"
  using assms(1,2) unfolding due_def go_seconds_exact [OF assms(1,2)]
  by (auto simp: since_tick_def assms(3) max_duration_def)

text \<open>What holds along a run: the last ticks are the last entries of the hist.\<close>

definition log_of :: "(time \<times> uuid) list \<Rightarrow> uuid \<Rightarrow> time list" where
  "log_of hist k = map fst (filter (\<lambda>(t, k'). k' = k) hist)"

lemma log_of_append: "log_of (xs @ ys) k = log_of xs k @ log_of ys k"
  by (simp add: log_of_def)

lemma log_of_tick: "distinct ps \<Longrightarrow> log_of (map (Pair t) ps) k = (if k \<in> set ps then [t] else [])"
  by (induction ps) (auto simp: log_of_def)

definition ticks_logged :: "(time \<times> uuid) list \<Rightarrow> schedule \<Rightarrow> world \<Rightarrow> bool" where
  "ticks_logged hist s w \<longleftrightarrow> keyed s \<and> (\<forall>k sm t. s k = Some sm \<longrightarrow> sm_last_tick sm = Some t \<longrightarrow>
      (t, k) \<in> set hist \<and> t \<le> w_app_clock w)"

lemma tick_cases:
  assumes "keyed s" "enumerates order s" "dispatchDueChecks order s w = (Inr s', w')"
    "w_check_tasks w' = w_check_tasks w @ ps"
  shows "s' = mark (w_app_clock w) ps s" "distinct ps" "\<And>k. k \<in> set ps \<Longrightarrow> due_key (w_app_clock w) s k"
    "w_faults w = [] \<Longrightarrow> set ps = {k. due_key (w_app_clock w) s k}" "w_app_clock w' = w_app_clock w"
    "w_faults w = [] \<Longrightarrow> w_faults w' = []"
proof -
  from assms(2) have d: "distinct order" "set order = dom s" by (simp_all add: enumerates_def)
  obtain qs v where run: "foldE order s (dispatch_one (w_app_clock w)) w = (Inr (mark (w_app_clock w) qs s), v)"
    "published_tasks qs w v" "distinct qs" "set qs \<subseteq> set (filter (due_key (w_app_clock w) s) order)"
    "w_faults w = [] \<Longrightarrow> qs = filter (due_key (w_app_clock w) s) order"
    by (rule dispatch_fold [OF assms(1) d(1), of "w_app_clock w" w]) (rule that; assumption)
  from run(1,2) assms(3,4) have eq: "v = w'" "qs = ps" "s' = mark (w_app_clock w) ps s"
    by (auto simp: dispatchDueChecks_fold dest: published_tasksD(1))
  show "s' = mark (w_app_clock w) ps s" by (rule eq(3))
  show "distinct ps" using run(3) eq by simp
  show "due_key (w_app_clock w) s k" if "k \<in> set ps" for k using run(4) eq that by auto
  show "set ps = {k. due_key (w_app_clock w) s k}" if "w_faults w = []"
    using run(5) [OF that] eq d by (auto dest: due_keyD)
  show "w_app_clock w' = w_app_clock w" "w_faults w = [] \<Longrightarrow> w_faults w' = []"
    using published_tasksD(3,5) [OF run(2)] eq by auto
qed

lemma run_ticks_logged:
  "sched_run K s0 w0 hist l s w \<Longrightarrow> fresh_schedule s0 \<Longrightarrow> ticks_logged hist s w"
proof (induction rule: sched_run.induct)
  case start
  then show ?case by (simp add: ticks_logged_def fresh_schedule_def)
next
  case (tick hist l s w order s' w' ps)
  from tick have inv: "ticks_logged hist s w" by simp
  then have ky: "keyed s" by (simp add: ticks_logged_def)
  note t = tick_cases [OF ky tick.hyps(2,3,4)]
  from inv keyed_mark [OF ky] show ?case
    unfolding ticks_logged_def t(1,5) by (auto simp: mark_def split: if_splits)
next
  case (change hist l s w ev)
  then show ?case
    by (auto simp: ticks_logged_def keyed_change)
       (auto simp: on_monitor_changed_def LeaderScheduler_Add_def LeaderScheduler_Remove_def split: if_splits)
next
  case (idle hist l s w w')
  then show ?case unfolding ticks_logged_def by (auto intro: order_trans)
qed

text \<open>C14: Checks keep coming: after every tick of a scheduler whose broker takes its messages, a check
  of every scheduled monitor that is not paused was published less than the monitor's interval
  ago, whatever changes arrived and whenever the ticks came.\<close>

theorem checks_keep_coming:
  assumes "sched_run {} s0 w0 hist (Some t) s w" "fresh_schedule s0" "w_faults w0 = []"
    "s k = Some sm" "\<not> mon_is_paused (sm_monitor sm)" "0 < interval_of sm" "interval_of sm \<le> 86400"
  shows "\<exists>t'. (t', k) \<in> set hist \<and> t' \<le> t \<and> t < t' + seconds (interval_of sm)"
proof -
  have quiet: "w_faults w' = []" if "sched_run {} s0 w0 h l s' w'" for h l s' w'
    using that
  proof (induction rule: sched_run.induct)
    case (tick hist l s w order s' w' ps)
    then have "keyed s" using run_ticks_logged assms(2) ticks_logged_def by blast
    from tick_cases(6) [OF this tick.hyps(2,3,4)] tick.IH show ?case by simp
  qed (simp_all add: assms(3))
  from assms(1) show ?thesis
  proof (cases rule: sched_run.cases)
    case (tick h l s1 w1 order ps)
    have inv: "ticks_logged h s1 w1" by (rule run_ticks_logged [OF tick(3) assms(2)])
    then have ky: "keyed s1" by (simp add: ticks_logged_def)
    note c = tick_cases [OF ky tick(4,5,6)]
    have all: "set ps = {k. due_key (w_app_clock w1) s1 k}" by (rule c(4)) (rule quiet [OF tick(3)])
    show ?thesis
    proof (cases "k \<in> set ps")
      case True
      with assms(6) tick(1,2) show ?thesis by (intro exI [of _ t]) auto
    next
      case False
      with c(1) assms(4) have sm: "s1 k = Some sm" by (simp add: mark_def)
      with False all have nd: "\<not> due t sm" by (simp add: due_key_def tick(2))
      obtain t' where t': "sm_last_tick sm = Some t'"
        using due_first [OF assms(6,7)] assms(5) nd by (cases "sm_last_tick sm") auto
      with inv sm have "(t', k) \<in> set h" "t' \<le> t" by (auto simp: ticks_logged_def tick(2))
      with due_iff [OF assms(6,7) t'] nd assms(5) tick(1) show ?thesis by (intro exI [of _ t']) auto
    qed
  qed
qed

lemma spaced_last:
  assumes "ts \<noteq> []" "sorted_wrt (\<lambda>t t'. t + d \<le> t') ts" "0 \<le> d" "last ts + d \<le> (now :: int)"
  shows "\<forall>t \<in> set ts. t + d \<le> now"
proof -
  from assms(1) obtain xs y where xs: "ts = xs @ [y]" by (cases ts rule: rev_cases) auto
  with assms(2) have le: "\<And>t. t \<in> set xs \<Longrightarrow> t + d \<le> y" by (simp add: sorted_wrt_append)
  show ?thesis
  proof
    fix t assume "t \<in> set ts"
    then consider "t = y" | "t \<in> set xs" using xs by auto
    then show "t + d \<le> now" using le [of t] assms(3,4) xs by cases auto
  qed
qed

text \<open>C18: Checks are spaced: one scheduler publishes two checks of a monitor at least the monitor's
  interval apart, as long as the monitor is not changed, also when the broker refuses some
  messages.\<close>

theorem checks_are_spaced:
  assumes "sched_run {k} s0 w0 hist l s w" "fresh_schedule s0" "s0 k = Some sm"
    "0 < interval_of sm" "interval_of sm \<le> 86400"
  shows "sorted_wrt (\<lambda>t t'. t + seconds (interval_of sm) \<le> t') (log_of hist k)"
proof -
  let ?I = "seconds (interval_of sm)"
  have "sorted_wrt (\<lambda>t t'. t + ?I \<le> t') (log_of hist k)
    \<and> s k = Some (sm\<lparr>sm_last_tick := (if log_of hist k = [] then None else Some (last (log_of hist k)))\<rparr>)"
    using assms(1)
  proof (induction rule: sched_run.induct)
    case start
    from assms(2,3) have "sm_last_tick sm = None" by (simp add: fresh_schedule_def)
    then show ?case using assms(3) by (simp add: log_of_def)
  next
    case (tick hist l s w order s' w' ps)
    have inv: "ticks_logged hist s w" by (rule run_ticks_logged [OF tick.hyps(1) assms(2)])
    then have ky: "keyed s" by (simp add: ticks_logged_def)
    note c = tick_cases [OF ky tick.hyps(2,3,4)]
    show ?case
    proof (cases "k \<in> set ps")
      case False
      with tick.IH c(1) show ?thesis by (simp add: log_of_append log_of_tick [OF c(2)] mark_def)
    next
      case True
      let ?sm = "sm\<lparr>sm_last_tick := (if log_of hist k = [] then None else Some (last (log_of hist k)))\<rparr>"
      from c(3) [OF True] tick.IH have due: "due (w_app_clock w) ?sm" by (simp add: due_key_def)
      have apart: "\<forall>t \<in> set (log_of hist k). t + ?I \<le> w_app_clock w"
      proof (cases "log_of hist k = []")
        case False
        then have l: "last (log_of hist k) + ?I \<le> w_app_clock w"
          using due_iff [of ?sm "last (log_of hist k)" "w_app_clock w"] due assms(4,5) by auto
        show ?thesis by (rule spaced_last [OF False conjunct1 [OF tick.IH] _ l]) (use assms(4) in simp)
      qed simp
      with True tick.IH c(1) show ?thesis
        by (auto simp: log_of_append log_of_tick [OF c(2)] mark_def sorted_wrt_append)
    qed
  next
    case (change hist l s w ev)
    then show ?case by (auto simp: on_monitor_changed_def LeaderScheduler_Add_def LeaderScheduler_Remove_def event_monitor_def)
  qed simp
  then show ?thesis by simp
qed

text \<open>A schedule with the monitor of the examples, which two ticks dispatch, a minute apart.\<close>

definition demo_schedule :: schedule where
  "demo_schedule = Map.empty(7 := Some \<lparr>sm_monitor = demo_monitor, sm_last_tick = None\<rparr>)"

lemma demo_schedule_facts:
  "keyed demo_schedule" "fresh_schedule demo_schedule" "enumerates [7] demo_schedule"
  "enumerates [7] (mark t ks demo_schedule)"
  by (auto simp: demo_schedule_def keyed_def fresh_schedule_def enumerates_def demo_monitor_def mark_def split: if_splits)

lemma demo_due: "set [7] = {k. due_key t demo_schedule k}"
  by (auto simp: due_key_def demo_schedule_def due_def since_tick_def go_seconds_exact demo_monitor_def max_duration_def
      split: if_splits option.splits)

lemma dispatch_publishes_due_witness:
  "\<exists>w'. dispatchDueChecks [7] demo_schedule demo_world = (Inr (mark (seconds 1000) [7] demo_schedule), w')
     \<and> w_check_tasks w' = [7] \<and> w_db w' = demo_db"
proof -
  have d: "w_app_clock demo_world = seconds 1000" "w_faults demo_world = []" "w_check_tasks demo_world = []"
    "w_db demo_world = demo_db" by (simp_all add: demo_world_def empty_world_def)
  from dispatch_publishes_due [OF demo_schedule_facts(1,3), of demo_world]
  obtain ps w' where run: "dispatchDueChecks [7] demo_schedule demo_world = (Inr (mark (seconds 1000) ps demo_schedule), w')"
    "w_check_tasks w' = ps" "distinct ps" "set ps = set [7]" "w_db w' = demo_db"
    unfolding d demo_due [symmetric] by auto
  from run(3,4) have "ps = [7]" by (cases ps; cases "tl ps") auto
  with run show ?thesis by (intro exI [of _ w']) simp
qed

lemma demo_tick:
  obtains w' where "dispatchDueChecks [7] demo_schedule demo_world = (Inr (mark (seconds 1000) [7] demo_schedule), w')"
    "w_check_tasks w' = w_check_tasks demo_world @ [7]" "w_app_clock w' = seconds 1000"
proof -
  have d: "w_app_clock demo_world = seconds 1000" "w_faults demo_world = []"
    by (simp_all add: demo_world_def empty_world_def)
  obtain ps w' where run: "foldE [7] demo_schedule (dispatch_one (seconds 1000)) demo_world = (Inr (mark (seconds 1000) ps demo_schedule), w')"
    "published_tasks ps demo_world w'" "distinct ps" "set ps \<subseteq> set (filter (due_key (seconds 1000) demo_schedule) [7])"
    "w_faults demo_world = [] \<Longrightarrow> ps = filter (due_key (seconds 1000) demo_schedule) [7]"
    by (rule dispatch_fold [OF demo_schedule_facts(1) distinct_singleton, of 7 "seconds 1000" demo_world]) (rule that; assumption)
  moreover have "due_key (seconds 1000) demo_schedule 7"
    using demo_due [of "seconds 1000"] by (metis list.set_intros(1) mem_Collect_eq)
  ultimately have ps: "ps = [7]" using d by simp
  show thesis
    by (rule that [of w']) (use run(1) d(1) published_tasksD(1,3) [OF run(2)] in \<open>simp_all only: dispatchDueChecks_fold ps\<close>)
qed

lemma demo_run:
  obtains w where "sched_run K demo_schedule demo_world [(seconds 1000, 7)] (Some (seconds 1000)) (mark (seconds 1000) [7] demo_schedule) w"
    "w_app_clock w = seconds 1000"
proof -
  obtain w where t: "dispatchDueChecks [7] demo_schedule demo_world = (Inr (mark (seconds 1000) [7] demo_schedule), w)"
    "w_check_tasks w = w_check_tasks demo_world @ [7]" "w_app_clock w = seconds 1000"
    by (rule demo_tick) (rule that; assumption)
  have "w_app_clock demo_world = seconds 1000" by (simp add: demo_world_def empty_world_def)
  with sched_run.tick [OF sched_run.start demo_schedule_facts(3) t(1,2)] t(3) show thesis by (intro that) auto
qed

lemma demo_marked: "mark t [7] demo_schedule 7 = Some \<lparr>sm_monitor = demo_monitor, sm_last_tick = Some t\<rparr>"
  by (simp add: mark_def demo_schedule_def)

lemma checks_keep_coming_witness:
  "\<exists>s w. sched_run {} demo_schedule demo_world [(seconds 1000, 7)] (Some (seconds 1000)) s w
     \<and> (\<exists>t'. (t', 7) \<in> {(seconds 1000, 7 :: uuid)} \<and> t' \<le> seconds 1000 \<and> seconds 1000 < t' + seconds 60)"
proof -
  obtain w where run: "sched_run {} demo_schedule demo_world [(seconds 1000, 7)] (Some (seconds 1000)) (mark (seconds 1000) [7] demo_schedule) w"
    by (rule demo_run) (rule that; assumption)
  have "w_faults demo_world = []" by (simp add: demo_world_def empty_world_def)
  from checks_keep_coming [OF run demo_schedule_facts(2) this demo_marked] run show ?thesis
    by (auto simp: demo_monitor_def)
qed

lemma checks_are_spaced_witness:
  "\<exists>s w. sched_run {7} demo_schedule demo_world [(seconds 1000, 7)] (Some (seconds 1000)) s w
     \<and> sorted_wrt (\<lambda>t t'. t + seconds 60 \<le> t') (log_of [(seconds 1000, 7)] 7)"
proof -
  obtain w where run: "sched_run {7} demo_schedule demo_world [(seconds 1000, 7)] (Some (seconds 1000)) (mark (seconds 1000) [7] demo_schedule) w"
    by (rule demo_run) (rule that; assumption)
  have "demo_schedule 7 = Some \<lparr>sm_monitor = demo_monitor, sm_last_tick = None\<rparr>" by (simp add: demo_schedule_def)
  from checks_are_spaced [OF run demo_schedule_facts(2) this] run show ?thesis by (auto simp: demo_monitor_def)
qed

section \<open>One dispatcher\<close>

text \<open>An instance that was not told to stop holds the lock from its last extension to the expiry.\<close>

definition leases_kept :: "duration \<Rightarrow> ('l \<Rightarrow> time \<Rightarrow> nat option) \<Rightarrow> 'l cluster \<Rightarrow> bool" where
  "leases_kept expiry holder c \<longleftrightarrow> (\<forall>i e t. fenced_at (cl_inst c i) = Some e \<longrightarrow> \<not> in_stopped (cl_inst c i) \<longrightarrow>
     cl_now c \<le> t \<longrightarrow> t < e + expiry \<longrightarrow> holder (cl_lock c) t = Some i)"

lemma lease_step:
  assumes "lease_of expiry M holder" "leader_tick M i now ldr l = (l', ldr', go)"
  shows "spares holder i now l l'" "go \<Longrightarrow> grants holder expiry i now l'"
  using assms by (auto simp: lease_of_def leader_tick_def split: if_splits prod.splits sum.splits bool.splits)
     (metis fst_conv snd_conv)+

lemma dispatch_clock: "dispatch_one now k s w = (r, w') \<Longrightarrow> w_app_clock w' = w_app_clock w"
  by (rule Publish_cases [of "mon_id (sm_monitor (the (s k)))" w])
     (auto simp: dispatch_one_def effect_simps dest: published_tasksD(3) split: option.splits if_splits)

lemma leases_kept_step:
  assumes law: "lease_of expiry M holder" and inv: "leases_kept expiry holder c" and st: "cluster_step M c c'"
  shows "leases_kept expiry holder c'"
proof -
  have old: "holder (cl_lock c) t = Some j"
    if "fenced_at (cl_inst c j) = Some e" "\<not> in_stopped (cl_inst c j)" "cl_now c \<le> t" "t < e + expiry" for j e t
    using inv that unfolding leases_kept_def by blast
  from st show ?thesis
  proof (cases rule: cluster_step.cases)
    case (tick i l' ldr' go)
    note sp = lease_step [OF law tick(3)]
    show ?thesis
      unfolding leases_kept_def
    proof (intro allI impI)
      fix j e t
      assume j: "fenced_at (cl_inst c' j) = Some e" "\<not> in_stopped (cl_inst c' j)" "cl_now c' \<le> t" "t < e + expiry"
      show "holder (cl_lock c') t = Some j"
      proof (cases "j = i")
        case True
        with j tick(1) have "go" "e = cl_now c" by (auto simp: fenced_at_def split: if_splits)
        with sp(2) j True tick(1) show ?thesis by (auto simp: grants_def)
      next
        case False
        with j tick(1) old [of j e t] have "holder (cl_lock c) t = Some j" by simp
        with sp(1) j False tick(1) show ?thesis by (auto simp: spares_def)
      qed
    qed
  next
    case (stop i)
    have sp: "spares holder i (cl_now c) (cl_lock c) (cl_lock c')"
      using law stop by (auto simp: leader_stop_def lease_of_def spares_def)
    show ?thesis
      unfolding leases_kept_def
    proof (intro allI impI)
      fix j e t
      assume j: "fenced_at (cl_inst c' j) = Some e" "\<not> in_stopped (cl_inst c' j)" "cl_now c' \<le> t" "t < e + expiry"
      with stop have ne: "j \<noteq> i" by auto
      with j stop old [of j e t] have "holder (cl_lock c) t = Some j" by simp
      with sp j ne stop show "holder (cl_lock c') t = Some j" by (auto simp: spares_def)
    qed
  next
    case (publish i e now k ks s' w')
    with old dispatch_clock [OF publish(3)] show ?thesis
      unfolding leases_kept_def by (auto simp: fenced_at_def)
  qed (use old in \<open>auto simp: leases_kept_def fenced_at_def split: if_splits dispatching.splits\<close>)
qed

lemma leases_kept_run:
  assumes "lease_of expiry M holder" "cluster_run M c0 c" "fresh_cluster c0"
  shows "leases_kept expiry holder c"
  using assms(2,3)
proof (induction rule: cluster_run.induct)
  case (start c)
  show ?case
    unfolding leases_kept_def
  proof (intro allI impI)
    fix i e and t :: time
    assume f: "fenced_at (cl_inst c i) = Some e"
    from start obtain s where "cl_inst c i = fresh_instance s" by (auto simp: fresh_cluster_def)
    with f show "holder (cl_lock c) t = Some i" by (simp add: fenced_at_def fresh_instance_def)
  qed
next
  case (step c c' c'')
  then show ?case using leases_kept_step [OF assms(1)] by blast
qed

lemma cluster_run_trans: "cluster_run M b c \<Longrightarrow> cluster_run M a b \<Longrightarrow> cluster_run M a c"
  by (induction rule: cluster_run.induct) (auto intro: cluster_run.step)

text \<open>C13: One dispatcher: however the ticks, dispatches, stops and change events of the instances
  interleave, at most one instance dispatches among those that were not told to stop and
  extended the lock less than ten seconds ago.\<close>

theorem one_dispatcher:
  assumes "lease_of leader_expiry M holder" "fresh_cluster c0" "cluster_run M c0 c"
    and "fenced_at (cl_inst c i) = Some e" "\<not> in_stopped (cl_inst c i)" "cl_now c < e + leader_expiry"
    and "fenced_at (cl_inst c j) = Some e'" "\<not> in_stopped (cl_inst c j)" "cl_now c < e' + leader_expiry"
  shows "i = j"
  using leases_kept_run [OF assms(1,3,2)] assms(4-) unfolding leases_kept_def by (metis option.inject order_refl)

text \<open>A lock with one key in the manner of Redis: its owner and the end of the lease.\<close>

definition owner_at :: "(nat \<times> time) option \<Rightarrow> time \<Rightarrow> nat option" where
  "owner_at l t = (case l of None \<Rightarrow> None | Some (i, e) \<Rightarrow> if t < e then Some i else None)"

definition one_key_lock :: "(nat \<times> time) option distributed_mutex" where
  "one_key_lock =
     \<lparr>DistributedMutex_Lock = (\<lambda>i t l. if owner_at l t = None then (Inr (), Some (i, t + leader_expiry))
                               else (Inl InfraError, l)),
      DistributedMutex_Extend = (\<lambda>i t l. if owner_at l t = Some i then (Inr True, Some (i, t + leader_expiry))
                                 else (Inr False, l)),
      DistributedMutex_Unlock = (\<lambda>i t l. if owner_at l t = Some i then (Inr True, None) else (Inr False, l))\<rparr>"

lemma one_key_lock_lease: "lease_of leader_expiry one_key_lock owner_at"
  by (auto simp: lease_of_def spares_def grants_def one_key_lock_def owner_at_def split: option.splits if_splits)

definition demo_cluster :: "(nat \<times> time) option cluster" where
  "demo_cluster = \<lparr>cl_world = demo_world, cl_lock = None, cl_inst = (\<lambda>_. fresh_instance demo_schedule)\<rparr>"

text \<open>Instance \<open>i\<close> takes the lock and extends it.\<close>

lemma takes_over:
  assumes "in_pc (cl_inst c i) = Idle" "\<not> in_leader (cl_inst c i)" "owner_at (cl_lock c) (cl_now c) = None"
  shows "\<exists>c'. cluster_run one_key_lock c c' \<and> cl_world c' = cl_world c \<and> cl_lock c' = Some (i, cl_now c + leader_expiry)
     \<and> (\<forall>j. j \<noteq> i \<longrightarrow> cl_inst c' j = cl_inst c j)
     \<and> cl_inst c' i = (cl_inst c i)\<lparr>in_leader := True, in_pc := Fenced (cl_now c)\<rparr>"
proof -
  let ?l = "Some (i, cl_now c + leader_expiry)"
  have pos: "cl_now c < cl_now c + leader_expiry" by (simp add: leader_expiry_def)
  have t1: "leader_tick one_key_lock i (cl_now c) (in_leader (cl_inst c i)) (cl_lock c) = (?l, True, False)"
    using assms by (simp add: leader_tick_def one_key_lock_def)
  note s1 = cluster_step.tick [where M = one_key_lock and c = c and i = i, OF assms(1) t1]
  let ?c1 = "upd_inst i (\<lambda>x. x\<lparr>in_leader := True, in_pc := Idle\<rparr>) (c\<lparr>cl_lock := ?l\<rparr>)"
  have t2: "leader_tick one_key_lock i (cl_now ?c1) (in_leader (cl_inst ?c1 i)) (cl_lock ?c1) = (?l, True, True)"
    using pos by (simp add: leader_tick_def one_key_lock_def owner_at_def)
  have s2: "cluster_step one_key_lock ?c1
      (upd_inst i (\<lambda>x. x\<lparr>in_leader := True, in_pc := Fenced (cl_now c)\<rparr>) (?c1\<lparr>cl_lock := ?l\<rparr>))"
    using cluster_step.tick [where M = one_key_lock and c = ?c1 and i = i, OF _ t2] by simp
  have "cluster_run one_key_lock c
      (upd_inst i (\<lambda>x. x\<lparr>in_leader := True, in_pc := Fenced (cl_now c)\<rparr>) (?c1\<lparr>cl_lock := ?l\<rparr>))"
    using cluster_run.step [OF cluster_run.step [OF cluster_run.start s1] ] s2 by simp
  then show ?thesis by (intro exI conjI, assumption) simp_all
qed

lemma one_dispatcher_witness:
  "\<exists>c. cluster_run one_key_lock demo_cluster c \<and> fenced_at (cl_inst c 0) = Some (seconds 1000)
     \<and> (\<forall>j. fenced_at (cl_inst c j) = Some (seconds 1000) \<longrightarrow> \<not> in_stopped (cl_inst c j) \<longrightarrow> j = 0)"
proof -
  have d: "cl_now demo_cluster = seconds 1000" "cl_lock demo_cluster = None"
    "\<And>i. cl_inst demo_cluster i = fresh_instance demo_schedule"
    by (simp_all add: demo_cluster_def demo_world_def empty_world_def)
  have fresh: "fresh_cluster demo_cluster" by (auto simp: fresh_cluster_def d)
  obtain c where c: "cluster_run one_key_lock demo_cluster c" "cl_world c = cl_world demo_cluster"
    "cl_inst c 0 = (fresh_instance demo_schedule)\<lparr>in_leader := True, in_pc := Fenced (seconds 1000)\<rparr>"
    using takes_over [of demo_cluster 0] by (auto simp: d fresh_instance_def owner_at_def)
  then have z: "fenced_at (cl_inst c 0) = Some (seconds 1000)" "\<not> in_stopped (cl_inst c 0)" "cl_now c < seconds 1000 + leader_expiry"
    using d(1) by (simp_all add: fenced_at_def fresh_instance_def leader_expiry_def)
  show ?thesis
    using c(1) z one_dispatcher [OF one_key_lock_lease fresh c(1) _ _ _ z] by (intro exI [of _ c]) auto
qed

text \<open>A stopping leader overlaps with its successor: \<open>Stop\<close> releases the lock while a dispatch is
  under way, so that two instances dispatch at the same time within one lease.\<close>

theorem stopping_leader_overlaps:
  "\<exists>c i j e. cluster_run one_key_lock demo_cluster c \<and> i \<noteq> j \<and> cl_now c < e + leader_expiry
     \<and> fenced_at (cl_inst c i) = Some e \<and> fenced_at (cl_inst c j) = Some e"
proof -
  have d: "cl_now demo_cluster = seconds 1000" "cl_lock demo_cluster = None"
    "\<And>i. cl_inst demo_cluster i = fresh_instance demo_schedule"
    by (simp_all add: demo_cluster_def demo_world_def empty_world_def)
  obtain c where c: "cluster_run one_key_lock demo_cluster c" "cl_world c = cl_world demo_cluster"
    "cl_lock c = Some (0, seconds 1000 + leader_expiry)" "\<forall>j. j \<noteq> 0 \<longrightarrow> cl_inst c j = fresh_instance demo_schedule"
    "cl_inst c 0 = (fresh_instance demo_schedule)\<lparr>in_leader := True, in_pc := Fenced (seconds 1000)\<rparr>"
    using takes_over [of demo_cluster 0] by (auto simp: d fresh_instance_def owner_at_def)
  let ?c = "upd_inst 0 (\<lambda>x. x\<lparr>in_leader := False, in_stopped := True\<rparr>)
    (c\<lparr>cl_lock := leader_stop one_key_lock 0 (cl_now c) (in_leader (cl_inst c 0)) (cl_lock c)\<rparr>)"
  have now: "cl_now c = seconds 1000" using c(2) d(1) by simp
  have st: "cluster_run one_key_lock demo_cluster ?c" by (rule cluster_run.step [OF c(1) cluster_step.stop])
  have free: "cl_lock ?c = None"
    using c now by (simp add: leader_stop_def one_key_lock_def owner_at_def leader_expiry_def)
  obtain c' where c': "cluster_run one_key_lock ?c c'" "cl_world c' = cl_world ?c"
    "\<forall>j. j \<noteq> 1 \<longrightarrow> cl_inst c' j = cl_inst ?c j"
    "cl_inst c' 1 = (cl_inst ?c 1)\<lparr>in_leader := True, in_pc := Fenced (cl_now ?c)\<rparr>"
    using takes_over [of ?c 1] free c(4) by (auto simp: fresh_instance_def owner_at_def)
  have run: "cluster_run one_key_lock demo_cluster c'" by (rule cluster_run_trans [OF c'(1) st])
  have "fenced_at (cl_inst c' 0) = Some (seconds 1000)" "fenced_at (cl_inst c' 1) = Some (seconds 1000)"
    "cl_now c' < seconds 1000 + leader_expiry"
    using c' c now by (simp_all add: fenced_at_def leader_expiry_def)
  with run show ?thesis by (intro exI [of _ c'] exI [of _ 0] exI [of _ 1] exI [of _ "seconds 1000"]) simp
qed

end
