(* ===== verification/Schedule_Sync.thy ===== *)
theory Schedule_Sync
  imports Scheduler_Properties Monitor_Properties
begin

text \<open>
  The schedule and the tables: the schedule that a scheduler loads has exactly the active
  monitors with their intervals, and applying the published change events keeps it so while
  users create, change, pause and delete monitors.
\<close>

section \<open>Active monitors\<close>

definition row_active :: "monitor_row \<Rightarrow> int option" where
  "row_active r = (if live r \<and> \<not> mnr_is_paused r then Some (from_int4 (mnr_interval_seconds r)) else None)"

definition active_in_db :: "database \<Rightarrow> uuid \<Rightarrow> int option" where
  "active_in_db d i = Option.bind (find (\<lambda>r. mnr_id r = i) (t_monitors d)) row_active"

definition active_in_schedule :: "schedule \<Rightarrow> uuid \<Rightarrow> int option" where
  "active_in_schedule s i = (case s i of None \<Rightarrow> None
     | Some sm \<Rightarrow> if mon_is_paused (sm_monitor sm) then None else Some (interval_of sm))"

definition in_step :: "database \<Rightarrow> schedule \<Rightarrow> bool" where
  "in_step d s \<longleftrightarrow> active_in_schedule s = active_in_db d"

text \<open>The columns that the schedule depends on.\<close>

definition sched_view :: "database \<Rightarrow> (uuid \<times> int option) list" where
  "sched_view d = map (\<lambda>r. (mnr_id r, row_active r)) (t_monitors d)"

lemma active_in_db_map_of: "active_in_db d i = Option.bind (map_of (sched_view d) i) id"
proof -
  have "Option.bind (find (\<lambda>r. mnr_id r = i) rows) row_active
      = Option.bind (map_of (map (\<lambda>r. (mnr_id r, row_active r)) rows) i) id" for rows
    by (induction rows) auto
  then show ?thesis by (simp add: active_in_db_def sched_view_def)
qed

lemma sched_view_keys: "map fst (sched_view d) = map mnr_id (t_monitors d)"
  by (simp add: sched_view_def)

lemma in_step_view: "sched_view d' = sched_view d \<Longrightarrow> in_step d' s = in_step d s"
  by (simp add: in_step_def fun_eq_iff active_in_db_map_of)

lemma active_add: "active_in_schedule (LeaderScheduler_Add m s)
    = (active_in_schedule s)(mon_id m := (if mon_is_paused m then None else Some (mon_interval_seconds m)))"
  by (auto simp: active_in_schedule_def LeaderScheduler_Add_def fun_eq_iff)

lemma active_remove: "active_in_schedule (LeaderScheduler_Remove i s) = (active_in_schedule s)(i := None)"
  by (auto simp: active_in_schedule_def LeaderScheduler_Remove_def fun_eq_iff)

text \<open>What the event of a mutation does to the schedule.\<close>

lemma active_event:
  assumes "a \<in> {ActionCreate, ActionUpdate, ActionResume} \<or> (a \<in> {ActionDelete, ActionPause} \<and> x = None)"
    and "a \<in> {ActionCreate, ActionUpdate, ActionResume} \<Longrightarrow>
         x = (if mon_is_paused m then None else Some (mon_interval_seconds m))"
  shows "active_in_schedule (on_monitor_changed (monitorToEvent a m) s) = (active_in_schedule s)(mon_id m := x)"
  using assms
  by (auto simp: on_monitor_changed_def monitorToEvent_def event_monitor_def active_add active_remove Let_def)

lemma active_update:
  assumes "distinct (map mnr_id rows)" "r \<in> set rows" "p r" "\<And>x. p x \<Longrightarrow> mnr_id x = mnr_id r" "\<And>x. mnr_id (f x) = mnr_id x"
  shows "active_in_db (d\<lparr>t_monitors := update_where p f rows\<rparr>)
      = (active_in_db (d\<lparr>t_monitors := rows\<rparr>))(mnr_id r := row_active (f r))"
proof -
  have other: "find (\<lambda>r. mnr_id r = i) (update_where p f rows) = find (\<lambda>r. mnr_id r = i) rows" if "i \<noteq> mnr_id r" for i
    using that assms(4,5) unfolding update_where_def by (induction rows) auto
  have this_row: "find (\<lambda>x. mnr_id x = mnr_id r) (update_where p f rows) = Some (f r)"
    using assms(1,2)
  proof (induction rows)
    case (Cons y ys)
    show ?case
    proof (cases "y = r")
      case True
      with assms(3,5) show ?thesis by (simp add: update_where_def)
    next
      case False
      with Cons.prems have ne: "mnr_id y \<noteq> mnr_id r" "r \<in> set ys" by auto
      with assms(4) have "\<not> p y" by blast
      with ne Cons show ?thesis by (simp add: update_where_def)
    qed
  qed simp
  show ?thesis using other this_row by (auto simp: active_in_db_def fun_eq_iff)
qed

lemma active_snoc:
  assumes "\<not> monitor_exists d (mnr_id r)"
  shows "active_in_db (d\<lparr>t_monitors := t_monitors d @ [r]\<rparr>) = (active_in_db d)(mnr_id r := row_active r)"
proof -
  have f: "\<forall>x \<in> set rows. mnr_id x \<noteq> mnr_id r \<Longrightarrow>
      find (\<lambda>x. mnr_id x = i) (rows @ [r]) = (if i = mnr_id r then Some r else find (\<lambda>x. mnr_id x = i) rows)" for rows i
    by (induction rows) auto
  from assms have "\<forall>x \<in> set (t_monitors d). mnr_id x \<noteq> mnr_id r" by (auto simp: monitor_exists_def)
  from f [OF this] show ?thesis by (simp add: active_in_db_def fun_eq_iff)
qed

section \<open>Calls that publish no change\<close>

text \<open>
  The relation of code that publishes no monitor change, has no fault as long as the script
  has none, and leaves a view of the tables alone.
\<close>

definition calm :: "(database \<Rightarrow> 'v) \<Rightarrow> world \<Rightarrow> world \<Rightarrow> bool" where
  "calm v w w' \<longleftrightarrow> w_monitor_events w' = w_monitor_events w \<and> (w_faults w = [] \<longrightarrow> w_faults w' = [])
     \<and> v (w_db w') = v (w_db w)"

interpretation calmly: step_rel "calm v" for v
  by unfold_locales (auto simp: calm_def)

lemma calm_external: "steps_by (calm v) m \<Longrightarrow> steps_by (calm v) (external m)"
  unfolding steps_by_def external_def calm_def by (auto split: list.splits bool.splits)

lemma calm_query: "steps_by (calm v) (query q)"
  unfolding query_def by (rule calm_external) (simp add: steps_by_def calm_def)

lemma calm_statement:
  assumes "\<And>d now x d'. q d now = Inr (x, d') \<Longrightarrow> v d' = v d"
  shows "steps_by (calm v) (statement q)"
  unfolding statement_def by (rule calm_external) (auto simp: steps_by_def calm_def split: sum.splits dest: assms)

lemma calm_tx_do:
  assumes "steps_by (calm v) m"
  shows "steps_by (calm v) (tx_do m)"
  unfolding tx_do_def
proof (rule calm_external, rule steps_byI)
  fix w
  obtain r w' where mw: "m w = (r, w')" by (cases "m w")
  with steps_byD [OF assms mw] show "calm v w (snd (case m w of (Inl e, w') \<Rightarrow> (Inl e, w'\<lparr>w_db := w_db w\<rparr>)
       | (Inr x, w') \<Rightarrow> (case w_faults w' of [] \<Rightarrow> (Inr x, w')
         | True # fs \<Rightarrow> (Inl InfraError, w'\<lparr>w_faults := fs, w_db := w_db w\<rparr>)
         | False # fs \<Rightarrow> (Inr x, w'\<lparr>w_faults := fs\<rparr>))))"
    by (auto simp: calm_def split: sum.splits list.splits bool.splits)
qed

lemma calm_primitives:
  "steps_by (calm v) nextval" "steps_by (calm v) gen_random_uuid" "steps_by (calm v) clock_now"
  "steps_by (calm v) (record_metric m)" "steps_by (calm v) (read_random n)"
proof -
  show "steps_by (calm v) (read_random n)"
    unfolding read_random_def by (rule calm_external) (simp add: steps_by_def calm_def)
qed (simp_all add: steps_by_def calm_def nextval_def gen_random_uuid_def clock_now_def record_metric_def effect_simps)

lemmas calm_rules = calmly.rules calm_query calm_tx_do calm_primitives

lemma calm_encrypt: "steps_by (calm v) (encryptConfig (deployed_cipher k) cfg)"
  unfolding encryptConfig_def deployed_cipher_def
  by (cases k) (auto simp: Encryptor_def NoOpCipher_def Encrypt_def intro!: calm_rules)

lemma calm_reads:
  "steps_by (calm v) (loadOwnedMonitor (api k net) i u)" "steps_by (calm v) (metric_of (api k net) x)"
  "steps_by (calm v) (pg_MonitorRepo_GetByID C i)" "steps_by (calm v) (pg_MonitorRepo_CountByUserID i)"
  "steps_by (calm v) (pg_IncidentRepo_GetByID n)"
  unfolding loadOwnedMonitor_def metric_of_def api_ports pg_MonitorRepo_GetByID_def q_GetMonitorByID_def
    decrypted_monitor_def pg_MonitorRepo_CountByUserID_def q_CountMonitorsByUserID_def
    pg_IncidentRepo_GetByID_def q_GetIncidentByID_def
  by (intro calm_rules)+

fun on_monitors :: "api_call \<Rightarrow> bool" where
  "on_monitors (CallCreateMonitor _ _ _ _ _ _) = True"
| "on_monitors (CallUpdateMonitor _ _) = True"
| "on_monitors (CallDeleteMonitor _) = True"
| "on_monitors (CallToggleMonitorPause _) = True"
| "on_monitors _ = False"

lemma view_group_id: "row_active (r\<lparr>mnr_group_id := g\<rparr>) = row_active r"
  by (simp add: row_active_def live_def)

lemma calm_statements:
  "steps_by (calm sched_view) (q_UpdateIncidentState n st)" "steps_by (calm sched_view) (q_ResolveIncident n t)"
  "steps_by (calm sched_view) (q_CreateIncidentUpdate cu)" "steps_by (calm sched_view) (q_CreateIncident ci)"
  "steps_by (calm sched_view) (q_CreateMaintenanceWindow cw)" "steps_by (calm sched_view) (q_DeleteMaintenanceWindow n u)"
  "steps_by (calm sched_view) (q_CreateMonitorGroup u nm pz)" "steps_by (calm sched_view) (q_UpdateMonitorGroup n u nm pz)"
  "steps_by (calm sched_view) (q_DeleteMonitorGroup n u)" "steps_by (calm sched_view) (q_AssignMonitorToGroup i u g)"
  unfolding q_UpdateIncidentState_def q_ResolveIncident_def q_CreateIncidentUpdate_def q_CreateIncident_def
    q_CreateMaintenanceWindow_def q_DeleteMaintenanceWindow_def q_CreateMonitorGroup_def q_UpdateMonitorGroup_def
    q_DeleteMonitorGroup_def q_AssignMonitorToGroup_def
  by ((intro calmly.bindE calm_primitives calm_statement)?;
      auto simp: Let_def one_row_def view_group_id sched_view_def update_where_def split: if_splits list.splits)+

lemma calm_calls:
  assumes "\<not> on_monitors c"
  shows "steps_by (calm sched_view) (handle_call (api k net) u c)"
proof (cases c)
  case (CallCreateIncident m title body)
  show ?thesis
    unfolding CallCreateIncident handle_call.simps CreateManualIncident_def manual_incident_tx_def Let_def api_ports
      pg_IncidentRepo_Create_def pg_IncidentUpdateRepo_Create_def
    by (intro calm_rules calm_reads calm_statements)
next
  case (CallUpdateIncidentState i st body)
  show ?thesis
    unfolding CallUpdateIncidentState handle_call.simps ChangeIncidentState_def change_state_tx_def api_ports
      pg_IncidentRepo_Resolve_def pg_IncidentUpdateRepo_Create_def
    by (intro calm_rules calm_reads calm_statements)
next
  case (CallScheduleMaintenanceWindow m t t' reason)
  show ?thesis
    unfolding CallScheduleMaintenanceWindow handle_call.simps ScheduleMaintenance_def with_maintenance_def api_ports option.case
      pg_MaintenanceWindowRepo_def maintenance_window_repo.simps pg_MaintenanceWindowRepo_Create_def
    by (intro calm_rules calm_reads calm_statements)
qed (use assms in \<open>simp_all add: DeleteMaintenanceWindow_def CreateMonitorGroup_def UpdateMonitorGroup_def
       DeleteMonitorGroup_def AssignMonitorGroup_def with_maintenance_def pg_MaintenanceWindowRepo_def
       pg_MonitorGroupRepo_def pg_MonitorGroupRepo_Create_def pg_MonitorGroupRepo_Update_def\<close>,
     (intro calm_rules calm_statements)+)

section \<open>Calls that publish a change\<close>

lemma published_quiet:
  assumes "w_faults w = []"
  shows "published (api k net) a m w = (Inr (m, None), w\<lparr>w_monitor_events := w_monitor_events w @ [monitorToEvent a m]\<rparr>)"
  using assms by (simp add: published_def publishMonitorEvent_def PublishMonitorChanged_def external_def effect_simps)

text \<open>The effect of a mutation without faults: one event, and the monitor it names.\<close>

definition announced :: "world \<Rightarrow> world \<Rightarrow> string \<Rightarrow> monitor \<Rightarrow> int option \<Rightarrow> bool" where
  "announced w w' a m x \<longleftrightarrow> w_monitor_events w' = w_monitor_events w @ [monitorToEvent a m]
     \<and> active_in_db (w_db w') = (active_in_db (w_db w))(mon_id m := x)
     \<and> distinct (map mnr_id (t_monitors (w_db w')))
     \<and> (a \<in> {ActionCreate, ActionUpdate, ActionResume} \<or> (a \<in> {ActionDelete, ActionPause} \<and> x = None))
     \<and> (a \<in> {ActionCreate, ActionUpdate, ActionResume} \<longrightarrow>
          x = (if mon_is_paused m then None else Some (mon_interval_seconds m)))"

lemma announced_in_step:
  assumes "announced w w' a m x" "in_step (w_db w) s" "w_monitor_events w' = w_monitor_events w @ evs"
  shows "in_step (w_db w') (fold on_monitor_changed evs s) \<and> distinct (map mnr_id (t_monitors (w_db w')))"
proof -
  from assms(1,3) have "evs = [monitorToEvent a m]" by (simp add: announced_def)
  then have "fold on_monitor_changed evs s = on_monitor_changed (monitorToEvent a m) s" by simp
  moreover have "active_in_schedule (on_monitor_changed (monitorToEvent a m) s) = (active_in_schedule s)(mon_id m := x)"
    by (rule active_event) (use assms(1) in \<open>simp_all only: announced_def\<close>)
  ultimately show ?thesis using assms(1,2) by (simp only: announced_def in_step_def)
qed

lemma update_where_keys: "(\<And>x. mnr_id (f x) = mnr_id x) \<Longrightarrow> map mnr_id (update_where p f rows) = map mnr_id rows"
  by (simp add: update_where_def)

lemma calm_quiet: "steps_by (calm v) m \<Longrightarrow> m w = (r, w') \<Longrightarrow> w_faults w = [] \<Longrightarrow>
   w_faults w' = [] \<and> w_monitor_events w' = w_monitor_events w"
  using steps_byD [of "calm v" m w r w'] by (simp add: calm_def)

lemma filter_head: "filter p xs = z # zs \<Longrightarrow> \<exists>r \<in> set xs. p r \<and> r = z"
  by (metis list.set_intros(1) mem_Collect_eq set_filter)

lemma stored_monitor_sel:
  assumes "m = (toDomainMonitor r)\<lparr>mon_check_config := c\<rparr>"
  shows "mon_id m = mnr_id r" "mon_is_paused m = mnr_is_paused r" "mon_interval_seconds m = from_int4 (mnr_interval_seconds r)"
  unfolding assms by (simp_all add: toDomainMonitor_def)

lemma Toggle_announced:
  assumes "TogglePause (api k net) usr i w = (Inr x, w')" "w_faults w = []" "distinct (map mnr_id (t_monitors (w_db w)))"
  shows "\<exists>a m y. announced w w' a m y"
proof -
  let ?p = "own_live i (usr_id usr)"
  from assms(1) obtain old w1 m w2 where load: "loadOwnedMonitor (api k net) i (usr_id usr) w = (Inr old, w1)"
    and toggle: "pg_MonitorRepo_TogglePause (deployed_cipher k) i (usr_id usr) w1 = (Inr m, w2)"
    and pub: "published (api k net) (if mon_is_paused m then ActionPause else ActionResume) m w2 = (Inr x, w')"
    unfolding TogglePause_def api_ports by (elim bindE_InrE mapErrE_InrE) (auto simp del: api_ports)
  have ct: "steps_by (calm (\<lambda>_. ())) (pg_MonitorRepo_TogglePause (deployed_cipher k) i (usr_id usr))"
    unfolding pg_MonitorRepo_TogglePause_def q_ToggleMonitorPause_def decrypted_monitor_def
    by (intro calm_rules calm_statement) simp
  have q: "w_faults w2 = []" "w_monitor_events w2 = w_monitor_events w"
    using calm_quiet [OF calm_reads(1) load assms(2)] calm_quiet [OF ct toggle] by auto
  have w1: "w_db w1 = w_db w" using readonlyD [OF readonly_owned load] .
  have pf: "?p = (\<lambda>r. mnr_id r = i \<and> mnr_user_id r = usr_id usr \<and> live r)" "flip = (\<lambda>r. r\<lparr>mnr_is_paused := \<not> mnr_is_paused r\<rparr>)"
    by (simp_all add: fun_eq_iff own_live_def flip_def)
  obtain r where r: "r \<in> set (t_monitors (w_db w))" "?p r" "m = (toDomainMonitor (flip r))\<lparr>mon_check_config := mon_check_config m\<rparr>"
    and db: "w_db w2 = (w_db w)\<lparr>t_monitors := update_where ?p flip (t_monitors (w_db w))\<rparr>"
  proof -
    from TogglePause_InrD(1) [of k net usr i w] assms(1) obtain z zs where f: "filter ?p (t_monitors (w_db w)) = z # zs"
      by (cases x) (auto simp: neq_Nil_conv)
    have "m = (toDomainMonitor (flip z))\<lparr>mon_check_config := mon_check_config m\<rparr>
      \<and> w_db w2 = (w_db w)\<lparr>t_monitors := update_where ?p flip (t_monitors (w_db w))\<rparr>"
      using toggle w1 unfolding pg_MonitorRepo_TogglePause_def q_ToggleMonitorPause_def Let_def pf [symmetric]
      by (auto elim!: bindE_InrE statement_InrE liftE_InrE simp: returnE_apply decrypted_monitor_def Let_def one_row_def f)
    with filter_head [OF f] show thesis using that by blast
  qed
  have id: "mon_id m = mnr_id r" "mon_is_paused m = (\<not> mnr_is_paused r)" "mon_interval_seconds m = from_int4 (mnr_interval_seconds r)"
    using stored_monitor_sel [OF r(3)] by (simp_all add: flip_def)
  have live: "live r" using r(2) by (simp add: own_live_def)
  have act: "active_in_db (w_db w2) = (active_in_db (w_db w))(mnr_id r := row_active (flip r))"
    using active_update [OF assms(3) r(1), of ?p flip "w_db w"] r(2) unfolding db by (auto simp: own_live_def flip_def)
  have keys: "distinct (map mnr_id (t_monitors (w_db w2)))"
    unfolding db using assms(3) by (simp add: update_where_keys flip_def)
  have w': "w' = w2\<lparr>w_monitor_events := w_monitor_events w2 @ [monitorToEvent (if mon_is_paused m then ActionPause else ActionResume) m]\<rparr>"
    using pub published_quiet [OF q(1)] by simp
  have "announced w w' (if mon_is_paused m then ActionPause else ActionResume) m (row_active (flip r))"
    using live act keys q(2) id unfolding announced_def w' by (auto simp: row_active_def flip_def live_def)
  then show ?thesis by blast
qed

lemma owned_row:
  assumes "loadOwnedMonitor (api k net) i u w = (Inr old, w')"
  shows "\<exists>r \<in> set (t_monitors (w_db w)). own_live i u r" "mon_id old = i" "mon_user_id old = u"
proof -
  from assms obtain w1 where get: "pg_MonitorRepo_GetByID (deployed_cipher k) i w = (Inr old, w1)" and own: "mon_user_id old = u"
    unfolding loadOwnedMonitor_def api_ports
    by (auto elim!: bindE_InrE simp: returnE_apply throwE_apply split: if_splits)
  from GetByID_InrD [OF get] own show "\<exists>r \<in> set (t_monitors (w_db w)). own_live i u r" "mon_id old = i" "mon_user_id old = u"
    by (auto simp: own_live_def)
qed

lemma Create_announced:
  assumes "CreateMonitor (api k net) usr inp w = (Inr x, w')" "cmo_channel_ids inp = []" "w_faults w = []"
    "distinct (map mnr_id (t_monitors (w_db w)))"
  shows "\<exists>a m y. announced w w' a m y"
proof -
  from assms(1,2) obtain n w1 mon m w2 w3 where
    count: "pg_MonitorRepo_CountByUserID (usr_id usr) w = (Inr n, w1)"
    and prep: "prepare_monitor (api k net) usr inp n = Inr mon"
    and store: "pg_MonitorRepo_Create (deployed_cipher k) mon w1 = (Inr m, w2)"
    and metric: "metric_of (api k net) MonitorCreated w2 = (Inr (), w3)"
    and pub: "published (api k net) ActionCreate m w3 = (Inr x, w')"
    unfolding CreateMonitor_def api_ports
    by (elim bindE_InrE mapErrE_InrE liftE_InrE) (auto simp del: api_ports)
  have cc: "steps_by (calm (\<lambda>_. ())) (pg_MonitorRepo_Create (deployed_cipher k) mon)"
    unfolding pg_MonitorRepo_Create_def q_CreateMonitor_def decrypted_monitor_def
    by (intro calm_rules calm_encrypt calm_statement) simp
  have q: "w_faults w3 = []" "w_monitor_events w3 = w_monitor_events w"
    using calm_quiet [OF calm_reads(4) count assms(3)] calm_quiet [OF cc store] calm_quiet [OF calm_reads(2) metric] by auto
  have w1: "w_db w1 = w_db w"
    using steps_byD [OF calm_reads(4) [of id] count] by (simp add: calm_def)
  have w3: "w_db w3 = w_db w2" using steps_byD [OF view_service(2) metric, of id] by simp
  obtain cfg where fresh: "\<not> monitor_exists (w_db w) (w_next_uuid w1)"
    and m: "m = (toDomainMonitor (stored_row (w_next_uuid w1) cfg (w_db_clock w1) mon))\<lparr>mon_check_config := mon_check_config m\<rparr>"
    and db: "w_db w2 = (w_db w)\<lparr>t_monitors := t_monitors (w_db w) @ [stored_row (w_next_uuid w1) cfg (w_db_clock w1) mon]\<rparr>"
    using Create_InrD [OF store] unfolding w1 by (elim exE conjE) (rule that; assumption)
  let ?r = "stored_row (w_next_uuid w1) cfg (w_db_clock w1) mon"
  have id: "mon_id m = mnr_id ?r" "mon_is_paused m = mnr_is_paused ?r" "mon_interval_seconds m = from_int4 (mnr_interval_seconds ?r)"
    by (rule stored_monitor_sel [OF m])+
  have r: "mnr_id ?r = w_next_uuid w1" "live ?r" by (simp_all add: stored_row_def live_def)
  have act: "active_in_db (w_db w2) = (active_in_db (w_db w))(mon_id m := row_active ?r)"
    unfolding db id(1) by (rule active_snoc) (simp only: r fresh not_False_eq_True)
  have keys: "distinct (map mnr_id (t_monitors (w_db w2)))"
    unfolding db using assms(4) fresh r(1) by (auto simp: monitor_exists_def)
  have w': "w' = w3\<lparr>w_monitor_events := w_monitor_events w3 @ [monitorToEvent ActionCreate m]\<rparr>"
    using pub published_quiet [OF q(1)] by simp
  have "announced w w' ActionCreate m (row_active ?r)"
    using act keys q(2) id(2,3) r(2) w3 unfolding announced_def w' by (simp add: row_active_def)
  then show ?thesis by blast
qed

lemma Delete_announced:
  assumes "DeleteMonitor (api k net) u i w = (Inr (), w')" "w_faults w = []" "distinct (map mnr_id (t_monitors (w_db w)))"
  shows "\<exists>a m y. announced w w' a m y"
proof -
  let ?ev = "\<lparr>mce_action = ActionDelete, mce_monitor_id = i, mce_name = [], mce_type = [],
    mce_check_config = [], mce_interval_seconds = 0, mce_alert_after_failures = 0, mce_is_paused = False\<rparr>"
  from assms(1) obtain old w1 w2 w3 where load: "loadOwnedMonitor (api k net) i u w = (Inr old, w1)"
    and del: "q_DeleteMonitor i u w1 = (Inr (), w2)"
    and metric: "metric_of (api k net) MonitorDeleted w2 = (Inr (), w3)"
    and pub: "logged (PublishMonitorChanged ?ev) w3 = (Inr (), w')"
    unfolding DeleteMonitor_def api_ports option.case
    by (elim bindE_InrE [of "loadOwnedMonitor _ _ _"] bindE_InrE [of "q_DeleteMonitor _ _"] bindE_InrE [of "metric_of _ _"]) auto
  have cd: "steps_by (calm (\<lambda>_. ())) (q_DeleteMonitor i u)"
    unfolding q_DeleteMonitor_def by (rule calm_statement) simp
  have q: "w_faults w3 = []" "w_monitor_events w3 = w_monitor_events w"
    using calm_quiet [OF calm_reads(1) load assms(2)] calm_quiet [OF cd del] calm_quiet [OF calm_reads(2) metric] by auto
  have ev: "?ev = monitorToEvent ActionDelete old" using owned_row(2) [OF load] by (simp add: monitorToEvent_def)
  have w': "w' = w3\<lparr>w_monitor_events := w_monitor_events w3 @ [monitorToEvent ActionDelete old]\<rparr>"
    using pub q(1) unfolding ev by (simp add: PublishMonitorChanged_def external_def effect_simps)
  have db': "w_db w' = w_db w3" by (simp add: w')
  obtain r where r: "r \<in> set (t_monitors (w_db w))" "own_live i u r" using owned_row(1) [OF load] by blast
  obtain t where db: "w_db w3 = (w_db w)\<lparr>t_monitors := update_where (own_live i u) (\<lambda>r. r\<lparr>mnr_deleted_at := Some t\<rparr>) (t_monitors (w_db w))\<rparr>"
    using DeleteMonitor_InrD(2) [OF assms(1)] unfolding db' by blast
  let ?r = "r\<lparr>mnr_deleted_at := Some t\<rparr>"
  have act: "active_in_db (w_db w3) = (active_in_db (w_db w))(mnr_id r := row_active ?r)"
    using active_update [OF assms(3) r(1), of "own_live i u" "\<lambda>r. r\<lparr>mnr_deleted_at := Some t\<rparr>" "w_db w"] r(2)
    unfolding db by (auto simp: own_live_def)
  have keys: "distinct (map mnr_id (t_monitors (w_db w3)))"
    unfolding db using assms(3) by (simp add: update_where_keys)
  have "announced w w' ActionDelete old None"
    using act keys q(2) r(2) owned_row(2) [OF load] unfolding announced_def w' by (simp add: own_live_def row_active_def live_def)
  then show ?thesis by blast
qed

lemma patch_InrD:
  assumes "patch_monitor s usr inp old = Inr mon"
  shows "mon_id mon = mon_id old" "mon_user_id mon = mon_user_id old"
    "30 \<le> mon_interval_seconds mon" "mon_interval_seconds mon \<le> 86400"
  using assms unfolding patch_monitor_def Let_def
  by (auto split: if_splits sum.splits option.splits simp: ValidateMonitorInput_iff)

lemma Update_announced:
  assumes "UpdateMonitor (api k net) usr i inp w = (Inr x, w')" "w_faults w = []" "distinct (map mnr_id (t_monitors (w_db w)))"
  shows "\<exists>a m y. announced w w' a m y"
proof -
  from assms(1) obtain old w1 mon w2 where load: "loadOwnedMonitor (api k net) i (usr_id usr) w = (Inr old, w1)"
    and patch: "patch_monitor (api k net) usr inp old = Inr mon"
    and upd: "pg_MonitorRepo_Update (deployed_cipher k) mon w1 = (Inr (), w2)"
    and pub: "published (api k net) ActionUpdate mon w2 = (Inr x, w')"
    unfolding UpdateMonitor_def api_ports by (elim bindE_InrE mapErrE_InrE liftE_InrE) (auto simp del: api_ports)
  note p = patch_InrD [OF patch]
  note o = owned_row [OF load]
  have cu: "steps_by (calm (\<lambda>_. ())) (pg_MonitorRepo_Update (deployed_cipher k) mon)"
    unfolding pg_MonitorRepo_Update_def q_UpdateMonitor_def by (intro calm_rules calm_encrypt calm_statement) simp
  have q: "w_faults w2 = []" "w_monitor_events w2 = w_monitor_events w"
    using calm_quiet [OF calm_reads(1) load assms(2)] calm_quiet [OF cu upd] by auto
  have w1: "w_db w1 = w_db w" using readonlyD [OF readonly_owned load] .
  let ?f = "\<lambda>cfg r. r\<lparr>mnr_name := mon_name mon, mnr_check_config := cfg,
    mnr_interval_seconds := to_int4 (mon_interval_seconds mon),
    mnr_alert_after_failures := to_int4 (mon_alert_after_failures mon),
    mnr_is_paused := mon_is_paused mon, mnr_is_public := mon_is_public mon\<rparr>"
  have pf: "own_live i (usr_id usr) = (\<lambda>r. mnr_id r = mon_id mon \<and> mnr_user_id r = mon_user_id mon \<and> live r)"
    using p o by (simp add: fun_eq_iff own_live_def)
  obtain cfg where db: "w_db w2 = (w_db w)\<lparr>t_monitors := update_where (own_live i (usr_id usr)) (?f cfg) (t_monitors (w_db w))\<rparr>"
  proof -
    from upd obtain cfg w3 where enc: "encryptConfig (deployed_cipher k) (mon_check_config mon) w1 = (Inr cfg, w3)"
      and st: "q_UpdateMonitor (monitorToUpdateParams (mon\<lparr>mon_check_config := cfg\<rparr>)) w3 = (Inr (), w2)"
      unfolding pg_MonitorRepo_Update_def by (rule bindE_InrE)
    from st have "w_db w2 = (w_db w3)\<lparr>t_monitors := update_where (own_live i (usr_id usr)) (?f cfg) (t_monitors (w_db w3))\<rparr>"
      unfolding q_UpdateMonitor_def pf by (auto elim!: statement_InrE simp: monitorToUpdateParams_def Let_def split: if_splits)
    with encryptConfig_world(1) [OF enc] w1 show thesis by (intro that) simp
  qed
  obtain r where r: "r \<in> set (t_monitors (w_db w))" "own_live i (usr_id usr) r" using o(1) by blast
  have act: "active_in_db (w_db w2) = (active_in_db (w_db w))(mnr_id r := row_active (?f cfg r))"
    using active_update [OF assms(3) r(1), of "own_live i (usr_id usr)" "?f cfg" "w_db w"] r(2)
    unfolding db by (auto simp: own_live_def)
  have keys: "distinct (map mnr_id (t_monitors (w_db w2)))" unfolding db using assms(3) by (simp add: update_where_keys)
  have w': "w' = w2\<lparr>w_monitor_events := w_monitor_events w2 @ [monitorToEvent ActionUpdate mon]\<rparr>"
    using pub published_quiet [OF q(1)] by simp
  have exact: "from_int4 (to_int4 (mon_interval_seconds mon)) = mon_interval_seconds mon"
    using p(3,4) by (intro from_to_int4) auto
  have "announced w w' ActionUpdate mon (row_active (?f cfg r))"
    using act keys q(2) r(2) p(1) o(2) unfolding announced_def w' by (simp add: own_live_def row_active_def live_def exact)
  then show ?thesis by blast
qed

section \<open>The schedule along an execution\<close>

text \<open>
  \<open>synced k net w s\<close>: a scheduler loaded \<open>s\<close> from the tables and has since applied the events of
  every successful request; the surroundings change neither the columns of the monitors that
  it depends on nor the events.
\<close>

inductive synced :: "encryptor option \<Rightarrow> network \<Rightarrow> world \<Rightarrow> schedule \<Rightarrow> bool" for k net where
  loaded: "load_schedule (pg_MonitorRepo (deployed_cipher k)) w = (Inr s, w') \<Longrightarrow>
    distinct (map mnr_id (t_monitors (w_db w))) \<Longrightarrow> synced k net w' s"
| request: "synced k net w s \<Longrightarrow> w_faults w = [] \<Longrightarrow> handle_call (api k net) u c w = (Inr (), w') \<Longrightarrow>
    w_monitor_events w' = w_monitor_events w @ evs \<Longrightarrow> synced k net w' (fold on_monitor_changed evs s)"
| surroundings: "synced k net w s \<Longrightarrow> sched_view (w_db w') = sched_view (w_db w) \<Longrightarrow> synced k net w' s"

lemma listed_monitors:
  "mapE rows (decrypted_monitor C) w = (Inr ms, w') \<Longrightarrow> w' = w \<and>
   list_all2 (\<lambda>m r. mon_id m = mnr_id r \<and> mon_is_paused m = mnr_is_paused r
      \<and> mon_interval_seconds m = from_int4 (mnr_interval_seconds r)) ms rows"
proof (induction rows arbitrary: w w' ms)
  case Nil
  then show ?case by (simp add: returnE_apply)
next
  case (Cons r rows)
  from Cons.prems obtain m w1 ns w2 where m: "decrypted_monitor C r w = (Inr m, w1)"
    and ns: "mapE rows (decrypted_monitor C) w1 = (Inr ns, w2)" and eq: "ms = m # ns" "w' = w2"
    by (auto elim!: bindE_InrE simp: returnE_apply)
  from m have "w1 = w" "\<exists>c. m = (toDomainMonitor r)\<lparr>mon_check_config := c\<rparr>"
    unfolding decrypted_monitor_def Let_def by (auto elim!: bindE_InrE liftE_InrE simp: returnE_apply)
  with stored_monitor_sel Cons.IH [OF ns] eq show ?case by auto
qed

lemma active_empty: "active_in_schedule Map.empty i = None"
  by (simp add: active_in_schedule_def)

lemma find_absent: "k \<notin> f ` set rows \<Longrightarrow> find (\<lambda>x. f x = k) rows = None"
  by (induction rows) auto

lemma active_fold_add:
  assumes "list_all2 (\<lambda>m r. mon_id m = mnr_id r \<and> mon_is_paused m = mnr_is_paused r
      \<and> mon_interval_seconds m = from_int4 (mnr_interval_seconds r)) ms rows"
    "\<forall>r \<in> set rows. live r" "distinct (map mnr_id rows)"
  shows "active_in_schedule (fold LeaderScheduler_Add ms s) i
     = (case find (\<lambda>r. mnr_id r = i) rows of None \<Rightarrow> active_in_schedule s i | Some r \<Rightarrow> row_active r)"
  using assms
proof (induction ms rows arbitrary: s rule: list_all2_induct)
  case (Cons m ms r rows)
  have none: "find (\<lambda>x. mnr_id x = mnr_id r) rows = None" using Cons.prems(2) by (intro find_absent) simp
  from Cons.IH [of "LeaderScheduler_Add m s"] Cons.prems Cons.hyps none show ?case
    by (cases "find (\<lambda>r. mnr_id r = i) rows") (auto simp: active_add row_active_def)
qed simp

lemma find_filter: "distinct (map mnr_id rows) \<Longrightarrow>
   find (\<lambda>r. mnr_id r = i) (filter p rows) = Option.bind (find (\<lambda>r. mnr_id r = i) rows) (\<lambda>r. if p r then Some r else None)"
proof (induction rows)
  case (Cons r rows)
  have "mnr_id r \<notin> mnr_id ` set rows \<Longrightarrow> find (\<lambda>x. mnr_id x = mnr_id r) (filter p rows) = None"
    by (intro find_absent) auto
  with Cons show ?case by auto
qed simp

lemma find_key: "distinct (map mnr_id rows) \<Longrightarrow>
   find (\<lambda>r. mnr_id r = i) rows = Some r \<longleftrightarrow> r \<in> set rows \<and> mnr_id r = i"
  by (induction rows) force+

lemma load_in_step:
  assumes "load_schedule (pg_MonitorRepo (deployed_cipher k)) w = (Inr s, w')" "distinct (map mnr_id (t_monitors (w_db w)))"
  shows "in_step (w_db w') s \<and> distinct (map mnr_id (t_monitors (w_db w')))"
proof -
  have repo: "MonitorRepo_ListActive (pg_MonitorRepo (deployed_cipher k)) = pg_MonitorRepo_ListActive (deployed_cipher k)"
    by (simp add: pg_MonitorRepo_def)
  from assms(1) obtain ms where ls: "pg_MonitorRepo_ListActive (deployed_cipher k) w = (Inr ms, w')"
    and s: "s = fold LeaderScheduler_Add ms Map.empty"
    unfolding load_schedule_def repo by (elim bindE_InrE mapErrE_InrE) (simp add: returnE_apply)
  from ls obtain rows w1 where q: "q_ListActiveMonitors w = (Inr rows, w1)"
    and m: "mapE rows (decrypted_monitor (deployed_cipher k)) w1 = (Inr ms, w')"
    unfolding pg_MonitorRepo_ListActive_def by (rule bindE_InrE)
  from q have rows: "rows = filter (\<lambda>r. \<not> mnr_is_paused r \<and> live r) (t_monitors (w_db w))" and w1: "w_db w1 = w_db w"
    unfolding q_ListActiveMonitors_def by (auto elim!: query_InrE)
  note dec = listed_monitors [OF m]
  have d: "distinct (map mnr_id rows)" unfolding rows using assms(2) by (rule distinct_map_filter)
  have a: "active_in_schedule s i = active_in_db (w_db w) i" for i
  proof -
    have "\<forall>r \<in> set rows. live r" by (simp add: rows)
    from active_fold_add [OF conjunct2 [OF dec] this d, of Map.empty i, unfolded active_empty]
    have "active_in_schedule s i = (case find (\<lambda>r. mnr_id r = i) rows of None \<Rightarrow> None | Some r \<Rightarrow> row_active r)"
      by (simp only: s)
    also have "\<dots> = active_in_db (w_db w) i"
      unfolding rows find_filter [OF assms(2)] active_in_db_def
      by (cases "find (\<lambda>r. mnr_id r = i) (t_monitors (w_db w))") (auto simp: row_active_def)
    finally show ?thesis .
  qed
  with dec w1 assms(2) show ?thesis by (simp add: in_step_def fun_eq_iff)
qed

lemma call_in_step:
  assumes "handle_call (api k net) u c w = (Inr (), w')" "w_faults w = []" "distinct (map mnr_id (t_monitors (w_db w)))"
    "in_step (w_db w) s" "w_monitor_events w' = w_monitor_events w @ evs"
  shows "in_step (w_db w') (fold on_monitor_changed evs s) \<and> distinct (map mnr_id (t_monitors (w_db w')))"
proof (cases "on_monitors c")
  case True
  have voidD: "m w = (Inr (), w') \<Longrightarrow> m = void n \<Longrightarrow> \<exists>x. n w = (Inr x, w')" for m n
    by (auto simp: effect_simps split: prod.splits sum.splits)
  have "\<exists>a m y. announced w w' a m y"
  proof (cases c)
    case (CallCreateMonitor name ty cfg interval alert pub)
    with assms(1) Create_announced [OF _ _ assms(2,3)] show ?thesis by (auto dest!: voidD [OF _ refl])
  next
    case (CallUpdateMonitor i inp)
    with assms(1) Update_announced [OF _ assms(2,3)] show ?thesis by (auto dest!: voidD [OF _ refl])
  next
    case (CallDeleteMonitor i)
    with assms(1) Delete_announced [OF _ assms(2,3)] show ?thesis by auto
  next
    case (CallToggleMonitorPause i)
    with assms(1) Toggle_announced [OF _ assms(2,3)] show ?thesis by (auto dest!: voidD [OF _ refl])
  qed (use True in simp_all)
  with announced_in_step assms(4,5) show ?thesis by blast
next
  case False
  have "calm sched_view w w'" by (rule steps_byD [OF calm_calls [OF False] assms(1)])
  from this have v: "sched_view (w_db w') = sched_view (w_db w)" "evs = []" using assms(5) by (auto simp: calm_def)
  have "map mnr_id (t_monitors (w_db w')) = map mnr_id (t_monitors (w_db w))"
    unfolding sched_view_keys [symmetric] v(1) by (rule refl)
  with v assms(3,4) in_step_view [OF v(1)] show ?thesis by simp
qed

lemma synced_facts:
  assumes "synced k net w s"
  shows "in_step (w_db w) s \<and> distinct (map mnr_id (t_monitors (w_db w)))"
  using assms
proof (induction rule: synced.induct)
  case (loaded w s w')
  then show ?case by (rule load_in_step)
next
  case (request w s u c w' evs)
  then show ?case using call_in_step by blast
next
  case (surroundings w s w')
  have "map mnr_id (t_monitors (w_db w')) = map mnr_id (t_monitors (w_db w))"
    unfolding sched_view_keys [symmetric] surroundings.hyps(2) by (rule refl)
  with surroundings.IH in_step_view [OF surroundings.hyps(2)] show ?case by simp
qed


lemma demo_load:
  "\<exists>s w. load_schedule (pg_MonitorRepo (deployed_cipher None)) demo_world = (Inr s, w) \<and> w_db w = demo_db \<and> w_faults w = []"
  by (simp add: load_schedule_def pg_MonitorRepo_def pg_MonitorRepo_ListActive_def q_ListActiveMonitors_def run_simps
      demo_defs live_def decrypted_monitor_def deployed_cipher_def demo_config [unfolded demo_defs] Let_def)


end
