(* ===== verification/Housekeeping.thy ===== *)
theory Housekeeping
  imports Scheduler Json_Value Result_Store Alerting
begin

text \<open>
  The periodic jobs of the scheduler process (\<open>internal/bootstrap/scheduler.go\<close>): the loop that
  runs a job under a lock, the scan for expiring certificates with its probe
  (\<open>internal/adapter/checker/ssl_probe.go\<close>), and the retention of check results.
\<close>

section \<open>Jobs under a lock\<close>

text \<open>
  One tick of \<open>runLockedLoop\<close>: a lock that cannot be taken, whether it is held or the lock
  service fails, skips the tick; a failing release is only logged.
\<close>

definition locked_tick :: "unit io \<Rightarrow> bool io \<Rightarrow> unit io \<Rightarrow> unit io" where
  "locked_tick lock unlock work = bindE (attemptE lock) (\<lambda>r. case r of
       Inl _ \<Rightarrow> returnE ()
     | Inr _ \<Rightarrow> seqE work (logged unlock))"

section \<open>The target of a scan\<close>

text \<open>
  \<open>json.Unmarshal\<close> into \<open>map[string]interface{}\<close> makes every number a \<open>float64\<close>; a literal
  beyond the largest finite value is an error. The value of the literal is \<open>m * 10 ^ e\<close>, and it
  rounds to infinity from the middle between the largest finite value and \<open>2 ^ 1024\<close> on.
\<close>

definition float_limit :: nat where
  "float_limit = 2 ^ 1024 - 2 ^ 970"

definition digits_value :: "string \<Rightarrow> nat" where
  "digits_value s = (case decimal 0 (filter digit s) of None \<Rightarrow> 0 | Some n \<Rightarrow> n)"

definition float_in_range :: "string \<Rightarrow> bool" where
  "float_in_range n =
     (let mant = takeWhile (\<lambda>c. c \<noteq> CHR ''e'' \<and> c \<noteq> CHR ''E'') n; ex = drop (length mant + 1) n;
          frac = drop 1 (dropWhile (\<lambda>c. c \<noteq> CHR ''.'') mant); m = digits_value mant;
          e = (if has_prefix ex ''-'' then - int (digits_value ex) else int (digits_value ex)) - int (length frac)
      in if e \<ge> 0 then m * 10 ^ nat e < float_limit else m < float_limit * 10 ^ nat (- e))"

fun numbers_in_range :: "json \<Rightarrow> bool" where
  "numbers_in_range (JNum n) = float_in_range n"
| "numbers_in_range (JArr xs) = list_all numbers_in_range xs"
| "numbers_in_range (JObj ms) = list_all (\<lambda>p. numbers_in_range (snd p)) ms"
| "numbers_in_range _ = True"

text \<open>The last of several members with the same name counts; names are compared exactly.\<close>

definition extractHTTPURL :: "string \<Rightarrow> string option" where
  "extractHTTPURL cfg = (case json_parse cfg of
       Some (JObj ms) \<Rightarrow>
         if \<not> numbers_in_range (JObj ms) then None
         else (case map_of (rev ms) ''url'' of
             Some (JStr url) \<Rightarrow> if url = [] \<or> \<not> has_prefix url ''https://'' then None else Some url
           | _ \<Rightarrow> None)
     | _ \<Rightarrow> None)"

section \<open>The probe\<close>

text \<open>
  \<open>url.Parse\<close> with the scheme, the host name and the port of its result, and the TLS handshake
  with an address, for a server name, at a time: an error message, or the \<open>NotAfter\<close> of the
  certificates that the peer sends.
\<close>

record certificate_net =
  cn_parse :: "string \<Rightarrow> goerr + (string \<times> string \<times> string)"
  cn_handshake :: "string \<Rightarrow> string \<Rightarrow> time \<Rightarrow> goerr + time list"

definition CheckSSLExpiry :: "certificate_net \<Rightarrow> string \<Rightarrow> time io" where
  "CheckSSLExpiry net url = bindE clock_now (\<lambda>now. liftE (case cn_parse net url of
       Inl e \<Rightarrow> Inl (Wrapped ''parse url'' e)
     | Inr (scheme, host, port) \<Rightarrow>
         if scheme \<noteq> ''https'' then Inl (Errorf (''ssl probe only applies to https urls, got '' @ go_quote scheme))
         else let port' = (if port = [] then ''443'' else port) in
           (case cn_handshake net (JoinHostPort host port') host now of
              Inl e \<Rightarrow> Inl (Wrapped (''tls dial '' @ host @ '':'' @ port') e)
            | Inr [] \<Rightarrow> Inl (Errorf (''no peer certificates for '' @ host))
            | Inr (notAfter # _) \<Rightarrow> Inr notAfter)))"

definition DaysUntilExpiry :: "time \<Rightarrow> time \<Rightarrow> int" where
  "DaysUntilExpiry notAfter now = go_div (time_sub notAfter now) day_length"

section \<open>The scan\<close>

definition ssl_event :: "pro_http_monitor \<Rightarrow> string \<Rightarrow> int \<Rightarrow> time \<Rightarrow> alert_event" where
  "ssl_event m url days notAfter =
     \<lparr>ae_monitor_id = php_id m, ae_user_id = php_user_id m, ae_incident_id = 0, ae_monitor_name = php_name m,
      ae_monitor_target = url, ae_event = AlertSSLExpiring,
      ae_cause = ''TLS certificate for '' @ url @ '' expires in '' @ int_to_dec days @ '' days (at '' @ rfc3339 notAfter @ '')''\<rparr>"

definition scan_monitor :: "certificate_net \<Rightarrow> (alert_event \<Rightarrow> unit io) \<Rightarrow> time \<Rightarrow> pro_http_monitor \<Rightarrow> unit io" where
  "scan_monitor net publish now m = (case extractHTTPURL (php_check_config m) of
       None \<Rightarrow> returnE ()
     | Some url \<Rightarrow> bindE (attemptE (CheckSSLExpiry net url)) (\<lambda>r. case r of
           Inl _ \<Rightarrow> returnE ()
         | Inr notAfter \<Rightarrow>
             let days = DaysUntilExpiry notAfter now in
             if days \<noteq> 14 \<and> days \<noteq> 7 \<and> days \<noteq> 1 then returnE ()
             else logged (publish (ssl_event m url days notAfter))))"

definition runSSLScan :: "certificate_net \<Rightarrow> monitor_repo \<Rightarrow> (alert_event \<Rightarrow> unit io) \<Rightarrow> unit io" where
  "runSSLScan net repo publish = bindE (attemptE (MonitorRepo_ListProHTTPForSSLScan repo)) (\<lambda>r. case r of
       Inl _ \<Rightarrow> returnE ()
     | Inr ms \<Rightarrow> bindE clock_now (\<lambda>now. forE ms (scan_monitor net publish now)))"

section \<open>Retention\<close>

text \<open>
  The cleanup job deletes what is older than the cut-offs of the plans and creates the next
  partition of the table; the partition does not change what the tables hold.
\<close>

definition retention_cleanup :: "check_result_repo \<Rightarrow> int \<Rightarrow> unit io" where
  "retention_cleanup results days = bindE clock_now (\<lambda>now.
     seqE (logged (CheckResultRepo_DeleteByPlan results
             (now - signed_take_bit 63 (days * day_length)) (add_years (- 1) now)))
       (logged (external (returnE ()))))"

end
