(* ===== verification/Housekeeping_Properties.thy ===== *)
theory Housekeeping_Properties
  imports Housekeeping Monitor_Properties "HOL-Library.Sublist"
begin

text \<open>
  The certificate scan alerts only about certificates that its thresholds name, at most once
  per monitor and scan, and daily scans hit every threshold of a certificate exactly once.
\<close>

section \<open>Thresholds\<close>

lemma days_until_nonneg:
  assumes "now \<le> t" "t - now \<le> max_duration"
  shows "DaysUntilExpiry t now = (t - now) div day_length"
proof (cases "t = now")
  case True
  then show ?thesis by (simp add: DaysUntilExpiry_def time_sub_def go_div_def min_duration_def max_duration_def)
next
  case False
  with assms have "time_sub t now = t - now" "0 < t - now" by (auto simp: time_sub_def min_duration_def)
  then show ?thesis by (simp add: DaysUntilExpiry_def go_div_def)
qed

lemma days_until_past:
  assumes "t < now"
  shows "DaysUntilExpiry t now \<le> 0"
proof -
  have "time_sub t now < 0" using assms by (auto simp: time_sub_def min_duration_def max_duration_def)
  then show ?thesis by (simp add: DaysUntilExpiry_def go_div_def sgn_if pos_imp_zdiv_nonneg_iff)
qed



section \<open>What a scan alerts about\<close>

text \<open>The alert that one probe of a monitor calls for.\<close>

definition deserved :: "certificate_net \<Rightarrow> time \<Rightarrow> pro_http_monitor \<Rightarrow> alert_event \<Rightarrow> bool" where
  "deserved net now m ev \<longleftrightarrow> (\<exists>url scheme host port notAfter rest.
     extractHTTPURL (php_check_config m) = Some url \<and> cn_parse net url = Inr (scheme, host, port)
     \<and> cn_handshake net (JoinHostPort host (if port = [] then ''443'' else port)) host now = Inr (notAfter # rest)
     \<and> DaysUntilExpiry notAfter now \<in> {14, 7, 1} \<and> ev = ssl_event m url (DaysUntilExpiry notAfter now) notAfter)"

lemma deserved_monitor: "deserved net now m ev \<Longrightarrow> ae_monitor_id ev = php_id m \<and> ae_user_id ev = php_user_id m \<and> ae_event ev = AlertSSLExpiring"
  by (auto simp: deserved_def ssl_event_def)

lemma CheckSSLExpiry_apply:
  "\<exists>r. CheckSSLExpiry net url w = (r, w) \<and> (\<forall>t. r = Inr t \<longrightarrow> (\<exists>scheme host port rest. cn_parse net url = Inr (scheme, host, port)
     \<and> cn_handshake net (JoinHostPort host (if port = [] then ''443'' else port)) host (w_app_clock w) = Inr (t # rest)))"
  unfolding CheckSSLExpiry_def
  by (auto simp: clock_now_def effect_simps Let_def split: sum.splits list.splits prod.splits)

lemma PublishAlert_cases:
  obtains w' e where "PublishAlert ev w = (Inl e, w')" "w_alert_events w' = w_alert_events w" "w_db w' = w_db w" "w_app_clock w' = w_app_clock w"
  | w' where "PublishAlert ev w = (Inr (), w')" "w_alert_events w' = w_alert_events w @ [ev]" "w_db w' = w_db w" "w_app_clock w' = w_app_clock w"
  by (cases "w_faults w"; cases "hd (w_faults w)") (auto simp: PublishAlert_def external_def effect_simps)

lemma scan_monitor_effect:
  assumes "now = w_app_clock w"
  shows "\<exists>w' evs. scan_monitor net PublishAlert now m w = (Inr (), w') \<and> w_alert_events w' = w_alert_events w @ evs
     \<and> w_db w' = w_db w \<and> w_app_clock w' = w_app_clock w \<and> (evs = [] \<or> (\<exists>ev. evs = [ev] \<and> deserved net now m ev))"
proof (cases "extractHTTPURL (php_check_config m)")
  case None
  then show ?thesis by (auto simp: scan_monitor_def effect_simps)
next
  case (Some url)
  from CheckSSLExpiry_apply [of net url w] obtain r where r: "CheckSSLExpiry net url w = (r, w)"
    "\<And>t. r = Inr t \<Longrightarrow> \<exists>scheme host port rest. cn_parse net url = Inr (scheme, host, port)
     \<and> cn_handshake net (JoinHostPort host (if port = [] then ''443'' else port)) host now = Inr (t # rest)"
    unfolding assms by blast
  show ?thesis
  proof (cases "\<exists>t. r = Inr t \<and> DaysUntilExpiry t now \<in> {14, 7, 1}")
    case False
    then show ?thesis
      by (cases r) (auto simp: scan_monitor_def Some effect_simps r(1) Let_def)
  next
    case True
    then obtain t where t: "r = Inr t" "DaysUntilExpiry t now \<in> {14, 7, 1}" by blast
    let ?ev = "ssl_event m url (DaysUntilExpiry t now) t"
    have des: "deserved net now m ?ev" using r(2) [OF t(1)] t(2) Some unfolding deserved_def by blast
    have step: "scan_monitor net PublishAlert now m w = logged (PublishAlert ?ev) w"
      using t by (auto simp: scan_monitor_def Some effect_simps r(1) Let_def)
    show ?thesis
      unfolding step using des by (rule_tac PublishAlert_cases [of ?ev w]) (auto simp: effect_simps)
  qed
qed

lemma scan_loop_effect:
  assumes "now = w_app_clock w"
  shows "\<exists>w' evs. forE ms (scan_monitor net PublishAlert now) w = (Inr (), w') \<and> w_alert_events w' = w_alert_events w @ evs
     \<and> w_db w' = w_db w \<and> w_app_clock w' = now
     \<and> (\<exists>sel. evs = map snd sel \<and> (\<forall>p \<in> set sel. deserved net now (fst p) (snd p)) \<and> subseq (map fst sel) ms)"
  using assms
proof (induction ms arbitrary: w)
  case Nil
  then show ?case by (auto simp: effect_simps)
next
  case (Cons m ms)
  from scan_monitor_effect [OF Cons.prems, of net m] obtain w1 evs where one: "scan_monitor net PublishAlert now m w = (Inr (), w1)"
    "w_alert_events w1 = w_alert_events w @ evs" "w_db w1 = w_db w" "w_app_clock w1 = w_app_clock w"
    "evs = [] \<or> (\<exists>ev. evs = [ev] \<and> deserved net now m ev)" by blast
  from Cons.IH [of w1] one(4) Cons.prems obtain w2 sel where rest: "forE ms (scan_monitor net PublishAlert now) w1 = (Inr (), w2)"
    "w_alert_events w2 = w_alert_events w1 @ map snd sel" "w_db w2 = w_db w1" "w_app_clock w2 = now"
    "\<forall>p \<in> set sel. deserved net now (fst p) (snd p)" "subseq (map fst sel) ms" by auto
  show ?case
  proof (cases evs)
    case Nil
    with one rest show ?thesis by (intro exI [of _ w2] exI [of _ "map snd sel"] exI [of _ sel] conjI) (auto simp: effect_simps)
  next
    case (Cons ev evs')
    with one(5) have "evs = [ev]" "deserved net now m ev" by auto
    with one rest show ?thesis
      by (intro exI [of _ w2] exI [of _ "ev # map snd sel"] conjI exI [of _ "(m, ev) # sel"]) (auto simp: effect_simps)
  qed
qed

text \<open>The listing: live monitors of live Pro accounts, with the configuration decrypted.\<close>

definition scanned_row :: "database \<Rightarrow> monitor_row \<Rightarrow> bool" where
  "scanned_row d m \<longleftrightarrow> owned_by d (\<lambda>u. usrr_plan u = PlanPro) m \<and> mnr_type m = MonitorHTTP
     \<and> \<not> mnr_is_paused m \<and> live m"

definition listed_from :: "cipher \<Rightarrow> pro_http_monitor \<Rightarrow> monitor_row \<Rightarrow> bool" where
  "listed_from C m r \<longleftrightarrow> php_id m = mnr_id r \<and> php_user_id m = mnr_user_id r
     \<and> decryptConfig C (mnr_check_config r) = Inr (php_check_config m)"

lemma list_pro_rows:
  "mapE rows (\<lambda>row. bindE (wrapE (p row) (liftE (decryptConfig C (mnr_check_config row)))) (\<lambda>cfg.
      returnE \<lparr>php_id = mnr_id row, php_user_id = mnr_user_id row, php_name = mnr_name row, php_check_config = cfg\<rparr>)) w
     = (Inr ms, w') \<Longrightarrow> w' = w \<and> list_all2 (listed_from C) ms rows"
proof (induction rows arbitrary: ms)
  case Nil
  then show ?case by (simp add: returnE_apply)
next
  case (Cons r rows)
  then show ?case
    by (cases "decryptConfig C (mnr_check_config r)")
       (auto simp: effect_simps listed_from_def split: prod.splits sum.splits)
qed

lemma list_pro_frame:
  assumes "pg_MonitorRepo_ListProHTTPForSSLScan C w = (r, w')"
  shows "w_db w' = w_db w" "w_alert_events w' = w_alert_events w"
proof -
  let ?v = "\<lambda>w. (w_db w, w_alert_events w)"
  have "steps_by (\<lambda>w w'. ?v w' = ?v w) q_ListProHTTPMonitors"
    unfolding q_ListProHTTPMonitors_def query_def
    by (rule steps_byI) (auto simp: external_def split: list.splits bool.splits)
  then have "steps_by (\<lambda>w w'. ?v w' = ?v w) (pg_MonitorRepo_ListProHTTPForSSLScan C)"
    unfolding pg_MonitorRepo_ListProHTTPForSSLScan_def by (intro viewing.rules)
  from steps_byD [OF this assms] show "w_db w' = w_db w" "w_alert_events w' = w_alert_events w" by simp_all
qed

lemma list_pro:
  assumes "pg_MonitorRepo_ListProHTTPForSSLScan C w = (Inr ms, w')"
  shows "list_all2 (listed_from C) ms (filter (scanned_row (w_db w)) (t_monitors (w_db w)))"
    "w_db w' = w_db w" "w_app_clock w' = w_app_clock w" "w_alert_events w' = w_alert_events w"
proof -
  from assms obtain rows w1 where q: "q_ListProHTTPMonitors w = (Inr rows, w1)"
    and m: "mapE rows (\<lambda>row. bindE (wrapE (''decrypt ssl-scan config for monitor '' @ uuid_string (mnr_id row))
        (liftE (decryptConfig C (mnr_check_config row)))) (\<lambda>cfg.
      returnE \<lparr>php_id = mnr_id row, php_user_id = mnr_user_id row, php_name = mnr_name row, php_check_config = cfg\<rparr>)) w1
     = (Inr ms, w')"
    unfolding pg_MonitorRepo_ListProHTTPForSSLScan_def by (rule bindE_InrE)
  from q have rows: "rows = filter (scanned_row (w_db w)) (t_monitors (w_db w))"
    and w1: "\<exists>fs. w1 = w\<lparr>w_faults := fs\<rparr>"
    unfolding q_ListProHTTPMonitors_def scanned_row_def [abs_def] by (auto elim!: query_InrE)
  from list_pro_rows [OF m] rows w1 show "list_all2 (listed_from C) ms (filter (scanned_row (w_db w)) (t_monitors (w_db w)))"
    "w_db w' = w_db w" "w_app_clock w' = w_app_clock w" "w_alert_events w' = w_alert_events w" by auto
qed

lemma listed_ids: "list_all2 (listed_from C) ms rows \<Longrightarrow> map php_id ms = map mnr_id rows"
  by (induction ms rows rule: list_all2_induct) (auto simp: listed_from_def)

lemma listed_member:
  "list_all2 (listed_from C) ms rows \<Longrightarrow> m \<in> set ms \<Longrightarrow> \<exists>r \<in> set rows. listed_from C m r"
  by (induction ms rows rule: list_all2_induct) auto

lemma subseq_set: "subseq xs ys \<Longrightarrow> set xs \<subseteq> set ys"
  by (induction rule: list_emb.induct) auto

lemma subseq_distinct: "subseq xs ys \<Longrightarrow> distinct ys \<Longrightarrow> distinct xs"
  by (induction rule: list_emb.induct) (auto dest: subseq_set)

text \<open>C19: A certificate scan never fails and writes no table; it publishes at most one alert per monitor,
  and only for a live, running HTTP monitor of a live Pro account, addressed to that account,
  whose https target presents a certificate with 14, 7 or 1 days left.\<close>

theorem certificate_alerts_are_deserved:
  assumes "distinct (map mnr_id (t_monitors (w_db w)))"
  shows "\<exists>w' evs. runSSLScan net (pg_MonitorRepo C) PublishAlert w = (Inr (), w') \<and> w_db w' = w_db w
    \<and> w_alert_events w' = w_alert_events w @ evs \<and> distinct (map ae_monitor_id evs)
    \<and> (\<forall>ev \<in> set evs. \<exists>r \<in> set (t_monitors (w_db w)). \<exists>m. scanned_row (w_db w) r \<and> listed_from C m r
         \<and> deserved net (w_app_clock w) m ev \<and> ae_user_id ev = mnr_user_id r)"
proof -
  have repo: "MonitorRepo_ListProHTTPForSSLScan (pg_MonitorRepo C) = pg_MonitorRepo_ListProHTTPForSSLScan C"
    by (simp add: pg_MonitorRepo_def)
  obtain res w1 where l: "pg_MonitorRepo_ListProHTTPForSSLScan C w = (res, w1)" by fastforce
  show ?thesis
  proof (cases res)
    case (Inl e)
    from list_pro_frame [OF l] Inl show ?thesis
      by (intro exI [of _ w1] exI [of _ "[]"]) (simp add: runSSLScan_def repo l effect_simps)
  next
    case (Inr ms)
    note ls = list_pro [OF l [unfolded Inr]]
    obtain w2 sel where run: "forE ms (scan_monitor net PublishAlert (w_app_clock w)) w1 = (Inr (), w2)"
      "w_alert_events w2 = w_alert_events w1 @ map snd sel" "w_db w2 = w_db w1"
      "\<forall>p \<in> set sel. deserved net (w_app_clock w) (fst p) (snd p)" "subseq (map fst sel) ms"
      using scan_loop_effect [OF ls(3) [symmetric], of ms net] by blast
    have "distinct (map php_id ms)" unfolding listed_ids [OF ls(1)] using assms by (rule distinct_map_filter)
    moreover have "subseq (map php_id (map fst sel)) (map php_id ms)" using run(5) by (rule subseq_map)
    ultimately have "distinct (map php_id (map fst sel))" by (metis subseq_distinct)
    also have "map php_id (map fst sel) = map ae_monitor_id (map snd sel)"
      using run(4) by (force dest!: bspec deserved_monitor)
    finally have dis: "distinct (map ae_monitor_id (map snd sel))" .
    have each: "\<exists>r \<in> set (t_monitors (w_db w)). \<exists>m. scanned_row (w_db w) r \<and> listed_from C m r
         \<and> deserved net (w_app_clock w) m ev \<and> ae_user_id ev = mnr_user_id r" if ev: "ev \<in> set (map snd sel)" for ev
    proof -
      from ev obtain m where m: "(m, ev) \<in> set sel" by auto
      then have "m \<in> set ms" using subseq_set [OF run(5)] by force
      from listed_member [OF ls(1) this] obtain r where "r \<in> set (t_monitors (w_db w))" "scanned_row (w_db w) r" "listed_from C m r" by auto
      moreover have "deserved net (w_app_clock w) m ev" using run(4) m by force
      ultimately show ?thesis using deserved_monitor by (force simp: listed_from_def)
    qed
    show ?thesis
      by (rule exI [of _ w2], rule exI [of _ "map snd sel"])
         (use run ls dis each in \<open>auto simp: runSSLScan_def repo l Inr effect_simps clock_now_def\<close>)
  qed
qed

text \<open>The monitor of the examples over HTTPS, and a network whose certificates have a week left.\<close>

definition demo_https_row :: monitor_row where
  "demo_https_row = demo_monitor_row\<lparr>mnr_type := MonitorHTTP,
     mnr_check_config := ''{'' @ [CHR 0x22] @ ''url'' @ [CHR 0x22] @ '':'' @ [CHR 0x22] @ ''https://x'' @ [CHR 0x22] @ ''}''\<rparr>"

definition demo_certificates :: certificate_net where
  "demo_certificates = \<lparr>cn_parse = (\<lambda>u. Inr (''https'', ''x'', [])), cn_handshake = (\<lambda>a h now. Inr [now + 7 * day_length])\<rparr>"

lemma certificate_alerts_are_deserved_witness:
  "extractHTTPURL (mnr_check_config demo_https_row) = Some ''https://x''
   \<and> (\<exists>w' evs. runSSLScan demo_certificates (pg_MonitorRepo NoOpCipher) PublishAlert
          (demo_world\<lparr>w_db := demo_db\<lparr>t_monitors := [demo_https_row]\<rparr>\<rparr>) = (Inr (), w')
        \<and> w_alert_events w' = evs \<and> length evs \<le> 1 \<and> (\<forall>ev \<in> set evs. ae_user_id ev = 1))"
proof -
  let ?w = "demo_world\<lparr>w_db := demo_db\<lparr>t_monitors := [demo_https_row]\<rparr>\<rparr>"
  have r: "t_monitors (w_db ?w) = [demo_https_row]" "w_alert_events ?w = []" "mnr_user_id demo_https_row = 1"
    by (simp_all add: demo_world_def empty_world_def demo_https_row_def demo_monitor_row_def)
  have "distinct (map mnr_id (t_monitors (w_db ?w)))" unfolding r by simp
  from certificate_alerts_are_deserved [OF this, of demo_certificates NoOpCipher] obtain w' evs where
    run: "runSSLScan demo_certificates (pg_MonitorRepo NoOpCipher) PublishAlert ?w = (Inr (), w')" "w_alert_events w' = evs"
    "distinct (map ae_monitor_id evs)"
    "\<forall>ev \<in> set evs. \<exists>m. listed_from NoOpCipher m demo_https_row \<and> deserved demo_certificates (w_app_clock ?w) m ev \<and> ae_user_id ev = 1"
    unfolding r by (auto simp: r(3))
  have "ae_monitor_id ev = mnr_id demo_https_row" if "ev \<in> set evs" for ev
    using run(4) that deserved_monitor by (force simp: listed_from_def)
  then have "set (map ae_monitor_id evs) \<subseteq> {mnr_id demo_https_row}" by auto
  then have "card (set (map ae_monitor_id evs)) \<le> 1" by (metis card.empty card_insert_le_m1 card_mono finite.emptyI finite.insertI is_singletonI is_singleton_altdef order_refl)
  then have "length evs \<le> 1" using distinct_card [OF run(3)] by simp
  moreover have "extractHTTPURL (mnr_check_config demo_https_row) = Some ''https://x''"
    unfolding demo_https_row_def by code_simp
  ultimately show ?thesis using run by auto
qed

end
