(* ===== verification/Monitoring_Pages.thy ===== *)
theory Monitoring_Pages
  imports Monitoring Account_Store
begin

text \<open>
  The reads of \<open>internal/app/monitoring.go\<close> that the API serves: the list of monitors with
  their uptime, the detail of a monitor, and the public status page. A part of a page that
  cannot be read is logged and replaced by its zero value; only the monitors themselves are
  needed. Percentages are exact rationals.
\<close>

section \<open>Lists and details\<close>

text \<open>\<open>x, err := m(); if err != nil { slog.Error(...) }\<close>, with the zero value of an error.\<close>

definition or_zero :: "'a \<Rightarrow> 'a io \<Rightarrow> 'a io" where
  "or_zero zero m = bindE (attemptE m) (\<lambda>r. returnE (case r of Inl _ \<Rightarrow> zero | Inr x \<Rightarrow> x))"

definition days :: "int \<Rightarrow> duration" where
  "days n = hours (n * 24)"

record monitor_with_uptime =
  mwu_monitor :: monitor
  mwu_uptime :: rat

text \<open>A monitor that the map does not have reads as 0.\<close>

definition uptime_in :: "(uuid \<rightharpoonup> rat) \<Rightarrow> uuid \<Rightarrow> rat" where
  "uptime_in m i = (case m i of None \<Rightarrow> 0 | Some x \<Rightarrow> x)"

definition ListMonitorsWithUptime :: "monitoring_service \<Rightarrow> uuid \<Rightarrow> monitor_with_uptime list io" where
  "ListMonitorsWithUptime s u =
     bindE (MonitorRepo_ListByUserID (ms_monitors s) u) (\<lambda>monitors.
     bindE clock_now (\<lambda>now.
     bindE (or_zero Map.empty (UptimeRepo_GetUptimeBatch (ms_uptime s) (map mon_id monitors) (now - days 1))) (\<lambda>uptimeMap.
     returnE (map (\<lambda>m. \<lparr>mwu_monitor = m, mwu_uptime = uptime_in uptimeMap (mon_id m)\<rparr>) monitors))))"

record monitor_detail =
  mde_monitor :: monitor
  mde_uptime_24h :: rat
  mde_uptime_7d :: rat
  mde_uptime_30d :: rat
  mde_incidents :: "incident list"
  mde_chart_24h :: "chart_point list"

definition GetMonitorDetail :: "monitoring_service \<Rightarrow> uuid \<Rightarrow> monitor_detail io" where
  "GetMonitorDetail s i =
     bindE (MonitorRepo_GetByID (ms_monitors s) i) (\<lambda>mon.
     bindE clock_now (\<lambda>now.
     bindE (or_zero 0 (UptimeRepo_GetUptime (ms_uptime s) i (now - days 1))) (\<lambda>u24.
     bindE (or_zero 0 (UptimeRepo_GetUptime (ms_uptime s) i (now - days 7))) (\<lambda>u7.
     bindE (or_zero 0 (UptimeRepo_GetUptime (ms_uptime s) i (now - days 30))) (\<lambda>u30.
     bindE (or_zero [] (IncidentRepo_ListByMonitorID (ms_incidents s) i 10)) (\<lambda>incidents.
     bindE (or_zero [] (CheckResultRepo_GetResponseTimeChart (ms_check_results s) i (now - days 1))) (\<lambda>chart.
     returnE \<lparr>mde_monitor = mon, mde_uptime_24h = u24, mde_uptime_7d = u7, mde_uptime_30d = u30,
              mde_incidents = incidents, mde_chart_24h = chart\<rparr>)))))))"

section \<open>The status page\<close>

record status_monitor =
  stm_id :: uuid
  stm_name :: string
  stm_current_status :: string
  stm_uptime_90d :: rat
  stm_group_id :: "int option"
  stm_in_maintenance :: bool

record status_page_data =
  spd_slug :: string
  spd_all_up :: bool
  spd_show_branding :: bool
  spd_branding :: branding
  spd_monitors :: "status_monitor list"
  spd_incidents :: "incident list"
  spd_groups :: "monitor_group list"

definition no_branding :: branding where
  "no_branding = \<lparr>br_logo_url = None, br_accent_color = None, br_custom_footer_text = None\<rparr>"

text \<open>The body of the loop: the entry of a monitor and its last incidents.\<close>

definition status_entry :: "monitoring_service \<Rightarrow> (uuid \<rightharpoonup> int) \<Rightarrow> monitor \<Rightarrow> (status_monitor \<times> incident list) io" where
  "status_entry s groupMemberships m =
     bindE clock_now (\<lambda>now.
     bindE (or_zero 0 (UptimeRepo_GetUptime (ms_uptime s) (mon_id m) (now - days 90))) (\<lambda>uptime.
     bindE (in_maintenance s (mon_id m)) (\<lambda>inMaintenance.
     bindE (or_zero [] (IncidentRepo_ListByMonitorID (ms_incidents s) (mon_id m) 5)) (\<lambda>monIncidents.
     returnE (\<lparr>stm_id = mon_id m, stm_name = mon_name m, stm_current_status = mon_current_status m,
               stm_uptime_90d = uptime, stm_group_id = groupMemberships (mon_id m),
               stm_in_maintenance = inMaintenance\<rparr>, monIncidents)))))"

text \<open>\<open>allUp\<close> is false when a monitor outside of a window is not up.\<close>

definition counts_as_up :: "status_monitor \<Rightarrow> bool" where
  "counts_as_up e \<longleftrightarrow> \<not> (stm_current_status e \<noteq> StatusUp \<and> \<not> stm_in_maintenance e)"

definition GetStatusPage :: "monitoring_service \<Rightarrow> string \<Rightarrow> status_page_data io" where
  "GetStatusPage s slug =
     bindE (mapErrE (\<lambda>_. Errorf ''user not found'') (UserRepo_GetBySlug (ms_users s) slug)) (\<lambda>usr.
     bindE (MonitorRepo_ListPublicBySlug (ms_monitors s) slug) (\<lambda>monitors.
     bindE (or_zero Map.empty (MonitorGroupRepo_ListMemberships (ms_groups s) (usr_id usr))) (\<lambda>groupMemberships.
     bindE (mapE monitors (status_entry s groupMemberships)) (\<lambda>entries.
     bindE (if usr_plan usr = PlanPro
            then or_zero no_branding (UserRepo_GetBranding (ms_users s) (usr_id usr))
            else returnE no_branding) (\<lambda>branding.
     bindE (or_zero [] (MonitorGroupRepo_ListByUserID (ms_groups s) (usr_id usr))) (\<lambda>groups.
     returnE \<lparr>spd_slug = slug, spd_all_up = list_all counts_as_up (map fst entries),
              spd_show_branding = (usr_plan usr = PlanFree), spd_branding = branding,
              spd_monitors = map fst entries, spd_incidents = concat (map snd entries),
              spd_groups = groups\<rparr>))))))"

end
