(* ===== verification/Json_Text.thy ===== *)
theory Json_Text
  imports Json_Value
begin

text \<open>
  \<open>encoding/json\<close> at the types \<open>any\<close> and \<open>map[string]any\<close>: what \<open>json.Unmarshal\<close> stores and
  what \<open>json.Marshal\<close> writes. A map is the list of its members, sorted by key and without
  duplicates, which is the order in which Marshal writes them. A number is its literal:
  that Go keeps a \<open>float64\<close>, and writes it in another form or refuses it when it is too large,
  is not modelled.
\<close>

type_synonym json_map = "(string \<times> json) list"

section \<open>Maps\<close>

text \<open>The order of Go strings, byte by byte.\<close>

fun bytes_less :: "string \<Rightarrow> string \<Rightarrow> bool" where
  "bytes_less s [] = False"
| "bytes_less [] (c # t) = True"
| "bytes_less (b # s) (c # t) = (byte b < byte c \<or> b = c \<and> bytes_less s t)"

fun map_put :: "string \<Rightarrow> json \<Rightarrow> json_map \<Rightarrow> json_map" where
  "map_put k v [] = [(k, v)]"
| "map_put k v ((l, x) # m) =
     (if k = l then (k, v) # m else if bytes_less k l then (k, v) # (l, x) # m else (l, x) # map_put k v m)"

text \<open>The value that \<open>any\<close> holds: in every object a later duplicate replaces an earlier one.\<close>

primrec into_any :: "json \<Rightarrow> json" where
  "into_any JNull = JNull"
| "into_any (JBool b) = JBool b"
| "into_any (JNum t) = JNum t"
| "into_any (JStr s) = JStr s"
| "into_any (JArr vs) = JArr (map into_any vs)"
| "into_any (JObj ms) = JObj (fold (\<lambda>(k, v) m. map_put k v m) (map (map_prod id into_any) ms) [])"

text \<open>\<open>var m map[string]any; json.Unmarshal(data, &m)\<close>; \<open>None\<close> is the nil map.\<close>

definition json_unmarshal_map :: "string \<Rightarrow> goerr + json_map option" where
  "json_unmarshal_map data = (case json_parse data of
     None \<Rightarrow> Inl (Errorf ''invalid JSON'')
   | Some v \<Rightarrow> (case into_any v of
       JObj m \<Rightarrow> Inr (Some m) | JNull \<Rightarrow> Inr None | _ \<Rightarrow> Inl type_error))"

lemma map_of_map_put: "map_of (map_put k v m) = (map_of m)(k \<mapsto> v)"
  by (induction k v m rule: map_put.induct) auto

section \<open>Text\<close>

primrec join_with :: "string \<Rightarrow> string list \<Rightarrow> string" where
  "join_with d [] = []"
| "join_with d (s # ss) = (if ss = [] then s else s @ d @ join_with d ss)"

primrec json_text :: "json \<Rightarrow> string" where
  "json_text JNull = ''null''"
| "json_text (JBool b) = (if b then ''true'' else ''false'')"
| "json_text (JNum t) = t"
| "json_text (JStr s) = json_marshal_string s"
| "json_text (JArr vs) = ''['' @ join_with '','' (map json_text vs) @ '']''"
| "json_text (JObj ms) = ''{'' @ join_with '',''
     (map (\<lambda>(k, t). json_marshal_string k @ '':'' @ t) (map (map_prod id json_text) ms)) @ ''}''"

definition json_marshal_map :: "json_map option \<Rightarrow> string" where
  "json_marshal_map m = (case m of None \<Rightarrow> ''null'' | Some ms \<Rightarrow> json_text (JObj ms))"

end
