(* ===== verification/Redaction.thy ===== *)
theory Redaction
  imports Json_Text Domain
begin

text \<open>
  \<open>internal/domain/redaction.go\<close>: the secrets of a channel's configuration are masked when the
  channel is read.
\<close>

definition mask :: "string \<Rightarrow> string" where
  "mask v = (if length v \<le> 4 then ''***'' else ''***'' @ drop (length v - 4) v)"

text \<open>The member of a nil map is missing too.\<close>

definition redactField :: "string \<Rightarrow> json_map option \<Rightarrow> json_map option" where
  "redactField key m = (case m of
     None \<Rightarrow> None
   | Some ms \<Rightarrow> (case map_of ms key of
       Some (JStr v) \<Rightarrow> if v = [] then Some ms else Some (map_put key (JStr (mask v)) ms)
     | _ \<Rightarrow> Some ms))"

definition secret_field :: "string \<Rightarrow> string option" where
  "secret_field t =
     (if t = ChannelTelegram then Some ''bot_token''
      else if t = ChannelWebhook then Some ''url''
      else if t = ChannelEmail then Some ''smtp_password'' else None)"

definition RedactChannelConfig :: "string \<Rightarrow> string \<Rightarrow> string" where
  "RedactChannelConfig t raw =
     (if raw = [] then raw
      else case json_unmarshal_map raw of
        Inl _ \<Rightarrow> raw
      | Inr m \<Rightarrow> json_marshal_map (case secret_field t of None \<Rightarrow> m | Some key \<Rightarrow> redactField key m))"

text \<open>\<open>ParseCheckConfig\<close> of \<open>internal/domain/monitor.go\<close>; an empty configuration is the nil map.\<close>

definition ParseCheckConfig :: "monitor \<Rightarrow> goerr + json_map option" where
  "ParseCheckConfig m =
     (if mon_check_config m = [] then Inr None
      else case json_unmarshal_map (mon_check_config m) of
        Inl e \<Rightarrow> Inl (Wrapped (''parse check config for monitor '' @ uuid_string (mon_id m)) e)
      | Inr c \<Rightarrow> Inr c)"

text \<open>What a mask keeps of a secret: whether it is short, and its last four bytes.\<close>

lemma mask_eq_iff:
  "mask v = mask v' \<longleftrightarrow> (if length v \<le> 4 then length v' \<le> 4
     else 4 < length v' \<and> drop (length v' - 4) v' = drop (length v - 4) v)"
  by (auto simp: mask_def)

text \<open>A member that is replaced leaves no trace.\<close>

lemma map_put_put: "map_put k y (map_put k x m) = map_put k y m"
  by (induction k x m rule: map_put.induct) auto

text \<open>
  Two configurations that differ only in the secret, with both secrets longer than four bytes
  and the same last four, look the same.
\<close>

lemma redaction_hides:
  assumes "secret_field t = Some key"
    and "json_unmarshal_map raw = Inr (Some m)" "map_of m key = Some (JStr v)" "4 < length v"
    and "json_unmarshal_map raw' = Inr (Some m')" "map_of m' key = Some (JStr v')" "4 < length v'"
    and "map_put key JNull m = map_put key JNull m'" "drop (length v - 4) v = drop (length v' - 4) v'"
  shows "RedactChannelConfig t raw = RedactChannelConfig t raw'"
proof -
  have put: "map_put key x m = map_put key x m'" for x
    using arg_cong [OF assms(8), of "map_put key x"] by (simp add: map_put_put)
  have "json_unmarshal_map [] = Inl (Errorf ''invalid JSON'')"
    by (simp add: json_unmarshal_map_def json_parse_def parse_value.simps skip_space_def)
  then have "raw \<noteq> []" "raw' \<noteq> []" using assms(2,5) by auto
  moreover have "mask v = mask v'" "v \<noteq> []" "v' \<noteq> []" using assms(4,7,9) by (auto simp: mask_def)
  ultimately show ?thesis
    using assms(1-7) put by (simp add: RedactChannelConfig_def redactField_def)
qed

end
