(* ===== verification/Subscriptions.thy ===== *)
theory Subscriptions
  imports Channels Subscriber_Store Hostnames
begin

text \<open>
  Mail subscriptions: the templates of \<open>internal/app/email_templates.go\<close>, the transactional
  mailer of \<open>adapter/smtp/mailer.go\<close>, and the services of \<open>internal/app/subscription.go\<close> (readers
  of a status page) and \<open>internal/app/blog_subscription.go\<close> (the newsletter). A mail that leaves
  the process is appended to \<open>w_outbox\<close>.
\<close>

section \<open>Templates\<close>

text \<open>A text outside of ASCII is written as its runes, encoded in UTF-8.\<close>

definition runes :: "nat list \<Rightarrow> string" where
  "runes rs = concat (map encode_rune rs)"

definition toEmailLocale :: "string \<Rightarrow> string" where
  "toEmailLocale s = (if s = ''ru'' then ''ru'' else ''en'')"

definition blog_confirm_subject_ru :: "string" where
  "blog_confirm_subject_ru =
     runes [1055,1086,1076,1090,1074,1077,1088,1076,1080,1090,1077,32,1087,1086,1076,1087,1080,1089,1082,1091,
       32,1085,1072,32,1088,1072,1089,1089,1099,1083,1082,1091] @ '' PingCast''"

definition blog_confirm_body_ru :: "string \<Rightarrow> string" where
  "blog_confirm_body_ru confirmURL =
     runes [1050,1090,1086,45,1090,1086,32,40,1085,1072,1076,1077,1077,1084,1089,1103,44,32,1074,1099,41,32,
       1087,1086,1076,1087,1080,1089,1072,1083,32,1101,1090,1086,1090] @ '' email '' @ runes [1085,1072,32,
       1088,
       1072,1089,1089,1099,1083,1082,1091] @ '' PingCast.'' @ newline @ newline @ runes [1052,1099,32,1096,
       1083,
       1105,1084,32,49,45,50,32,1087,1080,1089,1100,1084,1072,32,1074,32,1084,1077,1089,1103,1094] @ '': ''
       @ runes [1085,1086,1074,1099,1077,32,1087,1086,1089,1090,1099,32,1074,32,1073,1083,1086,1075,1077,44,
       32,1072,1087,1076,1077,1081,1090,1099,32,1087,1088,1086,1076,1091,1082,1090,1072,44,32,1080,1085,
       1086,1075,1076,1072,32,1079,1072,1084,1077,1090,1082,1080,32,1087,1088,1086,32,1080,1085,1076,1080]
       @ ''-SaaS.'' @ newline @ newline @ runes [1055,1086,1076,1090,1074,1077,1088,1076,1080,1090,1077,32,
       1087,
       1086,1076,1087,1080,1089,1082,1091] @ '':'' @ newline @ confirmURL @ newline @ newline @ runes [1045,
       1089,1083,1080,32,1101,1090,1086,32,1073,1099,1083,1080,32,1085,1077,32,1074,1099,32,8212,32,1087,
       1088,1086,1089,1090,1086,32,1080,1075,1085,1086,1088,1080,1088,1091,1081,1090,1077,32,1087,1080,1089,
       1100,1084,1086,44,32,1085,1080,1095,1077,1075,1086,32,1085,1077,32,1087,1088,1086,1080,1079,1086,
       1081,1076,1105,1090]
       @ ''.''"

definition status_confirm_subject_ru :: "string \<Rightarrow> string" where
  "status_confirm_subject_ru slug =
     runes [1055,1086,1076,1090,1074,1077,1088,1076,1080,1090,1077,32,1087,1086,1076,1087,1080,1089,1082,1091,
       32,1085,1072,32,1089,1090,1072,1090,1091,1089] @ '' '' @ slug"

definition status_confirm_body_ru :: "string \<Rightarrow> string \<Rightarrow> string" where
  "status_confirm_body_ru slug confirmURL =
     runes [1050,1090,1086,45,1090,1086,32,40,1085,1072,1076,1077,1077,1084,1089,1103,44,32,1074,1099,41,32,
       1087,1086,1076,1087,1080,1089,1072,1083,32,1101,1090,1086,1090] @ '' email '' @ runes [1085,1072,32,
       1086,
       1073,1085,1086,1074,1083,1077,1085,1080,1103,32,1089,1090,1072,1090,1091,1089,45,1089,1090,1088,1072,
       1085,1080,1094,1099]
       @ '' '' @ slug @ ''.'' @ newline @ newline @ runes [1055,1086,1076,1090,1074,1077,1088,1076,1080,1090,
       1077,32,1087,1086,1076,1087,1080,1089,1082,1091] @ '':'' @ newline @ confirmURL @ newline @ newline
       @ runes [1045,1089,1083,1080,32,1101,1090,1086,32,1073,1099,1083,1080,32,1085,1077,32,1074,1099,32,
       8212,32,1087,1088,1086,1089,1090,1086,32,1080,1075,1085,1086,1088,1080,1088,1091,1081,1090,1077,32,
       1087,1080,1089,1100,1084,1086]
       @ ''.''"

definition incident_subject_ru :: "string \<Rightarrow> string \<Rightarrow> string \<Rightarrow> string" where
  "incident_subject_ru slug headline state =
     ''['' @ slug @ ''] '' @ headline @ '' ('' @ runes [1089,1090,1072,1090,1091,
       1089] @ '': '' @ state @ '')''"

definition incident_body_ru :: "string \<Rightarrow> string \<Rightarrow> string \<Rightarrow> string \<Rightarrow> string \<Rightarrow> string" where
  "incident_body_ru slug headline body statusPageURL unsubURL =
     headline @ newline @ newline @ body @ newline @ newline @ ''---'' @ newline @ runes [1057,1090,1072,1090,
       1091,1089,45,1089,1090,1088,1072,1085,1080,1094,1072] @ '': '' @ statusPageURL @ ''/status/'' @ slug
       @ newline @ runes [1054,1090,1087,1080,1089,1072,1090,1100,1089,1103] @ '': '' @ unsubURL"

definition blogConfirmEmail :: "string \<Rightarrow> string \<Rightarrow> string \<times> string" where
  "blogConfirmEmail loc confirmURL =
     (if loc = ''ru'' then (blog_confirm_subject_ru, blog_confirm_body_ru confirmURL)
      else (''Confirm your PingCast newsletter subscription'',
            ''Someone (hopefully you) asked to subscribe this email to the PingCast newsletter.'' @ newline @ newline
            @ ''We send 1-2 emails a month: new blog posts, product updates, occasional indie-SaaS notes.'' @ newline @ newline
            @ ''Confirm your subscription:'' @ newline @ confirmURL @ newline @ newline
            @ ''If this wasn'' @ [CHR 0x27] @ ''t you, ignore this email '' @ runes [8212] @ '' nothing will happen.''))"

definition statusSubscribeConfirmEmail :: "string \<Rightarrow> string \<Rightarrow> string \<Rightarrow> string \<times> string" where
  "statusSubscribeConfirmEmail loc slug confirmURL =
     (if loc = ''ru'' then (status_confirm_subject_ru slug, status_confirm_body_ru slug confirmURL)
      else (''Confirm your subscription to '' @ slug @ '' status'',
            ''Someone (hopefully you) asked to subscribe this email to status updates for '' @ slug @ ''.'' @ newline @ newline
            @ ''Confirm your subscription:'' @ newline @ confirmURL @ newline @ newline
            @ ''If this wasn'' @ [CHR 0x27] @ ''t you, ignore this email '' @ runes [8212] @ '' nothing will happen.''))"

definition incidentNotifyEmail ::
    "string \<Rightarrow> string \<Rightarrow> string \<Rightarrow> string \<Rightarrow> string \<Rightarrow> string \<Rightarrow> string \<Rightarrow> string \<times> string" where
  "incidentNotifyEmail loc slug headline state body statusPageURL unsubURL =
     (if loc = ''ru'' then (incident_subject_ru slug headline state, incident_body_ru slug headline body statusPageURL unsubURL)
      else (''['' @ slug @ ''] '' @ headline @ '' (status: '' @ state @ '')'',
            headline @ newline @ newline @ body @ newline @ newline @ ''---'' @ newline
            @ ''Status page: '' @ statusPageURL @ ''/status/'' @ slug @ newline @ ''Unsubscribe: '' @ unsubURL))"

section \<open>The mailer\<close>

text \<open>
  \<open>net/smtp.SendMail\<close> is the parameter: the text of its error, if any. Without a host the mailer
  only logs.
\<close>

type_synonym mailer = "string \<Rightarrow> string \<Rightarrow> string \<Rightarrow> unit io"
type_synonym send_mail = "string \<Rightarrow> string \<Rightarrow> string \<Rightarrow> time \<Rightarrow> string option"

definition mail_message :: "string \<Rightarrow> string \<Rightarrow> string \<Rightarrow> string \<Rightarrow> string" where
  "mail_message from_addr to_addr subject body =
     ''From: '' @ from_addr @ crlf @ ''To: '' @ to_addr @ crlf @ ''Subject: '' @ subject @ crlf
     @ ''MIME-Version: 1.0'' @ crlf @ ''Content-Type: text/plain; charset=utf-8'' @ crlf @ crlf @ body"

definition Mailer_Send :: "send_mail \<Rightarrow> smtp_settings \<Rightarrow> mailer" where
  "Mailer_Send sendmail c to_addr subject body =
     (if smtp_host c = [] then returnE ()
      else
        let addr = smtp_host c @ '':'' @ int_to_dec (smtp_port c);
            msg = mail_message (smtp_from c) to_addr subject body in
        bindE (leave to_addr msg (sendmail addr to_addr msg) (Some ''connection lost'')) (\<lambda>err.
        case err of None \<Rightarrow> returnE () | Some e \<Rightarrow> throwE (Wrapped ''smtp send'' (Errorf e))))"

section \<open>Tokens and addresses\<close>

definition randToken :: "string io" where
  "randToken = bindE (read_random 24) (\<lambda>buf. returnE (hex_encode buf))"

text \<open>\<open>hashForLog\<close> draws four bytes for the log line and ignores an error.\<close>

definition hashForLog :: "unit io" where
  "hashForLog = logged (read_random 4)"

definition email_char :: "char \<Rightarrow> bool" where
  "email_char c \<longleftrightarrow> c \<noteq> CHR ''@'' \<and> \<not> re_space c"

lemma mid_split: "x \<in> set (butlast (tl xs)) \<longleftrightarrow> (\<exists>a b. xs = a @ x # b \<and> a \<noteq> [] \<and> b \<noteq> [])"
proof
  assume mid: "x \<in> set (butlast (tl xs))"
  then obtain a b where ab: "butlast (tl xs) = a @ x # b" by (meson split_list)
  then have "tl xs \<noteq> []" by auto
  then have "tl xs = a @ x # (b @ [last (tl xs)])" using ab append_butlast_last_id [of "tl xs"] by simp
  then have "xs = (hd xs # a) @ x # (b @ [last (tl xs)])" using \<open>tl xs \<noteq> []\<close> by (cases xs) auto
  then show "\<exists>a b. xs = a @ x # b \<and> a \<noteq> [] \<and> b \<noteq> []" by blast
next
  assume "\<exists>a b. xs = a @ x # b \<and> a \<noteq> [] \<and> b \<noteq> []"
  then obtain a b where "xs = a @ x # b" "a \<noteq> []" "b \<noteq> []" by blast
  then show "x \<in> set (butlast (tl xs))" by (cases a) (auto simp: butlast_append)
qed

lemma split_on_single: "split_on c s = [d] \<longleftrightarrow> s = d \<and> c \<notin> set s"
proof (induction s arbitrary: d)
  case (Cons x s)
  show ?case
  proof (cases "split_on c s")
    case (Cons y ys)
    then show ?thesis using Cons.IH [of "tl d"] by (cases d) auto
  qed simp
qed auto

lemma split_on_pair: "split_on c s = [l, d] \<longleftrightarrow> s = l @ c # d \<and> c \<notin> set l \<and> c \<notin> set d"
proof (induction s arbitrary: l)
  case (Cons x s)
  show ?case
  proof (cases "x = c")
    case True
    then show ?thesis by (cases l) (auto simp: split_on_single)
  next
    case False
    then show ?thesis using Cons.IH [of "tl l"] by (cases l) (auto split: list.splits)
  qed
qed simp

lemma emailRegex_iff:
  "emailRegex s \<longleftrightarrow> (\<exists>u a b. s = u @ ''@'' @ a @ ''.'' @ b \<and> u \<noteq> [] \<and> a \<noteq> [] \<and> b \<noteq> []
     \<and> list_all email_char u \<and> list_all email_char a \<and> list_all email_char b)" (is "_ \<longleftrightarrow> ?R")
proof
  assume "emailRegex s"
  then obtain u d where e: "list_all (\<lambda>c. \<not> re_space c) s" "split_on CHR ''@'' s = [u, d]" "u \<noteq> []"
    "CHR ''.'' \<in> set (butlast (tl d))"
    by (auto simp: emailRegex_def split: list.splits)
  from e(4) obtain a b where ab: "d = a @ CHR ''.'' # b" "a \<noteq> []" "b \<noteq> []" unfolding mid_split by blast
  with e(1,2) have "s = u @ ''@'' @ a @ ''.'' @ b" "list_all email_char u" "list_all email_char a" "list_all email_char b"
    by (auto simp: split_on_pair list_all_iff email_char_def)
  with e(3) ab(2,3) show ?R by blast
next
  assume ?R
  then obtain u a b where s: "s = u @ ''@'' @ a @ ''.'' @ b" "u \<noteq> []" "a \<noteq> []" "b \<noteq> []"
    "list_all email_char u" "list_all email_char a" "list_all email_char b" by blast
  have no: "list_all (\<lambda>c. \<not> re_space c) v \<and> CHR ''@'' \<notin> set v" if "list_all email_char v" for v
    using that by (auto simp: list_all_iff email_char_def)
  note parts = no [OF s(5)] no [OF s(6)] no [OF s(7)]
  have "split_on CHR ''@'' s = [u, a @ ''.'' @ b]" unfolding split_on_pair using s(1) parts by simp
  moreover have "CHR ''.'' \<in> set (butlast (tl (a @ ''.'' @ b)))" unfolding mid_split using s(3,4) by force
  moreover have "list_all (\<lambda>c. \<not> re_space c) s" using parts by (simp add: s(1) re_space_def)
  ultimately show "emailRegex s" using s(2) by (simp add: emailRegex_def)
qed

section \<open>Subscribers of a status page\<close>

record subscription_service =
  su_subs :: status_subscriber_repo
  su_mailer :: mailer
  su_base_url :: string

definition trim_slashes :: "string \<Rightarrow> string" where
  "trim_slashes s = rev (dropWhile (\<lambda>c. c = CHR ''/'') (rev s))"

definition NewSubscriptionService :: "status_subscriber_repo \<Rightarrow> mailer \<Rightarrow> string \<Rightarrow> subscription_service" where
  "NewSubscriptionService subs m baseURL =
     \<lparr>su_subs = subs, su_mailer = m, su_base_url = trim_slashes baseURL\<rparr>"

definition locale_ptr :: "string \<Rightarrow> string option" where
  "locale_ptr l = (if l = [] then None else Some l)"

definition Subscribe :: "subscription_service \<Rightarrow> string \<Rightarrow> string \<Rightarrow> string \<Rightarrow> unit io" where
  "Subscribe s slug email loc =
     (let email = to_lower (trim_space email) in
      if \<not> emailRegex email then throwE (Errorf ''invalid email'')
      else bindE randToken (\<lambda>confirmToken. bindE randToken (\<lambda>unsubToken.
        bindE (attemptE (StatusSubscriberRepo_Create (su_subs s) slug email confirmToken unsubToken (locale_ptr loc))) (\<lambda>r.
        case r of
          Inl _ \<Rightarrow> hashForLog
        | Inr sub \<Rightarrow>
            (let confirmURL = su_base_url s @ ''/api/status/'' @ slug @ ''/confirm?token='' @ ss_confirm_token sub;
                 (subject, body) = statusSubscribeConfirmEmail (toEmailLocale loc) slug confirmURL in
             logged (su_mailer s email subject body))))))"

definition Confirm :: "subscription_service \<Rightarrow> string \<Rightarrow> status_subscriber io" where
  "Confirm s confirmToken = StatusSubscriberRepo_Confirm (su_subs s) confirmToken"

definition ListConfirmed :: "subscription_service \<Rightarrow> string \<Rightarrow> status_subscriber list io" where
  "ListConfirmed s slug = StatusSubscriberRepo_ListConfirmedBySlug (su_subs s) slug"

definition Unsubscribe :: "subscription_service \<Rightarrow> string \<Rightarrow> status_subscriber io" where
  "Unsubscribe s token = StatusSubscriberRepo_Unsubscribe (su_subs s) token"

text \<open>The mail to one subscriber: recipient, subject and body.\<close>

definition notification_to ::
    "string \<Rightarrow> string \<Rightarrow> string \<Rightarrow> string \<Rightarrow> string \<Rightarrow> status_subscriber \<Rightarrow> string \<times> string \<times> string" where
  "notification_to baseURL slug headline state body sub =
     (let loc = (case ss_locale sub of None \<Rightarrow> [] | Some l \<Rightarrow> l);
          unsubURL = baseURL @ ''/api/status/'' @ slug @ ''/unsubscribe?token='' @ ss_unsubscribe_token sub in
      (ss_email sub, incidentNotifyEmail (toEmailLocale loc) slug headline state body baseURL unsubURL))"

definition NotifyIncident :: "subscription_service \<Rightarrow> string \<Rightarrow> string \<Rightarrow> string \<Rightarrow> string \<Rightarrow> unit io" where
  "NotifyIncident s slug headline state body =
     bindE (attemptE (StatusSubscriberRepo_ListConfirmedBySlug (su_subs s) slug)) (\<lambda>r. case r of
       Inl _ \<Rightarrow> returnE ()
     | Inr subs \<Rightarrow> forE subs (\<lambda>sub.
         case notification_to (su_base_url s) slug headline state body sub of (to_addr, subject, payload) \<Rightarrow>
         logged (su_mailer s to_addr subject payload)))"

section \<open>The newsletter\<close>

record blog_subscription_service =
  bl_repo :: blog_subscriber_repo
  bl_mailer :: mailer
  bl_base_url :: string

definition NewBlogSubscriptionService :: "blog_subscriber_repo \<Rightarrow> mailer \<Rightarrow> string \<Rightarrow> blog_subscription_service" where
  "NewBlogSubscriptionService repo m baseURL =
     \<lparr>bl_repo = repo, bl_mailer = m, bl_base_url = trim_slashes baseURL\<rparr>"

definition Blog_Subscribe :: "blog_subscription_service \<Rightarrow> string \<Rightarrow> string option \<Rightarrow> string \<Rightarrow> unit io" where
  "Blog_Subscribe s email source loc =
     (let email = to_lower (trim_space email) in
      if \<not> emailRegex email then throwE (Errorf ''invalid email'')
      else bindE randToken (\<lambda>confirmToken. bindE randToken (\<lambda>unsubToken.
        bindE (attemptE (BlogSubscriberRepo_Create (bl_repo s) email confirmToken unsubToken source (locale_ptr loc))) (\<lambda>r.
        case r of
          Inl _ \<Rightarrow> returnE ()
        | Inr sub \<Rightarrow>
            (let confirmURL = bl_base_url s @ ''/api/newsletter/confirm?token='' @ bs_confirm_token sub;
                 (subject, body) = blogConfirmEmail (toEmailLocale loc) confirmURL in
             logged (bl_mailer s email subject body))))))"

definition Blog_Confirm :: "blog_subscription_service \<Rightarrow> string \<Rightarrow> blog_subscriber io" where
  "Blog_Confirm s token = BlogSubscriberRepo_Confirm (bl_repo s) token"

definition Blog_Unsubscribe :: "blog_subscription_service \<Rightarrow> string \<Rightarrow> blog_subscriber io" where
  "Blog_Unsubscribe s token = BlogSubscriberRepo_Unsubscribe (bl_repo s) token"

definition Blog_Count :: "blog_subscription_service \<Rightarrow> int io" where
  "Blog_Count s = BlogSubscriberRepo_CountConfirmed (bl_repo s)"

end
