(* ===== verification/Custom_Domains.thy ===== *)
theory Custom_Domains
  imports Subscriptions Hostnames
begin

text \<open>
  \<open>internal/app/custom_domain.go\<close>: a custom domain from the request over the ownership probe and the
  certificate to the routing cache. The cache of a process is passed explicitly. Parameters are
  the certificate provisioner, which calls an ACME library, and \<open>probe_get\<close>, what a GET over TLS
  without verification answers.
\<close>

section \<open>The service\<close>

text \<open>
  The outcomes of the probe: the request cannot be built, no response, or a status with the
  body (or the error of reading it).
\<close>

datatype probe_reply =
    ProbeRequestError string
  | ProbeNoResponse string
  | ProbeResponse int "string + string"

type_synonym probe_get = "string \<Rightarrow> time \<Rightarrow> probe_reply"
type_synonym hostname_cache = "string \<rightharpoonup> uuid"

record custom_domain_service =
  cds_repo :: custom_domain_repo
  cds_cert_repo :: "custom_domain_cert_repo option"
  cds_acme :: "string \<Rightarrow> unit io"
  cds_probe :: probe_get

definition NoopCertProvisioner :: "string \<Rightarrow> unit io" where
  "NoopCertProvisioner hostname = returnE ()"

definition WellKnownPath :: "string \<Rightarrow> string" where
  "WellKnownPath token = ''/.well-known/pingcast/'' @ token"

definition RequestDomain :: "custom_domain_service \<Rightarrow> uuid \<Rightarrow> string \<Rightarrow> custom_domain io" where
  "RequestDomain s u hostname =
     (let hostname = to_lower (trim_space hostname) in
      case ValidateCustomHostname hostname of
        Inl err \<Rightarrow> throwE err
      | Inr _ \<Rightarrow> bindE randToken (\<lambda>token. CustomDomainRepo_Create (cds_repo s) u hostname token))"

definition ListDomains :: "custom_domain_service \<Rightarrow> uuid \<Rightarrow> custom_domain list io" where
  "ListDomains s u = CustomDomainRepo_ListByUserID (cds_repo s) u"

section \<open>The cache\<close>

text \<open>A failed read leaves the cache as it is.\<close>

definition refreshHostnameCache :: "custom_domain_service \<Rightarrow> hostname_cache \<Rightarrow> hostname_cache io" where
  "refreshHostnameCache s cache =
     bindE (attemptE (CustomDomainRepo_ListActiveHostnames (cds_repo s))) (\<lambda>r.
     returnE (case r of Inl _ \<Rightarrow> cache | Inr hosts \<Rightarrow> hosts))"

definition DeleteDomain :: "custom_domain_service \<Rightarrow> int \<Rightarrow> uuid \<Rightarrow> hostname_cache \<Rightarrow> hostname_cache io" where
  "DeleteDomain s i u cache =
     bindE (CustomDomainRepo_Delete (cds_repo s) i u) (\<lambda>_. refreshHostnameCache s cache)"

definition LookupHostname :: "hostname_cache \<Rightarrow> string \<Rightarrow> uuid option" where
  "LookupHostname cache hostname = cache (to_lower hostname)"

definition PreloadHostnameCache :: "custom_domain_service \<Rightarrow> hostname_cache io" where
  "PreloadHostnameCache s = refreshHostnameCache s Map.empty"

section \<open>Validation\<close>

definition markFailed :: "custom_domain_service \<Rightarrow> int \<Rightarrow> string \<Rightarrow> unit io" where
  "markFailed s i reason =
     logged (CustomDomainRepo_UpdateStatus (cds_repo s) i CustomDomainFailed (Some reason) None None)"

definition probe_url :: "custom_domain \<Rightarrow> string" where
  "probe_url d = ''https://'' @ cd_hostname d @ WellKnownPath (cd_validation_token d)"

text \<open>What is wrong with an answer; only the first 1024 bytes of the body are read.\<close>

definition probe_failure :: "string \<Rightarrow> string \<Rightarrow> probe_reply \<Rightarrow> string option" where
  "probe_failure url token reply = (case reply of
     ProbeRequestError e \<Rightarrow> Some (''build probe request: '' @ e)
   | ProbeNoResponse e \<Rightarrow> Some (''probe '' @ url @ '': '' @ e)
   | ProbeResponse status body \<Rightarrow>
       if status \<noteq> 200 then Some (''probe '' @ url @ '': HTTP '' @ int_to_dec status @ '' (want 200)'')
       else case body of
         Inl e \<Rightarrow> Some (''read probe body: '' @ e)
       | Inr b \<Rightarrow> if trim_space (take 1024 b) \<noteq> token then Some ''probe body did not match validation token''
                  else None)"

definition probe :: "custom_domain_service \<Rightarrow> string \<Rightarrow> probe_reply io" where
  "probe s url = bindE (attemptE (external (readE (\<lambda>w. cds_probe s url (w_app_clock w))))) (\<lambda>r.
     returnE (case r of Inl e \<Rightarrow> ProbeNoResponse (error_text e) | Inr x \<Rightarrow> x))"

definition validateDNS :: "custom_domain_service \<Rightarrow> custom_domain \<Rightarrow> unit io" where
  "validateDNS s d =
     bindE (probe s (probe_url d)) (\<lambda>reply.
     case probe_failure (probe_url d) (cd_validation_token d) reply of
       Some reason \<Rightarrow> markFailed s (cd_id d) reason
     | None \<Rightarrow> bindE clock_now (\<lambda>now.
         logged (CustomDomainRepo_UpdateStatus (cds_repo s) (cd_id d) CustomDomainValidated None (Some now) None)))"

definition provisionCert :: "custom_domain_service \<Rightarrow> custom_domain \<Rightarrow> bool io" where
  "provisionCert s d =
     bindE (attemptE (cds_acme s (cd_hostname d))) (\<lambda>r. case r of
       Inl err \<Rightarrow> bindE (markFailed s (cd_id d) (''acme: '' @ error_text err)) (\<lambda>_. returnE False)
     | Inr _ \<Rightarrow> bindE clock_now (\<lambda>now.
         bindE (attemptE (CustomDomainRepo_UpdateStatus (cds_repo s) (cd_id d) CustomDomainActive None None (Some now))) (\<lambda>r.
         returnE (case r of Inl _ \<Rightarrow> False | Inr _ \<Rightarrow> True))))"

text \<open>One row of the batch; \<open>activatedAny\<close> is carried along.\<close>

definition advance :: "custom_domain_service \<Rightarrow> custom_domain \<Rightarrow> bool \<Rightarrow> bool io" where
  "advance s d activatedAny =
     (if cd_status d = CustomDomainPending \<or> cd_status d = CustomDomainFailed then
        bindE (validateDNS s d) (\<lambda>_. returnE activatedAny)
      else if cd_status d = CustomDomainValidated then
        bindE (provisionCert s d) (\<lambda>active. returnE (if active then True else activatedAny))
      else returnE activatedAny)"

definition RunValidationOnce :: "custom_domain_service \<Rightarrow> hostname_cache \<Rightarrow> hostname_cache io" where
  "RunValidationOnce s cache =
     bindE (attemptE (CustomDomainRepo_ListPending (cds_repo s))) (\<lambda>r. case r of
       Inl _ \<Rightarrow> returnE cache
     | Inr rows \<Rightarrow> bindE (foldE rows False (advance s)) (\<lambda>activatedAny.
         if activatedAny then refreshHostnameCache s cache else returnE cache))"

section \<open>Renewal\<close>

definition RunRenewalsOnce :: "custom_domain_service \<Rightarrow> unit io" where
  "RunRenewalsOnce s = (case cds_cert_repo s of
     None \<Rightarrow> returnE ()
   | Some certRepo \<Rightarrow> bindE clock_now (\<lambda>now.
       bindE (attemptE (CustomDomainCertRepo_ListExpiringHostnames certRepo (now + hours (30 * 24)))) (\<lambda>r. case r of
         Inl _ \<Rightarrow> returnE ()
       | Inr hostnames \<Rightarrow> forE hostnames (\<lambda>hostname. logged (cds_acme s hostname)))))"

section \<open>The ACME provisioner (\<open>adapter/acme/lego_provisioner.go\<close>)\<close>

text \<open>
  The ACME client is the parameter \<open>ca_obtain\<close>: a certificate for a hostname at a time, or an error.
  Reading the end of a certificate (\<open>encoding/pem\<close>, \<open>crypto/x509\<close>) is \<open>ca_expiry\<close>.
\<close>

record issued_certificate =
  iss_certificate :: string
  iss_private_key :: string
  iss_issuer_certificate :: string

record certificate_authority =
  ca_obtain :: "string \<Rightarrow> time \<Rightarrow> goerr + issued_certificate"
  ca_expiry :: "string \<Rightarrow> goerr + time"

definition obtain_cert :: "certificate_authority \<Rightarrow> string \<Rightarrow> issued_certificate io" where
  "obtain_cert ca hostname = bindE (external (readE (\<lambda>w. ca_obtain ca hostname (w_app_clock w)))) liftE"

definition LegoProvisioner_Provision ::
    "custom_domain_repo \<Rightarrow> custom_domain_cert_repo \<Rightarrow> certificate_authority \<Rightarrow> string \<Rightarrow> unit io" where
  "LegoProvisioner_Provision repo store ca hostname =
     bindE (wrapE (''lookup domain '' @ go_quote hostname) (CustomDomainRepo_GetByHostname repo hostname)) (\<lambda>d.
     bindE (wrapE (''obtain cert for '' @ go_quote hostname) (obtain_cert ca hostname)) (\<lambda>res.
     bindE (wrapE ''parse cert expiry'' (liftE (ca_expiry ca (iss_certificate res)))) (\<lambda>expires.
     wrapE (''store cert for '' @ go_quote hostname) (CustomDomainCertRepo_Upsert store
       \<lparr>cert_custom_domain_id = cd_id d, cert_cert_pem = iss_certificate res, cert_key_pem = iss_private_key res,
        cert_chain_pem = iss_issuer_certificate res, cert_expires_at = expires\<rparr>))))"

end
