(* ===== verification/Importer.thy ===== *)
theory Importer
  imports Monitoring Json_Text
begin

text \<open>
  \<open>internal/app/atlassian_importer.go\<close>: the import of a Statuspage export. What is read is an
  error or a body, given as the value that \<open>json.Unmarshal\<close> stores or its error.
\<close>

record atlassian_component =
  atc_id :: string
  atc_name :: string
  atc_url :: string

record atlassian_incident_update =
  atu_status :: string
  atu_body :: string
  atu_created_at :: time

record atlassian_incident =
  ati_id :: string
  ati_name :: string
  ati_status :: string
  ati_started_at :: time
  ati_resolved_at :: "time option"
  ati_components :: "string list"
  ati_incident_updates :: "atlassian_incident_update list"

record atlassian_page =
  atp_name :: string
  atp_url :: string

record atlassian_export =
  ate_schema_version :: string
  ate_page :: atlassian_page
  ate_components :: "atlassian_component list"
  ate_incidents :: "atlassian_incident list"

record import_result =
  ir_monitors_created :: int
  ir_incidents_created :: int
  ir_updates_created :: int
  ir_components_skipped :: int

record atlassian_importer =
  ai_monitors :: monitor_repo
  ai_incidents :: incident_repo
  ai_incident_updates :: incident_update_repo

definition pickMonitorForIncident :: "atlassian_incident \<Rightarrow> (string \<rightharpoonup> uuid) \<Rightarrow> uuid option" where
  "pickMonitorForIncident inc m =
     (case List.find (\<lambda>c. m c \<noteq> None) (ati_components inc) of None \<Rightarrow> None | Some c \<Rightarrow> m c)"

definition mapAtlassianState :: "string \<Rightarrow> goerr + string" where
  "mapAtlassianState s =
     (if s = ''investigating'' then Inr IncidentStateInvestigating
      else if s = ''identified'' then Inr IncidentStateIdentified
      else if s = ''monitoring'' then Inr IncidentStateMonitoring
      else if s = ''resolved'' \<or> s = ''postmortem'' then Inr IncidentStateResolved
      else Inl (Errorf (''unknown atlassian state: '' @ go_quote s)))"

definition imported_monitor :: "uuid \<Rightarrow> atlassian_component \<Rightarrow> monitor" where
  "imported_monitor u cmp =
     \<lparr>mon_id = uuid_Nil, mon_user_id = u, mon_name = atc_name cmp, mon_type = MonitorHTTP,
      mon_check_config = json_text (JObj [(''url'', JStr (atc_url cmp))]),
      mon_interval_seconds = 60, mon_alert_after_failures = 2, mon_is_paused = False,
      mon_is_public = True, mon_current_status = StatusUnknown, mon_created_at = 0\<rparr>"

text \<open>The two loops carry the counters and the map from components to monitors.\<close>

definition import_component ::
    "atlassian_importer \<Rightarrow> uuid \<Rightarrow> atlassian_component \<Rightarrow> import_result \<times> (string \<rightharpoonup> uuid) \<Rightarrow>
     (import_result \<times> (string \<rightharpoonup> uuid)) io" where
  "import_component i u cmp = (\<lambda>(res, m).
     if atc_url cmp = [] then returnE (res\<lparr>ir_components_skipped := ir_components_skipped res + 1\<rparr>, m)
     else bindE (wrapE (''create monitor for component '' @ go_quote (atc_name cmp))
                   (MonitorRepo_Create (ai_monitors i) (imported_monitor u cmp))) (\<lambda>created.
       returnE (res\<lparr>ir_monitors_created := ir_monitors_created res + 1\<rparr>, m(atc_id cmp \<mapsto> mon_id created))))"

definition import_update ::
    "atlassian_importer \<Rightarrow> uuid \<Rightarrow> atlassian_incident \<Rightarrow> int \<Rightarrow> atlassian_incident_update \<Rightarrow> import_result \<Rightarrow> import_result io" where
  "import_update i u inc n upd res =
     bindE (liftE (mapAtlassianState (atu_status upd))) (\<lambda>uState.
     bindE (wrapE (''create update on incident '' @ go_quote (ati_name inc))
              (IncidentUpdateRepo_Create (ai_incident_updates i)
                \<lparr>ciu_incident_id = n, ciu_state = uState, ciu_body = atu_body upd, ciu_posted_by_user_id = u\<rparr>)) (\<lambda>_.
     returnE (res\<lparr>ir_updates_created := ir_updates_created res + 1\<rparr>)))"

definition import_incident ::
    "atlassian_importer \<Rightarrow> uuid \<Rightarrow> (string \<rightharpoonup> uuid) \<Rightarrow> atlassian_incident \<Rightarrow> import_result \<Rightarrow> import_result io" where
  "import_incident i u m inc res = (case pickMonitorForIncident inc m of
     None \<Rightarrow> returnE res
   | Some monitorID \<Rightarrow>
       bindE (liftE (mapAtlassianState (ati_status inc))) (\<lambda>state.
       bindE (wrapE (''create incident '' @ go_quote (ati_name inc)) (IncidentRepo_Create (ai_incidents i)
         \<lparr>cii_monitor_id = monitorID, cii_cause = ati_name inc, cii_state = state, cii_is_manual = True,
          cii_title = Some (ati_name inc)\<rparr>)) (\<lambda>createdInc.
       bindE (case ati_resolved_at inc of None \<Rightarrow> returnE ()
              | Some t \<Rightarrow> wrapE (''resolve incident '' @ go_quote (ati_name inc))
                  (IncidentRepo_Resolve (ai_incidents i) (inc_id createdInc) t)) (\<lambda>_.
       foldE (ati_incident_updates inc) (res\<lparr>ir_incidents_created := ir_incidents_created res + 1\<rparr>)
         (import_update i u inc (inc_id createdInc))))))"

definition empty_import :: import_result where
  "empty_import = \<lparr>ir_monitors_created = 0, ir_incidents_created = 0, ir_updates_created = 0, ir_components_skipped = 0\<rparr>"

definition import_tx :: "atlassian_importer \<Rightarrow> uuid \<Rightarrow> atlassian_export \<Rightarrow> import_result io" where
  "import_tx i u e =
     bindE (foldE (ate_components e) (empty_import, Map.empty) (import_component i u)) (\<lambda>(res, m).
     foldE (ate_incidents e) res (import_incident i u m))"

definition Import ::
    "atlassian_importer \<Rightarrow> uuid \<Rightarrow> goerr + (goerr + atlassian_export) \<Rightarrow> import_result io" where
  "Import i u src = (case src of
     Inl err \<Rightarrow> throwE (Wrapped ''read import body'' err)
   | Inr (Inl err) \<Rightarrow> throwE (Wrapped ''invalid atlassian JSON'' err)
   | Inr (Inr e) \<Rightarrow>
       if ate_schema_version e \<noteq> ''1.0'' then
         throwE (Errorf (''unsupported atlassian schema version '' @ go_quote (ate_schema_version e)
           @ '' (this importer pins to 1.0)''))
       else tx_do (import_tx i u e))"

end
