(* ===== verification/Http_Handlers.thy ===== *)
theory Http_Handlers
  imports Http Monitoring_Pages Alerting Billing Redaction Custom_Domains Importer
begin

text \<open>
  The handlers of \<open>internal/adapter/http\<close> (\<open>server.go\<close>, \<open>incidents.go\<close>, \<open>maintenance.go\<close>,
  \<open>monitor_groups.go\<close>, \<open>subscriptions.go\<close>, \<open>newsletter.go\<close>, \<open>custom_domains.go\<close>,
  \<open>lookup_domain.go\<close>, \<open>well_known.go\<close>, \<open>atlassian_import.go\<close>). As in \<open>Http\<close>, a handler is a function of
  the user in the context, and a body is the value that \<open>BodyParser\<close> gives. Records of the API that
  only repeat a value of the model are that value; a \<open>float32\<close> is the exact rational.
\<close>

section \<open>Monitors\<close>

record api_monitor =
  amo_monitor :: monitor
  amo_check_config :: "json_map option"
  amo_target :: string

text \<open>The fields that the three conversions of a monitor share.\<close>

definition domainMonitorToAPI :: "checker_registry \<Rightarrow> monitor \<Rightarrow> goerr + api_monitor" where
  "domainMonitorToAPI reg m =
     (case CheckerRegistry_Target reg (mon_type m) (mon_check_config m) of
        Inl err \<Rightarrow> Inl (Wrapped (''resolve target for monitor '' @ uuid_string (mon_id m)) err)
      | Inr target \<Rightarrow> (case ParseCheckConfig m of
          Inl err \<Rightarrow> Inl (Wrapped (''parse config for monitor '' @ uuid_string (mon_id m)) err)
        | Inr cfg \<Rightarrow> Inr \<lparr>amo_monitor = m, amo_check_config = cfg, amo_target = target\<rparr>))"

definition domainMonitorToAPIWithUptime :: "checker_registry \<Rightarrow> monitor \<Rightarrow> rat \<Rightarrow> goerr + (api_monitor \<times> rat)" where
  "domainMonitorToAPIWithUptime reg m uptime = (case domainMonitorToAPI reg m of
     Inl e \<Rightarrow> Inl e | Inr a \<Rightarrow> Inr (a, uptime))"

definition domainMonitorToAPIDetail :: "checker_registry \<Rightarrow> monitor_detail \<Rightarrow> goerr + (api_monitor \<times> monitor_detail)" where
  "domainMonitorToAPIDetail reg d = (case domainMonitorToAPI reg (mde_monitor d) of
     Inl e \<Rightarrow> Inl e | Inr a \<Rightarrow> Inr (a, d))"

text \<open>A mutation whose event was lost comes back with an error, which ends the handler.\<close>

definition or_write_event :: "(monitor \<times> goerr option) io \<Rightarrow> (monitor \<Rightarrow> 'b response io) \<Rightarrow> 'b response io" where
  "or_write_event m f = or_write m (\<lambda>(mon, lost). case lost of Some e \<Rightarrow> returnE (Write e) | None \<Rightarrow> f mon)"

definition Server_ListMonitors :: "monitoring_service \<Rightarrow> (api_monitor \<times> rat) list handler" where
  "Server_ListMonitors s = requireUser (\<lambda>u.
     or_write (ListMonitorsWithUptime s (usr_id u)) (\<lambda>rows.
     or_write (mapE rows (\<lambda>r. liftE (domainMonitorToAPIWithUptime (ms_registry s) (mwu_monitor r) (mwu_uptime r)))) (\<lambda>result.
     returnE (send_json 200 result))))"

record create_monitor_request =
  crm_name :: string
  crm_type :: string
  crm_check_config :: "json_map option"
  crm_interval_seconds :: "int option"
  crm_alert_after_failures :: "int option"
  crm_is_public :: "bool option"

definition the_or :: "'a \<Rightarrow> 'a option \<Rightarrow> 'a" where
  "the_or d x = (case x of None \<Rightarrow> d | Some y \<Rightarrow> y)"

definition create_input :: "create_monitor_request \<Rightarrow> create_monitor_input" where
  "create_input req =
     \<lparr>cmo_name = crm_name req, cmo_type = crm_type req, cmo_check_config = json_marshal_map (crm_check_config req),
      cmo_interval_seconds = the_or 0 (crm_interval_seconds req),
      cmo_alert_after_failures = the_or 0 (crm_alert_after_failures req),
      cmo_is_public = the_or False (crm_is_public req), cmo_channel_ids = []\<rparr>"

definition Server_CreateMonitor :: "monitoring_service \<Rightarrow> create_monitor_request option \<Rightarrow> api_monitor handler" where
  "Server_CreateMonitor s body = requireUser (\<lambda>u. case body of
     None \<Rightarrow> returnE WriteMalformedJSON
   | Some req \<Rightarrow> or_write_event (CreateMonitor s u (create_input req)) (\<lambda>mon.
       or_write (liftE (domainMonitorToAPI (ms_registry s) mon)) (\<lambda>resp. returnE (send_json 201 resp))))"

definition Server_GetMonitor :: "monitoring_service \<Rightarrow> uuid \<Rightarrow> (api_monitor \<times> monitor_detail) handler" where
  "Server_GetMonitor s i = requireUser (\<lambda>u.
     or_write (GetMonitorDetail s i) (\<lambda>detail.
     if mon_user_id (mde_monitor detail) \<noteq> usr_id u then returnE WriteForbiddenTenant
     else or_write (liftE (domainMonitorToAPIDetail (ms_registry s) detail)) (\<lambda>resp. returnE (send_json 200 resp))))"

record update_monitor_request =
  upr_name :: "string option"
  upr_check_config :: "json_map option"
  upr_interval_seconds :: "int option"
  upr_alert_after_failures :: "int option"
  upr_is_paused :: "bool option"
  upr_is_public :: "bool option"

definition update_input :: "update_monitor_request \<Rightarrow> update_monitor_input" where
  "update_input req =
     \<lparr>umi_name = upr_name req, umi_check_config = map_option (\<lambda>c. json_marshal_map (Some c)) (upr_check_config req),
      umi_interval_seconds = upr_interval_seconds req, umi_alert_after_failures = upr_alert_after_failures req,
      umi_is_paused = upr_is_paused req, umi_is_public = upr_is_public req\<rparr>"

definition Server_UpdateMonitor :: "monitoring_service \<Rightarrow> uuid \<Rightarrow> update_monitor_request option \<Rightarrow> api_monitor handler" where
  "Server_UpdateMonitor s i body = requireUser (\<lambda>u. case body of
     None \<Rightarrow> returnE WriteMalformedJSON
   | Some req \<Rightarrow> or_write_event (UpdateMonitor s u i (update_input req)) (\<lambda>mon.
       or_write (liftE (domainMonitorToAPI (ms_registry s) mon)) (\<lambda>resp. returnE (send_json 200 resp))))"

definition Server_DeleteMonitor :: "monitoring_service \<Rightarrow> uuid \<Rightarrow> unit handler" where
  "Server_DeleteMonitor s i = requireUser (\<lambda>u.
     or_write (DeleteMonitor s (usr_id u) i) (\<lambda>_. returnE (send_status 204)))"

definition Server_ToggleMonitorPause :: "monitoring_service \<Rightarrow> uuid \<Rightarrow> api_monitor handler" where
  "Server_ToggleMonitorPause s i = requireUser (\<lambda>u.
     or_write_event (TogglePause s u i) (\<lambda>mon.
     or_write (liftE (domainMonitorToAPI (ms_registry s) mon)) (\<lambda>resp. returnE (send_json 200 resp))))"

text \<open>Every error of the page is a 404.\<close>

definition Server_GetStatusPage :: "monitoring_service \<Rightarrow> string \<Rightarrow> status_page_data handler" where
  "Server_GetStatusPage s slug = (\<lambda>_. bindE (attemptE (GetStatusPage s slug)) (\<lambda>r. case r of
     Inl _ \<Rightarrow> returnE (WriteNotFound ''status page'')
   | Inr data \<Rightarrow> returnE (send_json 200 data)))"

section \<open>Branding and statistics\<close>

definition Server_GetMyBranding :: "auth_service \<Rightarrow> branding handler" where
  "Server_GetMyBranding auth = requireUser (\<lambda>u.
     or_write (GetBranding auth (usr_id u)) (\<lambda>b. returnE (send_json 200 b)))"

definition Server_UpdateMyBranding :: "auth_service \<Rightarrow> branding option \<Rightarrow> branding handler" where
  "Server_UpdateMyBranding auth body = requireUser (\<lambda>u. case body of
     None \<Rightarrow> returnE WriteMalformedJSON
   | Some req \<Rightarrow> or_write (UpdateBranding auth (usr_id u) req) (\<lambda>_. returnE (send_json 200 req)))"

definition Server_HealthCheck :: "string handler" where
  "Server_HealthCheck = (\<lambda>_. returnE (send_json 200 ''ok''))"

text \<open>The memo of the server and the time until which it holds are passed explicitly.\<close>

definition Server_GetPublicStats ::
    "public_stats io \<Rightarrow> public_stats \<times> time \<Rightarrow> (public_stats response \<times> (public_stats \<times> time)) io" where
  "Server_GetPublicStats stats cache = bindE clock_now (\<lambda>now.
     if now < snd cache then returnE (send_json 200 (fst cache), cache)
     else bindE (attemptE stats) (\<lambda>r. case r of
         Inl err \<Rightarrow> returnE (Write (Wrapped ''get public stats'' err), cache)
       | Inr st \<Rightarrow> returnE (send_json 200 st, (st, now + seconds 300))))"

section \<open>Channels\<close>

record api_channel =
  ach_id :: uuid
  ach_name :: string
  ach_type :: string
  ach_config :: "json_map option"
  ach_is_enabled :: bool
  ach_created_at :: time

definition domainChannelToAPI :: "notification_channel \<Rightarrow> api_channel" where
  "domainChannelToAPI ch =
     \<lparr>ach_id = ch_id ch, ach_name = ch_name ch, ach_type = ch_type ch,
      ach_config = (case json_unmarshal_map (RedactChannelConfig (ch_type ch) (ch_config ch)) of
                      Inl _ \<Rightarrow> Some [] | Inr m \<Rightarrow> m),
      ach_is_enabled = ch_is_enabled ch, ach_created_at = ch_created_at ch\<rparr>"

definition Server_ListChannels :: "alert_service \<Rightarrow> api_channel list handler" where
  "Server_ListChannels s = requireUser (\<lambda>u.
     or_write (ListChannels s (usr_id u)) (\<lambda>channels. returnE (send_json 200 (map domainChannelToAPI channels))))"

record create_channel_request =
  ccr_name :: string
  ccr_type :: string
  ccr_config :: "json_map option"

definition Server_CreateChannel :: "alert_service \<Rightarrow> create_channel_request option \<Rightarrow> api_channel handler" where
  "Server_CreateChannel s body = requireUser (\<lambda>u. case body of
     None \<Rightarrow> returnE WriteMalformedJSON
   | Some req \<Rightarrow> or_write (CreateChannel s (usr_id u)
         \<lparr>cci_name = ccr_name req, cci_type = ccr_type req, cci_config = json_marshal_map (ccr_config req)\<rparr>) (\<lambda>ch.
       returnE (send_json 201 (domainChannelToAPI ch))))"

definition Server_GetChannel :: "alert_service \<Rightarrow> uuid \<Rightarrow> api_channel handler" where
  "Server_GetChannel s i = requireUser (\<lambda>u.
     or_write (GetChannelByID s (usr_id u) i) (\<lambda>ch. returnE (send_json 200 (domainChannelToAPI ch))))"

record update_channel_request =
  ucr_name :: "string option"
  ucr_config :: "json_map option"
  ucr_is_enabled :: "bool option"

definition Server_UpdateChannel :: "alert_service \<Rightarrow> uuid \<Rightarrow> update_channel_request option \<Rightarrow> api_channel handler" where
  "Server_UpdateChannel s i body = requireUser (\<lambda>u. case body of
     None \<Rightarrow> returnE WriteMalformedJSON
   | Some req \<Rightarrow> or_write (UpdateChannel s (usr_id u) i (the_or [] (ucr_name req))
         (map_option (\<lambda>c. json_marshal_map (Some c)) (ucr_config req)) (the_or True (ucr_is_enabled req))) (\<lambda>ch.
       returnE (send_json 200 (domainChannelToAPI ch))))"

definition Server_DeleteChannel :: "alert_service \<Rightarrow> uuid \<Rightarrow> unit handler" where
  "Server_DeleteChannel s i = requireUser (\<lambda>u.
     or_write (DeleteChannel s (usr_id u) i) (\<lambda>_. returnE (send_status 204)))"

text \<open>The body holds the channel.\<close>

definition Server_BindChannel :: "alert_service \<Rightarrow> uuid \<Rightarrow> uuid option \<Rightarrow> unit handler" where
  "Server_BindChannel s i body = requireUser (\<lambda>u. case body of
     None \<Rightarrow> returnE WriteMalformedJSON
   | Some channelID \<Rightarrow> or_write (BindChannel s (usr_id u) i channelID) (\<lambda>_. returnE (send_status 200)))"

definition Server_UnbindChannel :: "alert_service \<Rightarrow> uuid \<Rightarrow> uuid \<Rightarrow> unit handler" where
  "Server_UnbindChannel s i channelId = requireUser (\<lambda>u.
     or_write (UnbindChannel s (usr_id u) i channelId) (\<lambda>_. returnE (send_status 204)))"

section \<open>Incidents\<close>

text \<open>
  The notification of the readers is a goroutine; it is run after the response is built, which
  it does not change.
\<close>

definition notifyIncidentAsync :: "subscription_service \<Rightarrow> string \<Rightarrow> string \<Rightarrow> string \<Rightarrow> string \<Rightarrow> unit io" where
  "notifyIncidentAsync sub slug headline state body = logged (NotifyIncident sub slug headline state body)"

record create_incident_request =
  cir_monitor_id :: uuid
  cir_title :: string
  cir_body :: string

definition Server_CreateIncident ::
    "monitoring_service \<Rightarrow> subscription_service \<Rightarrow> create_incident_request option \<Rightarrow> incident handler" where
  "Server_CreateIncident s sub body = requireUser (\<lambda>u. case body of
     None \<Rightarrow> returnE WriteMalformedJSON
   | Some req \<Rightarrow> bindE (attemptE (CreateManualIncident s
         \<lparr>cmi_monitor_id = cir_monitor_id req, cmi_user_id = usr_id u, cmi_title = cir_title req, cmi_body = cir_body req\<rparr>)) (\<lambda>r.
       case r of
         Inl err \<Rightarrow> returnE (if errors_is err ErrForbidden then WriteForbiddenTenant else Write err)
       | Inr (inc, _) \<Rightarrow>
           bindE (notifyIncidentAsync sub (usr_slug u) (cir_title req) IncidentStateInvestigating (cir_body req)) (\<lambda>_.
           returnE (send_json 201 inc))))"

record update_incident_state_request =
  uis_state :: string
  uis_body :: string

definition Server_UpdateIncidentState ::
    "monitoring_service \<Rightarrow> subscription_service \<Rightarrow> int \<Rightarrow> update_incident_state_request option \<Rightarrow> incident_update handler" where
  "Server_UpdateIncidentState s sub i body = requireUser (\<lambda>u. case body of
     None \<Rightarrow> returnE WriteMalformedJSON
   | Some req \<Rightarrow> bindE (attemptE (ChangeIncidentState s
         \<lparr>csi_incident_id = i, csi_user_id = usr_id u, csi_new_state = uis_state req, csi_update_body = uis_body req\<rparr>)) (\<lambda>r.
       case r of
         Inl err \<Rightarrow> (let msg = error_text err in
           returnE (if errors_is err ErrForbidden then WriteForbiddenTenant
                    else if msg \<noteq> [] \<and> (str_contains msg ''cannot move'' \<or> str_contains msg ''invalid incident state'')
                    then envelope 409 ''INVALID_STATE_TRANSITION'' msg
                    else Write err))
       | Inr upd \<Rightarrow>
           bindE (notifyIncidentAsync sub (usr_slug u) (''Incident update: '' @ iu_state upd) (iu_state upd) (iu_body upd)) (\<lambda>_.
           returnE (send_json 200 upd))))"

definition Server_ListIncidentUpdates :: "monitoring_service \<Rightarrow> int \<Rightarrow> incident_update list handler" where
  "Server_ListIncidentUpdates s i = (\<lambda>_. or_write (ListIncidentUpdates s i) (\<lambda>updates. returnE (send_json 200 updates)))"

section \<open>Maintenance windows\<close>

definition Server_ListMaintenanceWindows :: "monitoring_service \<Rightarrow> maintenance_window list handler" where
  "Server_ListMaintenanceWindows s = requireUser (\<lambda>u.
     or_write (ListMaintenanceWindows s (usr_id u)) (\<lambda>windows. returnE (send_json 200 windows)))"

record schedule_window_request =
  swr_monitor_id :: uuid
  swr_starts_at :: time
  swr_ends_at :: time
  swr_reason :: string

definition Server_ScheduleMaintenanceWindow ::
    "monitoring_service \<Rightarrow> schedule_window_request option \<Rightarrow> maintenance_window handler" where
  "Server_ScheduleMaintenanceWindow s body = requireUser (\<lambda>u. case body of
     None \<Rightarrow> returnE WriteMalformedJSON
   | Some req \<Rightarrow> bindE (attemptE (ScheduleMaintenance s
         \<lparr>smi_monitor_id = swr_monitor_id req, smi_user_id = usr_id u, smi_starts_at = swr_starts_at req,
          smi_ends_at = swr_ends_at req, smi_reason = swr_reason req\<rparr>)) (\<lambda>r.
       returnE (case r of
         Inl err \<Rightarrow> if errors_is err ErrForbidden then WriteForbiddenTenant else Write err
       | Inr w \<Rightarrow> send_json 201 w)))"

definition Server_DeleteMaintenanceWindow :: "monitoring_service \<Rightarrow> int \<Rightarrow> unit handler" where
  "Server_DeleteMaintenanceWindow s i = requireUser (\<lambda>u.
     or_write (DeleteMaintenanceWindow s i (usr_id u)) (\<lambda>_. returnE (send_status 204)))"

section \<open>Monitor groups\<close>

record monitor_group_request =
  mgq_name :: string
  mgq_ordering :: "int option"

definition Server_ListMonitorGroups :: "monitoring_service \<Rightarrow> monitor_group list handler" where
  "Server_ListMonitorGroups s = requireUser (\<lambda>u.
     or_write (ListMonitorGroups s (usr_id u)) (\<lambda>groups. returnE (send_json 200 groups)))"

definition Server_CreateMonitorGroup :: "monitoring_service \<Rightarrow> monitor_group_request option \<Rightarrow> monitor_group handler" where
  "Server_CreateMonitorGroup s body = requireUser (\<lambda>u. case body of
     None \<Rightarrow> returnE WriteMalformedJSON
   | Some req \<Rightarrow> or_write (CreateMonitorGroup s (usr_id u) (mgq_name req) (the_or 0 (mgq_ordering req))) (\<lambda>g.
       returnE (send_json 201 g)))"

definition Server_UpdateMonitorGroup :: "monitoring_service \<Rightarrow> int \<Rightarrow> monitor_group_request option \<Rightarrow> unit handler" where
  "Server_UpdateMonitorGroup s i body = requireUser (\<lambda>u. case body of
     None \<Rightarrow> returnE WriteMalformedJSON
   | Some req \<Rightarrow> or_write (UpdateMonitorGroup s i (usr_id u) (mgq_name req) (the_or 0 (mgq_ordering req))) (\<lambda>_.
       returnE (send_status 204)))"

definition Server_DeleteMonitorGroup :: "monitoring_service \<Rightarrow> int \<Rightarrow> unit handler" where
  "Server_DeleteMonitorGroup s i = requireUser (\<lambda>u.
     or_write (DeleteMonitorGroup s i (usr_id u)) (\<lambda>_. returnE (send_status 204)))"

text \<open>The body holds the group, or null to unassign.\<close>

definition Server_AssignMonitorToGroup :: "monitoring_service \<Rightarrow> uuid \<Rightarrow> int option option \<Rightarrow> unit handler" where
  "Server_AssignMonitorToGroup s i body = requireUser (\<lambda>u. case body of
     None \<Rightarrow> returnE WriteMalformedJSON
   | Some groupId \<Rightarrow> or_write (AssignMonitorGroup s i (usr_id u) groupId) (\<lambda>_. returnE (send_status 204)))"

section \<open>Subscriptions\<close>

record subscribe_request =
  sbr_email :: string
  sbr_locale :: "string option"
  sbr_source :: "string option"

definition subscribe_response :: "unit io \<Rightarrow> string response io" where
  "subscribe_response m = bindE (attemptE m) (\<lambda>r. returnE (case r of
     Inl err \<Rightarrow> envelope 400 ''INVALID_EMAIL'' (error_text err)
   | Inr _ \<Rightarrow> send_json 202 ''check your inbox to confirm''))"

definition Server_SubscribeToStatusPage ::
    "subscription_service \<Rightarrow> string \<Rightarrow> subscribe_request option \<Rightarrow> string handler" where
  "Server_SubscribeToStatusPage sub slug body = (\<lambda>_. case body of
     None \<Rightarrow> returnE WriteMalformedJSON
   | Some req \<Rightarrow> subscribe_response (Subscribe sub slug (sbr_email req) (the_or [] (sbr_locale req))))"

definition Server_ListMySubscribers :: "subscription_service \<Rightarrow> status_subscriber list handler" where
  "Server_ListMySubscribers sub = requireUser (\<lambda>u.
     or_write (ListConfirmed sub (usr_slug u)) (\<lambda>subs.
     returnE (send_json 200 (filter (\<lambda>x. ss_confirmed_at x \<noteq> None) subs))))"

text \<open>The pages behind the links of a mail: the title of the HTML page stands for the page.\<close>

definition link_page :: "'a io \<Rightarrow> string \<Rightarrow> string \<Rightarrow> string response io" where
  "link_page m ok_title bad_title = bindE (attemptE m) (\<lambda>r. returnE (case r of
     Inl _ \<Rightarrow> send_json 404 bad_title | Inr _ \<Rightarrow> send_json 200 ok_title))"

definition Server_ConfirmStatusSubscription :: "subscription_service \<Rightarrow> string \<Rightarrow> string handler" where
  "Server_ConfirmStatusSubscription sub token = (\<lambda>_. link_page (Confirm sub token) ''Subscribed'' ''Link expired'')"

definition Server_UnsubscribeFromStatusPage :: "subscription_service \<Rightarrow> string \<Rightarrow> string handler" where
  "Server_UnsubscribeFromStatusPage sub token =
     (\<lambda>_. link_page (Unsubscribe sub token) ''Unsubscribed'' ''Already unsubscribed'')"

definition Server_SubscribeToNewsletter :: "blog_subscription_service \<Rightarrow> subscribe_request option \<Rightarrow> string handler" where
  "Server_SubscribeToNewsletter bl body = (\<lambda>_. case body of
     None \<Rightarrow> returnE WriteMalformedJSON
   | Some req \<Rightarrow> subscribe_response (Blog_Subscribe bl (sbr_email req) (sbr_source req) (the_or [] (sbr_locale req))))"

definition Server_ConfirmNewsletterSubscription :: "blog_subscription_service \<Rightarrow> string \<Rightarrow> string handler" where
  "Server_ConfirmNewsletterSubscription bl token = (\<lambda>_. link_page (Blog_Confirm bl token) ''Subscribed'' ''Link expired'')"

definition Server_UnsubscribeFromNewsletter :: "blog_subscription_service \<Rightarrow> string \<Rightarrow> string handler" where
  "Server_UnsubscribeFromNewsletter bl token =
     (\<lambda>_. link_page (Blog_Unsubscribe bl token) ''Unsubscribed'' ''Already unsubscribed'')"

section \<open>Custom domains and imports\<close>

definition Server_ListCustomDomains :: "custom_domain_service \<Rightarrow> custom_domain list handler" where
  "Server_ListCustomDomains s = requireUser (\<lambda>u.
     or_write (ListDomains s (usr_id u)) (\<lambda>rows. returnE (send_json 200 rows)))"

definition Server_RequestCustomDomain :: "custom_domain_service \<Rightarrow> string option \<Rightarrow> custom_domain handler" where
  "Server_RequestCustomDomain s body = requireUser (\<lambda>u. case body of
     None \<Rightarrow> returnE WriteMalformedJSON
   | Some hostname \<Rightarrow> bindE (attemptE (RequestDomain s (usr_id u) hostname)) (\<lambda>r. returnE (case r of
       Inl err \<Rightarrow> if errors_is err ErrForbidden then WriteForbiddenTenant
                  else envelope 422 ''INVALID_HOSTNAME'' (error_text err)
     | Inr d \<Rightarrow> send_json 201 d)))"

text \<open>The cache of the API process goes in and comes out.\<close>

definition Server_DeleteCustomDomain ::
    "custom_domain_service \<Rightarrow> int \<Rightarrow> hostname_cache \<Rightarrow> user option \<Rightarrow> (unit response \<times> hostname_cache) io" where
  "Server_DeleteCustomDomain s i cache u = (case u of
     None \<Rightarrow> returnE (WriteUnauthorized, cache)
   | Some x \<Rightarrow> bindE (attemptE (DeleteDomain s i (usr_id x) cache)) (\<lambda>r. returnE (case r of
       Inl err \<Rightarrow> (Write err, cache) | Inr cache' \<Rightarrow> (send_status 204, cache'))))"

definition Server_LookupCustomDomain :: "auth_service \<Rightarrow> hostname_cache \<Rightarrow> string \<Rightarrow> string handler" where
  "Server_LookupCustomDomain auth cache hostname = (\<lambda>_.
     let hostname = to_lower (trim_space hostname) in
     if hostname = [] then returnE (WriteNotFound ''hostname'')
     else case LookupHostname cache hostname of
       None \<Rightarrow> returnE (WriteNotFound ''custom domain'')
     | Some userID \<Rightarrow> or_write (GetUserByID auth userID) (\<lambda>u. returnE (send_json 200 (usr_slug u))))"

definition Server_GetWellKnownProbe :: "string \<Rightarrow> string handler" where
  "Server_GetWellKnownProbe token = (\<lambda>_. returnE (if token = [] then send_status 404 else send_json 200 token))"

definition Server_ImportAtlassian ::
    "atlassian_importer \<Rightarrow> goerr + atlassian_export \<Rightarrow> import_result handler" where
  "Server_ImportAtlassian i body = requireUser (\<lambda>u.
     bindE (attemptE (Import i (usr_id u) (Inr body))) (\<lambda>r. returnE (case r of
       Inl err \<Rightarrow> envelope 400 ''ATLASSIAN_IMPORT_FAILED'' (error_text err)
     | Inr res \<Rightarrow> send_json 200 res)))"

section \<open>Step relations of handlers\<close>

context world_rel
begin

lemma or_write: "steps_by R m \<Longrightarrow> (\<And>x. steps_by R (f x)) \<Longrightarrow> steps_by R (or_write m f)"
  unfolding or_write_def by (intro world_rules)

lemma requireUser: "(\<And>x. steps_by R (h x)) \<Longrightarrow> steps_by R (requireUser h u)"
  unfolding requireUser_def by (intro world_rules)

lemmas handler_rules = or_write requireUser

end

end
