(* ===== verification/Channel_System.thy ===== *)
theory Channel_System
  imports Alert_Properties Monitor_Properties Http_Handlers
begin

text \<open>
  The channel handlers of the API (\<open>CreateChannel\<close>, \<open>UpdateChannel\<close>, \<open>DeleteChannel\<close>,
  \<open>BindChannel\<close> and \<open>UnbindChannel\<close> of \<open>internal/adapter/http/server.go\<close>) and the executions in
  which they, the monitor handlers and the worker run. In all of them a channel is bound only to
  monitors of its own user.
\<close>

section \<open>Requests\<close>

text \<open>A request on channels: the handler with what the path and the body carry.\<close>

datatype channel_request =
    PostChannel "create_channel_request option"
  | PutChannel uuid "update_channel_request option"
  | DropChannel uuid
  | PostBinding uuid "uuid option"
  | DropBinding uuid uuid

fun serve_channel :: "alert_service \<Rightarrow> user option \<Rightarrow> channel_request \<Rightarrow> unit io" where
  "serve_channel s u (PostChannel body) = void (Server_CreateChannel s body u)"
| "serve_channel s u (PutChannel c body) = void (Server_UpdateChannel s c body u)"
| "serve_channel s u (DropChannel c) = void (Server_DeleteChannel s c u)"
| "serve_channel s u (PostBinding m body) = void (Server_BindChannel s m body u)"
| "serve_channel s u (DropBinding m c) = void (Server_UnbindChannel s m c u)"

section \<open>Executions\<close>

definition monitor_owners :: "database \<Rightarrow> (uuid \<times> uuid) list" where
  "monitor_owners d = map (\<lambda>r. (mnr_id r, mnr_user_id r)) (t_monitors d)"

definition channel_owners :: "database \<Rightarrow> (uuid \<times> uuid) list" where
  "channel_owners d = map (\<lambda>r. (chr_id r, chr_user_id r)) (t_channels d)"

text \<open>
  A step is a request on monitors or channels, a channel that the Telegram webhook creates, or a
  step of the surroundings, among them the worker and the notifier, that neither binds channels
  nor adds or hands over monitors or channels.
\<close>

inductive channel_step :: "encryptor option \<Rightarrow> network \<Rightarrow> channel_registry \<Rightarrow> world \<Rightarrow> world \<Rightarrow> bool"
  for k net reg where
  request: "handle_call (api k net) u c w = (r, w') \<Longrightarrow> channel_step k net reg w w'"
| channel_request: "serve_channel (notifier (deployed_cipher k) reg) u rq w = (r, w') \<Longrightarrow> channel_step k net reg w w'"
| telegram: "CreateChannel (notifier (deployed_cipher k) reg) u inp w = (x, w') \<Longrightarrow> channel_step k net reg w w'"
| surroundings: "monitor_owners (w_db w') = monitor_owners (w_db w) \<Longrightarrow> channel_owners (w_db w') = channel_owners (w_db w) \<Longrightarrow>
    t_monitor_channels (w_db w') = t_monitor_channels (w_db w) \<Longrightarrow> channel_step k net reg w w'"

inductive channel_reachable :: "encryptor option \<Rightarrow> network \<Rightarrow> channel_registry \<Rightarrow> world \<Rightarrow> bool"
  for k net reg where
  start: "t_monitor_channels (w_db w) = [] \<Longrightarrow> distinct (map fst (monitor_owners (w_db w))) \<Longrightarrow>
    distinct (map fst (channel_owners (w_db w))) \<Longrightarrow> channel_reachable k net reg w"
| step: "channel_reachable k net reg w \<Longrightarrow> channel_step k net reg w w' \<Longrightarrow> channel_reachable k net reg w'"

section \<open>Bindings stay within an account\<close>

definition bindings_ok :: "database \<Rightarrow> bool" where
  "bindings_ok d \<longleftrightarrow> distinct (map fst (monitor_owners d)) \<and> distinct (map fst (channel_owners d))
     \<and> (\<forall>(m, c) \<in> set (t_monitor_channels d). \<exists>u. (m, u) \<in> set (monitor_owners d) \<and> (c, u) \<in> set (channel_owners d))"

lemma bindings_ok_cong:
  "monitor_owners d' = monitor_owners d \<Longrightarrow> channel_owners d' = channel_owners d \<Longrightarrow>
   t_monitor_channels d' = t_monitor_channels d \<Longrightarrow> bindings_ok d' = bindings_ok d"
  by (simp add: bindings_ok_def)

lemma owners_update_where:
  "(\<And>r. mnr_id (f r) = mnr_id r) \<Longrightarrow> (\<And>r. mnr_user_id (f r) = mnr_user_id r) \<Longrightarrow>
   map (\<lambda>r. (mnr_id r, mnr_user_id r)) (update_where p f rows) = map (\<lambda>r. (mnr_id r, mnr_user_id r)) rows"
  by (simp add: update_where_def)

lemma channel_owners_update_where:
  "(\<And>r. chr_id (f r) = chr_id r) \<Longrightarrow> (\<And>r. chr_user_id (f r) = chr_user_id r) \<Longrightarrow>
   map (\<lambda>r. (chr_id r, chr_user_id r)) (update_where p f rows) = map (\<lambda>r. (chr_id r, chr_user_id r)) rows"
  by (simp add: update_where_def)

lemma bindings_ok_grow:
  assumes "bindings_ok d" "distinct (map fst (monitor_owners d'))" "distinct (map fst (channel_owners d'))"
    "set (monitor_owners d) \<subseteq> set (monitor_owners d')" "set (channel_owners d) \<subseteq> set (channel_owners d')"
    "set (t_monitor_channels d') \<subseteq> set (t_monitor_channels d)"
  shows "bindings_ok d'"
  unfolding bindings_ok_def
proof (intro conjI ballI, rule assms(2), rule assms(3))
  fix p assume "p \<in> set (t_monitor_channels d')"
  with assms(1,6) have "case p of (m, c) \<Rightarrow> \<exists>u. (m, u) \<in> set (monitor_owners d) \<and> (c, u) \<in> set (channel_owners d)"
    unfolding bindings_ok_def by blast
  with assms(4,5) show "case p of (m, c) \<Rightarrow> \<exists>u. (m, u) \<in> set (monitor_owners d') \<and> (c, u) \<in> set (channel_owners d')"
    by (cases p) auto
qed

lemma bindings_ok_same:
  "bindings_ok d \<Longrightarrow> monitor_owners d' = monitor_owners d \<Longrightarrow> channel_owners d' = channel_owners d \<Longrightarrow>
   set (t_monitor_channels d') \<subseteq> set (t_monitor_channels d) \<Longrightarrow> bindings_ok d'"
  by (rule bindings_ok_grow) (auto simp: bindings_ok_def)

lemma bindings_ok_add_monitor:
  assumes "bindings_ok d" "\<not> monitor_exists d (mnr_id r)"
  shows "bindings_ok (d\<lparr>t_monitors := t_monitors d @ [r]\<rparr>)"
  using assms(2)
  by (intro bindings_ok_grow [OF assms(1)])
     (use assms(1) in \<open>auto simp: bindings_ok_def monitor_owners_def channel_owners_def monitor_exists_def comp_def\<close>)

lemma bindings_ok_add_channel:
  assumes "bindings_ok d" "\<not> channel_exists d (chr_id r)"
  shows "bindings_ok (d\<lparr>t_channels := t_channels d @ [r]\<rparr>)"
  using assms(2)
  by (intro bindings_ok_grow [OF assms(1)])
     (use assms(1) in \<open>auto simp: bindings_ok_def monitor_owners_def channel_owners_def channel_exists_def comp_def\<close>)

lemmas binding_simps = monitor_owners_def channel_owners_def owners_update_where channel_owners_update_where

lemma binding_creations:
  "steps_by (db_keeps bindings_ok) (q_CreateMonitor cm)"
  "steps_by (db_keeps bindings_ok) (q_CreateChannel u nm ty cfg)"
  unfolding q_CreateMonitor_def q_CreateChannel_def
  by (intro keeping.bindE db_keeping.gen_random_uuid db_keeping.statement;
      auto simp: Let_def bindings_ok_add_monitor bindings_ok_add_channel split: if_splits)+

lemma binding_statements:
  "steps_by (db_keeps bindings_ok) (q_DeleteMonitor i u)"
  "steps_by (db_keeps bindings_ok) (q_ToggleMonitorPause i u)"
  "steps_by (db_keeps bindings_ok) (q_UpdateMonitor um)"
  "steps_by (db_keeps bindings_ok) (q_CreateIncident ci)"
  "steps_by (db_keeps bindings_ok) (q_ResolveIncident n ot)"
  "steps_by (db_keeps bindings_ok) (q_UpdateIncidentState n st)"
  "steps_by (db_keeps bindings_ok) (q_CreateIncidentUpdate cu)"
  "steps_by (db_keeps bindings_ok) (q_CreateMaintenanceWindow cw)"
  "steps_by (db_keeps bindings_ok) (q_DeleteMaintenanceWindow n u)"
  "steps_by (db_keeps bindings_ok) (q_CreateMonitorGroup u nm p)"
  "steps_by (db_keeps bindings_ok) (q_UpdateMonitorGroup n u nm p)"
  "steps_by (db_keeps bindings_ok) (q_DeleteMonitorGroup n u)"
  "steps_by (db_keeps bindings_ok) (q_AssignMonitorToGroup i u g)"
  "steps_by (db_keeps bindings_ok) (q_UpdateChannel i nm cfg en u)"
  "steps_by (db_keeps bindings_ok) (q_DeleteChannel i u)"
  "steps_by (db_keeps bindings_ok) (q_UnbindChannelFromMonitor m c)"
  unfolding insert_statements update_statements q_CreateIncident_def q_ResolveIncident_def q_UpdateIncidentState_def
    q_UpdateChannel_def q_DeleteChannel_def q_UnbindChannelFromMonitor_def
  by (intro keeping.bindE db_keeping.nextval db_keeping.gen_random_uuid db_keeping.statement;
      auto simp: Let_def one_row_def binding_simps split: if_splits list.splits elim: bindings_ok_same)+

section \<open>Requests on monitors\<close>

lemma binding_io:
  "steps_by (db_keeps bindings_ok) (PublishMonitorChanged ev)"
  "steps_by (db_keeps bindings_ok) (record_metric x)"
  "steps_by (db_keeps bindings_ok) (encryptConfig (deployed_cipher k) cfg)"
  "steps_by (db_keeps bindings_ok) (pg_MonitorRepo_GetByID C i)"
  "steps_by (db_keeps bindings_ok) (decrypted_monitor C row)"
  "steps_by (db_keeps bindings_ok) (published (api k net) a mon)"
  "steps_by (db_keeps bindings_ok) (metric_of (api k net) mx)"
  "steps_by (db_keeps bindings_ok) (loadOwnedMonitor (api k net) i u)"
  "steps_by (db_keeps bindings_ok) (pg_MonitorRepo_CountByUserID u)"
  "steps_by (db_keeps bindings_ok) (pg_IncidentRepo_GetByID n)"
proof -
  have eq: "steps_by (db_keeps bindings_ok) m" if "steps_by (db_view id) m" for m :: "'x io"
    using that by (auto simp: steps_by_def)
  have count: "steps_by (db_view id) (pg_MonitorRepo_CountByUserID u)"
    unfolding pg_MonitorRepo_CountByUserID_def q_CountMonitorsByUserID_def by (intro db_viewing.world_rules)
  show "steps_by (db_keeps bindings_ok) (PublishMonitorChanged ev)"
    "steps_by (db_keeps bindings_ok) (record_metric x)"
    "steps_by (db_keeps bindings_ok) (encryptConfig (deployed_cipher k) cfg)"
    "steps_by (db_keeps bindings_ok) (pg_MonitorRepo_GetByID C i)"
    "steps_by (db_keeps bindings_ok) (decrypted_monitor C row)"
    "steps_by (db_keeps bindings_ok) (published (api k net) a mon)"
    "steps_by (db_keeps bindings_ok) (metric_of (api k net) mx)"
    "steps_by (db_keeps bindings_ok) (loadOwnedMonitor (api k net) i u)"
    using view_io(1,3,4,5,6) [where v = id] view_service [where v = id] by (auto simp: steps_by_def)
  show "steps_by (db_keeps bindings_ok) (pg_MonitorRepo_CountByUserID u)" using count by (auto simp: steps_by_def)
  show "steps_by (db_keeps bindings_ok) (pg_IncidentRepo_GetByID n)"
    using readonly_get_incident [of n] by (simp add: readonly_def steps_by_def)
qed

lemma binding_calls: "steps_by (db_keeps bindings_ok) (handle_call (api k net) u c)"
proof (cases c)
  case (CallCreateMonitor name ty cfg interval alert pub)
  show ?thesis
    unfolding CallCreateMonitor handle_call.simps CreateMonitor_def api_ports pg_MonitorRepo_Create_def
    by (simp, intro db_keeping.world_rules binding_io binding_creations)
next
  case (CallCreateIncident m title body)
  show ?thesis
    unfolding CallCreateIncident handle_call.simps CreateManualIncident_def manual_incident_tx_def Let_def api_ports
      pg_IncidentRepo_Create_def pg_IncidentUpdateRepo_Create_def
    by (intro db_keeping.world_rules binding_io binding_statements)
next
  case (CallUpdateIncidentState i st body)
  show ?thesis
    unfolding CallUpdateIncidentState handle_call.simps ChangeIncidentState_def change_state_tx_def api_ports
      pg_IncidentRepo_Resolve_def pg_IncidentUpdateRepo_Create_def
    by (intro db_keeping.world_rules binding_io binding_statements)
next
  case (CallScheduleMaintenanceWindow m t t' reason)
  show ?thesis
    unfolding CallScheduleMaintenanceWindow handle_call.simps ScheduleMaintenance_def with_maintenance_def api_ports option.case
      pg_MaintenanceWindowRepo_def maintenance_window_repo.simps pg_MaintenanceWindowRepo_Create_def
    by (intro db_keeping.world_rules binding_io binding_statements)
qed (simp_all add: UpdateMonitor_def DeleteMonitor_def TogglePause_def DeleteMaintenanceWindow_def
       CreateMonitorGroup_def UpdateMonitorGroup_def DeleteMonitorGroup_def AssignMonitorGroup_def
       with_maintenance_def pg_MaintenanceWindowRepo_def pg_MonitorGroupRepo_def
       pg_MonitorRepo_Update_def pg_MonitorRepo_TogglePause_def pg_MonitorGroupRepo_Create_def
       pg_MonitorGroupRepo_Update_def,
     (intro db_keeping.world_rules binding_io binding_statements)+)

section \<open>Requests on channels\<close>

lemma notifier_ports [simp]:
  "ChannelRepo_Create (as_channels (notifier C reg)) = pg_ChannelRepo_Create C"
  "ChannelRepo_GetByID (as_channels (notifier C reg)) = pg_ChannelRepo_GetByID C"
  "ChannelRepo_Update (as_channels (notifier C reg)) = pg_ChannelRepo_Update C"
  "ChannelRepo_Delete (as_channels (notifier C reg)) = q_DeleteChannel"
  "ChannelRepo_BindToMonitor (as_channels (notifier C reg)) = q_BindChannelToMonitor"
  "ChannelRepo_UnbindFromMonitor (as_channels (notifier C reg)) = q_UnbindChannelFromMonitor"
  "MonitorRepo_GetByID (as_monitors (notifier C reg)) = pg_MonitorRepo_GetByID C"
  "as_registry (notifier C reg) = reg"
  by (simp_all add: notifier_def pg_ChannelRepo_def pg_MonitorRepo_def)

lemma binding_cipher: "steps_by (db_keeps bindings_ok) (Cipher_Encrypt (deployed_cipher k) p)"
proof (rule steps_byI, rule impI)
  fix w :: world
  assume ok: "bindings_ok (w_db w)"
  have "durable (snd (Cipher_Encrypt (deployed_cipher k) p w)) = durable w"
    using deployed_cipher_quiet [of k] by (simp add: cipher_quiet_def steps_by_def)
  from arg_cong [OF durable_eqD [OF this], of w_db] ok show "bindings_ok (w_db (snd (Cipher_Encrypt (deployed_cipher k) p w)))"
    by simp
qed

lemma channel_io:
  "steps_by (db_keeps bindings_ok) (encryptChannelConfig (deployed_cipher k) cfg)"
  "steps_by (db_keeps bindings_ok) (pg_ChannelRepo_GetByID C c)"
  "steps_by (db_keeps bindings_ok) (decrypted_channel C ch)"
  unfolding encryptChannelConfig_def pg_ChannelRepo_GetByID_def q_GetChannelByID_def decrypted_channel_def
  by (intro db_keeping.world_rules binding_cipher)+

lemma channel_row_found:
  assumes "pg_ChannelRepo_GetByID C c w = (Inr ch, w')"
  shows "w_db w' = w_db w" "(c, ch_user_id ch) \<in> set (channel_owners (w_db w))"
  using assms unfolding pg_ChannelRepo_GetByID_def q_GetChannelByID_def decrypted_channel_def
  by (auto elim!: bindE_InrE mapErrE_InrE query_InrE liftE_InrE simp: returnE_apply channel_owners_def dest!: one_row_Inr)

lemma bind_keeps: "steps_by (db_keeps bindings_ok) (BindChannel (notifier C reg) u m c)"
proof (rule steps_byI, rule impI)
  fix w :: world
  assume ok: "bindings_ok (w_db w)"
  obtain r1 w1 where g1: "pg_MonitorRepo_GetByID C m w = (r1, w1)" by fastforce
  have w1: "w_db w1 = w_db w" by (rule readonlyD [OF readonly_get g1])
  show "bindings_ok (w_db (snd (BindChannel (notifier C reg) u m c w)))"
  proof (cases "\<exists>mon. r1 = Inr mon \<and> mon_user_id mon = u")
    case False
    with ok w1 show ?thesis by (cases r1) (auto simp: BindChannel_def effect_simps g1)
  next
    case True
    then obtain mon where mon: "r1 = Inr mon" "mon_user_id mon = u" by blast
    obtain r2 w2 where g2: "pg_ChannelRepo_GetByID C c w1 = (r2, w2)" by fastforce
    have keep2: "bindings_ok (w_db w2)" using steps_byD [OF channel_io(2) g2] ok w1 by simp
    show ?thesis
    proof (cases "\<exists>ch. r2 = Inr ch \<and> ch_user_id ch = u")
      case False
      with keep2 mon show ?thesis by (cases r2) (auto simp: BindChannel_def effect_simps g1 g2)
    next
      case True
      then obtain ch where ch: "r2 = Inr ch" "ch_user_id ch = u" by blast
      note row = channel_row_found [OF g2 [unfolded ch]]
      from GetByID_InrD(3) [OF g1 [unfolded mon]] mon have "(m, u) \<in> set (monitor_owners (w_db w2))"
        unfolding row(1) w1 by (auto simp: monitor_owners_def)
      moreover have "(c, u) \<in> set (channel_owners (w_db w2))" using row ch by simp
      ultimately have add: "bindings_ok ((w_db w2)\<lparr>t_monitor_channels := t_monitor_channels (w_db w2) @ [(m, c)]\<rparr>)"
        using keep2 by (auto simp: bindings_ok_def monitor_owners_def channel_owners_def)
      have "BindChannel (notifier C reg) u m c w = q_BindChannelToMonitor m c w2"
        using mon ch by (simp add: BindChannel_def effect_simps g1 g2)
      with add keep2 show ?thesis
        by (auto simp: q_BindChannelToMonitor_def statement_def external_def split: list.splits bool.splits if_splits)
    qed
  qed
qed

lemma binding_create: "steps_by (db_keeps bindings_ok) (CreateChannel (notifier (deployed_cipher k) reg) u inp)"
  unfolding CreateChannel_def notifier_ports pg_ChannelRepo_Create_def
  by (intro db_keeping.world_rules channel_io binding_creations)

lemma binding_channel_requests:
  "steps_by (db_keeps bindings_ok) (serve_channel (notifier (deployed_cipher k) reg) u rq)"
proof (cases rq)
  case (PostChannel body)
  show ?thesis
    unfolding PostChannel serve_channel.simps Server_CreateChannel_def
    by (intro db_keeping.world_rules db_keeping.handler_rules binding_create)
next
  case (PutChannel c body)
  show ?thesis
    unfolding PutChannel serve_channel.simps Server_UpdateChannel_def UpdateChannel_def loadOwnedChannel_def
      notifier_ports pg_ChannelRepo_Update_def
    by (intro db_keeping.world_rules db_keeping.handler_rules channel_io binding_statements)
next
  case (DropChannel c)
  show ?thesis
    unfolding DropChannel serve_channel.simps Server_DeleteChannel_def DeleteChannel_def loadOwnedChannel_def notifier_ports
    by (intro db_keeping.world_rules db_keeping.handler_rules channel_io binding_statements)
next
  case (PostBinding m body)
  show ?thesis
    unfolding PostBinding serve_channel.simps Server_BindChannel_def
    by (intro db_keeping.world_rules db_keeping.handler_rules bind_keeps)
next
  case (DropBinding m c)
  show ?thesis
    unfolding DropBinding serve_channel.simps Server_UnbindChannel_def UnbindChannel_def notifier_ports
    by (intro db_keeping.world_rules db_keeping.handler_rules binding_io binding_statements)
qed

lemma channel_reachable_ok: "channel_reachable k net reg w \<Longrightarrow> bindings_ok (w_db w)"
proof (induction rule: channel_reachable.induct)
  case (start w)
  then show ?case by (simp add: bindings_ok_def)
next
  case (step w w')
  from step.hyps(2) step.IH show ?case
  proof (cases rule: channel_step.cases)
    case (request u c r)
    from steps_byD [OF binding_calls this] step.IH show ?thesis by simp
  next
    case (channel_request u rq r)
    from steps_byD [OF binding_channel_requests this] step.IH show ?thesis by simp
  next
    case (telegram u inp x)
    from steps_byD [OF binding_create this] step.IH show ?thesis by simp
  next
    case surroundings
    from bindings_ok_cong [OF this] step.IH show ?thesis by simp
  qed
qed

section \<open>Alerts stay within an account\<close>

lemma alert_rows_owner:
  assumes "bindings_ok d" "(ae_monitor_id ev, ae_user_id ev) \<in> set (monitor_owners d)" "r \<in> set (alert_rows d ev)"
  shows "chr_user_id r = ae_user_id ev"
proof (cases "bound_rows d (ae_monitor_id ev) = []")
  case True
  with assms(3) show ?thesis by (auto simp: alert_rows_def user_rows_def)
next
  case False
  with assms(3) have r: "r \<in> set (t_channels d)" "(ae_monitor_id ev, chr_id r) \<in> set (t_monitor_channels d)"
    by (auto simp: alert_rows_def bound_rows_def)
  with assms(1) obtain u where u: "(ae_monitor_id ev, u) \<in> set (monitor_owners d)" "(chr_id r, u) \<in> set (channel_owners d)"
    unfolding bindings_ok_def by blast
  have "(chr_id r, chr_user_id r) \<in> set (channel_owners d)" using r(1) by (auto simp: channel_owners_def)
  then have "u = chr_user_id r"
    by (rule eq_key_imp_eq_value [rotated 2]) (use assms(1) u(2) in \<open>simp_all add: bindings_ok_def\<close>)
  moreover have "u = ae_user_id ev"
    by (rule eq_key_imp_eq_value [OF _ u(1) assms(2)]) (use assms(1) in \<open>simp add: bindings_ok_def\<close>)
  ultimately show ?thesis by simp
qed

lemma channels_for_owners:
  assumes "channels_for (deployed_notifier L out token c C) ev w = (Inr chs, w')"
  shows "map ch_user_id chs = map chr_user_id (alert_rows (w_db w) ev)"
proof -
  have bound: "map ch_user_id cs = map chr_user_id (bound_rows (w_db v) m) \<and> w_db v' = w_db v"
    if "pg_ChannelRepo_ListForMonitor C m v = (Inr cs, v')" for m v cs v'
    using that unfolding pg_ChannelRepo_ListForMonitor_def q_ListChannelsForMonitor_def toDomainChannels_def
    by (auto elim!: bindE_InrE mapErrE_InrE query_InrE dest!: decrypted_rows simp: bound_rows_def)
  have own: "map ch_user_id cs = map chr_user_id (user_rows (w_db v) u)"
    if "pg_ChannelRepo_ListByUserID C u v = (Inr cs, v')" for u v cs v'
    using that unfolding pg_ChannelRepo_ListByUserID_def q_ListChannelsByUserID_def toDomainChannels_def
    by (auto elim!: bindE_InrE mapErrE_InrE query_InrE dest!: decrypted_rows simp: user_rows_def)
  from assms obtain cs w1 where
    cs: "pg_ChannelRepo_ListForMonitor C (ae_monitor_id ev) w = (Inr cs, w1)"
    and rest: "(if cs = [] then wrapE (''list channels for user '' @ uuid_string (ae_user_id ev))
         (pg_ChannelRepo_ListByUserID C (ae_user_id ev)) else returnE cs) w1 = (Inr chs, w')"
    unfolding channels_for_def deployed_ports by (elim bindE_InrE mapErrE_InrE)
  note b = bound [OF cs]
  show ?thesis
  proof (cases "cs = []")
    case True
    with b have e: "bound_rows (w_db w) (ae_monitor_id ev) = []" by simp
    from rest True have "pg_ChannelRepo_ListByUserID C (ae_user_id ev) w1 = (Inr chs, w')"
      by (auto elim: mapErrE_InrE)
    from own [OF this] b show ?thesis by (simp add: alert_rows_def e)
  next
    case False
    with b have e: "bound_rows (w_db w) (ae_monitor_id ev) \<noteq> []" by auto
    from rest False have "chs = cs" by (simp add: returnE_apply)
    with b e show ?thesis by (simp add: alert_rows_def)
  qed
qed

text \<open>C6: Alerts stay within an account: however users create, change, bind and unbind channels and
  monitors, an alert about a monitor goes only to channels of the monitor's own user.\<close>

theorem alerts_stay_within_account:
  assumes "channel_reachable k net reg w" "(ae_monitor_id ev, ae_user_id ev) \<in> set (monitor_owners (w_db w))"
    "channels_for (deployed_notifier L out token c (deployed_cipher k)) ev w = (Inr chs, w')" "ch \<in> set chs"
  shows "ch_user_id ch = ae_user_id ev"
proof -
  have "ch_user_id ch \<in> set (map ch_user_id chs)" using assms(4) by simp
  then obtain r where "r \<in> set (alert_rows (w_db w) ev)" "ch_user_id ch = chr_user_id r"
    unfolding channels_for_owners [OF assms(3)] by auto
  with alert_rows_owner [OF channel_reachable_ok [OF assms(1)] assms(2)] show ?thesis by simp
qed

lemma alerts_stay_within_account_witness:
  "\<exists>w' ch. channels_for demo_notifier (demo_alert AlertDown) (hooked [(50, ok_config)]) = (Inr [ch], w') \<and> ch_user_id ch = 1"
proof -
  let ?w = "hooked [(50, ok_config)]"
  have db: "t_monitors (w_db ?w) = [demo_monitor_row]" "t_channels (w_db ?w) = [demo_channel_row 50 ChannelWebhook ok_config]"
    "t_monitor_channels (w_db ?w) = []" by (simp_all add: hooked_def demo_db_def empty_db_def)
  have reach: "channel_reachable None demo_net reg ?w" for reg
    by (rule channel_reachable.start) (simp_all add: monitor_owners_def channel_owners_def db)
  have own: "(ae_monitor_id (demo_alert AlertDown), ae_user_id (demo_alert AlertDown)) \<in> set (monitor_owners (w_db ?w))"
    by (simp add: monitor_owners_def db demo_alert_def demo_monitor_row_def)
  have "\<exists>w. channels_for demo_notifier (demo_alert AlertDown) ?w = (Inr [demo_channel 50 ChannelWebhook ok_config], w)"
    using demo_listing [of "[(50, ok_config)]" AlertDown] demo_configs by auto
  then obtain w' where run: "channels_for (deployed_notifier plain_library demo_out ''t'' demo_smtp (deployed_cipher None))
      (demo_alert AlertDown) ?w = (Inr [demo_channel 50 ChannelWebhook ok_config], w')"
    by (auto simp: deployed_cipher_def)
  from alerts_stay_within_account [OF reach own run] have "ch_user_id (demo_channel 50 ChannelWebhook ok_config) = 1"
    by (simp add: demo_alert_def)
  with run show ?thesis by (auto simp: deployed_cipher_def)
qed

end
