(* ===== verification/Page_Properties.thy ===== *)
theory Page_Properties
  imports Http_Handlers Alert_Properties Monitor_Properties
begin

text \<open>
  What the public pages show: the status page of the deployed API lists exactly the public live
  monitors of the account behind the slug, and the channel a user reads back does not tell its
  secret.
\<close>

section \<open>Reading\<close>

definition tables :: "world \<Rightarrow> database \<times> time" where
  "tables w = (w_db w, w_db_clock w)"

interpretation page: world_rel "\<lambda>w w'. tables w' = tables w"
  by unfold_locales (auto simp: tables_def)

lemma or_zero_InrE:
  assumes "or_zero z m w = (Inr x, w')"
  obtains r where "m w = (r, w')" "x = (case r of Inl _ \<Rightarrow> z | Inr y \<Rightarrow> y)"
  using assms by (auto simp: or_zero_def effect_simps split: prod.splits sum.splits)

lemma page_or_zero: "steps_by (\<lambda>w w'. tables w' = tables w) m \<Longrightarrow> steps_by (\<lambda>w w'. tables w' = tables w) (or_zero z m)"
  unfolding or_zero_def by (intro page.world_rules)

lemma page_ports:
  "MonitorRepo_ListPublicBySlug (ms_monitors (api k net)) = pg_MonitorRepo_ListPublicBySlug (deployed_cipher k)"
  "UserRepo_GetBySlug (ms_users (api k net)) = pg_UserRepo_GetBySlug"
  "UserRepo_GetBranding (ms_users (api k net)) = pg_UserRepo_GetBranding"
  "UptimeRepo_GetUptime (ms_uptime (api k net)) = pg_UptimeRepo_GetUptime"
  "IncidentRepo_ListByMonitorID (ms_incidents (api k net)) = pg_IncidentRepo_ListByMonitorID"
  "MonitorGroupRepo_ListMemberships (ms_groups (api k net)) = pg_MonitorGroupRepo_ListMemberships"
  "MonitorGroupRepo_ListByUserID (ms_groups (api k net)) = pg_MonitorGroupRepo_ListByUserID"
  by (simp_all add: api_def pg_service_defs pg_MonitorRepo_def pg_UserRepo_def pg_UptimeRepo_def pg_IncidentRepo_def
      pg_MonitorGroupRepo_def)

lemma page_queries:
  "steps_by (\<lambda>w w'. tables w' = tables w) (pg_UptimeRepo_GetUptime m t)"
  "steps_by (\<lambda>w w'. tables w' = tables w) (pg_IncidentRepo_ListByMonitorID m n)"
  "steps_by (\<lambda>w w'. tables w' = tables w) (pg_UserRepo_GetBranding u)"
  "steps_by (\<lambda>w w'. tables w' = tables w) (pg_MonitorGroupRepo_ListMemberships u)"
  "steps_by (\<lambda>w w'. tables w' = tables w) (pg_MonitorGroupRepo_ListByUserID u)"
  "steps_by (\<lambda>w w'. tables w' = tables w) (q_HasActiveMaintenanceWindow m)"
  unfolding pg_UptimeRepo_GetUptime_def q_GetUptimeFromHourly_def pg_IncidentRepo_ListByMonitorID_def
    q_ListIncidentsByMonitorID_def pg_UserRepo_GetBranding_def q_GetUserBranding_def q_HasActiveMaintenanceWindow_def
    pg_MonitorGroupRepo_ListMemberships_def q_ListMonitorGroupMembershipsByUserID_def
    pg_MonitorGroupRepo_ListByUserID_def q_ListMonitorGroupsByUserID_def
  by (intro page.world_rules)+

section \<open>Operations that cannot fail\<close>

lemma totalD: "total m \<Longrightarrow> \<exists>x w'. m w = (Inr x, w')"
  by (simp add: total_def)

lemma total_bindE:
  assumes "total m" "\<And>x. total (f x)"
  shows "total (bindE m f)"
  unfolding total_def
proof
  fix w
  from totalD [OF assms(1), of w] obtain x w1 where "m w = (Inr x, w1)" by blast
  with totalD [OF assms(2), of x w1] show "\<exists>y w'. bindE m f w = (Inr y, w')" by (simp add: bindE_apply)
qed

lemma total_returnE: "total (returnE x)"
  by (simp add: total_def returnE_apply)

lemma total_attemptE: "total (attemptE m)"
  by (simp add: total_def attemptE_apply split: prod.splits)

lemma total_readE: "total (readE f)"
  by (simp add: total_def readE_apply)

lemma total_or_zero: "total (or_zero z m)"
  unfolding or_zero_def by (intro total_bindE total_attemptE total_returnE)

lemma total_mapE: "(\<And>x. total (f x)) \<Longrightarrow> total (mapE xs f)"
  by (induction xs) (auto intro: total_returnE total_bindE)

lemma total_if: "total m \<Longrightarrow> total n \<Longrightarrow> total (if b then m else n)"
  by simp

lemmas total_rules = total_bindE total_returnE total_attemptE total_readE total_or_zero total_mapE

lemma total_status_entry: "total (status_entry (api k net) g m)"
  unfolding status_entry_def in_maintenance_def api_ports option.case clock_now_def by (intro total_rules)

section \<open>The status page\<close>

definition public_rows :: "database \<Rightarrow> string \<Rightarrow> monitor_row list" where
  "public_rows d slug = sort_key mnr_name (filter (\<lambda>m. owned_by d (\<lambda>u. usrr_slug u = slug) m
     \<and> mnr_is_public m \<and> live m) (t_monitors d))"

definition under_maintenance :: "database \<times> time \<Rightarrow> uuid \<Rightarrow> bool" where
  "under_maintenance t m \<longleftrightarrow>
     (\<exists>r \<in> set (t_maintenance_windows (fst t)). mwr_monitor_id r = m \<and> window_covers (snd t) r)"

text \<open>The entry \<open>e\<close> is right about the monitor \<open>m\<close>.\<close>

definition entry_ok :: "database \<times> time \<Rightarrow> monitor \<Rightarrow> status_monitor \<times> incident list \<Rightarrow> bool" where
  "entry_ok t m e \<longleftrightarrow> stm_id (fst e) = mon_id m \<and> stm_name (fst e) = mon_name m
     \<and> stm_current_status (fst e) = mon_current_status m
     \<and> (stm_in_maintenance (fst e) \<longrightarrow> under_maintenance t (mon_id m))
     \<and> (\<forall>inc \<in> set (snd e). inc_monitor_id inc = mon_id m)"

lemma incidents_of:
  assumes "pg_IncidentRepo_ListByMonitorID m n w = (Inr incs, w')" "inc \<in> set incs"
  shows "inc_monitor_id inc = m"
  using assms unfolding pg_IncidentRepo_ListByMonitorID_def q_ListIncidentsByMonitorID_def
  by (auto elim!: bindE_InrE query_InrE simp: returnE_apply sql_limit_def incidentFromRow_def newest_first_def split: if_splits
      dest!: in_set_takeD)

lemma in_maintenance_right:
  assumes "in_maintenance (api k net) m w = (Inr True, w')"
  shows "under_maintenance (tables w) m"
  using assms unfolding in_maintenance_def api_ports option.case pg_MaintenanceWindowRepo_def
    maintenance_window_repo.simps q_HasActiveMaintenanceWindow_def
  by (auto elim!: bindE_InrE query_InrE simp: effect_simps under_maintenance_def tables_def split: sum.splits prod.splits)

lemma page_maintenance: "steps_by (\<lambda>w w'. tables w' = tables w) (in_maintenance (api k net) m)"
  unfolding in_maintenance_def api_ports option.case pg_MaintenanceWindowRepo_def maintenance_window_repo.simps
  by (intro page.world_rules page_queries)

lemma status_entry_right:
  assumes "status_entry (api k net) g m w = (Inr e, w')"
  shows "tables w' = tables w" "entry_ok (tables w) m e"
proof -
  from assms obtain w1 w2 w3 now uptime b incs where
    now: "clock_now w = (Inr now, w1)"
    and up: "or_zero 0 (pg_UptimeRepo_GetUptime (mon_id m) (now - days 90)) w1 = (Inr uptime, w2)"
    and mt: "in_maintenance (api k net) (mon_id m) w2 = (Inr b, w3)"
    and inc: "or_zero [] (pg_IncidentRepo_ListByMonitorID (mon_id m) 5) w3 = (Inr incs, w')"
    and e: "e = (\<lparr>stm_id = mon_id m, stm_name = mon_name m, stm_current_status = mon_current_status m,
               stm_uptime_90d = uptime, stm_group_id = g (mon_id m), stm_in_maintenance = b\<rparr>, incs)"
    unfolding status_entry_def page_ports by (elim bindE_InrE) (auto simp: returnE_apply)
  have keep: "tables w1 = tables w" "tables w2 = tables w1" "tables w3 = tables w2" "tables w' = tables w3"
    using steps_byD [OF page.clock_now now] steps_byD [OF page_or_zero [OF page_queries(1)] up]
      steps_byD [OF page_or_zero [OF page_queries(2)] inc] steps_byD [OF page_maintenance mt] by auto
  then show "tables w' = tables w" by simp
  have "\<forall>i \<in> set incs. inc_monitor_id i = mon_id m"
    using inc by (rule or_zero_InrE) (auto split: sum.splits dest: incidents_of)
  moreover have "b \<longrightarrow> under_maintenance (tables w) (mon_id m)" using in_maintenance_right [of k net "mon_id m" w2 w3] mt keep by auto
  ultimately show "entry_ok (tables w) m e" by (simp add: entry_ok_def e)
qed

lemma entries_right:
  "mapE ms (status_entry (api k net) g) w = (Inr es, w') \<Longrightarrow>
   tables w' = tables w \<and> list_all2 (entry_ok (tables w)) ms es"
proof (induction ms arbitrary: w es)
  case Nil
  then show ?case by (simp add: returnE_apply)
next
  case (Cons m ms)
  from Cons.prems obtain e w1 es' where "status_entry (api k net) g m w = (Inr e, w1)"
    "mapE ms (status_entry (api k net) g) w1 = (Inr es', w')" "es = e # es'"
    by (auto elim!: bindE_InrE simp: returnE_apply)
  with Cons.IH [of w1 es'] status_entry_right [of k net g m w e w1] show ?case by auto
qed

lemma public_list:
  assumes "pg_MonitorRepo_ListPublicBySlug C slug w = (Inr ms, w')"
  shows "tables w' = tables w" "map mon_id ms = map mnr_id (public_rows (w_db w) slug)"
    "map mon_name ms = map mnr_name (public_rows (w_db w) slug)"
    "map mon_current_status ms = map mnr_current_status (public_rows (w_db w) slug)"
proof -
  have rows: "w' = w \<and> map mon_id ms = map mnr_id rows \<and> map mon_name ms = map mnr_name rows
      \<and> map mon_current_status ms = map mnr_current_status rows"
    if "mapE rows (decrypted_monitor C) w = (Inr ms, w')" for rows w
    using that
  proof (induction rows arbitrary: ms)
    case (Cons r rows)
    then show ?case
      by (auto elim!: bindE_InrE mapErrE_InrE liftE_InrE simp: returnE_apply decrypted_monitor_def toDomainMonitor_def Let_def)
  qed (simp add: returnE_apply)
  from assms obtain rows w1 where q: "q_ListPublicMonitorsByUserSlug slug w = (Inr rows, w1)"
    and m: "mapE rows (decrypted_monitor C) w1 = (Inr ms, w')"
    unfolding pg_MonitorRepo_ListPublicBySlug_def by (rule bindE_InrE)
  from q have "rows = public_rows (w_db w) slug" "tables w1 = tables w"
    unfolding q_ListPublicMonitorsByUserSlug_def by (auto elim!: query_InrE simp: public_rows_def tables_def)
  with rows [OF m] show "tables w' = tables w" "map mon_id ms = map mnr_id (public_rows (w_db w) slug)"
    "map mon_name ms = map mnr_name (public_rows (w_db w) slug)"
    "map mon_current_status ms = map mnr_current_status (public_rows (w_db w) slug)" by auto
qed

lemma entries_sel:
  "list_all2 (entry_ok t) ms es \<Longrightarrow> map stm_id (map fst es) = map mon_id ms
     \<and> map stm_name (map fst es) = map mon_name ms
     \<and> map stm_current_status (map fst es) = map mon_current_status ms
     \<and> (\<forall>e \<in> set es. stm_in_maintenance (fst e) \<longrightarrow> under_maintenance t (stm_id (fst e)))
     \<and> (\<forall>e \<in> set es. \<forall>inc \<in> set (snd e). inc_monitor_id inc = stm_id (fst e))"
  by (induction rule: list_all2_induct) (auto simp: entry_ok_def)

lemma status_page_answers:
  assumes "pg_UserRepo_GetBySlug slug w = (Inr usr, w1)"
    "pg_MonitorRepo_ListPublicBySlug (deployed_cipher k) slug w1 = (Inr ms, w2)"
  shows "\<exists>page w'. GetStatusPage (api k net) slug w = (Inr page, w')"
  unfolding GetStatusPage_def page_ports
  apply (subst bindE_apply)
  apply (simp only: mapErrE_apply assms prod.case sum.case)
  apply (subst bindE_apply)
  apply (simp only: assms prod.case sum.case)
  apply (rule totalD)
  apply (intro total_rules total_status_entry total_if)
  done

lemma demo_decrypted: "decrypted_monitor (deployed_cipher None) demo_monitor_row w = (Inr demo_monitor, w)"
  by (simp add: decrypted_monitor_def effect_simps demo_defs demo_config deployed_cipher_def toDomainMonitor_def from_int4_def)

text \<open>C16: The status page of a slug lists exactly the public live monitors of the live accounts with
  that slug, with their names and statuses in the order of the names; its incidents are of these
  monitors; it claims maintenance only during a window; everything is up exactly when each
  monitor is up or under maintenance; and only Pro accounts have a branding of their own. Reading
  it changes no table.\<close>

theorem status_page_contents:
  assumes "GetStatusPage (api k net) slug w = (Inr page, w')"
  shows "w_db w' = w_db w \<and> map stm_id (spd_monitors page) = map mnr_id (public_rows (w_db w) slug)
    \<and> map stm_name (spd_monitors page) = map mnr_name (public_rows (w_db w) slug)
    \<and> map stm_current_status (spd_monitors page) = map mnr_current_status (public_rows (w_db w) slug)
    \<and> (\<forall>inc \<in> set (spd_incidents page). inc_monitor_id inc \<in> mnr_id ` set (public_rows (w_db w) slug))
    \<and> (\<forall>e \<in> set (spd_monitors page). stm_in_maintenance e \<longrightarrow> under_maintenance (w_db w, w_db_clock w) (stm_id e))
    \<and> (spd_all_up page \<longleftrightarrow> (\<forall>e \<in> set (spd_monitors page). stm_current_status e = StatusUp \<or> stm_in_maintenance e))
    \<and> (\<exists>u \<in> set (t_users (w_db w)). usrr_slug u = slug \<and> usrr_deleted_at u = None
        \<and> spd_show_branding page = (usrr_plan u = PlanFree) \<and> (spd_branding page = no_branding \<or> usrr_plan u = PlanPro))"
proof -
  from assms obtain usr ms g es br gs w1 w2 w3 w4 w5 where
    usr: "pg_UserRepo_GetBySlug slug w = (Inr usr, w1)"
    and ms: "pg_MonitorRepo_ListPublicBySlug (deployed_cipher k) slug w1 = (Inr ms, w2)"
    and g: "or_zero Map.empty (pg_MonitorGroupRepo_ListMemberships (usr_id usr)) w2 = (Inr g, w3)"
    and es: "mapE ms (status_entry (api k net) g) w3 = (Inr es, w4)"
    and br: "(if usr_plan usr = PlanPro then or_zero no_branding (pg_UserRepo_GetBranding (usr_id usr))
              else returnE no_branding) w4 = (Inr br, w5)"
    and gs: "or_zero [] (pg_MonitorGroupRepo_ListByUserID (usr_id usr)) w5 = (Inr gs, w')"
    and page: "page = \<lparr>spd_slug = slug, spd_all_up = list_all counts_as_up (map fst es),
      spd_show_branding = (usr_plan usr = PlanFree), spd_branding = br, spd_monitors = map fst es,
      spd_incidents = concat (map snd es), spd_groups = gs\<rparr>"
    unfolding GetStatusPage_def page_ports by (elim bindE_InrE mapErrE_InrE) (auto simp: returnE_apply)
  from usr obtain u where u: "u \<in> set (t_users (w_db w))" "usrr_slug u = slug" "usrr_deleted_at u = None" "usr = userFromRow u"
    and t1: "tables w1 = tables w"
    unfolding pg_UserRepo_GetBySlug_def q_GetUserBySlug_def
    by (auto elim!: bindE_InrE query_InrE simp: returnE_apply tables_def dest!: one_row_Inr)
  note list = public_list [OF ms]
  have t3: "tables w3 = tables w" using steps_byD [OF page_or_zero [OF page_queries(4)] g] list(1) t1 by simp
  have "tables w5 = tables w4" using br steps_byD [OF page_or_zero [OF page_queries(3)], of _ _ w4 _ w5]
    by (auto simp: returnE_apply split: if_splits)
  with steps_byD [OF page_or_zero [OF page_queries(5)] gs] entries_right [OF es] t3
  have t': "tables w' = tables w" and entries: "list_all2 (entry_ok (tables w)) ms es" by simp_all
  have db: "w_db w1 = w_db w" using t1 by (simp add: tables_def)
  note sel = entries_sel [OF entries]
  have ids: "map stm_id (map fst es) = map mnr_id (public_rows (w_db w) slug)" using sel list(2) db by simp
  have "inc_monitor_id inc \<in> mnr_id ` set (public_rows (w_db w) slug)" if "inc \<in> set (spd_incidents page)" for inc
  proof -
    from that obtain e where "e \<in> set es" "inc \<in> set (snd e)" by (auto simp: page)
    moreover have "stm_id (fst e) \<in> set (map stm_id (map fst es))" if "e \<in> set es" for e using that by simp
    ultimately have "inc_monitor_id inc \<in> set (map stm_id (map fst es))" using sel by metis
    then show ?thesis unfolding ids by simp
  qed
  moreover have "br = no_branding \<or> usrr_plan u = PlanPro" using br by (auto simp: u(4) returnE_apply split: if_splits)
  ultimately show ?thesis
    using ids sel list(3,4) db t' u by (auto simp: page tables_def list_all_iff counts_as_up_def)
qed

lemma status_page_contents_witness:
  "\<exists>page w'. GetStatusPage (api None demo_net) ''acme'' demo_world = (Inr page, w')
     \<and> map stm_id (spd_monitors page) = [7] \<and> \<not> spd_all_up page"
proof -
  have slug: "pg_UserRepo_GetBySlug ''acme'' demo_world = (Inr demo_user, demo_world)"
    by (simp add: pg_UserRepo_GetBySlug_def q_GetUserBySlug_def query_def external_def effect_simps demo_defs
        one_row_def userFromRow_def)
  have "q_ListPublicMonitorsByUserSlug ''acme'' demo_world = (Inr [demo_monitor_row], demo_world)"
    by (simp add: q_ListPublicMonitorsByUserSlug_def query_def external_def demo_defs owned_by_def live_def)
  then have list: "pg_MonitorRepo_ListPublicBySlug (deployed_cipher None) ''acme'' demo_world = (Inr [demo_monitor], demo_world)"
    by (simp add: pg_MonitorRepo_ListPublicBySlug_def bindE_apply demo_decrypted returnE_apply)
  note status_page_answers [OF slug list]
  then obtain page w' where run: "GetStatusPage (api None demo_net) ''acme'' demo_world = (Inr page, w')" by blast
  have rows: "public_rows (w_db demo_world) ''acme'' = [demo_monitor_row]"
    by (simp add: public_rows_def demo_defs owned_by_def live_def)
  note c = status_page_contents [OF run, unfolded rows]
  then have "map stm_id (spd_monitors page) = [7]" "map stm_current_status (spd_monitors page) = [StatusDown]"
    by (simp_all add: demo_monitor_row_def)
  moreover have "\<not> under_maintenance (w_db demo_world, w_db_clock demo_world) 7"
    by (simp add: under_maintenance_def demo_defs)
  ultimately have "\<not> spd_all_up page" using c by auto
  with run \<open>map stm_id (spd_monitors page) = [7]\<close> show ?thesis by (intro exI conjI)
qed

section \<open>Secrets of a channel\<close>

text \<open>
  Two configurations that differ only in the secret of the channel type, where both secrets are
  longer than four bytes and agree in the last four.
\<close>

definition same_but_secret :: "string \<Rightarrow> string \<Rightarrow> string \<Rightarrow> bool" where
  "same_but_secret t raw raw' \<longleftrightarrow> (\<exists>key m m' v v'. secret_field t = Some key
     \<and> json_unmarshal_map raw = Inr (Some m) \<and> map_of m key = Some (JStr v) \<and> 4 < length v
     \<and> json_unmarshal_map raw' = Inr (Some m') \<and> map_of m' key = Some (JStr v') \<and> 4 < length v'
     \<and> map_put key JNull m = map_put key JNull m' \<and> drop (length v - 4) v = drop (length v' - 4) v')"

lemma same_but_secret_hidden:
  "same_but_secret (ch_type ch) (ch_config ch) raw \<Longrightarrow> domainChannelToAPI (ch\<lparr>ch_config := raw\<rparr>) = domainChannelToAPI ch"
  by (auto simp: domainChannelToAPI_def same_but_secret_def dest: redaction_hides)


text \<open>Two webhooks, \<open>https://hooks.example/AAAA1234\<close> and \<open>https://hooks.example/BB1234\<close>.\<close>

definition hook_config :: "string \<Rightarrow> string \<Rightarrow> string" where
  "hook_config key token = ''{'' @ [CHR 0x22] @ key @ [CHR 0x22] @ '':'' @ [CHR 0x22] @ ''https://hooks.example/'' @ token
     @ [CHR 0x22] @ ''}''"

lemma hook_secrets: "same_but_secret ChannelWebhook (hook_config ''url'' ''AAAA1234'') (hook_config ''url'' ''BB1234'')"
proof -
  let ?v = "''https://hooks.example/AAAA1234''" and ?v' = "''https://hooks.example/BB1234''"
  have maps: "json_unmarshal_map (hook_config ''url'' ''AAAA1234'') = Inr (Some [(''url'', JStr ?v)])"
    "json_unmarshal_map (hook_config ''url'' ''BB1234'') = Inr (Some [(''url'', JStr ?v')])"
    by code_simp+
  show ?thesis
    unfolding same_but_secret_def maps
    by (rule exI [of _ "''url''"], rule exI [of _ "[(''url'', JStr ?v)]"], rule exI [of _ "[(''url'', JStr ?v')]"],
        rule exI [of _ ?v], rule exI [of _ ?v']) (simp add: secret_field_def)
qed

lemma hook_channel:
  assumes "decryptChannelConfig NoOpCipher cfg = Inr cfg"
  shows "\<exists>w. ChannelRepo_GetByID (as_channels demo_notifier) 50 (hooked [(50, cfg)])
    = (Inr (demo_channel 50 ChannelWebhook cfg), w)"
  using assms
  by (simp add: deployed_notifier_def notifier_def pg_ChannelRepo_def pg_ChannelRepo_GetByID_def q_GetChannelByID_def query_def external_def
      effect_simps hooked_def demo_defs demo_channel_row_def one_row_def decrypted_channel_def toDomainChannel_def demo_channel_def)


text \<open>
  The names of the configuration match without regard to case, the redaction does not: a webhook
  stored under \<open>URL\<close> is valid, is used for deliveries, and is read back whole.
\<close>

theorem renamed_secret_is_shown:
  assumes "out_url out ''https://hooks.example/AAAA1234'' = Inr (''https'', ''hooks.example'')"
  shows "webhook_ValidateConfig out (hook_config ''URL'' ''AAAA1234'') = Inr ()
    \<and> webhook_config (hook_config ''URL'' ''AAAA1234'') = Inr \<lparr>whc_url = ''https://hooks.example/AAAA1234'', whc_headers = []\<rparr>
    \<and> ach_config (domainChannelToAPI (demo_channel i ChannelWebhook (hook_config ''URL'' ''AAAA1234'')))
        = Some [(''URL'', JStr ''https://hooks.example/AAAA1234'')]"
proof -
  have cfg: "webhook_config (hook_config ''URL'' ''AAAA1234'') = Inr \<lparr>whc_url = ''https://hooks.example/AAAA1234'', whc_headers = []\<rparr>"
    by code_simp
  have "json_unmarshal_map (RedactChannelConfig ChannelWebhook (hook_config ''URL'' ''AAAA1234''))
      = Inr (Some [(''URL'', JStr ''https://hooks.example/AAAA1234'')])"
    by code_simp
  with cfg assms show ?thesis by (simp add: webhook_ValidateConfig_def domainChannelToAPI_def)
qed

end
