(* ===== verification/Subscription_Properties.thy ===== *)
theory Subscription_Properties
  imports Http_Handlers Demo
begin

text \<open>
  Mail to the readers of a status page: nobody is told about incidents who did not follow the link
  of a mail to that very address, and the public form does not tell who is subscribed.
\<close>

section \<open>The deployed service\<close>

definition status_readers :: "send_mail \<Rightarrow> smtp_settings \<Rightarrow> string \<Rightarrow> subscription_service" where
  "status_readers sm c base = NewSubscriptionService pg_StatusSubscriberRepo (Mailer_Send sm c) base"

lemma status_readers_sel [simp]:
  "su_subs (status_readers sm c base) = pg_StatusSubscriberRepo"
  "su_mailer (status_readers sm c base) = Mailer_Send sm c"
  "su_base_url (status_readers sm c base) = trim_slashes base"
  by (simp_all add: status_readers_def NewSubscriptionService_def)

definition posted :: "smtp_settings \<Rightarrow> string \<Rightarrow> string \<times> string \<Rightarrow> mail" where
  "posted c to_addr t = \<lparr>ml_to = to_addr, ml_subject = [], ml_body = mail_message (smtp_from c) to_addr (fst t) (snd t)\<rparr>"

text \<open>A mail leaves once; whether the server takes it only shows in the result.\<close>

lemma mail_leaves:
  assumes "smtp_host c \<noteq> []"
  obtains r fs where "Mailer_Send sm c to_addr subject body w
    = (r, w\<lparr>w_outbox := w_outbox w @ [posted c to_addr (subject, body)], w_faults := fs\<rparr>)"
proof -
  have "\<exists>r fs. Mailer_Send sm c to_addr subject body w
      = (r, w\<lparr>w_outbox := w_outbox w @ [posted c to_addr (subject, body)], w_faults := fs\<rparr>)"
  proof (cases "w_faults w")
    case Nil
    then have "w_faults w = []" .
    with assms show ?thesis
      by (auto simp: Mailer_Send_def leave_def Let_def external_def effect_simps posted_def split: option.splits
          intro!: exI [of _ "w_faults w"])
  next
    case (Cons f fs)
    with assms show ?thesis
      by (cases f) (auto simp: Mailer_Send_def leave_def Let_def external_def effect_simps posted_def split: option.splits
          intro!: exI [of _ fs])
  qed
  with that show thesis by blast
qed

lemma logged_mail_leaves:
  assumes "smtp_host c \<noteq> []"
  shows "\<exists>fs. logged (Mailer_Send sm c to_addr subject body) w
    = (Inr (), w\<lparr>w_outbox := w_outbox w @ [posted c to_addr (subject, body)], w_faults := fs\<rparr>)"
proof -
  from mail_leaves [OF assms, of sm to_addr subject body w] obtain r fs where
    "Mailer_Send sm c to_addr subject body w = (r, w\<lparr>w_outbox := w_outbox w @ [posted c to_addr (subject, body)], w_faults := fs\<rparr>)"
    by blast
  then show ?thesis by (auto simp: effect_simps)
qed

section \<open>Notifications\<close>

definition confirmed_rows :: "database \<Rightarrow> string \<Rightarrow> status_subscriber_row list" where
  "confirmed_rows d slug = sort_key ssr_created_at
     (filter (\<lambda>r. ssr_slug r = slug \<and> ssr_confirmed_at r \<noteq> None) (t_status_subscribers d))"

definition next_call_fails :: "world \<Rightarrow> bool" where
  "next_call_fails w \<longleftrightarrow> (case w_faults w of [] \<Rightarrow> False | f # _ \<Rightarrow> f)"

lemma mails_leave:
  assumes "smtp_host c \<noteq> []"
  shows "\<exists>fs. forE subs (\<lambda>sub. case f sub of (to_addr, subject, payload) \<Rightarrow> logged (Mailer_Send sm c to_addr subject payload)) w
    = (Inr (), w\<lparr>w_outbox := w_outbox w @ map (\<lambda>sub. posted c (fst (f sub)) (snd (f sub))) subs, w_faults := fs\<rparr>)"
proof (induction subs arbitrary: w)
  case Nil
  show ?case by (auto simp: returnE_apply intro: exI [of _ "w_faults w"])
next
  case (Cons sub subs)
  obtain t s p where f: "f sub = (t, s, p)" by (cases "f sub")
  from logged_mail_leaves [OF assms, of sm t s p w] obtain fs where
    one: "logged (Mailer_Send sm c t s p) w = (Inr (), w\<lparr>w_outbox := w_outbox w @ [posted c t (s, p)], w_faults := fs\<rparr>)"
    by blast
  from Cons.IH [of "w\<lparr>w_outbox := w_outbox w @ [posted c t (s, p)], w_faults := fs\<rparr>"] show ?case
    by (simp add: f bindE_apply [of "logged (Mailer_Send sm c t s p)"] one)
qed

lemma notified:
  assumes "smtp_host c \<noteq> []"
  shows "\<exists>fs. NotifyIncident (status_readers sm c base) slug headline state body w = (Inr (),
    w\<lparr>w_outbox := w_outbox w @ (if next_call_fails w then [] else
        map (\<lambda>r. posted c (ssr_email r) (snd (notification_to (trim_slashes base) slug headline state body (rowToSub r))))
          (confirmed_rows (w_db w) slug)), w_faults := fs\<rparr>)"
proof (cases "next_call_fails w")
  case True
  then obtain fs where "w_faults w = True # fs" by (auto simp: next_call_fails_def split: list.splits)
  then show ?thesis using True
    by (auto simp: NotifyIncident_def pg_StatusSubscriberRepo_def q_ListConfirmedSubscribersBySlug_def query_def
        external_def effect_simps intro: exI [of _ fs])
next
  case False
  obtain gs where "q_ListConfirmedSubscribersBySlug slug w = (Inr (confirmed_rows (w_db w) slug), w\<lparr>w_faults := gs\<rparr>)"
  proof (cases "w_faults w")
    case Nil
    then have "w\<lparr>w_faults := []\<rparr> = w" by simp
    with Nil that [of "[]"] show thesis
      by (simp add: q_ListConfirmedSubscribersBySlug_def query_def external_def confirmed_rows_def)
  next
    case (Cons f fs)
    with False that [of fs] show thesis
      by (simp add: q_ListConfirmedSubscribersBySlug_def query_def external_def confirmed_rows_def next_call_fails_def)
  qed
  then have list: "StatusSubscriberRepo_ListConfirmedBySlug pg_StatusSubscriberRepo slug w
      = (Inr (map rowToSub (confirmed_rows (w_db w) slug)), w\<lparr>w_faults := gs\<rparr>)"
    by (simp add: pg_StatusSubscriberRepo_def effect_simps)
  from mails_leave [OF assms, where f = "notification_to (trim_slashes base) slug headline state body" and sm = sm
      and subs = "map rowToSub (confirmed_rows (w_db w) slug)" and w = "w\<lparr>w_faults := gs\<rparr>"]
  show ?thesis using False
    by (auto simp: NotifyIncident_def list effect_simps comp_def notification_to_def Let_def)
qed

section \<open>Double opt-in\<close>

text \<open>The mail that carries the confirmation link of a row.\<close>

definition confirmation_mail :: "smtp_settings \<Rightarrow> string \<Rightarrow> status_subscriber_row \<Rightarrow> mail" where
  "confirmation_mail c base r = posted c (ssr_email r)
     (statusSubscribeConfirmEmail (toEmailLocale (case ssr_locale r of None \<Rightarrow> [] | Some l \<Rightarrow> l)) (ssr_slug r)
       (trim_slashes base @ ''/api/status/'' @ ssr_slug r @ ''/confirm?token='' @ ssr_confirm_token r))"

text \<open>
  Executions of the subscription endpoints with the tokens whose confirmation links have been
  followed. The surroundings do not write the subscribers.
\<close>

inductive reader_run :: "send_mail \<Rightarrow> smtp_settings \<Rightarrow> string \<Rightarrow> world \<Rightarrow> string set \<Rightarrow> bool"
  for sm c base where
  start: "t_status_subscribers (w_db w) = [] \<Longrightarrow> reader_run sm c base w {}"
| subscribe: "reader_run sm c base w T \<Longrightarrow>
    Server_SubscribeToStatusPage (status_readers sm c base) slug body u w = (r, w') \<Longrightarrow> reader_run sm c base w' T"
| confirm: "reader_run sm c base w T \<Longrightarrow>
    Server_ConfirmStatusSubscription (status_readers sm c base) token u w = (r, w') \<Longrightarrow> reader_run sm c base w' (insert token T)"
| unsubscribe: "reader_run sm c base w T \<Longrightarrow>
    Server_UnsubscribeFromStatusPage (status_readers sm c base) token u w = (r, w') \<Longrightarrow> reader_run sm c base w' T"
| surroundings: "reader_run sm c base w T \<Longrightarrow> t_status_subscribers (w_db w') = t_status_subscribers (w_db w) \<Longrightarrow>
    set (w_outbox w) \<subseteq> set (w_outbox w') \<Longrightarrow> reader_run sm c base w' T"

definition row_ok :: "smtp_settings \<Rightarrow> string \<Rightarrow> world \<Rightarrow> string set \<Rightarrow> status_subscriber_row \<Rightarrow> bool" where
  "row_ok c base w T r \<longleftrightarrow> (ssr_confirmed_at r \<noteq> None \<longrightarrow> ssr_confirm_token r \<in> T)
     \<and> confirmation_mail c base r \<in> set (w_outbox w)"

definition rows_ok :: "smtp_settings \<Rightarrow> string \<Rightarrow> string set \<Rightarrow> world \<Rightarrow> bool" where
  "rows_ok c base T w \<longleftrightarrow> (\<forall>r \<in> set (t_status_subscribers (w_db w)). row_ok c base w T r)"

lemma rows_ok_mono:
  assumes "rows_ok c base T w" "set (t_status_subscribers (w_db w')) \<subseteq> set (t_status_subscribers (w_db w))"
    "set (w_outbox w) \<subseteq> set (w_outbox w')" "T \<subseteq> T'"
  shows "rows_ok c base T' w'"
  using assms unfolding rows_ok_def row_ok_def by blast

text \<open>What creating a row does: nothing to the rows, or one unconfirmed row at the end.\<close>

lemma create_cases:
  assumes "StatusSubscriberRepo_Create pg_StatusSubscriberRepo slug email ctok utok loc w = (res, w')"
  shows "w_outbox w' = w_outbox w"
    and "case res of Inl _ \<Rightarrow> w_db w' = w_db w
      | Inr sub \<Rightarrow> \<exists>r. sub = rowToSub r \<and> ssr_slug r = slug \<and> ssr_email r = email \<and> ssr_confirm_token r = ctok
          \<and> ssr_locale r = loc \<and> ssr_confirmed_at r = None
          \<and> t_status_subscribers (w_db w') = t_status_subscribers (w_db w) @ [r]"
  using assms
  by (auto simp: pg_StatusSubscriberRepo_def q_CreateStatusSubscriber_def statement_def external_def nextval_def
      effect_simps Let_def rowToSub_def split: list.splits bool.splits if_splits sum.splits prod.splits)

lemma quiet_tokens:
  assumes "read_random n w = (r, w')"
  shows "w_db w' = w_db w" "w_outbox w' = w_outbox w"
  using assms by (auto simp: read_random_def external_def split: list.splits bool.splits)

lemma randToken_quiet:
  assumes "randToken w = (r, w')"
  shows "w_db w' = w_db w" "w_outbox w' = w_outbox w"
  using assms quiet_tokens [of 24 w] by (auto simp: randToken_def effect_simps split: sum.splits prod.splits)

lemma Subscribe_keeps:
  assumes c: "smtp_host c \<noteq> []" and ok: "rows_ok c base T w"
    and run: "Subscribe (status_readers sm c base) slug email loc w = (r, w')"
  shows "rows_ok c base T w'"
proof -
  have quiet: "rows_ok c base T v" if "w_db v = w_db w" "w_outbox v = w_outbox w" for v
    using rows_ok_mono [OF ok, of v T] that by simp
  let ?email = "to_lower (trim_space email)"
  show ?thesis
  proof (cases "emailRegex ?email")
    case False
    with run have "w' = w" by (simp add: Subscribe_def Let_def effect_simps)
    with ok show ?thesis by simp
  next
    case valid: True
    obtain x1 w1 where t1: "randToken w = (x1, w1)" by fastforce
    obtain x2 w2 where t2: "randToken w1 = (x2, w2)" by fastforce
    have q: "w_db w1 = w_db w" "w_outbox w1 = w_outbox w" "w_db w2 = w_db w" "w_outbox w2 = w_outbox w"
      using randToken_quiet [OF t1] randToken_quiet [OF t2] by simp_all
    show ?thesis
    proof (cases "\<exists>a b. x1 = Inr a \<and> x2 = Inr b")
      case False
      with run valid t1 t2 q quiet show ?thesis
        by (cases x1; cases x2) (auto simp: Subscribe_def Let_def effect_simps)
    next
      case True
      then obtain a b where ab: "x1 = Inr a" "x2 = Inr b" by blast
      obtain x3 w3 where cr: "StatusSubscriberRepo_Create pg_StatusSubscriberRepo slug ?email a b (locale_ptr loc) w2 = (x3, w3)"
        by fastforce
      note created = create_cases [OF cr]
      show ?thesis
      proof (cases x3)
        case (Inl e)
        obtain x4 w4 where h: "read_random 4 w3 = (x4, w4)" by fastforce
        from run valid t1 t2 ab cr Inl h have "w' = w4"
          by (simp add: Subscribe_def Let_def effect_simps hashForLog_def)
        with quiet [of w4] quiet_tokens [OF h] created q Inl show ?thesis by simp
      next
        case (Inr sub)
        with created(2) obtain row where row: "sub = rowToSub row" "ssr_slug row = slug" "ssr_email row = ?email"
          "ssr_confirm_token row = a" "ssr_locale row = locale_ptr loc" "ssr_confirmed_at row = None"
          "t_status_subscribers (w_db w3) = t_status_subscribers (w_db w) @ [row]"
          using q by auto
        let ?mail = "statusSubscribeConfirmEmail (toEmailLocale loc) slug
          (trim_slashes base @ ''/api/status/'' @ slug @ ''/confirm?token='' @ a)"
        from logged_mail_leaves [OF c, of sm ?email "fst ?mail" "snd ?mail" w3] obtain fs where
          sent: "logged (Mailer_Send sm c ?email (fst ?mail) (snd ?mail)) w3
            = (Inr (), w3\<lparr>w_outbox := w_outbox w3 @ [posted c ?email ?mail], w_faults := fs\<rparr>)" by auto
        have "ss_confirm_token sub = a" using row by (simp add: rowToSub_def)
        then have w': "w' = w3\<lparr>w_outbox := w_outbox w3 @ [posted c ?email ?mail], w_faults := fs\<rparr>"
          using run valid t1 t2 ab cr Inr sent
          by (simp add: Subscribe_def Let_def bindE_apply [of randToken] bindE_apply [of "attemptE _"] attemptE_apply
              case_prod_beta)
        have "toEmailLocale loc = toEmailLocale (case locale_ptr loc of None \<Rightarrow> [] | Some l \<Rightarrow> l)"
          by (simp add: locale_ptr_def)
        then have "posted c ?email ?mail = confirmation_mail c base row"
          using row by (simp add: confirmation_mail_def)
        with ok row q created(1) show ?thesis by (auto simp: w' rows_ok_def row_ok_def)
      qed
    qed
  qed
qed

lemma page_world: "link_page m a b w = (r, w') \<Longrightarrow> w' = snd (m w)"
  by (auto simp: link_page_def effect_simps split: prod.splits)

lemma Confirm_keeps:
  assumes "rows_ok c base T w"
  shows "rows_ok c base (insert token T) (snd (Confirm (status_readers sm c base) token w))"
proof -
  obtain r w' where run: "q_ConfirmStatusSubscriber token w = (r, w')" by fastforce
  have same: "snd (Confirm (status_readers sm c base) token w) = w'"
    using run by (cases r) (simp_all add: Confirm_def pg_StatusSubscriberRepo_def effect_simps)
  have out: "w_outbox w' = w_outbox w"
    using run by (auto simp: q_ConfirmStatusSubscriber_def statement_def external_def Let_def
        split: list.splits bool.splits sum.splits prod.splits)
  have rows: "t_status_subscribers (w_db w') = t_status_subscribers (w_db w) \<or>
      t_status_subscribers (w_db w') = update_where (\<lambda>r. ssr_confirm_token r = token \<and> ssr_confirmed_at r = None)
        (\<lambda>r. r\<lparr>ssr_confirmed_at := Some (w_db_clock w)\<rparr>) (t_status_subscribers (w_db w))"
    using run by (auto simp: q_ConfirmStatusSubscriber_def statement_def external_def Let_def
        split: list.splits bool.splits sum.splits prod.splits)
  have conf: "confirmation_mail c base (r\<lparr>ssr_confirmed_at := t\<rparr>) = confirmation_mail c base r" for r t
    by (simp add: confirmation_mail_def)
  have "row_ok c base w' (insert token T) x" if "x \<in> set (t_status_subscribers (w_db w'))" for x
  proof -
    from rows that obtain y where y: "y \<in> set (t_status_subscribers (w_db w))"
      "x = y \<or> x = y\<lparr>ssr_confirmed_at := Some (w_db_clock w)\<rparr> \<and> ssr_confirm_token y = token"
      by (auto elim!: in_update_whereE split: if_splits)
    with assms show ?thesis using out conf by (auto simp: rows_ok_def row_ok_def)
  qed
  then show ?thesis by (simp add: rows_ok_def same)
qed

lemma Unsubscribe_keeps:
  assumes "rows_ok c base T w"
  shows "rows_ok c base T (snd (Unsubscribe (status_readers sm c base) token w))"
proof -
  obtain r w' where run: "q_UnsubscribeStatusSubscriber token w = (r, w')" by fastforce
  have same: "snd (Unsubscribe (status_readers sm c base) token w) = w'"
    using run by (cases r) (simp_all add: Unsubscribe_def pg_StatusSubscriberRepo_def effect_simps)
  have "w_outbox w' = w_outbox w \<and> set (t_status_subscribers (w_db w')) \<subseteq> set (t_status_subscribers (w_db w))"
    using run by (auto simp: q_UnsubscribeStatusSubscriber_def statement_def external_def Let_def
        split: list.splits bool.splits sum.splits prod.splits)
  then show ?thesis unfolding same by (intro rows_ok_mono [OF assms]) auto
qed

lemma reader_run_ok:
  assumes "smtp_host c \<noteq> []" "reader_run sm c base w T"
  shows "rows_ok c base T w"
  using assms(2)
proof (induction rule: reader_run.induct)
  case (start w)
  then show ?case by (simp add: rows_ok_def)
next
  case (subscribe w T slug body u r w')
  show ?case
  proof (cases body)
    case None
    with subscribe show ?thesis by (simp add: Server_SubscribeToStatusPage_def returnE_apply)
  next
    case (Some req)
    obtain x v where run: "Subscribe (status_readers sm c base) slug (sbr_email req) (the_or [] (sbr_locale req)) w = (x, v)"
      by fastforce
    from subscribe.hyps(2) Some run have "w' = v"
      by (simp add: Server_SubscribeToStatusPage_def subscribe_response_def effect_simps)
    with Subscribe_keeps [OF assms(1) subscribe.IH run] show ?thesis by simp
  qed
next
  case (confirm w T token u r w')
  from confirm.hyps(2) have "w' = snd (Confirm (status_readers sm c base) token w)"
    unfolding Server_ConfirmStatusSubscription_def by (rule page_world)
  with Confirm_keeps [OF confirm.IH] show ?case by simp
next
  case (unsubscribe w T token u r w')
  from unsubscribe.hyps(2) have "w' = snd (Unsubscribe (status_readers sm c base) token w)"
    unfolding Server_UnsubscribeFromStatusPage_def by (rule page_world)
  with Unsubscribe_keeps [OF unsubscribe.IH] show ?case by simp
next
  case (surroundings w T w')
  then show ?case by (intro rows_ok_mono [OF surroundings.IH]) simp_all
qed

text \<open>C15: Only readers who opted in are mailed: whatever requests came before, the mails about an
  incident go, in one copy each, to subscribers of that status page whose confirmation link was
  followed and had been sent to that very address; they go to all confirmed subscribers unless
  the list cannot be read, and the tables do not change.\<close>

theorem only_confirmed_readers_are_mailed:
  assumes "reader_run sm c base w T" "smtp_host c \<noteq> []"
    and "NotifyIncident (status_readers sm c base) slug headline state body w = (x, w')"
  shows "x = Inr () \<and> w_db w' = w_db w \<and> (\<exists>ms. w_outbox w' = w_outbox w @ ms
    \<and> map ml_to ms = (if next_call_fails w then [] else map ssr_email (confirmed_rows (w_db w) slug))
    \<and> (\<forall>m \<in> set ms. \<exists>r \<in> set (t_status_subscribers (w_db w)). ssr_slug r = slug \<and> ml_to m = ssr_email r
        \<and> ssr_confirm_token r \<in> T \<and> confirmation_mail c base r \<in> set (w_outbox w)))"
proof -
  let ?mail = "\<lambda>r. posted c (ssr_email r) (snd (notification_to (trim_slashes base) slug headline state body (rowToSub r)))"
  let ?ms = "if next_call_fails w then [] else map ?mail (confirmed_rows (w_db w) slug)"
  from notified [OF assms(2), of sm base slug headline state body w] assms(3)
  obtain fs where x: "x = Inr ()" and w': "w' = w\<lparr>w_outbox := w_outbox w @ ?ms, w_faults := fs\<rparr>" by auto
  have "map ml_to ?ms = (if next_call_fails w then [] else map ssr_email (confirmed_rows (w_db w) slug))"
    by (simp add: posted_def comp_def)
  moreover have "\<exists>r \<in> set (t_status_subscribers (w_db w)). ssr_slug r = slug \<and> ml_to m = ssr_email r
        \<and> ssr_confirm_token r \<in> T \<and> confirmation_mail c base r \<in> set (w_outbox w)" if "m \<in> set ?ms" for m
  proof -
    from that obtain r where r: "r \<in> set (confirmed_rows (w_db w) slug)" "m = ?mail r" by (auto split: if_splits)
    then have "r \<in> set (t_status_subscribers (w_db w))" "ssr_slug r = slug" "ssr_confirmed_at r \<noteq> None"
      by (auto simp: confirmed_rows_def)
    moreover from this reader_run_ok [OF assms(2,1)] have "row_ok c base w T r" by (simp add: rows_ok_def)
    ultimately show ?thesis using r(2) by (auto simp: row_ok_def posted_def)
  qed
  ultimately show ?thesis using x w' by (intro conjI exI [of _ ?ms]) auto
qed

section \<open>The public form\<close>

lemma randToken_faults:
  assumes "w_faults w = w_faults v"
  shows "case (randToken w, randToken v) of ((r, w'), (s, v')) \<Rightarrow> w_faults w' = w_faults v' \<and>
    (case r of Inl e \<Rightarrow> s = Inl e | Inr _ \<Rightarrow> \<exists>b. s = Inr b)"
  using assms by (auto simp: randToken_def read_random_def external_def effect_simps split: list.splits bool.splits)

lemma subscribed_total: "\<exists>v. (case r of Inl e \<Rightarrow> hashForLog | Inr sub \<Rightarrow> logged (f sub)) w = (Inr (), v)"
  by (cases r) (auto simp: hashForLog_def effect_simps split: prod.splits)

text \<open>C40: The subscription form does not tell who is subscribed: its answer depends on the request
  and on which calls fail, but not on what is stored.\<close>

theorem subscription_reveals_nothing:
  assumes "w_faults w = w_faults v"
  shows "fst (Server_SubscribeToStatusPage s slug body u w) = fst (Server_SubscribeToStatusPage s slug body u v)"
proof -
  have same: "fst (Subscribe s slug email loc w) = fst (Subscribe s slug email loc v)" for email loc
  proof (cases "emailRegex (to_lower (trim_space email))")
    case True
    obtain r1 w1 where w1: "randToken w = (r1, w1)" by fastforce
    obtain s1 v1 where v1: "randToken v = (s1, v1)" by fastforce
    obtain r2 w2 where w2: "randToken w1 = (r2, w2)" by fastforce
    obtain s2 v2 where v2: "randToken v1 = (s2, v2)" by fastforce
    from randToken_faults [OF assms] have one: "w_faults w1 = w_faults v1" "case r1 of Inl e \<Rightarrow> s1 = Inl e | Inr _ \<Rightarrow> \<exists>b. s1 = Inr b"
      by (simp_all add: w1 v1)
    from randToken_faults [OF one(1)] have two: "case r2 of Inl e \<Rightarrow> s2 = Inl e | Inr _ \<Rightarrow> \<exists>b. s2 = Inr b"
      by (simp add: w2 v2)
    have rest: "fst (bindE (attemptE m) (\<lambda>r. case r of Inl _ \<Rightarrow> hashForLog | Inr sub \<Rightarrow> (case g sub of (a, b) \<Rightarrow> logged (h a b))) y)
        = Inr ()" for m g h y
      using subscribed_total [where r = "fst (m y)" and f = "\<lambda>sub. h (fst (g sub)) (snd (g sub))" and w = "snd (m y)"]
      by (cases "m y") (auto simp: bindE_apply [of "attemptE m"] attemptE_apply case_prod_beta split: sum.splits)
    show ?thesis
    proof (cases r1)
      case (Inl e)
      with one True show ?thesis by (simp add: Subscribe_def Let_def bindE_apply [of randToken] w1 v1)
    next
      case (Inr a)
      with one obtain b where b: "s1 = Inr b" by auto
      show ?thesis
      proof (cases r2)
        case (Inl e)
        with two True Inr b show ?thesis by (simp add: Subscribe_def Let_def bindE_apply [of randToken] w1 v1 w2 v2)
      next
        case (Inr c)
        with two obtain d where d: "s2 = Inr d" by auto
        from True \<open>r1 = Inr a\<close> Inr b d show ?thesis
          by (simp add: Subscribe_def Let_def bindE_apply [of randToken] w1 v1 w2 v2)
             (rule trans [OF rest rest [symmetric]])
      qed
    qed
  qed (simp add: Subscribe_def Let_def effect_simps)
  have "fst (subscribe_response (Subscribe s slug e l) w) = fst (subscribe_response (Subscribe s slug e l) v)" for e l
    using same [of e l]
    by (cases "Subscribe s slug e l w"; cases "Subscribe s slug e l v") (simp add: subscribe_response_def effect_simps)
  then show ?thesis by (cases body) (simp_all add: Server_SubscribeToStatusPage_def returnE_apply)
qed

section \<open>An example\<close>

lemma randToken_ok:
  "w_faults w = [] \<Longrightarrow> \<exists>t. randToken w = (Inr t, w\<lparr>w_entropy_pos := w_entropy_pos w + 24\<rparr>)"
  by (simp add: randToken_def read_random_def external_def effect_simps)

lemma logged_mail_ok:
  assumes "smtp_host c \<noteq> []" "w_faults w = []"
  shows "logged (Mailer_Send sm c to_addr subject body) w
    = (Inr (), w\<lparr>w_outbox := w_outbox w @ [posted c to_addr (subject, body)]\<rparr>)"
  using assms by (simp add: Mailer_Send_def leave_def Let_def external_def effect_simps posted_def split: option.splits)

text \<open>A first subscription when nothing fails.\<close>

lemma Subscribe_ok:
  assumes "smtp_host c \<noteq> []" "w_faults w = []" "t_status_subscribers (w_db w) = []"
    and valid: "emailRegex (to_lower (trim_space email))"
  shows "\<exists>w' row. Subscribe (status_readers sm c base) slug email [] w = (Inr (), w')
    \<and> t_status_subscribers (w_db w') = [row] \<and> ssr_slug row = slug \<and> ssr_email row = to_lower (trim_space email)
    \<and> w_faults w' = [] \<and> ssr_confirmed_at row = None
    \<and> map ml_to (w_outbox w') = map ml_to (w_outbox w) @ [to_lower (trim_space email)]"
proof -
  obtain a where a: "randToken w = (Inr a, w\<lparr>w_entropy_pos := w_entropy_pos w + 24\<rparr>)" using randToken_ok assms(2) by blast
  let ?w1 = "w\<lparr>w_entropy_pos := w_entropy_pos w + 24\<rparr>"
  obtain b where b: "randToken ?w1 = (Inr b, ?w1\<lparr>w_entropy_pos := w_entropy_pos ?w1 + 24\<rparr>)"
    using randToken_ok [of ?w1] assms(2) by auto
  let ?w2 = "?w1\<lparr>w_entropy_pos := w_entropy_pos ?w1 + 24\<rparr>" and ?email = "to_lower (trim_space email)"
  obtain x w3 where cr: "StatusSubscriberRepo_Create pg_StatusSubscriberRepo slug ?email a b (locale_ptr []) ?w2 = (x, w3)"
    by fastforce
  with assms(2,3) obtain row where row: "x = Inr (rowToSub row)" "t_status_subscribers (w_db w3) = [row]" "w_faults w3 = []"
    "ssr_slug row = slug" "ssr_email row = ?email" "ssr_confirmed_at row = None" "w_outbox w3 = w_outbox w"
    by (auto simp: pg_StatusSubscriberRepo_def q_CreateStatusSubscriber_def statement_def external_def nextval_def
        effect_simps Let_def)
  let ?mail = "statusSubscribeConfirmEmail (toEmailLocale []) slug
    (trim_slashes base @ ''/api/status/'' @ slug @ ''/confirm?token='' @ ss_confirm_token (rowToSub row))"
  have "Subscribe (status_readers sm c base) slug email [] w
      = logged (Mailer_Send sm c ?email (fst ?mail) (snd ?mail)) w3"
    using valid cr row(1)
    by (simp add: Subscribe_def Let_def bindE_apply [of randToken] a b bindE_apply [of "attemptE _"] attemptE_apply
        case_prod_beta)
  with logged_mail_ok [OF assms(1) row(3)] row show ?thesis by (simp add: posted_def)
qed

definition mail_host :: smtp_settings where
  "mail_host = \<lparr>smtp_host = ''mx'', smtp_port = 25, smtp_user = [], smtp_pass = [], smtp_from = ''pc''\<rparr>"

definition demo_readers :: subscription_service where
  "demo_readers = status_readers (\<lambda>a t m now. None) mail_host ''https://pc/''"

definition form :: "subscribe_request option" where
  "form = Some \<lparr>sbr_email = ''ann@x.io'', sbr_locale = None, sbr_source = None\<rparr>"

abbreviation demo_reader_run :: "world \<Rightarrow> string set \<Rightarrow> bool" where
  "demo_reader_run \<equiv> reader_run (\<lambda>a t m now. None) mail_host ''https://pc/''"

lemma ann: "emailRegex (to_lower (trim_space ''ann@x.io''))" "to_lower (trim_space ''ann@x.io'') = ''ann@x.io''"
  by code_simp+

lemma asked:
  obtains w row where "Server_SubscribeToStatusPage demo_readers ''acme'' form None demo_world
      = (Inr (send_json 202 ''check your inbox to confirm''), w)"
    "t_status_subscribers (w_db w) = [row]" "ssr_slug row = ''acme''" "ssr_email row = ''ann@x.io''"
    "ssr_confirmed_at row = None" "w_faults w = []"
proof -
  have host: "smtp_host mail_host \<noteq> []" by (simp add: mail_host_def)
  have start: "w_faults demo_world = []" "t_status_subscribers (w_db demo_world) = []" by (simp_all add: demo_defs)
  from Subscribe_ok [OF host start ann(1), of "\<lambda>a t m now. None" "''https://pc/''" "''acme''"] that show thesis
    by (auto simp: Server_SubscribeToStatusPage_def form_def the_or_def subscribe_response_def effect_simps demo_readers_def ann)
qed

lemma joined:
  obtains w T where "demo_reader_run w T" "w_faults w = []" "map ssr_email (confirmed_rows (w_db w) ''acme'') = [''ann@x.io'']"
proof -
  obtain v row where v: "Server_SubscribeToStatusPage demo_readers ''acme'' form None demo_world
      = (Inr (send_json 202 ''check your inbox to confirm''), v)"
    "t_status_subscribers (w_db v) = [row]" "ssr_slug row = ''acme''" "ssr_email row = ''ann@x.io''"
    "ssr_confirmed_at row = None" "w_faults v = []" by (rule asked)
  have "demo_reader_run demo_world {}" by (rule reader_run.start) (simp add: demo_defs)
  note before = reader_run.subscribe [OF this v(1) [unfolded demo_readers_def]]
  let ?row = "row\<lparr>ssr_confirmed_at := Some (w_db_clock v)\<rparr>"
  let ?w = "v\<lparr>w_db := (w_db v)\<lparr>t_status_subscribers := [?row]\<rparr>\<rparr>"
  have "q_ConfirmStatusSubscriber (ssr_confirm_token row) v = (Inr ?row, ?w)"
    unfolding q_ConfirmStatusSubscriber_def statement_def external_def v(2,6) Let_def
    by (simp add: v(2,5) one_row_def update_where_def)
  then have step: "Server_ConfirmStatusSubscription demo_readers (ssr_confirm_token row) None v
      = (Inr (send_json 200 ''Subscribed''), ?w)"
    by (simp add: Server_ConfirmStatusSubscription_def link_page_def Confirm_def demo_readers_def
        pg_StatusSubscriberRepo_def effect_simps)
  have "w_faults ?w = []" "map ssr_email (confirmed_rows (w_db ?w) ''acme'') = [''ann@x.io'']"
    using v(3,4,6) by (simp_all add: confirmed_rows_def)
  then show thesis by (rule that [OF reader_run.confirm [OF before step [unfolded demo_readers_def]]])
qed

lemma only_confirmed_readers_are_mailed_witness:
  "\<exists>w T w'. demo_reader_run w T
     \<and> NotifyIncident demo_readers ''acme'' ''Down'' ''investigating'' ''We look.'' w = (Inr (), w')
     \<and> (\<exists>m. w_outbox w' = w_outbox w @ [m] \<and> ml_to m = ''ann@x.io'')"
proof -
  obtain w T where w: "demo_reader_run w T" "w_faults w = []"
    "map ssr_email (confirmed_rows (w_db w) ''acme'') = [''ann@x.io'']" by (rule joined)
  obtain x w' where run: "NotifyIncident demo_readers ''acme'' ''Down'' ''investigating'' ''We look.'' w = (x, w')"
    by fastforce
  have host: "smtp_host mail_host \<noteq> []" by (simp add: mail_host_def)
  have "\<not> next_call_fails w" by (simp add: next_call_fails_def w)
  with only_confirmed_readers_are_mailed [OF w(1) host run [unfolded demo_readers_def]] run w show ?thesis
    by (intro exI [of _ w] exI [of _ T] exI [of _ w']) (auto simp: map_eq_Cons_conv)
qed

lemma subscription_reveals_nothing_witness:
  "\<exists>w. t_status_subscribers (w_db w) \<noteq> [] \<and> t_status_subscribers (w_db demo_world) = []
     \<and> fst (Server_SubscribeToStatusPage demo_readers ''acme'' form None w) = Inr (send_json 202 ''check your inbox to confirm'')
     \<and> fst (Server_SubscribeToStatusPage demo_readers ''acme'' form None demo_world) = Inr (send_json 202 ''check your inbox to confirm'')"
proof -
  obtain w row where w: "Server_SubscribeToStatusPage demo_readers ''acme'' form None demo_world
      = (Inr (send_json 202 ''check your inbox to confirm''), w)" "t_status_subscribers (w_db w) = [row]" "w_faults w = []"
    by (rule asked)
  have "fst (Server_SubscribeToStatusPage demo_readers ''acme'' form None w)
      = fst (Server_SubscribeToStatusPage demo_readers ''acme'' form None demo_world)"
    by (rule subscription_reveals_nothing) (simp add: w demo_defs)
  with w show ?thesis by (intro exI [of _ w]) (simp add: demo_defs)
qed

end
