(* ===== verification/Domain_Properties.thy ===== *)
theory Domain_Properties
  imports Http_Handlers Auth_Properties
begin

text \<open>
  The life of a custom domain in the deployed system, with several processes working on the rows
  at the same time: a hostname is routed to an account only after it has answered the probe
  with the token of that account's request, and only with a certificate in the store.
\<close>

section \<open>The deployed service\<close>

definition domains :: "certificate_authority \<Rightarrow> probe_get \<Rightarrow> custom_domain_service" where
  "domains ca P = \<lparr>cds_repo = pg_CustomDomainRepo, cds_cert_repo = Some pg_CustomDomainCertRepo,
     cds_acme = LegoProvisioner_Provision pg_CustomDomainRepo pg_CustomDomainCertRepo ca, cds_probe = P\<rparr>"

lemma domains_sel [simp]:
  "cds_repo (domains ca P) = pg_CustomDomainRepo"
  "cds_acme (domains ca P) = LegoProvisioner_Provision pg_CustomDomainRepo pg_CustomDomainCertRepo ca"
  "cds_probe (domains ca P) = P"
  by (simp_all add: domains_def)

lemma domain_ports [simp]:
  "CustomDomainRepo_UpdateStatus pg_CustomDomainRepo = q_UpdateCustomDomainStatus"
  "CustomDomainRepo_Delete pg_CustomDomainRepo = q_DeleteCustomDomain"
  "CustomDomainCertRepo_Upsert pg_CustomDomainCertRepo = q_UpsertCustomDomainCert"
  by (simp_all add: pg_CustomDomainRepo_def pg_CustomDomainCertRepo_def)

text \<open>The host of the row has, at some time up to now, answered the probe with the token.\<close>

definition answered :: "probe_get \<Rightarrow> time \<Rightarrow> custom_domain \<Rightarrow> bool" where
  "answered P now d \<longleftrightarrow> (\<exists>t \<le> now. probe_failure (probe_url d) (cd_validation_token d) (P (probe_url d) t) = None)"

definition has_certificate :: "database \<Rightarrow> int \<Rightarrow> bool" where
  "has_certificate db i \<longleftrightarrow> i \<in> cdc_custom_domain_id ` set (t_custom_domain_certs db)"

lemma image_update_where:
  assumes "\<And>x. g (f x) = g x"
  shows "g ` set (update_where p f xs) = g ` set xs"
proof -
  have "map g (update_where p f xs) = map g xs" by (rule map_update_where) (rule assms)
  then show ?thesis by (metis set_map)
qed

definition row_owned :: "probe_get \<Rightarrow> database \<Rightarrow> time \<Rightarrow> custom_domain_row \<Rightarrow> bool" where
  "row_owned P db now r \<longleftrightarrow>
     (cdr_status r \<in> {CustomDomainValidated, CustomDomainActive} \<longrightarrow>
        answered P now (rowToCustomDomain r) \<and> cdr_dns_validated_at r \<noteq> None)
     \<and> (cdr_status r = CustomDomainActive \<longrightarrow> cdr_cert_issued_at r \<noteq> None \<and> has_certificate db (cdr_id r))"

text \<open>A row that a process has read earlier: its identity still holds, its status may be old.\<close>

definition read_ok :: "probe_get \<Rightarrow> time \<Rightarrow> custom_domain_row list \<Rightarrow> custom_domain \<Rightarrow> bool" where
  "read_ok P now rows d \<longleftrightarrow>
     (\<forall>r \<in> set rows. cdr_id r = cd_id d \<longrightarrow> cdr_hostname r = cd_hostname d \<and> cdr_validation_token r = cd_validation_token d
        \<and> (cd_status d = CustomDomainValidated \<longrightarrow> cdr_dns_validated_at r \<noteq> None))
     \<and> (cd_status d = CustomDomainValidated \<longrightarrow> answered P now d)"

text \<open>A granted request: who asked for which hostname, and the token that was handed out.\<close>

type_synonym domain_grant = "uuid \<times> string \<times> string"

definition grant_of :: "custom_domain_row \<Rightarrow> domain_grant" where
  "grant_of r = (cdr_user_id r, cdr_hostname r, cdr_validation_token r)"

definition domains_ok :: "probe_get \<Rightarrow> custom_domain set \<Rightarrow> domain_grant set \<Rightarrow> world \<Rightarrow> bool" where
  "domains_ok P L C w \<longleftrightarrow> (let rows = t_custom_domains (w_db w) in
     distinct (map cdr_hostname rows) \<and> distinct (map cdr_id rows)
     \<and> (\<forall>r \<in> set rows. cdr_id r < w_next_serial w \<and> grant_of r \<in> C \<and> row_owned P (w_db w) (w_app_clock w) r)
     \<and> (\<forall>d \<in> L. cd_id d < w_next_serial w \<and> read_ok P (w_app_clock w) rows d))"

lemma answered_mono: "answered P t d \<Longrightarrow> t \<le> t' \<Longrightarrow> answered P t' d"
  unfolding answered_def by (meson order_trans)

lemma answered_same:
  "cd_hostname d = cd_hostname d' \<Longrightarrow> cd_validation_token d = cd_validation_token d' \<Longrightarrow> answered P t d = answered P t d'"
  by (simp add: answered_def probe_url_def)

lemma domains_ok_mono:
  assumes "domains_ok P L C w" "t_custom_domains (w_db w') = t_custom_domains (w_db w)"
    "\<And>i. has_certificate (w_db w) i \<Longrightarrow> has_certificate (w_db w') i"
    "w_next_serial w \<le> w_next_serial w'" "w_app_clock w \<le> w_app_clock w'"
  shows "domains_ok P L C w'"
  using assms unfolding domains_ok_def Let_def row_owned_def read_ok_def
  by (auto intro: answered_mono order_less_le_trans)

section \<open>Statements\<close>

text \<open>What a status update of a row read earlier must bring along.\<close>

definition may_set :: "probe_get \<Rightarrow> custom_domain \<Rightarrow> string \<Rightarrow> time option \<Rightarrow> time option \<Rightarrow> world \<Rightarrow> bool" where
  "may_set P d s dns cert w \<longleftrightarrow>
     (s \<in> {CustomDomainValidated, CustomDomainActive} \<longrightarrow>
        answered P (w_app_clock w) d \<and> (dns \<noteq> None \<or> cd_status d = CustomDomainValidated))
     \<and> (s = CustomDomainActive \<longrightarrow> cert \<noteq> None \<and>
        (\<forall>r \<in> set (t_custom_domains (w_db w)). cdr_id r = cd_id d \<longrightarrow> has_certificate (w_db w) (cd_id d)))"

lemma coalesce_None [simp]: "coalesce a b = None \<longleftrightarrow> a = None \<and> b = None"
  by (simp add: coalesce_def split: option.splits)

lemma coalesce_Some [simp]: "(\<exists>y. coalesce a b = Some y) \<longleftrightarrow> a \<noteq> None \<or> b \<noteq> None"
  by (simp add: coalesce_def split: option.splits)

lemma set_status_ok:
  assumes ok: "domains_ok P L C w" and d: "d \<in> L" and may: "may_set P d s dns cert w"
    and run: "q_UpdateCustomDomainStatus (cd_id d) s e dns cert w = (r, w')"
  shows "domains_ok P L C w'"
proof -
  let ?f = "\<lambda>r. r\<lparr>cdr_status := s, cdr_last_error := e, cdr_dns_validated_at := coalesce dns (cdr_dns_validated_at r),
      cdr_cert_issued_at := coalesce cert (cdr_cert_issued_at r)\<rparr>"
  let ?rows = "t_custom_domains (w_db w)"
  have cases: "t_custom_domains (w_db w') = ?rows \<or> t_custom_domains (w_db w') = update_where (\<lambda>r. cdr_id r = cd_id d) ?f ?rows"
    and certs: "\<And>i. has_certificate (w_db w') i = has_certificate (w_db w) i"
    and same: "w_next_serial w' = w_next_serial w" "w_app_clock w' = w_app_clock w"
    using run by (auto simp: q_UpdateCustomDomainStatus_def statement_def external_def has_certificate_def
        split: list.splits bool.splits if_splits)
  from cases show ?thesis
  proof
    assume "t_custom_domains (w_db w') = ?rows"
    with ok certs same show ?thesis by (auto intro: domains_ok_mono)
  next
    assume upd: "t_custom_domains (w_db w') = update_where (\<lambda>r. cdr_id r = cd_id d) ?f ?rows"
    have rd: "read_ok P (w_app_clock w) ?rows d" using ok d by (simp add: domains_ok_def Let_def)
    have row: "row_owned P (w_db w') (w_app_clock w') (?f x)" if x: "x \<in> set ?rows" "cdr_id x = cd_id d" for x
    proof -
      have id: "cdr_hostname x = cd_hostname d" "cdr_validation_token x = cd_validation_token d"
        "cd_status d = CustomDomainValidated \<Longrightarrow> cdr_dns_validated_at x \<noteq> None"
        using rd x by (auto simp: read_ok_def)
      have "answered P t (rowToCustomDomain (?f x)) = answered P t d" for t
        by (rule answered_same) (simp_all add: rowToCustomDomain_def id)
      with may x id(3) certs same show ?thesis by (auto simp: row_owned_def may_set_def)
    qed
    have "read_ok P (w_app_clock w') (t_custom_domains (w_db w')) d'" if "d' \<in> L" for d'
      using ok that unfolding upd same by (auto simp: domains_ok_def Let_def read_ok_def elim!: in_update_whereE split: if_splits)
    moreover have "distinct (map cdr_hostname (update_where (\<lambda>r. cdr_id r = cd_id d) ?f ?rows))"
        "distinct (map cdr_id (update_where (\<lambda>r. cdr_id r = cd_id d) ?f ?rows))"
      using ok by (subst map_update_where; simp add: domains_ok_def Let_def)+
    moreover have "row_owned P (w_db w') (w_app_clock w') x" if "x \<in> set ?rows" for x
      using ok that certs same by (auto simp: domains_ok_def Let_def row_owned_def)
    ultimately show ?thesis
      using ok row unfolding domains_ok_def Let_def upd same
      by (auto simp: grant_of_def elim!: in_update_whereE split: if_splits)
  qed
qed

text \<open>The statements that leave the domains as they are.\<close>

definition domains_calm :: "world \<Rightarrow> world \<Rightarrow> bool" where
  "domains_calm w w' \<longleftrightarrow> t_custom_domains (w_db w') = t_custom_domains (w_db w)
     \<and> t_custom_domain_certs (w_db w') = t_custom_domain_certs (w_db w)
     \<and> w_next_serial w \<le> w_next_serial w' \<and> w_app_clock w \<le> w_app_clock w'"

lemma calm_ok: "domains_calm w w' \<Longrightarrow> domains_ok P L C w \<Longrightarrow> domains_ok P L C w'"
  by (erule domains_ok_mono) (simp_all add: domains_calm_def has_certificate_def)

lemma calm_faults [simp]: "domains_calm w (w\<lparr>w_faults := fs\<rparr>)"
  by (simp add: domains_calm_def)

lemma query_faults_only: "query q w = (r, w') \<Longrightarrow> \<exists>fs. w' = w\<lparr>w_faults := fs\<rparr>"
  by (auto simp: query_def external_def intro: exI [of _ "w_faults w"] split: list.splits bool.splits)

lemma randToken_calm:
  assumes "randToken w = (r, w')"
  shows "domains_calm w w'"
  using assms by (auto simp: randToken_def read_random_def external_def effect_simps domains_calm_def split: list.splits bool.splits)

lemma create_ok:
  assumes ok: "domains_ok P L C w" and run: "q_CreateCustomDomain u h tok w = (r, w')"
  shows "domains_ok P L (case r of Inr row \<Rightarrow> insert (grant_of row) C | Inl _ \<Rightarrow> C) w'"
proof (cases r)
  case (Inl e)
  with run have "domains_calm w w'"
    by (auto simp: q_CreateCustomDomain_def bindE_apply nextval_def statement_def external_def Let_def domains_calm_def
        split: list.splits bool.splits if_splits)
  with ok Inl show ?thesis by (auto intro: calm_ok)
next
  case (Inr row)
  with run have new: "cdr_id row = w_next_serial w" "cdr_status row = CustomDomainPending"
      "cdr_hostname row \<notin> cdr_hostname ` set (t_custom_domains (w_db w))"
      "t_custom_domains (w_db w') = t_custom_domains (w_db w) @ [row]"
      "t_custom_domain_certs (w_db w') = t_custom_domain_certs (w_db w)"
      "w_next_serial w' = w_next_serial w + 1" "w_app_clock w' = w_app_clock w"
    by (auto simp: q_CreateCustomDomain_def bindE_apply nextval_def statement_def external_def Let_def
        split: list.splits bool.splits if_splits)
  moreover have "row_owned P (w_db w') (w_app_clock w') row"
    using new by (simp add: row_owned_def)
  moreover have "row_owned P (w_db w') (w_app_clock w') x" if "x \<in> set (t_custom_domains (w_db w))" for x
    using ok that new by (auto simp: domains_ok_def Let_def row_owned_def has_certificate_def)
  moreover have "read_ok P (w_app_clock w') (t_custom_domains (w_db w')) d" if "d \<in> L" for d
    using ok that new by (auto simp: domains_ok_def Let_def read_ok_def)
  ultimately show ?thesis
    using ok Inr by (auto simp: domains_ok_def Let_def)
qed

lemma delete_ok:
  assumes ok: "domains_ok P L C w" and run: "q_DeleteCustomDomain i u w = (r, w')"
  shows "domains_ok P L C w'"
proof -
  let ?p = "\<lambda>x. cdr_id x = i \<and> cdr_user_id x = u"
  let ?rows = "t_custom_domains (w_db w)"
  have cases: "domains_calm w w' \<or> t_custom_domains (w_db w') = filter (\<lambda>x. \<not> ?p x) ?rows
      \<and> t_custom_domain_certs (w_db w') = filter (\<lambda>c. cdc_custom_domain_id c \<notin> cdr_id ` {x \<in> set ?rows. ?p x}) (t_custom_domain_certs (w_db w))
      \<and> w_next_serial w' = w_next_serial w \<and> w_app_clock w' = w_app_clock w"
    using run by (auto simp: q_DeleteCustomDomain_def statement_def external_def domains_calm_def Let_def
        split: list.splits bool.splits)
  from cases show ?thesis
  proof
    assume "domains_calm w w'"
    with ok show ?thesis by (auto intro: calm_ok)
  next
    assume gone: "t_custom_domains (w_db w') = filter (\<lambda>x. \<not> ?p x) ?rows
      \<and> t_custom_domain_certs (w_db w') = filter (\<lambda>c. cdc_custom_domain_id c \<notin> cdr_id ` {x \<in> set ?rows. ?p x}) (t_custom_domain_certs (w_db w))
      \<and> w_next_serial w' = w_next_serial w \<and> w_app_clock w' = w_app_clock w"
    have ids: "inj_on cdr_id (set ?rows)" using ok by (simp add: domains_ok_def Let_def distinct_map)
    have "has_certificate (w_db w') (cdr_id x)"
      if "has_certificate (w_db w) (cdr_id x)" "x \<in> set ?rows" "\<not> ?p x" for x
    proof -
      have other: "cdr_id x \<notin> cdr_id ` {y \<in> set ?rows. ?p y}"
      proof
        assume "cdr_id x \<in> cdr_id ` {y \<in> set ?rows. ?p y}"
        then obtain y where "cdr_id x = cdr_id y" "y \<in> set ?rows" "?p y" by blast
        with inj_onD [OF ids] that(2,3) show False by metis
      qed
      from that(1) obtain c where c: "c \<in> set (t_custom_domain_certs (w_db w))" "cdc_custom_domain_id c = cdr_id x"
        by (auto simp: has_certificate_def)
      have "c \<in> set (t_custom_domain_certs (w_db w'))"
        unfolding conjunct1 [OF conjunct2 [OF gone]] set_filter mem_Collect_eq c(2) using c(1) other by (rule conjI)
      then show ?thesis using c(2) [symmetric] by (simp add: has_certificate_def)
    qed
    with ok gone have "row_owned P (w_db w') (w_app_clock w') x" if "x \<in> set ?rows" "\<not> ?p x" for x
      using that by (auto simp: domains_ok_def Let_def row_owned_def)
    moreover have "read_ok P (w_app_clock w') (t_custom_domains (w_db w')) d" if "d \<in> L" for d
      using ok that gone by (auto simp: domains_ok_def Let_def read_ok_def)
    ultimately show ?thesis
      using ok gone by (auto simp: domains_ok_def Let_def intro: distinct_map_filter)
  qed
qed

lemma list_ok:
  assumes ok: "domains_ok P L C w" and run: "CustomDomainRepo_ListPending pg_CustomDomainRepo w = (r, w')"
  shows "domains_ok P (L \<union> (case r of Inr ds \<Rightarrow> set ds | Inl _ \<Rightarrow> {})) C w'"
proof -
  obtain fs where w': "w' = w\<lparr>w_faults := fs\<rparr>"
    using run query_faults_only by (fastforce simp: pg_CustomDomainRepo_def q_ListPendingCustomDomains_def effect_simps split: prod.splits sum.splits)
  have read: "d \<in> rowToCustomDomain ` set (t_custom_domains (w_db w))" if "r = Inr ds" "d \<in> set ds" for ds d
    using run that
    by (auto simp: pg_CustomDomainRepo_def q_ListPendingCustomDomains_def query_def external_def effect_simps
        split: list.splits bool.splits dest!: in_set_takeD)
  have ids: "x = y" if "x \<in> set (t_custom_domains (w_db w))" "y \<in> set (t_custom_domains (w_db w))" "cdr_id x = cdr_id y" for x y
    using ok that by (auto simp: domains_ok_def Let_def distinct_map dest: inj_onD)
  have "cd_id d < w_next_serial w' \<and> read_ok P (w_app_clock w') (t_custom_domains (w_db w')) d" if "r = Inr ds" "d \<in> set ds" for ds d
  proof -
    from read [OF that] obtain x where x: "x \<in> set (t_custom_domains (w_db w))" "d = rowToCustomDomain x" by blast
    with ok have "row_owned P (w_db w) (w_app_clock w) x" "cdr_id x < w_next_serial w" by (simp_all add: domains_ok_def Let_def)
    with x ids show ?thesis by (auto simp: w' read_ok_def row_owned_def rowToCustomDomain_def)
  qed
  moreover have "domains_ok P L C w'" using ok by (rule calm_ok [rotated]) (simp add: w')
  ultimately show ?thesis by (cases r) (auto simp: domains_ok_def Let_def)
qed

section \<open>Validation and certificates\<close>

lemma status_update_world:
  assumes "q_UpdateCustomDomainStatus i s e dns cert w = (r, w')"
  shows "w_app_clock w' = w_app_clock w"
  using assms by (auto simp: q_UpdateCustomDomainStatus_def statement_def external_def split: list.splits bool.splits if_splits)

lemma markFailed_ok:
  assumes "domains_ok P L C w" "d \<in> L"
  shows "domains_ok P L C (snd (markFailed (domains ca P) (cd_id d) reason w))"
proof -
  obtain r w' where "q_UpdateCustomDomainStatus (cd_id d) CustomDomainFailed (Some reason) None None w = (r, w')" by fastforce
  with set_status_ok [OF assms, of CustomDomainFailed] show ?thesis
    by (simp add: markFailed_def effect_simps may_set_def)
qed

lemma validateDNS_ok:
  assumes ok: "domains_ok P L C w" and d: "d \<in> L"
  shows "domains_ok P L C (snd (validateDNS (domains ca P) d w))"
proof -
  obtain reply fs where reply: "probe (domains ca P) (probe_url d) w = (Inr reply, w\<lparr>w_faults := fs\<rparr>)"
    and from_host: "reply = P (probe_url d) (w_app_clock w) \<or> (\<exists>e. reply = ProbeNoResponse e)"
  proof -
    have "\<exists>reply fs. probe (domains ca P) (probe_url d) w = (Inr reply, w\<lparr>w_faults := fs\<rparr>)
        \<and> (reply = P (probe_url d) (w_app_clock w) \<or> (\<exists>e. reply = ProbeNoResponse e))"
    proof (cases "w_faults w")
      case Nil
      then have "w = w\<lparr>w_faults := []\<rparr>" by simp
      with Nil show ?thesis by (auto simp: probe_def external_def effect_simps intro!: exI [of _ "[]"])
    next
      case (Cons f fs)
      then show ?thesis by (cases f) (auto simp: probe_def external_def effect_simps intro!: exI [of _ fs])
    qed
    then show thesis using that by blast
  qed
  let ?w = "w\<lparr>w_faults := fs\<rparr>"
  have ok': "domains_ok P L C ?w" using ok by (rule calm_ok [rotated]) simp
  show ?thesis
  proof (cases "probe_failure (probe_url d) (cd_validation_token d) reply")
    case (Some reason)
    with markFailed_ok [OF ok' d] reply show ?thesis by (simp add: validateDNS_def bindE_apply)
  next
    case None
    with from_host have "answered P (w_app_clock w) d" by (auto simp: answered_def probe_failure_def)
    then have may: "may_set P d CustomDomainValidated (Some (w_app_clock w)) None ?w" by (simp add: may_set_def)
    obtain r w' where run: "q_UpdateCustomDomainStatus (cd_id d) CustomDomainValidated None (Some (w_app_clock w)) None ?w = (r, w')"
      by fastforce
    with set_status_ok [OF ok' d may run] None reply show ?thesis
      by (simp add: validateDNS_def bindE_apply clock_now_apply attemptE_apply returnE_apply)
  qed
qed

text \<open>Storing a certificate only adds; a successful call leaves one for the domain.\<close>

lemma upsert_calm:
  assumes "q_UpsertCustomDomainCert a w = (r, w')"
  shows "t_custom_domains (w_db w') = t_custom_domains (w_db w)" "w_app_clock w' = w_app_clock w"
    "w_next_serial w \<le> w_next_serial w'"
    "has_certificate (w_db w) i \<Longrightarrow> has_certificate (w_db w') i"
    "r = Inr () \<Longrightarrow> has_certificate (w_db w') (cert_custom_domain_id a)"
  using assms
  by (auto simp: q_UpsertCustomDomainCert_def bindE_apply nextval_def statement_def external_def Let_def has_certificate_def
      image_update_where split: list.splits bool.splits if_splits) (metis image_eqI)+

lemma obtain_cert_calm: "obtain_cert ca h w = (r, w') \<Longrightarrow> \<exists>fs. w' = w\<lparr>w_faults := fs\<rparr>"
  by (auto simp: obtain_cert_def external_def effect_simps intro: exI [of _ "w_faults w"] split: list.splits bool.splits)

lemma provision_ok:
  assumes ok: "domains_ok P L C w"
    and run: "LegoProvisioner_Provision pg_CustomDomainRepo pg_CustomDomainCertRepo ca h w = (r, w')"
  shows "domains_ok P L C w'" "w_app_clock w' = w_app_clock w" "t_custom_domains (w_db w') = t_custom_domains (w_db w)"
    "r = Inr () \<Longrightarrow> x \<in> set (t_custom_domains (w_db w')) \<Longrightarrow> cdr_hostname x = h \<Longrightarrow> has_certificate (w_db w') (cdr_id x)"
proof -
  obtain g w1 where g: "q_GetCustomDomainByHostname h w = (g, w1)" by fastforce
  obtain c w2 where c: "obtain_cert ca h w1 = (c, w2)" by fastforce
  obtain fs where w1: "w1 = w\<lparr>w_faults := fs\<rparr>" using g query_faults_only unfolding q_GetCustomDomainByHostname_def by blast
  obtain gs where w2: "w2 = w1\<lparr>w_faults := gs\<rparr>" using obtain_cert_calm [OF c] by blast
  have calm: "domains_ok P L C v" "w_app_clock v = w_app_clock w" if "v = w1 \<or> v = w2" for v
    using that ok w1 w2 by (auto intro: calm_ok [rotated])
  consider (stopped) "r \<noteq> Inr ()" "w' = w1 \<or> w' = w2"
    | (stored) row a r' where "g = Inr row" "cert_custom_domain_id a = cdr_id row"
        "q_UpsertCustomDomainCert a w2 = (r', w')" "r = Inr () \<longrightarrow> r' = Inr ()"
  proof (cases g)
    case (Inl e)
    with run g have "r \<noteq> Inr ()" "w' = w1"
      by (auto simp: LegoProvisioner_Provision_def pg_CustomDomainRepo_def bindE_apply mapErrE_apply)
    then show thesis using stopped by blast
  next
    case row: (Inr row)
    show thesis
    proof (cases "\<exists>res t. c = Inr res \<and> ca_expiry ca (iss_certificate res) = Inr t")
      case False
      with run g c row have "r \<noteq> Inr () \<and> w' = w2"
        by (cases c) (auto simp: LegoProvisioner_Provision_def pg_CustomDomainRepo_def bindE_apply mapErrE_apply
            liftE_apply returnE_apply split: sum.splits)
      then show thesis using stopped by blast
    next
      case True
      then obtain res t where rt: "c = Inr res" "ca_expiry ca (iss_certificate res) = Inr t" by blast
      let ?a = "\<lparr>cert_custom_domain_id = cdr_id row, cert_cert_pem = iss_certificate res, cert_key_pem = iss_private_key res,
        cert_chain_pem = iss_issuer_certificate res, cert_expires_at = t\<rparr>"
      obtain r' v where up: "q_UpsertCustomDomainCert ?a w2 = (r', v)" by fastforce
      with run g c row rt have "w' = v" "r = Inr () \<longrightarrow> r' = Inr ()"
        by (auto simp: LegoProvisioner_Provision_def pg_CustomDomainRepo_def pg_CustomDomainCertRepo_def bindE_apply mapErrE_apply
            liftE_apply returnE_apply split: sum.splits)
      with up row show thesis using stored [of row ?a r'] by simp
    qed
  qed
  note parts = this
  from parts show ok': "domains_ok P L C w'"
  proof cases
    case stopped
    then show ?thesis using calm(1) by blast
  next
    case stored
    note up = upsert_calm [OF stored(3)]
    show ?thesis by (rule domains_ok_mono [OF calm(1) [of w2]]) (auto simp: up(1,2,4) intro: up(3))
  qed
  from parts show "w_app_clock w' = w_app_clock w"
    by cases (auto simp: calm dest: upsert_calm(2))
  from parts show rows: "t_custom_domains (w_db w') = t_custom_domains (w_db w)"
    by cases (auto simp: w1 w2 dest: upsert_calm(1))
  assume r: "r = Inr ()" and x: "x \<in> set (t_custom_domains (w_db w'))" and host: "cdr_hostname x = h"
  from parts r obtain row a r' where st: "g = Inr row" "cert_custom_domain_id a = cdr_id row"
      "q_UpsertCustomDomainCert a w2 = (r', w')" "r' = Inr ()" by cases auto
  note up = upsert_calm [OF st(3)]
  have x': "x \<in> set (t_custom_domains (w_db w))" using x rows by simp
  have "row \<in> set (t_custom_domains (w_db w)) \<and> cdr_hostname row = h"
    using g st(1)
    by (auto simp: q_GetCustomDomainByHostname_def query_def external_def one_row_def filter_eq_Cons_iff
        split: list.splits bool.splits)
  moreover have "inj_on cdr_hostname (set (t_custom_domains (w_db w)))"
    using ok by (simp add: domains_ok_def Let_def distinct_map)
  ultimately have "row = x" using host x' by (simp add: inj_on_def)
  with up(5) [OF st(4)] st(2) show "has_certificate (w_db w') (cdr_id x)" by simp
qed

lemma provisionCert_ok:
  assumes ok: "domains_ok P L C w" and d: "d \<in> L" and validated: "cd_status d = CustomDomainValidated"
  shows "domains_ok P L C (snd (provisionCert (domains ca P) d w))"
proof -
  obtain r w1 where run: "LegoProvisioner_Provision pg_CustomDomainRepo pg_CustomDomainCertRepo ca (cd_hostname d) w = (r, w1)"
    by fastforce
  note prov = provision_ok [OF ok run]
  show ?thesis
  proof (cases r)
    case (Inl e)
    from markFailed_ok [OF prov(1) d, of ca "''acme: '' @ error_text e"] Inl run show ?thesis
      by (cases "markFailed (domains ca P) (cd_id d) (''acme: '' @ error_text e) w1")
         (simp add: provisionCert_def bindE_apply attemptE_apply returnE_apply split: sum.splits)
  next
    case (Inr u)
    have "answered P (w_app_clock w1) d"
      using ok d validated prov(2) by (simp add: domains_ok_def Let_def read_ok_def)
    moreover have "has_certificate (w_db w1) (cd_id d)" if "x \<in> set (t_custom_domains (w_db w1))" "cdr_id x = cd_id d" for x
    proof -
      have "cdr_hostname x = cd_hostname d"
        using ok d that prov(3) by (auto simp: domains_ok_def Let_def read_ok_def)
      with prov(4) [of x] that(1) Inr have "has_certificate (w_db w1) (cdr_id x)" by simp
      with that(2) show ?thesis by simp
    qed
    ultimately have may: "may_set P d CustomDomainActive None (Some (w_app_clock w1)) w1"
      using validated by (auto simp: may_set_def)
    obtain s w2 where up: "q_UpdateCustomDomainStatus (cd_id d) CustomDomainActive None None (Some (w_app_clock w1)) w1 = (s, w2)"
      by fastforce
    from set_status_ok [OF prov(1) d may up] run Inr up show ?thesis
      by (simp add: provisionCert_def bindE_apply attemptE_apply returnE_apply clock_now_apply)
  qed
qed

lemma advance_ok:
  assumes "domains_ok P L C w" "d \<in> L"
  shows "domains_ok P L C (snd (advance (domains ca P) d b w))"
proof -
  note v = validateDNS_ok [OF assms, of ca] and c = provisionCert_ok [OF assms, of ca]
  show ?thesis using assms(1) v c
    by (cases "validateDNS (domains ca P) d w"; cases "provisionCert (domains ca P) d w")
       (auto simp: advance_def bindE_apply returnE_apply split: sum.splits)
qed

section \<open>The life of the domains\<close>

text \<open>What the answer to a request hands out.\<close>

definition granted :: "user option \<Rightarrow> goerr + custom_domain response \<Rightarrow> domain_grant set" where
  "granted u r = (case (u, r) of
     (Some x, Inr rsp) \<Rightarrow> (case rsp_body rsp of
        Some d \<Rightarrow> {(usr_id x, cd_hostname d, cd_validation_token d)} | None \<Rightarrow> {})
   | _ \<Rightarrow> {})"

text \<open>
  Executions of the endpoints and of the background jobs, with the rows \<open>L\<close> that processes have
  read, the caches \<open>K\<close> that processes have held, and the granted requests \<open>C\<close>. The steps of one
  batch may be interleaved with anything else; the surroundings do not write the domains.
\<close>

inductive domain_run :: "probe_get \<Rightarrow> certificate_authority \<Rightarrow> world \<Rightarrow> custom_domain set \<Rightarrow> hostname_cache set
    \<Rightarrow> domain_grant set \<Rightarrow> bool" for P ca where
  start: "t_custom_domains (w_db w) = [] \<Longrightarrow> domain_run P ca w {} {Map.empty} {}"
| request: "domain_run P ca w L K C \<Longrightarrow> Server_RequestCustomDomain (domains ca P) body u w = (r, w') \<Longrightarrow>
    domain_run P ca w' L K (C \<union> granted u r)"
| delete: "domain_run P ca w L K C \<Longrightarrow> cache \<in> K \<Longrightarrow>
    Server_DeleteCustomDomain (domains ca P) i cache u w = (Inr (rsp, cache'), w') \<Longrightarrow> domain_run P ca w' L (insert cache' K) C"
| list: "domain_run P ca w L K C \<Longrightarrow> CustomDomainRepo_ListPending pg_CustomDomainRepo w = (r, w') \<Longrightarrow>
    domain_run P ca w' (L \<union> (case r of Inr ds \<Rightarrow> set ds | Inl _ \<Rightarrow> {})) K C"
| advance: "domain_run P ca w L K C \<Longrightarrow> d \<in> L \<Longrightarrow> advance (domains ca P) d b w = (r, w') \<Longrightarrow> domain_run P ca w' L K C"
| refresh: "domain_run P ca w L K C \<Longrightarrow> cache \<in> K \<Longrightarrow>
    refreshHostnameCache (domains ca P) cache w = (Inr cache', w') \<Longrightarrow> domain_run P ca w' L (insert cache' K) C"
| renew: "domain_run P ca w L K C \<Longrightarrow> RunRenewalsOnce (domains ca P) w = (r, w') \<Longrightarrow> domain_run P ca w' L K C"
| surroundings: "domain_run P ca w L K C \<Longrightarrow> domains_calm w w' \<Longrightarrow> domain_run P ca w' L K C"

text \<open>A whole batch of the validation job is such a run.\<close>

lemma advances_run:
  assumes "domain_run P ca w L K C" "set ds \<subseteq> L" "foldE ds b (advance (domains ca P)) w = (r, w')"
  shows "domain_run P ca w' L K C"
  using assms
proof (induction ds arbitrary: w b)
  case Nil
  then show ?case by (simp add: returnE_apply)
next
  case (Cons d ds)
  obtain x v where step: "advance (domains ca P) d b w = (x, v)" by fastforce
  from Cons.prems step have v: "domain_run P ca v L K C" by (auto intro: domain_run.advance)
  show ?case
  proof (cases x)
    case (Inl e)
    with Cons.prems step v show ?thesis by (simp add: bindE_apply)
  next
    case (Inr b')
    with Cons.prems step v Cons.IH [of v b'] show ?thesis by (simp add: bindE_apply)
  qed
qed

lemma validation_is_run:
  assumes run: "domain_run P ca w L K C" and cache: "cache \<in> K"
    and val: "RunValidationOnce (domains ca P) cache w = (Inr cache', w')"
  shows "\<exists>L'. domain_run P ca w' L' (insert cache' K) C"
proof -
  obtain x w1 where list: "CustomDomainRepo_ListPending pg_CustomDomainRepo w = (x, w1)" by fastforce
  note listed = domain_run.list [OF run list]
  show ?thesis
  proof (cases x)
    case (Inl e)
    with val list have "cache' = cache" "w' = w1" by (simp_all add: RunValidationOnce_def bindE_apply attemptE_apply returnE_apply)
    with listed cache show ?thesis by (auto simp: insert_absorb)
  next
    case (Inr ds)
    obtain y w2 where fold: "foldE ds False (advance (domains ca P)) w1 = (y, w2)" by fastforce
    from listed Inr have adv: "domain_run P ca w2 (L \<union> set ds) K C"
      by (auto intro: advances_run [OF _ _ fold])
    from val list Inr fold obtain act where "(if act then refreshHostnameCache (domains ca P) cache else returnE cache) w2 = (Inr cache', w')"
      by (cases y) (auto simp: RunValidationOnce_def bindE_apply attemptE_apply)
    with adv cache show ?thesis
      by (cases act) (auto simp: returnE_apply insert_absorb intro: domain_run.refresh)
  qed
qed

section \<open>Routing\<close>

lemma lower_char_idem: "lower_char (lower_char c) = lower_char c"
  by (cases c) (simp add: lower_char_def Let_def)

definition routed :: "probe_get \<Rightarrow> domain_grant set \<Rightarrow> time \<Rightarrow> string \<Rightarrow> uuid \<Rightarrow> bool" where
  "routed P C now h u \<longleftrightarrow> (\<exists>tok t. (u, h, tok) \<in> C \<and> t \<le> now \<and>
     probe_failure (''https://'' @ h @ WellKnownPath tok) tok (P (''https://'' @ h @ WellKnownPath tok) t) = None)"

definition routes_ok :: "probe_get \<Rightarrow> domain_grant set \<Rightarrow> time \<Rightarrow> hostname_cache set \<Rightarrow> bool" where
  "routes_ok P C now K \<longleftrightarrow> (\<forall>cache \<in> K. \<forall>h u. cache h = Some u \<longrightarrow> routed P C now h u)"

lemma routes_ok_mono: "routes_ok P C now K \<Longrightarrow> C \<subseteq> C' \<Longrightarrow> now \<le> now' \<Longrightarrow> routes_ok P C' now' K"
  unfolding routes_ok_def routed_def by (meson order_trans subsetD)

lemma refresh_ok:
  assumes ok: "domains_ok P L C w" and routes: "routes_ok P C (w_app_clock w) K" and cache: "cache \<in> K"
    and run: "refreshHostnameCache (domains ca P) cache w = (Inr cache', w')"
  shows "domains_ok P L C w' \<and> routes_ok P C (w_app_clock w') (insert cache' K)"
proof -
  have w': "domains_calm w w'" "w_app_clock w' = w_app_clock w"
    using run by (auto simp: refreshHostnameCache_def pg_CustomDomainRepo_def q_ListActiveCustomDomainHostnames_def query_def
        external_def effect_simps domains_calm_def split: list.splits bool.splits)
  have "cache' = cache \<or> cache' = map_of (rev (map (\<lambda>r. (cdr_hostname r, cdr_user_id r))
      (filter (\<lambda>r. cdr_status r = CustomDomainActive) (t_custom_domains (w_db w)))))"
    using run by (auto simp: refreshHostnameCache_def pg_CustomDomainRepo_def q_ListActiveCustomDomainHostnames_def query_def
        external_def effect_simps split: list.splits bool.splits)
  then have "routed P C (w_app_clock w) h u" if "cache' h = Some u" for h u
  proof
    assume "cache' = cache"
    with that cache routes show ?thesis by (auto simp: routes_ok_def)
  next
    assume "cache' = map_of (rev (map (\<lambda>r. (cdr_hostname r, cdr_user_id r))
      (filter (\<lambda>r. cdr_status r = CustomDomainActive) (t_custom_domains (w_db w)))))"
    with that obtain r where r: "r \<in> set (t_custom_domains (w_db w))" "cdr_status r = CustomDomainActive"
      "h = cdr_hostname r" "u = cdr_user_id r"
      by (auto dest!: map_of_SomeD)
    with ok have "grant_of r \<in> C" "answered P (w_app_clock w) (rowToCustomDomain r)"
      by (auto simp: domains_ok_def Let_def row_owned_def)
    with r show ?thesis by (auto simp: routed_def grant_of_def answered_def probe_url_def rowToCustomDomain_def)
  qed
  with routes calm_ok [OF w'(1) ok] w'(2) show ?thesis by (simp add: routes_ok_def)
qed

interpretation same_clock: world_rel "\<lambda>w w'. w_app_clock w' = w_app_clock w"
  by unfold_locales auto

lemma same_clock_statement: "steps_by (\<lambda>w w'. w_app_clock w' = w_app_clock w) (statement q)"
  by (rule same_clock.statement) simp

lemma advance_clock:
  assumes "advance (domains ca P) d b w = (r, w')"
  shows "w_app_clock w' = w_app_clock w"
proof -
  have "steps_by (\<lambda>w w'. w_app_clock w' = w_app_clock w) (advance (domains ca P) d b)"
    unfolding advance_def validateDNS_def provisionCert_def markFailed_def probe_def domains_sel domain_ports
      LegoProvisioner_Provision_def q_UpdateCustomDomainStatus_def q_UpsertCustomDomainCert_def obtain_cert_def
      pg_CustomDomainRepo_def custom_domain_repo.simps q_GetCustomDomainByHostname_def
    by (intro same_clock.world_rules same_clock.external same_clock_statement)
  then show ?thesis using assms by (rule steps_byD)
qed

lemma create_facts:
  assumes "q_CreateCustomDomain u h tok w = (r, w')"
  shows "w_app_clock w' = w_app_clock w" "r = Inr row \<Longrightarrow> cdr_user_id row = u"
  using assms
  by (auto simp: q_CreateCustomDomain_def bindE_apply nextval_def statement_def external_def Let_def
      split: list.splits bool.splits if_splits)

lemma RequestDomain_ok:
  assumes ok: "domains_ok P L C w" and run: "RequestDomain (domains ca P) u hostname w = (r, w')"
  shows "domains_ok P L (case r of Inr d \<Rightarrow> insert (u, cd_hostname d, cd_validation_token d) C | Inl _ \<Rightarrow> C) w'
    \<and> w_app_clock w' = w_app_clock w"
proof (cases "ValidateCustomHostname (to_lower (trim_space hostname))")
  case (Inl e)
  with run ok show ?thesis by (auto simp: RequestDomain_def Let_def throwE_apply)
next
  case valid: (Inr v)
  obtain t w1 where t: "randToken w = (t, w1)" by fastforce
  have clock: "w_app_clock w1 = w_app_clock w"
    using t by (auto simp: randToken_def read_random_def external_def effect_simps split: list.splits bool.splits)
  have ok1: "domains_ok P L C w1" using randToken_calm [OF t] ok by (rule calm_ok)
  show ?thesis
  proof (cases t)
    case (Inl e)
    with run valid t ok1 clock show ?thesis by (auto simp: RequestDomain_def Let_def bindE_apply)
  next
    case (Inr tok)
    obtain x w2 where c: "q_CreateCustomDomain u (to_lower (trim_space hostname)) tok w1 = (x, w2)" by fastforce
    note created = create_ok [OF ok1 c] create_facts [OF c]
    from run valid t Inr c have "w' = w2" "r = (case x of Inl e \<Rightarrow> Inl e | Inr row \<Rightarrow> Inr (rowToCustomDomain row))"
      by (auto simp: RequestDomain_def Let_def pg_CustomDomainRepo_def bindE_apply returnE_apply split: sum.splits)
    with created clock show ?thesis by (cases x) (auto simp: grant_of_def rowToCustomDomain_def)
  qed
qed

lemma to_lower_idem [simp]: "to_lower (to_lower s) = to_lower s"
  by (simp add: to_lower_def lower_char_idem)

lemma no_body:
  "rsp_body (envelope a b c) = None" "rsp_body WriteUnauthorized = None" "rsp_body WriteMalformedJSON = None"
  "rsp_body WriteForbiddenTenant = None"
  by (simp_all add: WriteUnauthorized_def WriteMalformedJSON_def WriteForbiddenTenant_def envelope_def send_status_def)

lemma request_ok:
  assumes ok: "domains_ok P L C w" and run: "Server_RequestCustomDomain (domains ca P) body u w = (r, w')"
  shows "domains_ok P L (C \<union> granted u r) w' \<and> w_app_clock w' = w_app_clock w"
proof (cases "\<exists>x hostname. u = Some x \<and> body = Some hostname")
  case False
  with run have "w' = w" "granted u r = {}"
    by (auto simp: Server_RequestCustomDomain_def requireUser_def returnE_apply granted_def no_body split: option.splits)
  with ok show ?thesis by simp
next
  case True
  then obtain x hostname where given: "u = Some x" "body = Some hostname" by blast
  obtain y v where req: "RequestDomain (domains ca P) (usr_id x) hostname w = (y, v)" by fastforce
  from run given req have "w' = v" "granted u r = (case y of Inr d \<Rightarrow> {(usr_id x, cd_hostname d, cd_validation_token d)} | Inl _ \<Rightarrow> {})"
    by (auto simp: Server_RequestCustomDomain_def requireUser_def effect_simps granted_def no_body send_json_def
        split: sum.splits if_splits)
  with RequestDomain_ok [OF ok req] show ?thesis by (cases y) auto
qed

lemma delete_run_ok:
  assumes ok: "domains_ok P L C w" and routes: "routes_ok P C (w_app_clock w) K" and cache: "cache \<in> K"
    and run: "Server_DeleteCustomDomain (domains ca P) i cache u w = (Inr (rsp, cache'), w')"
  shows "domains_ok P L C w' \<and> routes_ok P C (w_app_clock w') (insert cache' K)"
proof (cases u)
  case None
  with run have "w' = w" "cache' = cache" by (simp_all add: Server_DeleteCustomDomain_def returnE_apply)
  with ok routes cache show ?thesis by (simp add: insert_absorb)
next
  case (Some x)
  obtain d w1 where del: "q_DeleteCustomDomain i (usr_id x) w = (d, w1)" by fastforce
  have clock: "w_app_clock w1 = w_app_clock w"
    using del by (auto simp: q_DeleteCustomDomain_def statement_def external_def Let_def split: list.splits bool.splits)
  note ok1 = delete_ok [OF ok del]
  show ?thesis
  proof (cases d)
    case (Inl e)
    with run Some del have "w' = w1" "cache' = cache"
      by (simp_all add: Server_DeleteCustomDomain_def DeleteDomain_def effect_simps)
    with ok1 routes cache clock show ?thesis by (simp add: insert_absorb)
  next
    case (Inr unit)
    obtain c2 w2 where ref: "refreshHostnameCache (domains ca P) cache w1 = (Inr c2, w2)"
      by (cases "CustomDomainRepo_ListActiveHostnames pg_CustomDomainRepo w1")
         (auto simp: refreshHostnameCache_def effect_simps)
    with run Some del Inr have "w' = w2" "cache' = c2"
      by (simp_all add: Server_DeleteCustomDomain_def DeleteDomain_def effect_simps)
    with refresh_ok [OF ok1 _ cache ref] routes clock show ?thesis by simp
  qed
qed

lemma logged_apply: "logged m w = (Inr (), snd (m w))"
  by (simp add: effect_simps split: prod.splits)

lemma renewals_ok:
  assumes "domains_ok P L C w"
    and "forE hs (\<lambda>h. logged (LegoProvisioner_Provision pg_CustomDomainRepo pg_CustomDomainCertRepo ca h)) w = (r, w')"
  shows "domains_ok P L C w' \<and> w_app_clock w' = w_app_clock w"
  using assms
proof (induction hs arbitrary: w)
  case Nil
  then show ?case by (simp add: returnE_apply)
next
  case (Cons h hs)
  obtain x v where p: "LegoProvisioner_Provision pg_CustomDomainRepo pg_CustomDomainCertRepo ca h w = (x, v)" by fastforce
  note prov = provision_ok [OF Cons.prems(1) p]
  from Cons.prems p have "forE hs (\<lambda>h. logged (LegoProvisioner_Provision pg_CustomDomainRepo pg_CustomDomainCertRepo ca h)) v = (r, w')"
    by (simp add: bindE_apply [of "logged (LegoProvisioner_Provision pg_CustomDomainRepo pg_CustomDomainCertRepo ca h)"]
        logged_apply [of "LegoProvisioner_Provision pg_CustomDomainRepo pg_CustomDomainCertRepo ca h" w])
  from Cons.IH [OF prov(1) this] prov(2) show ?case by simp
qed

lemma renew_ok:
  assumes ok: "domains_ok P L C w" and run: "RunRenewalsOnce (domains ca P) w = (r, w')"
  shows "domains_ok P L C w' \<and> w_app_clock w' = w_app_clock w"
proof -
  obtain x w1 where q: "q_ListExpiringHostnames (w_app_clock w + hours (30 * 24)) w = (x, w1)" by fastforce
  obtain fs where w1: "w1 = w\<lparr>w_faults := fs\<rparr>" using q query_faults_only unfolding q_ListExpiringHostnames_def by blast
  have ok1: "domains_ok P L C w1" using ok by (rule calm_ok [rotated]) (simp add: w1)
  have "w' = w1 \<or> (\<exists>hs r. forE hs (\<lambda>h. logged (LegoProvisioner_Provision pg_CustomDomainRepo pg_CustomDomainCertRepo ca h)) w1 = (r, w'))"
    using run q by (cases x) (auto simp: RunRenewalsOnce_def domains_def pg_CustomDomainCertRepo_def clock_now_apply effect_simps)
  with ok1 renewals_ok [OF ok1] show ?thesis by (auto simp: w1)
qed

lemma domain_run_ok:
  assumes "domain_run P ca w L K C"
  shows "domains_ok P L C w \<and> routes_ok P C (w_app_clock w) K"
  using assms
proof (induction rule: domain_run.induct)
  case (start w)
  then show ?case by (simp add: domains_ok_def routes_ok_def)
next
  case (request w L K C body u r w')
  from request.IH have "domains_ok P L C w" "routes_ok P C (w_app_clock w) K" by simp_all
  from request_ok [OF this(1) request.hyps(2)] routes_ok_mono [OF this(2)] show ?case by auto
next
  case (delete w L K C cache i u rsp cache' w')
  from delete.IH have "domains_ok P L C w" "routes_ok P C (w_app_clock w) K" by simp_all
  from delete_run_ok [OF this delete.hyps(2,3)] show ?case .
next
  case (list w L K C r w')
  have "steps_by (\<lambda>w w'. w_app_clock w' = w_app_clock w) (CustomDomainRepo_ListPending pg_CustomDomainRepo)"
    unfolding pg_CustomDomainRepo_def custom_domain_repo.simps q_ListPendingCustomDomains_def by (intro same_clock.world_rules)
  then have "w_app_clock w' = w_app_clock w" using list.hyps(2) by (rule steps_byD)
  with list.IH list_ok [OF conjunct1 [OF list.IH] list.hyps(2)] show ?case by simp
next
  case (advance w L K C d b r w')
  from advance_ok [OF conjunct1 [OF advance.IH] advance.hyps(2), of ca b] advance.hyps(3) advance.IH
    advance_clock [OF advance.hyps(3)] show ?case by simp
next
  case (refresh w L K C cache cache' w')
  from refresh.IH have "domains_ok P L C w" "routes_ok P C (w_app_clock w) K" by simp_all
  from refresh_ok [OF this refresh.hyps(2,3)] show ?case .
next
  case (renew w L K C r w')
  with renew_ok [OF conjunct1 [OF renew.IH] renew.hyps(2)] show ?case by simp
next
  case (surroundings w L K C w')
  from surroundings.IH have "domains_ok P L C w" "routes_ok P C (w_app_clock w) K" by simp_all
  from calm_ok [OF surroundings.hyps(2) this(1)] routes_ok_mono [OF this(2)] surroundings.hyps(2)
  show ?case by (simp add: domains_calm_def)
qed


section \<open>An example\<close>

lemmas pass_simps = RunValidationOnce_def domains_sel pg_CustomDomainRepo_def pg_CustomDomainCertRepo_def custom_domain_repo.simps
  custom_domain_cert_repo.simps q_ListPendingCustomDomains_def advance_def run_simps external_ok update_where_def coalesce_def

lemma first_pass:
  assumes "w_faults w = []" "t_custom_domains (w_db w) = [r]" "cdr_status r = CustomDomainPending"
    and "probe_failure (probe_url (rowToCustomDomain r)) (cdr_validation_token r) (P (probe_url (rowToCustomDomain r)) (w_app_clock w)) = None"
  shows "RunValidationOnce (domains ca P) cache w = (Inr cache, w\<lparr>w_db := (w_db w)\<lparr>t_custom_domains :=
    [r\<lparr>cdr_status := CustomDomainValidated, cdr_last_error := None, cdr_dns_validated_at := Some (w_app_clock w)\<rparr>]\<rparr>\<rparr>)"
proof -
  have "cd_validation_token (rowToCustomDomain r) = cdr_validation_token r" by (simp add: rowToCustomDomain_def)
  with assms show ?thesis
    by (simp add: pass_simps validateDNS_def probe_def q_UpdateCustomDomainStatus_def CustomDomainStatus_Valid_def)
qed

lemma second_pass:
  assumes "w_faults w = []" "t_custom_domains (w_db w) = [r]" "t_custom_domain_certs (w_db w) = []"
    "cdr_status r = CustomDomainValidated"
    and "ca_obtain ca (cdr_hostname r) (w_app_clock w) = Inr iss" "ca_expiry ca (iss_certificate iss) = Inr t"
  shows "\<exists>w'. RunValidationOnce (domains ca P) cache w = (Inr [cdr_hostname r \<mapsto> cdr_user_id r], w') \<and> w_faults w' = []
    \<and> t_users (w_db w') = t_users (w_db w)"
  using assms
  by (simp add: pass_simps provisionCert_def LegoProvisioner_Provision_def obtain_cert_def q_GetCustomDomainByHostname_def
      one_row_def q_UpsertCustomDomainCert_def q_UpdateCustomDomainStatus_def CustomDomainStatus_Valid_def Let_def
      refreshHostnameCache_def q_ListActiveCustomDomainHostnames_def)

definition demo_token :: string where
  "demo_token = hex_encode (map (\<lambda>n. char_of (n mod 256)) [0 ..< 24])"

text \<open>A host that shows the token, and an authority that issues.\<close>

definition demo_probe :: probe_get where
  "demo_probe = (\<lambda>url t. ProbeResponse 200 (Inr demo_token))"

definition demo_ca :: certificate_authority where
  "demo_ca = \<lparr>ca_obtain = (\<lambda>h t. Inr \<lparr>iss_certificate = ''c'', iss_private_key = ''k'', iss_issuer_certificate = ''i''\<rparr>),
     ca_expiry = (\<lambda>c. Inr (hours 2160))\<rparr>"

lemma demo_token_shown: "probe_failure url demo_token (ProbeResponse 200 (Inr demo_token)) = None"
proof -
  have "trim_space (take 1024 demo_token) = demo_token" by code_simp
  then show ?thesis by (simp add: probe_failure_def)
qed

lemma demo_hostname: "to_lower (trim_space ''status.acme.io'') = ''status.acme.io''"
  "to_lower ''status.acme.io'' = ''status.acme.io''" "ValidateCustomHostname ''status.acme.io'' = Inr ()"
  by code_simp+

definition demo_domain_row :: custom_domain_row where
  "demo_domain_row = \<lparr>cdr_id = 10, cdr_user_id = 1, cdr_hostname = ''status.acme.io'', cdr_validation_token = demo_token,
     cdr_status = CustomDomainPending, cdr_last_error = None, cdr_dns_validated_at = None,
     cdr_cert_issued_at = None, cdr_created_at = seconds 1000\<rparr>"

lemma demo_requested:
  obtains w where "Server_RequestCustomDomain (domains demo_ca demo_probe) (Some ''status.acme.io'') (Some demo_user) demo_world
      = (Inr (send_json 201 (rowToCustomDomain demo_domain_row)), w)"
    "t_custom_domains (w_db w) = [demo_domain_row]" "t_custom_domain_certs (w_db w) = []" "w_faults w = []"
    "t_users (w_db w) = [demo_user_row, demo_guest_row]"
proof -
  have "randToken demo_world = (Inr demo_token, demo_world\<lparr>w_entropy_pos := 24\<rparr>)"
    by (simp add: randToken_def read_random_def external_def effect_simps demo_world_def empty_world_def demo_token_def)
  with that show thesis
    by (simp add: Server_RequestCustomDomain_def requireUser_def RequestDomain_def demo_hostname pg_CustomDomainRepo_def
        q_CreateCustomDomain_def run_simps Let_def demo_domain_row_def user_exists_def demo_defs)
qed

end
