(* ===== verification/Importer_Properties.thy ===== *)
theory Importer_Properties
  imports Http_Handlers Monitor_Properties
begin

text \<open>
  The import of a Statuspage export takes all of the file or nothing of it, counts what it wrote,
  and writes only to the account that asked.
\<close>

section \<open>The deployed importer\<close>

definition importer :: "encryptor option \<Rightarrow> atlassian_importer" where
  "importer k = \<lparr>ai_monitors = pg_MonitorRepo (deployed_cipher k), ai_incidents = pg_IncidentRepo,
     ai_incident_updates = pg_IncidentUpdateRepo\<rparr>"

text \<open>
  What the tables of \<open>d\<close> have got when the import of \<open>u\<close> has counted \<open>res\<close>: new monitors of that
  account, incidents on these monitors only, and updates; nothing else has changed.
\<close>

definition import_growth :: "uuid \<Rightarrow> database \<Rightarrow> database \<Rightarrow> import_result \<Rightarrow> monitor_row list \<Rightarrow> bool" where
  "import_growth u d d' res new \<longleftrightarrow>
     t_monitors d' = t_monitors d @ new
     \<and> (\<forall>r \<in> set new. mnr_user_id r = u \<and> mnr_type r = MonitorHTTP \<and> live r)
     \<and> ir_monitors_created res = int (length new)
     \<and> (\<exists>ms. map inr_monitor_id (t_incidents d') = map inr_monitor_id (t_incidents d) @ ms
          \<and> set ms \<subseteq> mnr_id ` set new \<and> ir_incidents_created res = int (length ms))
     \<and> (\<exists>us. t_incident_updates d' = t_incident_updates d @ us
          \<and> (\<forall>x \<in> set us. iur_posted_by_user_id x = u) \<and> ir_updates_created res = int (length us))
     \<and> d'\<lparr>t_monitors := t_monitors d, t_incidents := t_incidents d, t_incident_updates := t_incident_updates d\<rparr> = d"

definition maps_into :: "(string \<rightharpoonup> uuid) \<Rightarrow> monitor_row list \<Rightarrow> bool" where
  "maps_into m new \<longleftrightarrow> ran m \<subseteq> mnr_id ` set new"

lemma import_growth_start: "import_growth u d d empty_import []"
  unfolding import_growth_def empty_import_def
  by (intro conjI exI [of _ "[]"]) simp_all

lemma grow_monitor:
  assumes "import_growth u d (w_db w) res new" "maps_into m new"
    and "import_component (importer k) u cmp (res, m) w = (Inr (res', m'), w')"
  shows "\<exists>new'. import_growth u d (w_db w') res' new' \<and> maps_into m' new'"
proof (cases "atc_url cmp = []")
  case True
  with assms have "w' = w" "m' = m" "res' = res\<lparr>ir_components_skipped := ir_components_skipped res + 1\<rparr>"
    by (simp_all add: import_component_def returnE_apply)
  with assms(1,2) show ?thesis by (auto simp: import_growth_def)
next
  case False
  with assms(3) obtain x where cr: "pg_MonitorRepo_Create (deployed_cipher k) (imported_monitor u cmp) w = (Inr x, w')"
      and res': "res' = res\<lparr>ir_monitors_created := ir_monitors_created res + 1\<rparr>" "m' = m(atc_id cmp \<mapsto> mon_id x)"
    by (auto simp: import_component_def importer_def pg_MonitorRepo_def returnE_apply elim!: bindE_InrE mapErrE_InrE)
  from Create_InrD [OF cr] obtain cfg where
    x: "x = (toDomainMonitor (stored_row (w_next_uuid w) cfg (w_db_clock w) (imported_monitor u cmp)))\<lparr>mon_check_config := mon_check_config x\<rparr>"
    and db: "w_db w' = (w_db w)\<lparr>t_monitors := t_monitors (w_db w) @ [stored_row (w_next_uuid w) cfg (w_db_clock w) (imported_monitor u cmp)]\<rparr>"
    by blast
  let ?r = "stored_row (w_next_uuid w) cfg (w_db_clock w) (imported_monitor u cmp)"
  have "mon_id x = mnr_id ?r" by (subst x) (simp add: toDomainMonitor_def stored_row_def)
  with assms(2) have "maps_into m' (new @ [?r])" by (auto simp: maps_into_def res' ran_def split: if_splits)
  moreover have "import_growth u d (w_db w') res' (new @ [?r])"
    using assms(1) unfolding import_growth_def db res'
    by (auto simp: stored_row_def imported_monitor_def live_def)
  ultimately show ?thesis by blast
qed

text \<open>What the statements of the second loop add.\<close>

lemma created_incident:
  assumes "pg_IncidentRepo_Create inp w = (Inr x, w')"
  shows "\<exists>r. w_db w' = (w_db w)\<lparr>t_incidents := t_incidents (w_db w) @ [r]\<rparr> \<and> inr_monitor_id r = cii_monitor_id inp"
  using assms
  by (intro exI [of _ "last (t_incidents (w_db w'))"])
     (auto simp: pg_IncidentRepo_Create_def q_CreateIncident_def Let_def attemptE_apply throwE_apply returnE_apply
      nextval_def elim!: bindE_InrE split: sum.splits if_splits prod.splits elim!: statement_InrE)

lemma resolved_incident:
  assumes "pg_IncidentRepo_Resolve i t w = (Inr x, w')"
  shows "\<exists>rows. w_db w' = (w_db w)\<lparr>t_incidents := rows\<rparr>
    \<and> map inr_monitor_id rows = map inr_monitor_id (t_incidents (w_db w))"
  using assms unfolding pg_IncidentRepo_Resolve_def q_ResolveIncident_def
  by (elim statement_InrE) (auto simp: map_update_where)

lemma created_update:
  assumes "pg_IncidentUpdateRepo_Create inp w = (Inr x, w')"
  shows "\<exists>r. w_db w' = (w_db w)\<lparr>t_incident_updates := t_incident_updates (w_db w) @ [r]\<rparr>
    \<and> iur_posted_by_user_id r = ciu_posted_by_user_id inp"
  using assms unfolding pg_IncidentUpdateRepo_Create_def q_CreateIncidentUpdate_def
  by (intro exI [of _ "last (t_incident_updates (w_db w'))"])
     (auto simp: Let_def returnE_apply nextval_def elim!: bindE_InrE statement_InrE split: if_splits)

lemma importer_sel [simp]:
  "MonitorRepo_Create (ai_monitors (importer k)) = pg_MonitorRepo_Create (deployed_cipher k)"
  "IncidentRepo_Create (ai_incidents (importer k)) = pg_IncidentRepo_Create"
  "IncidentRepo_Resolve (ai_incidents (importer k)) = pg_IncidentRepo_Resolve"
  "IncidentUpdateRepo_Create (ai_incident_updates (importer k)) = pg_IncidentUpdateRepo_Create"
  by (simp_all add: importer_def pg_MonitorRepo_def pg_IncidentRepo_def pg_IncidentUpdateRepo_def)

lemma grow_updates:
  assumes "import_growth u d (w_db w) res new"
    and "foldE ups res (import_update (importer k) u inc n) w = (Inr res', w')"
  shows "import_growth u d (w_db w') res' new"
  using assms
proof (induction ups arbitrary: w res)
  case Nil
  then show ?case by (simp add: returnE_apply)
next
  case (Cons up ups)
  from Cons.prems(2) obtain res1 w1 where one: "import_update (importer k) u inc n up res w = (Inr res1, w1)"
    and rest: "foldE ups res1 (import_update (importer k) u inc n) w1 = (Inr res', w')"
    by (auto elim!: bindE_InrE)
  from one obtain st x where cr: "pg_IncidentUpdateRepo_Create \<lparr>ciu_incident_id = n, ciu_state = st, ciu_body = atu_body up,
      ciu_posted_by_user_id = u\<rparr> w = (Inr x, w1)" and res1: "res1 = res\<lparr>ir_updates_created := ir_updates_created res + 1\<rparr>"
    by (auto simp: import_update_def returnE_apply elim!: bindE_InrE liftE_InrE mapErrE_InrE)
  from created_update [OF cr] obtain r where
    "w_db w1 = (w_db w)\<lparr>t_incident_updates := t_incident_updates (w_db w) @ [r]\<rparr>" "iur_posted_by_user_id r = u"
    by auto
  with Cons.prems(1) have "import_growth u d (w_db w1) res1 new"
    unfolding import_growth_def res1 by auto
  from Cons.IH [OF this rest] show ?case .
qed

lemma grow_incident:
  assumes "import_growth u d (w_db w) res new" "maps_into m new"
    and "import_incident (importer k) u m inc res w = (Inr res', w')"
  shows "import_growth u d (w_db w') res' new"
proof (cases "pickMonitorForIncident inc m")
  case None
  with assms show ?thesis by (simp add: import_incident_def returnE_apply)
next
  case (Some monitorID)
  then have known: "monitorID \<in> mnr_id ` set new"
    using assms(2) by (auto simp: pickMonitorForIncident_def maps_into_def ran_def split: option.splits)
  from assms(3) obtain st x w1 w2 where cr: "pg_IncidentRepo_Create \<lparr>cii_monitor_id = monitorID, cii_cause = ati_name inc,
      cii_state = st, cii_is_manual = True, cii_title = Some (ati_name inc)\<rparr> w = (Inr x, w1)"
    and resolve: "(case ati_resolved_at inc of None \<Rightarrow> returnE ()
        | Some t \<Rightarrow> wrapE (''resolve incident '' @ go_quote (ati_name inc)) (pg_IncidentRepo_Resolve (inc_id x) t)) w1 = (Inr (), w2)"
    and ups: "foldE (ati_incident_updates inc) (res\<lparr>ir_incidents_created := ir_incidents_created res + 1\<rparr>)
        (import_update (importer k) u inc (inc_id x)) w2 = (Inr res', w')"
    unfolding import_incident_def Some option.case importer_sel
    by (elim bindE_InrE liftE_InrE mapErrE_InrE) (rule that; simp)
  from created_incident [OF cr] obtain r where r: "w_db w1 = (w_db w)\<lparr>t_incidents := t_incidents (w_db w) @ [r]\<rparr>"
    "inr_monitor_id r = monitorID" by auto
  from resolve have "\<exists>rows. w_db w2 = (w_db w1)\<lparr>t_incidents := rows\<rparr>
      \<and> map inr_monitor_id rows = map inr_monitor_id (t_incidents (w_db w1))"
    by (cases "ati_resolved_at inc")
       (auto simp: returnE_apply intro: exI [of _ "t_incidents (w_db w1)"] elim!: mapErrE_InrE dest: resolved_incident)
  then obtain rows where rows: "w_db w2 = (w_db w)\<lparr>t_incidents := rows\<rparr>"
    "map inr_monitor_id rows = map inr_monitor_id (t_incidents (w_db w)) @ [monitorID]"
    using r by auto
  from assms(1) obtain ms where old: "map inr_monitor_id (t_incidents (w_db w)) = map inr_monitor_id (t_incidents d) @ ms"
      "set ms \<subseteq> mnr_id ` set new" "ir_incidents_created res = int (length ms)"
    by (auto simp: import_growth_def)
  have "import_growth u d (w_db w2) (res\<lparr>ir_incidents_created := ir_incidents_created res + 1\<rparr>) new"
    using assms(1) rows old known unfolding import_growth_def
    by (auto intro!: exI [of _ "ms @ [monitorID]"])
  from grow_updates [OF this ups] show ?thesis .
qed

section \<open>All or nothing\<close>

lemma grow_components:
  assumes "import_growth u d (w_db w) res new" "maps_into m new"
    and "foldE cs (res, m) (import_component (importer k) u) w = (Inr (res', m'), w')"
  shows "\<exists>new'. import_growth u d (w_db w') res' new' \<and> maps_into m' new'"
  using assms
proof (induction cs arbitrary: w res m new)
  case Nil
  then show ?case by (auto simp: returnE_apply)
next
  case (Cons cmp cs)
  from Cons.prems(3) obtain y w1 where one: "import_component (importer k) u cmp (res, m) w = (Inr y, w1)"
    and rest: "foldE cs y (import_component (importer k) u) w1 = (Inr (res', m'), w')"
    by (auto elim!: bindE_InrE)
  obtain res1 m1 where y: "y = (res1, m1)" by (cases y)
  from grow_monitor [OF Cons.prems(1,2) one [unfolded y]] obtain new1 where
    "import_growth u d (w_db w1) res1 new1" "maps_into m1 new1" by blast
  from Cons.IH [OF this rest [unfolded y]] show ?case .
qed

lemma grow_incidents:
  assumes "import_growth u d (w_db w) res new" "maps_into m new"
    and "foldE is res (import_incident (importer k) u m) w = (Inr res', w')"
  shows "import_growth u d (w_db w') res' new"
  using assms
proof (induction "is" arbitrary: w res)
  case Nil
  then show ?case by (simp add: returnE_apply)
next
  case (Cons inc "is")
  from Cons.prems(3) obtain res1 w1 where one: "import_incident (importer k) u m inc res w = (Inr res1, w1)"
    and rest: "foldE is res1 (import_incident (importer k) u m) w1 = (Inr res', w')"
    by (auto elim!: bindE_InrE)
  from Cons.IH [OF grow_incident [OF Cons.prems(1,2) one] Cons.prems(2) rest] show ?case .
qed


section \<open>An example\<close>

definition demo_export :: atlassian_export where
  "demo_export = \<lparr>ate_schema_version = ''1.0'', ate_page = \<lparr>atp_name = ''Acme'', atp_url = []\<rparr>,
     ate_components = [\<lparr>atc_id = ''c1'', atc_name = ''API'', atc_url = ''https://api''\<rparr>,
       \<lparr>atc_id = ''c2'', atc_name = ''Group'', atc_url = []\<rparr>],
     ate_incidents = [\<lparr>ati_id = ''i1'', ati_name = ''Outage'', ati_status = ''postmortem'', ati_started_at = 0,
       ati_resolved_at = Some 5, ati_components = [''c2'', ''c1''],
       ati_incident_updates = [\<lparr>atu_status = ''resolved'', atu_body = ''Fixed.'', atu_created_at = 3\<rparr>]\<rparr>]\<rparr>"

lemma plain_create:
  assumes "w_faults w = []" "mon_check_config m \<noteq> []" "\<not> monitor_exists (w_db w) (w_next_uuid w)"
    "user_exists (w_db w) (mon_user_id m)"
  shows "\<exists>x. pg_MonitorRepo_Create (deployed_cipher None) m w = (Inr x,
    w\<lparr>w_next_uuid := w_next_uuid w + 1,
      w_db := (w_db w)\<lparr>t_monitors := t_monitors (w_db w) @ [stored_row (w_next_uuid w) (json_marshal_string (mon_check_config m)) (w_db_clock w) m]\<rparr>\<rparr>)
    \<and> mon_id x = w_next_uuid w"
proof -
  have ne: "json_marshal_string (mon_check_config m) \<noteq> []" by (simp add: json_marshal_string_def)
  show ?thesis using assms ne
    by (simp add: pg_MonitorRepo_Create_def encryptConfig_def deployed_cipher_def NoOpCipher_def q_CreateMonitor_def run_simps
        monitorToCreateParams_def decrypted_monitor_def decryptConfig_def stored_row_def toDomainMonitor_def Let_def
        split: sum.splits)
qed

lemma demo_import_runs:
  "\<exists>w'. Import (importer None) 1 (Inr (Inr demo_export)) demo_world
     = (Inr \<lparr>ir_monitors_created = 1, ir_incidents_created = 1, ir_updates_created = 1, ir_components_skipped = 1\<rparr>, w')"
proof -
  let ?cmp = "\<lparr>atc_id = ''c1'', atc_name = ''API'', atc_url = ''https://api''\<rparr>"
  let ?cfg = "json_marshal_string (mon_check_config (imported_monitor 1 ?cmp))"
  let ?row = "stored_row 20 ?cfg (seconds 1000) (imported_monitor 1 ?cmp)"
  let ?w1 = "demo_world\<lparr>w_next_uuid := 21, w_db := demo_db\<lparr>t_monitors := [demo_monitor_row, ?row]\<rparr>\<rparr>"
  have "mon_check_config (imported_monitor 1 ?cmp) \<noteq> []"
    by (simp add: imported_monitor_def json_text_def)
  from plain_create [where m = "imported_monitor 1 ?cmp" and w = demo_world, OF _ this] obtain x where
    x: "pg_MonitorRepo_Create (deployed_cipher None) (imported_monitor 1 ?cmp) demo_world = (Inr x, ?w1)" "mon_id x = 20"
    by (auto simp: demo_defs monitor_exists_def user_exists_def imported_monitor_def)
  have f: "w_faults demo_world = []" by (simp add: demo_defs)
  let ?inc = "\<lparr>cii_monitor_id = 20, cii_cause = ''Outage'', cii_state = IncidentStateResolved, cii_is_manual = True, cii_title = Some ''Outage''\<rparr>"
  let ?w2 = "?w1\<lparr>w_next_serial := 11, w_db := (w_db ?w1)\<lparr>t_incidents := [\<lparr>inr_id = 10, inr_monitor_id = 20,
      inr_started_at = seconds 1000, inr_resolved_at = None, inr_cause = ''Outage'', inr_state = IncidentStateResolved,
      inr_is_manual = True, inr_title = Some ''Outage''\<rparr>]\<rparr>\<rparr>"
  have inc: "\<exists>y. pg_IncidentRepo_Create ?inc ?w1 = (Inr y, ?w2) \<and> inc_id y = 10"
    by (simp add: pg_IncidentRepo_Create_def q_CreateIncident_def IncidentState_Valid_def run_simps f monitor_exists_def
        incident_exists_def stored_row_def Let_def demo_defs incidentFromRow_def)
  then obtain y where y: "pg_IncidentRepo_Create ?inc ?w1 = (Inr y, ?w2)" "inc_id y = 10" by blast
  obtain w3 where w3: "pg_IncidentRepo_Resolve 10 5 ?w2 = (Inr (), w3)" "w_faults w3 = []" "t_users (w_db w3) = t_users demo_db"
      "incident_exists (w_db w3) 10" "t_incident_updates (w_db w3) = []"
    by (simp add: pg_IncidentRepo_Resolve_def q_ResolveIncident_def run_simps f demo_defs update_where_def incident_exists_def)
  have "\<exists>z w4. pg_IncidentUpdateRepo_Create \<lparr>ciu_incident_id = 10, ciu_state = IncidentStateResolved, ciu_body = ''Fixed.'',
      ciu_posted_by_user_id = 1\<rparr> w3 = (Inr z, w4) \<and> w_faults w4 = []"
    using w3(2-5) by (simp add: pg_IncidentUpdateRepo_Create_def q_CreateIncidentUpdate_def IncidentState_Valid_def run_simps Let_def
        user_exists_def incident_exists_def demo_defs)
  then obtain z w4 where z: "pg_IncidentUpdateRepo_Create \<lparr>ciu_incident_id = 10, ciu_state = IncidentStateResolved, ciu_body = ''Fixed.'',
      ciu_posted_by_user_id = 1\<rparr> w3 = (Inr z, w4)" "w_faults w4 = []" by blast
  have "import_component (importer None) 1 ?cmp (empty_import, Map.empty) demo_world
      = (Inr (empty_import\<lparr>ir_monitors_created := 1\<rparr>, [''c1'' \<mapsto> 20]), ?w1)"
    using x by (simp add: import_component_def bindE_apply mapErrE_apply returnE_apply empty_import_def)
  moreover have "import_incident (importer None) 1 [''c1'' \<mapsto> 20] (hd (ate_incidents demo_export))
      \<lparr>ir_monitors_created = 1, ir_incidents_created = 0, ir_updates_created = 0, ir_components_skipped = 1\<rparr> ?w1
    = (Inr \<lparr>ir_monitors_created = 1, ir_incidents_created = 1, ir_updates_created = 1, ir_components_skipped = 1\<rparr>, w4)"
    using y w3(1) z(1)
    by (simp add: import_incident_def import_update_def demo_export_def pickMonitorForIncident_def mapAtlassianState_def
        bindE_apply mapErrE_apply returnE_apply liftE_apply)
  ultimately have "import_tx (importer None) 1 demo_export demo_world = (Inr \<lparr>ir_monitors_created = 1, ir_incidents_created = 1,
      ir_updates_created = 1, ir_components_skipped = 1\<rparr>, w4)"
    by (simp add: import_tx_def demo_export_def import_component_def [of _ _ "\<lparr>atc_id = ''c2'', atc_name = ''Group'', atc_url = []\<rparr>"]
        bindE_apply returnE_apply empty_import_def)
  with z(2) have "\<exists>w'. import_tx (importer None) 1 demo_export demo_world = (Inr \<lparr>ir_monitors_created = 1, ir_incidents_created = 1,
      ir_updates_created = 1, ir_components_skipped = 1\<rparr>, w') \<and> w_faults w' = []" by blast
  then show ?thesis by (auto simp: Import_def demo_export_def tx_do_ok f)
qed

end
