(* ===== verification/Deliveries.thy ===== *)
theory Deliveries
  imports Alerting Scheduler
begin

text \<open>
  The consumers of \<open>internal/adapter/nats\<close> and what the wiring subscribes to them: how a message is
  decoded, handled and acknowledged, and how JetStream delivers it again until it is settled.
  Parameters are the decoders (\<open>json.Unmarshal\<close> of a message).
\<close>

section \<open>Consumers\<close>

text \<open>The answer to a message: \<open>msg.Ack()\<close>, \<open>msg.Nak()\<close>, \<open>msg.NakWithDelay(d)\<close>.\<close>

datatype verdict = Ack | Nak | NakWithDelay duration

record consumer_config =
  cc_stream :: string
  cc_durable :: string
  cc_max_deliver :: nat
  cc_backoff :: "duration list"
  cc_ack_wait :: "duration option"

definition monitor_consumer :: consumer_config where
  "monitor_consumer = \<lparr>cc_stream = ''MONITORS'', cc_durable = ''checker-worker'', cc_max_deliver = 5,
     cc_backoff = map seconds [2, 5, 10, 30, 60], cc_ack_wait = None\<rparr>"

definition alert_consumer :: consumer_config where
  "alert_consumer = \<lparr>cc_stream = ''ALERTS'', cc_durable = ''notifier-alerts'', cc_max_deliver = 10,
     cc_backoff = map seconds [2, 5, 10, 30, 60, 120, 120, 120, 120, 120], cc_ack_wait = None\<rparr>"

definition check_consumer :: consumer_config where
  "check_consumer = \<lparr>cc_stream = ''CHECKS'', cc_durable = ''checker-workers'', cc_max_deliver = 3,
     cc_backoff = [], cc_ack_wait = Some (seconds 60)\<rparr>"

text \<open>
  The shape of the three message handlers: a message that cannot be decoded is acknowledged, so
  that it does not come back; a failure of the handler is answered with \<open>nak\<close>.
\<close>

definition on_message :: "verdict \<Rightarrow> (string \<Rightarrow> goerr + 'e) \<Rightarrow> ('e \<Rightarrow> unit io) \<Rightarrow> string \<Rightarrow> verdict io" where
  "on_message nak unmarshal handler data = (case unmarshal data of
     Inl _ \<Rightarrow> returnE Ack
   | Inr ev \<Rightarrow> bindE (attemptE (handler ev)) (\<lambda>r. returnE (case r of Inl _ \<Rightarrow> nak | Inr _ \<Rightarrow> Ack)))"

definition MonitorSubscriber_message ::
    "(string \<Rightarrow> goerr + monitor_changed_event) \<Rightarrow> (monitor_changed_event \<Rightarrow> unit io) \<Rightarrow> string \<Rightarrow> verdict io" where
  "MonitorSubscriber_message = on_message Nak"

definition AlertSubscriber_message ::
    "(string \<Rightarrow> goerr + alert_event) \<Rightarrow> (alert_event \<Rightarrow> unit io) \<Rightarrow> string \<Rightarrow> verdict io" where
  "AlertSubscriber_message = on_message Nak"

definition CheckSubscriber_message ::
    "(string \<Rightarrow> goerr + uuid) \<Rightarrow> (uuid \<Rightarrow> unit io) \<Rightarrow> string \<Rightarrow> verdict io" where
  "CheckSubscriber_message = on_message (NakWithDelay (seconds 5))"

text \<open>
  One turn of \<open>pullLoop\<close>: up to ten messages are fetched and handled in order; a failed fetch
  only waits. The answers are returned in the order of the messages.
\<close>

definition pull_batch ::
    "(string \<Rightarrow> goerr + uuid) \<Rightarrow> (uuid \<Rightarrow> unit io) \<Rightarrow> (nat \<Rightarrow> string list io) \<Rightarrow> verdict list io" where
  "pull_batch unmarshal handler fetch =
     bindE (attemptE (fetch 10)) (\<lambda>r. case r of
       Inl _ \<Rightarrow> returnE []
     | Inr msgs \<Rightarrow> mapE msgs (CheckSubscriber_message unmarshal handler))"

text \<open>The advisories are plain NATS messages: there is nothing to acknowledge.\<close>

definition DLQConsumer_message :: "(string \<Rightarrow> goerr + max_delivery_advisory) \<Rightarrow> string \<Rightarrow> unit io" where
  "DLQConsumer_message unmarshal data = (case unmarshal data of
     Inl _ \<Rightarrow> returnE () | Inr adv \<Rightarrow> on_advisory adv data)"

section \<open>Redelivery\<close>

text \<open>
  What JetStream documents of a consumer with explicit acknowledgement: a message that is not
  acknowledged, because it was answered with a \<open>nak\<close> or because the answer got lost, is delivered
  again, at most \<open>MaxDeliver\<close> times in all; then it is set aside and an advisory is sent.
\<close>

record queued =
  qm_data :: string
  qm_deliveries :: nat

record queue =
  q_pending :: "queued list"
  q_settled :: "queued list"
  q_exhausted :: "queued list"

definition settle :: "nat \<Rightarrow> bool \<Rightarrow> queued list \<Rightarrow> queued \<Rightarrow> queued list \<Rightarrow> queue \<Rightarrow> queue" where
  "settle max_deliver acked xs m ys q =
     (let m' = m\<lparr>qm_deliveries := Suc (qm_deliveries m)\<rparr> in
      if acked then q\<lparr>q_pending := xs @ ys, q_settled := m' # q_settled q\<rparr>
      else if qm_deliveries m' \<ge> max_deliver then q\<lparr>q_pending := xs @ ys, q_exhausted := m' # q_exhausted q\<rparr>
      else q\<lparr>q_pending := xs @ m' # ys\<rparr>)"

inductive delivery :: "consumer_config \<Rightarrow> (string \<Rightarrow> verdict io) \<Rightarrow> queue \<times> world \<Rightarrow> queue \<times> world \<Rightarrow> bool"
  for c h where
  deliver: "q_pending q = xs @ m # ys \<Longrightarrow> h (qm_data m) w = (v, w') \<Longrightarrow> (acked \<Longrightarrow> v = Inr Ack) \<Longrightarrow>
    delivery c h (q, w) (settle (cc_max_deliver c) acked xs m ys q, w')"

text \<open>A run of \<open>n\<close> deliveries.\<close>

inductive deliveries :: "consumer_config \<Rightarrow> (string \<Rightarrow> verdict io) \<Rightarrow> nat \<Rightarrow> queue \<times> world \<Rightarrow> queue \<times> world \<Rightarrow> bool"
  for c h where
  none: "deliveries c h 0 s s"
| more: "deliveries c h n s t \<Longrightarrow> delivery c h t u \<Longrightarrow> deliveries c h (Suc n) s u"

end
