(* ===== verification/Delivery_Properties.thy ===== *)
theory Delivery_Properties
  imports Deliveries Alert_Properties
begin

text \<open>
  What the consumers promise together with the redelivery: every message is settled after a
  bounded number of deliveries, and an alert sends a bounded number of messages over all of them.
\<close>

section \<open>Redelivery ends\<close>

text \<open>The books of a queue: no message is delivered more often than allowed, and only a message
  that has used up its deliveries is set aside.\<close>

definition books_ok :: "nat \<Rightarrow> queue \<Rightarrow> bool" where
  "books_ok k q \<longleftrightarrow> (\<forall>m \<in> set (q_pending q). qm_deliveries m < k)
     \<and> (\<forall>m \<in> set (q_settled q). 1 \<le> qm_deliveries m \<and> qm_deliveries m \<le> k)
     \<and> (\<forall>m \<in> set (q_exhausted q). qm_deliveries m = k)"

definition all_messages :: "queue \<Rightarrow> queued list" where
  "all_messages q = q_pending q @ q_settled q @ q_exhausted q"

definition delivered_times :: "queue \<Rightarrow> nat" where
  "delivered_times q = sum_list (map qm_deliveries (all_messages q))"

definition messages :: "queue \<Rightarrow> string multiset" where
  "messages q = mset (map qm_data (all_messages q))"

lemma settle_books:
  assumes "books_ok k q" "q_pending q = xs @ m # ys"
  shows "books_ok k (settle k acked xs m ys q)"
  using assms by (auto simp: books_ok_def settle_def Let_def)

lemma settle_counts:
  assumes "q_pending q = xs @ m # ys"
  shows "delivered_times (settle k acked xs m ys q) = Suc (delivered_times q)"
    "messages (settle k acked xs m ys q) = messages q"
    "sum_list (map (\<lambda>m. qm_deliveries m * f (qm_data m)) (all_messages (settle k acked xs m ys q)))
      = sum_list (map (\<lambda>m. qm_deliveries m * f (qm_data m)) (all_messages q)) + f (qm_data m)"
  using assms by (auto simp: delivered_times_def messages_def all_messages_def settle_def Let_def algebra_simps)

lemma delivered_bound:
  assumes "books_ok k q"
  shows "m \<in> set (all_messages q) \<Longrightarrow> qm_deliveries m \<le> k"
    "delivered_times q \<le> k * size (messages q)"
proof -
  show each: "qm_deliveries m \<le> k" if "m \<in> set (all_messages q)" for m
    using assms that by (auto simp: books_ok_def all_messages_def less_imp_le)
  have "delivered_times q \<le> sum_list (map (\<lambda>_. k) (all_messages q))"
    unfolding delivered_times_def by (rule sum_list_mono) (rule each)
  then show "delivered_times q \<le> k * size (messages q)"
    by (simp add: messages_def sum_list_triv mult.commute)
qed

lemma deliveries_books:
  assumes "deliveries c h n s t" "books_ok (cc_max_deliver c) (fst s)"
  shows "books_ok (cc_max_deliver c) (fst t) \<and> delivered_times (fst t) = delivered_times (fst s) + n
    \<and> messages (fst t) = messages (fst s)"
  using assms
proof induction
  case (none s)
  then show ?case by simp
next
  case (more n s t u)
  then have ok: "books_ok (cc_max_deliver c) (fst t)" by simp
  from more.hyps(2) obtain q xs m ys w' acked where t: "fst t = q" "q_pending q = xs @ m # ys"
      "fst u = settle (cc_max_deliver c) acked xs m ys q"
    by cases auto
  with more ok settle_books [of _ q xs m ys acked] settle_counts(1,2) [of q xs m ys "cc_max_deliver c" acked] show ?case by simp
qed

lemma pending_delivered:
  assumes "q_pending q \<noteq> []"
  shows "\<exists>s. delivery c h (q, w) s"
proof -
  from assms obtain m ys where "q_pending q = [] @ m # ys" by (cases "q_pending q") auto
  moreover obtain v w' where "h (qm_data m) w = (v, w')" by fastforce
  ultimately show ?thesis using delivery.deliver [of q "[]" m ys h w v w' False c] by blast
qed

section \<open>Alerts\<close>

definition routing :: "database \<Rightarrow> channel_row list \<times> (uuid \<times> uuid) list" where
  "routing d = (t_channels d, t_monitor_channels d)"

lemma routing_dlq:
  assumes "as_failed_alerts s = pg_FailedAlertRepo"
  shows "steps_by (db_view routing) (dlq_attempts n s event err ids)"
proof (induction n)
  case 0
  show ?case by (simp add: viewing.returnE)
next
  case (Suc n)
  have "steps_by (db_view routing) (pg_FailedAlertRepo_Create event err ids)"
    unfolding pg_FailedAlertRepo_Create_def q_InsertFailedAlert_def
    by (intro db_viewing.world_rules db_viewing.statement) (auto simp: routing_def Let_def split: if_splits)
  moreover have metric: "steps_by (db_view routing) (alert_metric s m)" for m
    by (simp add: alert_metric_def steps_by_def record_metric_db returnE_apply)
  ultimately show ?case using Suc assms
    by (simp add: pg_FailedAlertRepo_def) (intro db_viewing.world_rules metric)
qed

lemma HandleAlert_routing:
  assumes lib: "library_ok L" and run: "HandleAlert (deployed_notifier L out token c C) ev w = (r, w')"
  shows "routing (w_db w') = routing (w_db w)"
  using lib run
proof (cases rule: HandleAlert_cases)
  case (tried outs w1)
  let ?v = "\<lambda>sent failed. if sent = 0 \<and> failed > 0 then bindE (record_metric RecordAlertAllFailed) (\<lambda>_.
      throwE (Errorf (''all '' @ int_to_dec failed @ '' channels failed for monitor '' @ uuid_string (ae_monitor_id ev))))
    else if failed > 0 then writeToDLQ (deployed_notifier L out token c C) ev sent failed (missed outs)
    else returnE () :: unit io"
  have "steps_by (db_view routing) (record_metric m)" for m
    by (simp add: steps_by_def record_metric_db)
  moreover have "steps_by (db_view routing) (writeToDLQ (deployed_notifier L out token c C) ev sent failed ids)" for sent failed ids
    unfolding writeToDLQ_def by (rule routing_dlq) simp
  ultimately have "steps_by (db_view routing) (?v sent failed)" for sent failed
    by (intro db_viewing.world_rules)
  from steps_byD [OF this tried(4) [unfolded Let_def]] tried(2) show ?thesis by simp
qed simp_all

lemma alert_rows_routing: "routing d = routing d' \<Longrightarrow> alert_rows d ev = alert_rows d' ev"
  by (simp add: routing_def alert_rows_def bound_rows_def user_rows_def)

text \<open>The notifier's consumer, and how many channels a message concerns.\<close>

definition alert_handler ::
    "(string \<Rightarrow> goerr + alert_event) \<Rightarrow> delivery_library \<Rightarrow> outbound \<Rightarrow> string \<Rightarrow> smtp_settings \<Rightarrow> cipher \<Rightarrow> string \<Rightarrow> verdict io" where
  "alert_handler unmarshal L out token c C = AlertSubscriber_message unmarshal (HandleAlert (deployed_notifier L out token c C))"

definition channels_of :: "(string \<Rightarrow> goerr + alert_event) \<Rightarrow> database \<Rightarrow> string \<Rightarrow> nat" where
  "channels_of unmarshal d data = (case unmarshal data of
     Inl _ \<Rightarrow> 0 | Inr ev \<Rightarrow> length (filter chr_is_enabled (alert_rows d ev)))"

lemma alert_handler_once:
  assumes lib: "library_ok L" and run: "alert_handler unmarshal L out token c C data w = (v, w')"
  shows "routing (w_db w') = routing (w_db w)
    \<and> (\<exists>ms. w_outbox w' = w_outbox w @ ms \<and> length ms \<le> 3 * channels_of unmarshal (w_db w) data)"
proof (cases "unmarshal data")
  case (Inl e)
  with run show ?thesis by (simp add: alert_handler_def AlertSubscriber_message_def on_message_def returnE_apply)
next
  case (Inr ev)
  obtain r w1 where h: "HandleAlert (deployed_notifier L out token c C) ev w = (r, w1)" by fastforce
  with run Inr have "w' = w1"
    by (simp add: alert_handler_def AlertSubscriber_message_def on_message_def effect_simps)
  with HandleAlert_routing [OF lib h] at_most_three_messages_per_channel [OF lib h] Inr show ?thesis
    by (simp add: channels_of_def)
qed

lemma alert_deliveries_messages:
  assumes "deliveries cfg (alert_handler unmarshal L out token c C) n s t" "library_ok L"
  shows "routing (w_db (snd t)) = routing (w_db (snd s))
    \<and> (\<exists>ms. w_outbox (snd t) = w_outbox (snd s) @ ms
        \<and> length ms + 3 * sum_list (map (\<lambda>m. qm_deliveries m * channels_of unmarshal (w_db (snd s)) (qm_data m)) (all_messages (fst s)))
          \<le> 3 * sum_list (map (\<lambda>m. qm_deliveries m * channels_of unmarshal (w_db (snd s)) (qm_data m)) (all_messages (fst t))))"
  using assms
proof induction
  case (none s)
  then show ?case by simp
next
  case (more n s t u)
  let ?f = "channels_of unmarshal (w_db (snd s))"
  let ?S = "\<lambda>q. sum_list (map (\<lambda>m. qm_deliveries m * ?f (qm_data m)) (all_messages q))"
  from more.hyps(2) obtain q w xs m ys v w' acked where t: "t = (q, w)" "q_pending q = xs @ m # ys"
      and h: "alert_handler unmarshal L out token c C (qm_data m) w = (v, w')"
      and u: "u = (settle (cc_max_deliver cfg) acked xs m ys q, w')"
    by cases auto
  from more.IH [OF more.prems] t obtain ms where ih: "routing (w_db w) = routing (w_db (snd s))"
      "w_outbox w = w_outbox (snd s) @ ms" "length ms + 3 * ?S (fst s) \<le> 3 * ?S q" by auto
  have "channels_of unmarshal (w_db w) = ?f"
    using alert_rows_routing [OF ih(1)] by (auto simp: channels_of_def split: sum.splits)
  with alert_handler_once [OF more.prems h] obtain ms' where step: "routing (w_db w') = routing (w_db w)"
      "w_outbox w' = w_outbox w @ ms'" "length ms' \<le> 3 * ?f (qm_data m)" by auto
  note count = settle_counts(3) [OF t(2), where f = ?f and k = "cc_max_deliver cfg" and acked = acked]
  show ?case
  proof (intro conjI exI [of _ "ms @ ms'"])
    show "routing (w_db (snd u)) = routing (w_db (snd s))" using step(1) ih(1) by (simp add: u)
    show "w_outbox (snd u) = w_outbox (snd s) @ ms @ ms'" using step(2) ih(2) by (simp add: u)
    show "length (ms @ ms') + 3 * ?S (fst s) \<le> 3 * ?S (fst u)"
      using step(3) ih(3) count by (simp add: u)
  qed
qed

text \<open>Alerts as they are published, before any delivery.\<close>

definition published :: "string list \<Rightarrow> queue" where
  "published datas = \<lparr>q_pending = map (\<lambda>d. \<lparr>qm_data = d, qm_deliveries = 0\<rparr>) datas, q_settled = [], q_exhausted = []\<rparr>"

lemma published_facts:
  "0 < k \<Longrightarrow> books_ok k (published datas)" "delivered_times (published datas) = 0" "messages (published datas) = mset datas"
  "sum_list (map (\<lambda>m. qm_deliveries m * f (qm_data m)) (all_messages (published datas))) = 0"
  by (simp_all add: books_ok_def published_def delivered_times_def messages_def all_messages_def comp_def)

lemma total_channels:
  assumes "books_ok k q" "messages q = mset datas"
  shows "sum_list (map (\<lambda>m. qm_deliveries m * f (qm_data m)) (all_messages q)) \<le> k * sum_list (map f datas)"
proof -
  have "sum_list (map (\<lambda>m. qm_deliveries m * f (qm_data m)) (all_messages q)) \<le> sum_list (map (\<lambda>m. k * f (qm_data m)) (all_messages q))"
    using delivered_bound(1) [OF assms(1)] by (intro sum_list_mono mult_right_mono) auto
  also have "\<dots> = k * sum_list (map f (map qm_data (all_messages q)))"
    by (simp add: sum_list_const_mult comp_def)
  also have "sum_list (map f (map qm_data (all_messages q))) = sum_mset (image_mset f (messages q))"
    by (simp add: messages_def image_mset.compositionality flip: sum_mset_sum_list)
  also have "\<dots> = sum_list (map f datas)"
    by (simp add: assms(2) flip: sum_mset_sum_list)
  finally show ?thesis .
qed

text \<open>C30: The delivery of alerts ends: from the queue of published alerts there are at most ten
  deliveries per alert, whatever the handler answers and whichever answers get lost; while alerts
  are pending another delivery is possible, none is lost from the books, each is at last
  acknowledged or set aside after exactly ten deliveries, and over all deliveries and retries an
  alert sends at most thirty messages per enabled channel.\<close>

theorem alert_deliveries_end:
  assumes "library_ok L"
    and "deliveries alert_consumer (alert_handler unmarshal L out token c C) n (published datas, w) (q, w')"
  shows "n \<le> 10 * length datas
    \<and> (q_pending q \<noteq> [] \<longrightarrow> (\<exists>s. delivery alert_consumer (alert_handler unmarshal L out token c C) (q, w') s))
    \<and> mset (map qm_data (q_pending q @ q_settled q @ q_exhausted q)) = mset datas
    \<and> (\<forall>m \<in> set (q_exhausted q). qm_deliveries m = 10)
    \<and> (\<exists>ms. w_outbox w' = w_outbox w @ ms \<and> length ms \<le> 30 * sum_list (map (channels_of unmarshal (w_db w)) datas))"
proof -
  have ten: "cc_max_deliver alert_consumer = 10" by (simp add: alert_consumer_def)
  from deliveries_books [OF assms(2)] published_facts(1-3) ten
  have books: "books_ok 10 q" "delivered_times q = n" "messages q = mset datas" by simp_all
  have "n \<le> 10 * length datas" using delivered_bound(2) [OF books(1)] books(2,3) by simp
  moreover have "mset (map qm_data (q_pending q @ q_settled q @ q_exhausted q)) = mset datas"
    using books(3) by (simp add: messages_def all_messages_def)
  moreover have "\<forall>m \<in> set (q_exhausted q). qm_deliveries m = 10" using books(1) by (simp add: books_ok_def)
  moreover from alert_deliveries_messages [OF assms(2,1)] published_facts(4) obtain ms where
      "w_outbox w' = w_outbox w @ ms"
      "length ms \<le> 3 * sum_list (map (\<lambda>m. qm_deliveries m * channels_of unmarshal (w_db w) (qm_data m)) (all_messages q))"
    by auto
  with total_channels [OF books(1,3), of "channels_of unmarshal (w_db w)"]
  have "\<exists>ms. w_outbox w' = w_outbox w @ ms \<and> length ms \<le> 30 * sum_list (map (channels_of unmarshal (w_db w)) datas)"
    by (intro exI [of _ ms]) simp
  ultimately show ?thesis using pending_delivered by blast
qed

section \<open>An example\<close>

text \<open>One alert to a webhook that is down, and its first delivery.\<close>

lemma alert_deliveries_end_witness:
  "\<exists>q w'. deliveries alert_consumer (alert_handler (\<lambda>d. Inr (demo_alert AlertDown)) plain_library demo_out ''t'' demo_smtp NoOpCipher)
      1 (published [''e''], hooked [(51, bad_config)]) (q, w')
    \<and> q_pending q = [\<lparr>qm_data = ''e'', qm_deliveries = 1\<rparr>] \<and> length (w_outbox w') \<le> 30"
proof -
  let ?h = "alert_handler (\<lambda>d. Inr (demo_alert AlertDown)) plain_library demo_out ''t'' demo_smtp NoOpCipher"
  let ?w = "hooked [(51, bad_config)]" and ?q = "published [''e'']"
  obtain e w' where run: "HandleAlert demo_notifier (demo_alert AlertDown) ?w = (Inl e, w')" using demo_refused by blast
  then have h: "?h ''e'' ?w = (Inr Nak, w')"
    by (simp add: alert_handler_def AlertSubscriber_message_def on_message_def effect_simps)
  let ?m = "\<lparr>qm_data = ''e'', qm_deliveries = 0\<rparr>"
  let ?q' = "settle (cc_max_deliver alert_consumer) False [] ?m [] ?q"
  have "delivery alert_consumer ?h (?q, ?w) (?q', w')"
    by (rule delivery.deliver [where v = "Inr Nak"]) (simp_all add: published_def h)
  then have "deliveries alert_consumer ?h (Suc 0) (?q, ?w) (?q', w')"
    by (rule deliveries.more [OF deliveries.none])
  then have one: "deliveries alert_consumer ?h 1 (?q, ?w) (?q', w')" by simp
  have "channels_of (\<lambda>d. Inr (demo_alert AlertDown)) (w_db ?w) ''e'' = 1"
    by (simp add: channels_of_def demo_rows)
  with alert_deliveries_end [OF plain_library_ok one] have "length (w_outbox w') \<le> 30"
    by (auto simp: hooked_def demo_world_def empty_world_def)
  moreover have "q_pending ?q' = [\<lparr>qm_data = ''e'', qm_deliveries = 1\<rparr>]"
    by (simp add: settle_def alert_consumer_def)
  ultimately show ?thesis using one by blast
qed

end
