(* ===== verification/Public_Pages.thy ===== *)
theory Public_Pages
  imports Http_Handlers Calendar
begin

text \<open>
  Representations that the API serves besides its JSON: the badge of \<open>adapter/http/badge.go\<close>, the
  feed of \<open>feed.go\<close>, the incident export of \<open>export.go\<close> and the probe of \<open>health.go\<close>.
  The feed and the export are given as the values handed to \<open>encoding/xml\<close> and \<open>encoding/csv\<close>.
\<close>

section \<open>Texts\<close>

text \<open>A string in double quotes, and an attribute.\<close>

definition quoted :: "string \<Rightarrow> string" where
  "quoted s = [CHR 0x22] @ s @ [CHR 0x22]"

definition attr :: "string \<Rightarrow> string \<Rightarrow> string" where
  "attr n v = '' '' @ n @ ''='' @ quoted v"

text \<open>\<open>strings.ReplaceAll\<close> of one byte.\<close>

definition replace_byte :: "char \<Rightarrow> string \<Rightarrow> string \<Rightarrow> string" where
  "replace_byte c r s = concat (map (\<lambda>x. if x = c then r else [x]) s)"

definition escapeXMLText :: "string \<Rightarrow> string" where
  "escapeXMLText s =
     replace_byte CHR ''>'' ''&gt;'' (replace_byte CHR ''<'' ''&lt;'' (replace_byte CHR ''&'' ''&amp;'' s))"

section \<open>Badge\<close>

definition badgeState :: "status_monitor list \<Rightarrow> string \<times> string" where
  "badgeState monitors =
     (if monitors = [] then (''unknown'', ''#94a3b8'')
      else let anyDown = list_ex (\<lambda>m. stm_current_status m = StatusDown) monitors;
               anyDegraded = list_ex (\<lambda>m. stm_current_status m = StatusUnknown) monitors in
        if anyDown then (''down'', ''#ef4444'')
        else if anyDegraded then (''degraded'', ''#f59e0b'')
        else (''operational'', ''#10b981''))"

definition badge_credit :: "int \<Rightarrow> string" where
  "badge_credit width =
     ''<a'' @ attr ''xlink:href'' ''https://pingcast.io'' @ attr ''target'' ''_blank'' @ ''>'' @
     ''<text'' @ attr ''x'' (int_to_dec (width - 2)) @ attr ''y'' ''14'' @ attr ''font-size'' ''8'' @ attr ''fill'' ''#e2e8f0''
     @ attr ''text-anchor'' ''end'' @ attr ''font-family'' ''system-ui,Verdana,sans-serif'' @ attr ''opacity'' ''0.7''
     @ ''>via PingCast</text>'' @ ''</a>''"

definition renderBadgeSVG :: "string \<Rightarrow> string \<Rightarrow> bool \<Rightarrow> string" where
  "renderBadgeSVG label color includeCredit =
     (let leftWidth = 48;
          rightWidth = (if length label > 10 then 8 * (int (length label) + 2) else 68);
          width = leftWidth + rightWidth;
          height = 20;
          role = ''status: '' @ label;
          credit = (if includeCredit then badge_credit width else []) in
      ''<svg'' @ attr ''xmlns'' ''http://www.w3.org/2000/svg'' @ attr ''xmlns:xlink'' ''http://www.w3.org/1999/xlink''
      @ attr ''width'' (int_to_dec width) @ attr ''height'' (int_to_dec height) @ attr ''role'' ''img'' @ attr ''aria-label'' role @ ''>''
      @ ''<title>'' @ role @ ''</title>''
      @ ''<linearGradient'' @ attr ''id'' ''s'' @ attr ''x2'' ''0'' @ attr ''y2'' ''100%'' @ ''>''
      @ ''<stop'' @ attr ''offset'' ''0'' @ attr ''stop-color'' ''#fff'' @ attr ''stop-opacity'' ''.2'' @ ''/>''
      @ ''<stop'' @ attr ''offset'' ''1'' @ attr ''stop-opacity'' ''.2'' @ ''/></linearGradient>''
      @ ''<rect'' @ attr ''width'' (int_to_dec width) @ attr ''height'' (int_to_dec height) @ attr ''rx'' ''3'' @ attr ''fill'' ''#555'' @ ''/>''
      @ ''<rect'' @ attr ''x'' (int_to_dec leftWidth) @ attr ''width'' (int_to_dec rightWidth) @ attr ''height'' (int_to_dec height)
      @ attr ''rx'' ''3'' @ attr ''fill'' color @ ''/>''
      @ ''<rect'' @ attr ''width'' (int_to_dec width) @ attr ''height'' (int_to_dec height) @ attr ''rx'' ''3'' @ attr ''fill'' ''url(#s)'' @ ''/>''
      @ ''<g'' @ attr ''fill'' ''#fff'' @ attr ''text-anchor'' ''middle'' @ attr ''font-family'' ''DejaVu Sans,Verdana,Geneva,sans-serif''
      @ attr ''font-size'' ''11'' @ ''>''
      @ ''<text'' @ attr ''x'' (int_to_dec (leftWidth div 2)) @ attr ''y'' ''14'' @ ''>status</text>''
      @ ''<text'' @ attr ''x'' (int_to_dec (leftWidth + rightWidth div 2)) @ attr ''y'' ''14'' @ ''>'' @ escapeXMLText label @ ''</text>''
      @ ''</g>'' @ credit @ ''</svg>'')"

definition Server_GetStatusBadge :: "monitoring_service \<Rightarrow> string \<Rightarrow> string handler" where
  "Server_GetStatusBadge s slug = (\<lambda>_.
     bindE (attemptE (GetStatusPage s slug)) (\<lambda>r. returnE (case r of
       Inl _ \<Rightarrow> WriteNotFound ''status page''
     | Inr data \<Rightarrow> let (state, color) = badgeState (spd_monitors data) in
         send_json 200 (renderBadgeSVG state color (spd_show_branding data)))))"

section \<open>Feed\<close>

text \<open>\<open>t.UTC().Format(time.RFC1123Z)\<close>; day 0 of the calendar is a Thursday.\<close>

definition rfc1123z :: "time \<Rightarrow> string" where
  "rfc1123z t = (case date_of t of (y, m, d) \<Rightarrow>
     let s = (t mod day_length) div 1000000000 in
     [''Thu'', ''Fri'', ''Sat'', ''Sun'', ''Mon'', ''Tue'', ''Wed''] ! nat (t div day_length mod 7) @ '', '' @ pad 2 d @ '' ''
     @ [''Jan'', ''Feb'', ''Mar'', ''Apr'', ''May'', ''Jun'', ''Jul'', ''Aug'', ''Sep'', ''Oct'', ''Nov'', ''Dec''] ! nat (m - 1)
     @ '' '' @ pad 4 y @ '' '' @ pad 2 (s div 3600) @ '':'' @ pad 2 (s div 60 mod 60) @ '':'' @ pad 2 (s mod 60) @ '' +0000'')"

record rss_guid =
  rg_value :: string
  rg_is_perma_link :: string

record rss_item =
  ri_title :: string
  ri_link :: string
  ri_guid :: rss_guid
  ri_pub_date :: string
  ri_description :: string

record rss_channel =
  rc_title :: string
  rc_link :: string
  rc_description :: string
  rc_language :: string
  rc_last_build :: string
  rc_items :: "rss_item list"

record rss_feed =
  rf_version :: string
  rf_channel :: rss_channel

text \<open>What the request says of its origin: the scheme of the URI, the forwarded one, the host.\<close>

record origin_info =
  og_scheme :: string
  og_forwarded_proto :: string
  og_hostname :: string

definition baseOrigin :: "origin_info \<Rightarrow> string" where
  "baseOrigin c =
     (let scheme = (if og_forwarded_proto c \<noteq> [] then og_forwarded_proto c else og_scheme c);
          scheme = (if scheme = [] then ''https'' else scheme);
          host = (if og_hostname c = [] then ''pingcast.io'' else og_hostname c) in
      trim_right_slash (scheme @ ''://'' @ host))"

definition feed_item :: "string \<Rightarrow> string \<Rightarrow> incident \<Rightarrow> rss_item" where
  "feed_item origin slug inc =
     (let title = (case inc_title inc of Some t \<Rightarrow> if t \<noteq> [] then t else inc_cause inc | None \<Rightarrow> inc_cause inc);
          title = (if title = [] then ''Incident'' else title);
          description = ''State: '' @ inc_state inc @ ''. Started '' @ rfc1123z (inc_started_at inc) @ ''.''
            @ (case inc_resolved_at inc of None \<Rightarrow> [] | Some t \<Rightarrow> '' Resolved '' @ rfc1123z t @ ''.'') in
      \<lparr>ri_title = title, ri_link = origin @ ''/status/'' @ slug @ ''#incident-'' @ int_to_dec (inc_id inc),
       ri_guid = \<lparr>rg_value = ''pingcast-incident-'' @ int_to_dec (inc_id inc), rg_is_perma_link = ''false''\<rparr>,
       ri_pub_date = rfc1123z (inc_started_at inc), ri_description = description\<rparr>)"

definition Server_GetStatusFeed :: "monitoring_service \<Rightarrow> origin_info \<Rightarrow> string \<Rightarrow> rss_feed handler" where
  "Server_GetStatusFeed s c slug = (\<lambda>_.
     bindE (attemptE (GetStatusPage s slug)) (\<lambda>r. case r of
       Inl _ \<Rightarrow> returnE (WriteNotFound ''status page'')
     | Inr data \<Rightarrow> bindE clock_now (\<lambda>now.
         returnE (send_json 200 \<lparr>rf_version = ''2.0'', rf_channel =
           \<lparr>rc_title = spd_slug data @ '' '' @ runes [8212] @ '' status page'',
            rc_link = baseOrigin c @ ''/status/'' @ spd_slug data,
            rc_description = ''Incident feed for '' @ spd_slug data @ ''. Subscribe with your RSS reader.'',
            rc_language = ''en'', rc_last_build = rfc1123z now,
            rc_items = map (feed_item (baseOrigin c) (spd_slug data)) (spd_incidents data)\<rparr>\<rparr>))))"

section \<open>Export\<close>

definition export_header :: "string list" where
  "export_header = [''id'', ''monitor_id'', ''monitor_name'', ''title'', ''state'', ''is_manual'', ''started_at'', ''resolved_at'', ''cause'']"

definition export_line :: "incident_export_row \<Rightarrow> string list" where
  "export_line r =
     [int_to_dec (ier_id r), uuid_string (ier_monitor_id r), ier_monitor_name r,
      (case ier_title r of None \<Rightarrow> [] | Some t \<Rightarrow> t), ier_state r, (if ier_is_manual r then ''true'' else ''false''),
      rfc3339 (ier_started_at r), (case ier_resolved_at r of None \<Rightarrow> [] | Some t \<Rightarrow> rfc3339 t), ier_cause r]"

text \<open>The name of the file and its records.\<close>

definition export_filename :: "time \<Rightarrow> string" where
  "export_filename now = (case date_of now of (y, m, d) \<Rightarrow> ''pingcast-incidents-'' @ pad 4 y @ pad 2 m @ pad 2 d @ ''.csv'')"

definition Server_ExportIncidentsCSV :: "monitoring_service \<Rightarrow> (string \<times> string list list) handler" where
  "Server_ExportIncidentsCSV s = requireUser (\<lambda>u.
     or_write (ListIncidentsForExport s (usr_id u)) (\<lambda>rows.
     bindE clock_now (\<lambda>now.
     returnE (send_json 200 (export_filename now, export_header # map export_line rows)))))"

section \<open>Health\<close>

record health_checker =
  hc_db :: "unit io"
  hc_redis :: "unit io"
  hc_nats :: "bool io"

record health_report =
  hr_status :: string
  hr_checks :: "(string \<times> string) list"

definition ping_check :: "goerr + unit \<Rightarrow> string" where
  "ping_check r = (case r of Inl err \<Rightarrow> ''unhealthy: '' @ error_text err | Inr _ \<Rightarrow> ''ok'')"

definition HealthChecker_Healthz :: "health_checker \<Rightarrow> health_report response io" where
  "HealthChecker_Healthz h =
     bindE (attemptE (hc_db h)) (\<lambda>db.
     bindE (attemptE (hc_redis h)) (\<lambda>redis.
     bindE (hc_nats h) (\<lambda>nats.
     let healthy = (isl db = False \<and> isl redis = False \<and> nats) in
     returnE (send_json (if healthy then 200 else 503) \<lparr>hr_status = (if healthy then ''healthy'' else ''unhealthy''),
       hr_checks = [(''postgres'', ping_check db), (''redis'', ping_check redis),
                    (''nats'', if nats then ''ok'' else ''unhealthy: disconnected'')]\<rparr>))))"

definition HealthChecker_Readyz :: "string response io" where
  "HealthChecker_Readyz = returnE (send_json 200 ''ready'')"

end
