(* ===== verification/Wiring.thy ===== *)
theory Wiring
  imports Http_Handlers Public_Pages Custom_Domains Billing Housekeeping
begin

text \<open>
  How \<open>internal/bootstrap\<close> and \<open>adapter/http/setup.go\<close> put the parts together: the forms of the monitor
  and channel types, the buckets of the rate limits, the table of routes of \<open>internal/api/gen\<close> with
  its authentication contract, the provisioner of certificates and the jobs of the scheduler.
  Parameters are the limiter of \<open>redis_rate\<close>, the ACME client and the locks.
\<close>

section \<open>Forms\<close>

datatype field_default = NoDefault | TextDefault string | NumberDefault int

record config_field =
  cf_name :: string
  cf_label :: string
  cf_type :: string
  cf_required :: bool
  cf_default :: field_default
  cf_placeholder :: string
  cf_options :: "(string \<times> string) list"

definition text_field :: "string \<Rightarrow> string \<Rightarrow> string \<Rightarrow> config_field" where
  "text_field n l p = \<lparr>cf_name = n, cf_label = l, cf_type = ''text'', cf_required = False, cf_default = NoDefault,
     cf_placeholder = p, cf_options = []\<rparr>"

definition HTTPChecker_ConfigSchema :: "config_field list" where
  "HTTPChecker_ConfigSchema =
     [(text_field ''url'' ''URL'' ''https://example.com/health'')\<lparr>cf_required := True\<rparr>,
      (text_field ''method'' ''Method'' [])\<lparr>cf_type := ''select'', cf_default := TextDefault ''GET'',
        cf_options := [(''GET'', ''GET''), (''POST'', ''POST'')]\<rparr>,
      (text_field ''expected_status'' ''Expected Status'' [])\<lparr>cf_type := ''number'', cf_default := NumberDefault 200\<rparr>,
      text_field ''keyword'' ''Keyword'' ''optional'']"

definition TCPChecker_ConfigSchema :: "config_field list" where
  "TCPChecker_ConfigSchema =
     [(text_field ''host'' ''Host'' ''db.example.com'')\<lparr>cf_required := True\<rparr>,
      (text_field ''port'' ''Port'' ''5432'')\<lparr>cf_type := ''number'', cf_required := True\<rparr>]"

definition DNSChecker_ConfigSchema :: "config_field list" where
  "DNSChecker_ConfigSchema =
     [(text_field ''hostname'' ''Hostname'' ''example.com'')\<lparr>cf_required := True\<rparr>,
      text_field ''expected_ip'' ''Expected IP'' (''optional '' @ runes [8212] @ '' verify specific IP''),
      text_field ''dns_server'' ''DNS Server'' (''optional '' @ runes [8212] @ '' e.g. 8.8.8.8'')]"

definition telegram_ConfigSchema :: "config_field list" where
  "telegram_ConfigSchema =
     [(text_field ''chat_id'' ''Chat ID'' ''Get from @PingCastBot /start'')\<lparr>cf_type := ''number'', cf_required := True\<rparr>]"

definition email_ConfigSchema :: "config_field list" where
  "email_ConfigSchema = [(text_field ''address'' ''Email Address'' ''alerts@company.com'')\<lparr>cf_required := True\<rparr>]"

definition webhook_ConfigSchema :: "config_field list" where
  "webhook_ConfigSchema =
     [(text_field ''url'' ''Webhook URL'' ''https://hooks.slack.com/...'')\<lparr>cf_required := True\<rparr>,
      text_field ''headers'' ''Headers (JSON)'' (''{'' @ quoted ''Authorization'' @ '': '' @ quoted ''Bearer ...'' @ ''}'')]"

text \<open>
  \<open>Types\<close> lists the registered types with their forms; the iteration over the map has no order:
  \<open>order\<close> is one of the permutations. Every type that is registered has a form.
\<close>

record type_info =
  ti_type :: string
  ti_label :: string
  ti_schema :: "config_field list"

definition checker_schema :: "string \<Rightarrow> config_field list" where
  "checker_schema t =
     (if t = MonitorHTTP then HTTPChecker_ConfigSchema else if t = MonitorTCP then TCPChecker_ConfigSchema
      else DNSChecker_ConfigSchema)"

definition Registry_Types :: "(type_info list \<Rightarrow> type_info list) \<Rightarrow> registry \<Rightarrow> type_info list" where
  "Registry_Types order r = order (map (\<lambda>(t, label, c). \<lparr>ti_type = t, ti_label = label, ti_schema = checker_schema t\<rparr>) r)"

definition channel_schema :: "string \<Rightarrow> config_field list" where
  "channel_schema t =
     (if t = ChannelTelegram then telegram_ConfigSchema else if t = ChannelEmail then email_ConfigSchema
      else webhook_ConfigSchema)"

definition ChannelRegistry_Types :: "(type_info list \<Rightarrow> type_info list) \<Rightarrow> channel_entries \<Rightarrow> type_info list" where
  "ChannelRegistry_Types order r =
     order (map (\<lambda>(t, label, f). \<lparr>ti_type = t, ti_label = label, ti_schema = channel_schema t\<rparr>) r)"

definition Server_ListMonitorTypes :: "(type_info list \<Rightarrow> type_info list) \<Rightarrow> registry \<Rightarrow> type_info list handler" where
  "Server_ListMonitorTypes order r = (\<lambda>_. returnE (send_json 200 (Registry_Types order r)))"

text \<open>The answer for channels has no defaults and no options.\<close>

definition Server_ListChannelTypes :: "(type_info list \<Rightarrow> type_info list) \<Rightarrow> channel_entries \<Rightarrow> type_info list handler" where
  "Server_ListChannelTypes order r = (\<lambda>_. returnE (send_json 200
     (map (\<lambda>t. t\<lparr>ti_schema := map (\<lambda>f. f\<lparr>cf_default := NoDefault, cf_options := []\<rparr>) (ti_schema t)\<rparr>)
       (ChannelRegistry_Types order r))))"

text \<open>The channels of the API process: all types, without settings, since it only validates.\<close>

definition api_channels :: "outbound \<Rightarrow> channel_entries" where
  "api_channels out =
     [(ChannelTelegram, ''Telegram'', telegram_factory out []),
      (ChannelEmail, ''Email'', email_factory out
        \<lparr>smtp_host = [], smtp_port = 0, smtp_user = [], smtp_pass = [], smtp_from = []\<rparr>),
      (ChannelWebhook, ''Webhook'', webhook_factory out)]"

section \<open>Rate limits\<close>

text \<open>
  The limiter takes a key, a rate, a burst and a period, and answers how many attempts it allowed.
\<close>

record rate_library =
  rl_allow :: "string \<Rightarrow> int \<Rightarrow> int \<Rightarrow> duration \<Rightarrow> int io"
  rl_reset :: "string \<Rightarrow> unit io"

definition rate_key :: "string \<Rightarrow> string \<Rightarrow> string" where
  "rate_key prefix i = ''ratelimit:'' @ prefix @ '':'' @ i"

definition NewRateLimiter :: "rate_library \<Rightarrow> string \<Rightarrow> int \<Rightarrow> duration \<Rightarrow> rate_limiter" where
  "NewRateLimiter lib prefix maxAttempts window =
     \<lparr>RateLimiter_Allow = (\<lambda>i.
        bindE (wrapE ''rate limiter'' (rl_allow lib (rate_key prefix i) maxAttempts maxAttempts window)) (\<lambda>allowed.
        returnE (allowed > 0))),
      RateLimiter_Reset = (\<lambda>i. rl_reset lib (rate_key prefix i))\<rparr>"

record rate_limit_config =
  rlc_register_per_hour :: int
  rlc_login_per_15_min :: int
  rlc_status_per_min :: int
  rlc_write_per_min :: int
  rlc_read_per_min :: int
  rlc_window_override :: duration

definition RateLimitDefaults :: rate_limit_config where
  "RateLimitDefaults = \<lparr>rlc_register_per_hour = 10, rlc_login_per_15_min = 5, rlc_status_per_min = 60,
     rlc_write_per_min = 300, rlc_read_per_min = 600, rlc_window_override = 0\<rparr>"

definition chosen :: "(rate_limit_config \<Rightarrow> int) \<Rightarrow> rate_limit_config option \<Rightarrow> int \<Rightarrow> int" where
  "chosen field cfg d = (case cfg of None \<Rightarrow> d | Some c \<Rightarrow> if field c > 0 then field c else d)"

definition buildRateLimiters :: "rate_library \<Rightarrow> rate_limit_config option \<Rightarrow> rate_limiters" where
  "buildRateLimiters lib cfg =
     (let bucket = (\<lambda>prefix field window.
        NewRateLimiter lib prefix (chosen field cfg (field RateLimitDefaults)) (chosen rlc_window_override cfg window)) in
      \<lparr>rls_Register = bucket ''rl:register'' rlc_register_per_hour (hours 1),
       rls_Login = bucket ''rl:login'' rlc_login_per_15_min (seconds 900),
       rls_Status = bucket ''rl:status'' rlc_status_per_min (seconds 60),
       rls_Write = bucket ''rl:write'' rlc_write_per_min (seconds 60),
       rls_Read = bucket ''rl:read'' rlc_read_per_min (seconds 60)\<rparr>)"

section \<open>Routes\<close>

text \<open>The table of \<open>RegisterHandlersWithOptions\<close>: method, pattern and operation.\<close>

definition api_routes :: "(string \<times> string \<times> string) list" where
  "api_routes = [
    (''GET'', ''/api/api-keys'', ''ListAPIKeys''),
    (''POST'', ''/api/api-keys'', ''CreateAPIKey''),
    (''DELETE'', ''/api/api-keys/:id'', ''RevokeAPIKey''),
    (''POST'', ''/api/auth/login'', ''Login''),
    (''POST'', ''/api/auth/logout'', ''Logout''),
    (''GET'', ''/api/auth/me'', ''GetMe''),
    (''POST'', ''/api/auth/register'', ''Register''),
    (''GET'', ''/api/billing/founder-status'', ''GetFounderStatus''),
    (''GET'', ''/api/channel-types'', ''ListChannelTypes''),
    (''GET'', ''/api/channels'', ''ListChannels''),
    (''POST'', ''/api/channels'', ''CreateChannel''),
    (''DELETE'', ''/api/channels/:id'', ''DeleteChannel''),
    (''GET'', ''/api/channels/:id'', ''GetChannel''),
    (''PUT'', ''/api/channels/:id'', ''UpdateChannel''),
    (''GET'', ''/api/custom-domains'', ''ListCustomDomains''),
    (''POST'', ''/api/custom-domains'', ''RequestCustomDomain''),
    (''DELETE'', ''/api/custom-domains/:id'', ''DeleteCustomDomain''),
    (''POST'', ''/api/import/atlassian'', ''ImportAtlassian''),
    (''POST'', ''/api/incidents'', ''CreateIncident''),
    (''PATCH'', ''/api/incidents/:id/state'', ''UpdateIncidentState''),
    (''GET'', ''/api/incidents/:id/updates'', ''ListIncidentUpdates''),
    (''GET'', ''/api/maintenance-windows'', ''ListMaintenanceWindows''),
    (''POST'', ''/api/maintenance-windows'', ''ScheduleMaintenanceWindow''),
    (''DELETE'', ''/api/maintenance-windows/:id'', ''DeleteMaintenanceWindow''),
    (''GET'', ''/api/me/branding'', ''GetMyBranding''),
    (''PATCH'', ''/api/me/branding'', ''UpdateMyBranding''),
    (''GET'', ''/api/me/subscribers'', ''ListMySubscribers''),
    (''GET'', ''/api/monitor-groups'', ''ListMonitorGroups''),
    (''POST'', ''/api/monitor-groups'', ''CreateMonitorGroup''),
    (''DELETE'', ''/api/monitor-groups/:id'', ''DeleteMonitorGroup''),
    (''PUT'', ''/api/monitor-groups/:id'', ''UpdateMonitorGroup''),
    (''GET'', ''/api/monitor-types'', ''ListMonitorTypes''),
    (''GET'', ''/api/monitors'', ''ListMonitors''),
    (''POST'', ''/api/monitors'', ''CreateMonitor''),
    (''DELETE'', ''/api/monitors/:id'', ''DeleteMonitor''),
    (''GET'', ''/api/monitors/:id'', ''GetMonitor''),
    (''PUT'', ''/api/monitors/:id'', ''UpdateMonitor''),
    (''POST'', ''/api/monitors/:id/channels'', ''BindChannel''),
    (''DELETE'', ''/api/monitors/:id/channels/:channelId'', ''UnbindChannel''),
    (''PUT'', ''/api/monitors/:id/group'', ''AssignMonitorToGroup''),
    (''POST'', ''/api/monitors/:id/pause'', ''ToggleMonitorPause''),
    (''GET'', ''/api/newsletter/confirm'', ''ConfirmNewsletterSubscription''),
    (''POST'', ''/api/newsletter/subscribe'', ''SubscribeToNewsletter''),
    (''GET'', ''/api/newsletter/unsubscribe'', ''UnsubscribeFromNewsletter''),
    (''GET'', ''/api/public/lookup-domain'', ''LookupCustomDomain''),
    (''GET'', ''/api/stats/public'', ''GetPublicStats''),
    (''GET'', ''/api/status/:slug'', ''GetStatusPage''),
    (''GET'', ''/api/status/:slug/confirm'', ''ConfirmStatusSubscription''),
    (''POST'', ''/api/status/:slug/subscribe'', ''SubscribeToStatusPage''),
    (''GET'', ''/api/status/:slug/unsubscribe'', ''UnsubscribeFromStatusPage''),
    (''GET'', ''/health'', ''HealthCheck'')]"

text \<open>The operations whose wrapper asks for authentication (\<open>SessionAuthScopes\<close>).\<close>

definition session_operations :: "string list" where
  "session_operations = [
    ''ListAPIKeys'', ''CreateAPIKey'', ''RevokeAPIKey'', ''Logout'', ''GetMe'', ''ListChannels'',
    ''CreateChannel'', ''DeleteChannel'', ''GetChannel'', ''UpdateChannel'', ''ListCustomDomains'',
    ''RequestCustomDomain'', ''DeleteCustomDomain'', ''ImportAtlassian'', ''CreateIncident'',
    ''UpdateIncidentState'', ''ListMaintenanceWindows'', ''ScheduleMaintenanceWindow'',
    ''DeleteMaintenanceWindow'', ''GetMyBranding'', ''UpdateMyBranding'', ''ListMySubscribers'',
    ''ListMonitorGroups'', ''CreateMonitorGroup'', ''DeleteMonitorGroup'', ''UpdateMonitorGroup'',
    ''ListMonitors'', ''CreateMonitor'', ''DeleteMonitor'', ''GetMonitor'', ''UpdateMonitor'',
    ''BindChannel'', ''UnbindChannel'', ''AssignMonitorToGroup'', ''ToggleMonitorPause'']"

text \<open>A path of a pattern: each \<open>:name\<close> up to the next slash is replaced by the next argument.\<close>

lemma length_dropWhile_less [termination_simp]: "length (dropWhile P xs) < Suc (length xs)"
  by (simp add: length_dropWhile_le less_Suc_eq_le)

fun fill_path :: "string \<Rightarrow> string list \<Rightarrow> string" where
  "fill_path [] args = []"
| "fill_path (c # cs) args =
     (if c = CHR '':'' then hd args @ fill_path (dropWhile (\<lambda>x. x \<noteq> CHR ''/'') cs) (tl args) else c # fill_path cs args)"

text \<open>The route of the export outside the generated table.\<close>

definition export_chain ::
    "auth_service \<Rightarrow> api_key_repo \<Rightarrow> bool \<Rightarrow> request \<Rightarrow> monitoring_service \<Rightarrow> (string \<times> string list list) response io" where
  "export_chain auth keys slot rq s = AuthMiddleware auth keys slot rq (RequirePro (Server_ExportIncidentsCSV s))"

section \<open>Settings of the processes\<close>

definition founder_cap :: "int \<Rightarrow> int" where
  "founder_cap configured = (if configured \<le> 0 then 100 else configured)"

text \<open>
  The ACME client is the parameter \<open>acme_client\<close>: the account of a mail address at a directory, with
  the port of its challenge server. The key of the account, whose generation can fail, is part of it.
\<close>

record cert_settings =
  cps_provider :: string
  cps_email :: string
  cps_directory :: string
  cps_port :: string

type_synonym acme_client = "string \<Rightarrow> string \<Rightarrow> string \<Rightarrow> goerr + certificate_authority"

definition letsencrypt_directory :: string where
  "letsencrypt_directory = ''https://acme-v02.api.letsencrypt.org/directory''"

definition LegoProvisioner_New ::
    "acme_client \<Rightarrow> cert_settings \<Rightarrow> custom_domain_cert_repo \<Rightarrow> custom_domain_repo \<Rightarrow> goerr + (string \<Rightarrow> unit io)" where
  "LegoProvisioner_New client cfg store repo =
     (let directory = (if cps_directory cfg = [] then letsencrypt_directory else cps_directory cfg);
          port = (if cps_port cfg = [] then ''5002'' else cps_port cfg) in
      if cps_email cfg = [] then Inl (Errorf ''acme: email is required for the ACME account'')
      else case client (cps_email cfg) directory port of
          Inl err \<Rightarrow> Inl err
        | Inr ca \<Rightarrow> Inr (LegoProvisioner_Provision repo store ca))"

definition buildCertProvisioner ::
    "acme_client \<Rightarrow> cert_settings \<Rightarrow> custom_domain_cert_repo \<Rightarrow> custom_domain_repo \<Rightarrow> goerr + (string \<Rightarrow> unit io)" where
  "buildCertProvisioner client cfg store repo =
     (if to_lower (trim_space (cps_provider cfg)) = ''lego'' then LegoProvisioner_New client cfg store repo
      else Inr NoopCertProvisioner)"

text \<open>Both processes fall back to the provisioner that does nothing.\<close>

definition wired_provisioner ::
    "acme_client \<Rightarrow> cert_settings \<Rightarrow> custom_domain_cert_repo \<Rightarrow> custom_domain_repo \<Rightarrow> string \<Rightarrow> unit io" where
  "wired_provisioner client cfg store repo = (case buildCertProvisioner client cfg store repo of
     Inl _ \<Rightarrow> NoopCertProvisioner | Inr p \<Rightarrow> p)"

section \<open>Jobs of the scheduler process\<close>

text \<open>A job: the name of its lock, the expiry of the lock, its interval and its work.\<close>

record job =
  job_lock :: string
  job_expiry :: duration
  job_interval :: duration
  job_work :: "unit io"

definition scheduler_jobs ::
    "check_result_repo \<Rightarrow> int \<Rightarrow> bool \<Rightarrow> certificate_net \<Rightarrow> monitor_repo \<Rightarrow> (alert_event \<Rightarrow> unit io) \<Rightarrow>
     custom_domain_service \<Rightarrow> hostname_cache \<Rightarrow> job list" where
  "scheduler_jobs results retentionDays sslScanEnabled net monitors publish domains cache =
     [\<lparr>job_lock = ''lock:cleanup:retention'', job_expiry = hours 1, job_interval = hours 24,
       job_work = retention_cleanup results retentionDays\<rparr>]
     @ (if sslScanEnabled then
         [\<lparr>job_lock = ''lock:cleanup:ssl-scan'', job_expiry = hours 1, job_interval = hours 24,
           job_work = runSSLScan net monitors publish\<rparr>] else [])
     @ [\<lparr>job_lock = ''lock:custom-domain:validate'', job_expiry = seconds 120, job_interval = seconds 60,
         job_work = bindE (RunValidationOnce domains cache) (\<lambda>_. returnE ())\<rparr>,
        \<lparr>job_lock = ''lock:custom-domain:renew'', job_expiry = seconds 900, job_interval = hours 24,
         job_work = RunRenewalsOnce domains\<rparr>]"

definition job_tick :: "(string \<Rightarrow> duration \<Rightarrow> unit io) \<Rightarrow> (string \<Rightarrow> bool io) \<Rightarrow> job \<Rightarrow> unit io" where
  "job_tick lock unlock j = locked_tick (lock (job_lock j) (job_expiry j)) (unlock (job_lock j)) (job_work j)"

end
