(* ===== verification/Route_Properties.thy ===== *)
theory Route_Properties
  imports Wiring Http_Properties
begin

text \<open>
  What the table of routes and the chain in front of it say together: which operations need an
  account, which need a paid plan, and which bucket counts a request.
\<close>

section \<open>Buckets\<close>

lemma separator_inject:
  "c \<notin> set p \<Longrightarrow> c \<notin> set q \<Longrightarrow> p @ c # i = q @ c # j \<longleftrightarrow> p = q \<and> i = j"
  by (induction p arbitrary: q) (case_tac q; auto)+

text \<open>The five scopes never share a key, whatever address, mail or user they count.\<close>

lemma scopes_do_not_share_keys:
  assumes "p \<in> {''rl:register'', ''rl:login'', ''rl:status'', ''rl:write'', ''rl:read''}"
    and "q \<in> {''rl:register'', ''rl:login'', ''rl:status'', ''rl:write'', ''rl:read''}"
  shows "rate_key p i = rate_key q j \<longleftrightarrow> p = q \<and> i = j"
proof -
  obtain p' q' where pq: "p = ''rl:'' @ p'" "q = ''rl:'' @ q'" "CHR '':'' \<notin> set p'" "CHR '':'' \<notin> set q'"
    using assms by auto
  then show ?thesis using separator_inject [of "CHR '':''" p' q' i j] by (simp add: rate_key_def)
qed

section \<open>Paths\<close>

definition protected_operations :: "string list" where
  "protected_operations = session_operations @ [''ListChannelTypes'', ''ListMonitorTypes'']"

definition pro_operations :: "string list" where
  "pro_operations = [''CreateIncident'', ''UpdateIncidentState'', ''UpdateMyBranding'', ''ScheduleMaintenanceWindow'',
     ''DeleteMaintenanceWindow'', ''ImportAtlassian'', ''RequestCustomDomain'', ''DeleteCustomDomain'']"

definition guarded :: "request \<Rightarrow> bool" where
  "guarded rq \<longleftrightarrow> take 5 (rq_path rq) = ''/api/'' \<and> \<not> public_api rq"

text \<open>The arguments of a pattern: one for each parameter, none of them empty.\<close>

definition fits :: "string \<Rightarrow> string list \<Rightarrow> bool" where
  "fits p args \<longleftrightarrow> length args = length (filter (\<lambda>c. c = CHR '':'') p) \<and> [] \<notin> set args"

definition route_ok :: "string list \<Rightarrow> string \<times> string \<times> string \<Rightarrow> bool" where
  "route_ok args r = (case r of (m, p, opn) \<Rightarrow> fits p args \<longrightarrow>
     (\<forall>rq. rq_method rq = m \<longrightarrow> rq_path rq = fill_path p args \<longrightarrow>
       (guarded rq \<longleftrightarrow> opn \<in> set protected_operations) \<and> (pro_route rq \<longleftrightarrow> opn \<in> set pro_operations)))"

lemma has_prefix_Nil: "has_prefix s []"
  by (cases s) auto

lemmas route_evaluation = route_ok_def fits_def guarded_def public_api_def protected_operations_def
  session_operations_def pro_route_def pro_operations_def has_suffix_def length_Suc_conv Let_def has_prefix_Nil

lemma list_all_split: "list_all f (take n xs) \<Longrightarrow> list_all f (drop n xs) \<Longrightarrow> list_all f xs"
  by (metis append_take_drop_id list_all_append)

text \<open>The table is evaluated in quarters.\<close>

lemma routes_ok_1: "list_all (route_ok args) (take 13 api_routes)"
  unfolding api_routes_def
  by (simp del: list.pred_inject, unfold list.pred_inject, intro conjI TrueI; clarsimp simp: route_evaluation)

lemma routes_ok_2: "list_all (route_ok args) (take 13 (drop 13 api_routes))"
  unfolding api_routes_def
  by (simp del: list.pred_inject, unfold list.pred_inject, intro conjI TrueI; clarsimp simp: route_evaluation)

lemma routes_ok_3: "list_all (route_ok args) (take 13 (drop 26 api_routes))"
  unfolding api_routes_def
  by (simp del: list.pred_inject, unfold list.pred_inject, intro conjI TrueI; clarsimp simp: route_evaluation)

lemma routes_ok_4: "list_all (route_ok args) (drop 39 api_routes)"
  unfolding api_routes_def
  by (simp del: list.pred_inject, unfold list.pred_inject, intro conjI TrueI; clarsimp simp: route_evaluation)

lemma routes_ok: "list_all (route_ok args) api_routes"
proof -
  have "list_all (route_ok args) (drop 26 api_routes)"
    using routes_ok_3 routes_ok_4 by (intro list_all_split [of _ 13 "drop 26 api_routes"]) simp_all
  then have "list_all (route_ok args) (drop 13 api_routes)"
    using routes_ok_2 by (intro list_all_split [of _ 13 "drop 13 api_routes"]) simp_all
  then show ?thesis by (rule list_all_split [OF routes_ok_1])
qed

lemma route_lookup:
  assumes "(m, p, opn) \<in> set api_routes" and "fits p args" and "rq_method rq = m" and "rq_path rq = fill_path p args"
  shows "guarded rq \<longleftrightarrow> opn \<in> set protected_operations" and "pro_route rq \<longleftrightarrow> opn \<in> set pro_operations"
proof -
  have "route_ok args (m, p, opn)" using routes_ok assms(1) unfolding list_all_iff by (rule bspec)
  then show "guarded rq \<longleftrightarrow> opn \<in> set protected_operations" and "pro_route rq \<longleftrightarrow> opn \<in> set pro_operations"
    using assms(2-) by (simp_all add: route_ok_def)
qed

section \<open>The chain\<close>

definition library_reads :: "rate_library \<Rightarrow> bool" where
  "library_reads lib \<longleftrightarrow> (\<forall>k n b p. readonly (rl_allow lib k n b p))"

lemma NewRateLimiter_ok: "library_reads lib \<Longrightarrow> limiter_ok (NewRateLimiter lib pre n window)"
  unfolding limiter_ok_def NewRateLimiter_def rate_limiter.simps library_reads_def
  by (intro allI readonly_rules) blast

lemma buildRateLimiters_ok: "library_reads lib \<Longrightarrow> limiters_ok (buildRateLimiters lib cfg)"
  by (simp add: limiters_ok_def buildRateLimiters_def Let_def NewRateLimiter_ok)

text \<open>A stage that refuses or hands the request on as it is, whoever the user is.\<close>

definition hands_on :: "'b response io \<Rightarrow> 'b response io \<Rightarrow> bool" where
  "hands_on m n \<longleftrightarrow> (\<forall>w r w'. m w = (r, w') \<longrightarrow> refused r \<and> untouched w w' \<or> (\<exists>w1. untouched w w1 \<and> n w1 = (r, w')))"

lemma hands_onD:
  "hands_on m n \<Longrightarrow> m w = (r, w') \<Longrightarrow> refused r \<and> untouched w w' \<or> (\<exists>w1. untouched w w1 \<and> n w1 = (r, w'))"
  by (simp add: hands_on_def)

lemma rate_limit_hands_on:
  assumes "limiter_ok l"
  shows "hands_on (rateLimitMW l k s next u) (next u)"
  unfolding hands_on_def
proof (intro allI impI)
  fix w r w'
  assume run: "rateLimitMW l k s next u w = (r, w')"
  obtain a v where a: "RateLimiter_Allow l k w = (a, v)" by (cases "RateLimiter_Allow l k w")
  then have "w_db v = w_db w" using assms readonlyD unfolding limiter_ok_def by blast
  with a run show "refused r \<and> untouched w w' \<or> (\<exists>w1. untouched w w1 \<and> next u w1 = (r, w'))"
    by (auto simp: rateLimitMW_def bindE_apply attemptE_apply returnE_apply split: if_splits sum.splits)
qed

lemma rate_selector_hands_on:
  assumes "limiters_ok rls"
  shows "hands_on (apiRateLimitSelector rls rq next u) (next u)"
proof -
  have "hands_on (next u) (next u)" by (auto simp: hands_on_def)
  then show ?thesis
    using assms rate_limit_hands_on unfolding limiters_ok_def apiRateLimitSelector_def Let_def
    by (auto split: if_splits)
qed

lemma open_operation:
  assumes "limiters_ok rls" and "\<not> guarded rq" and "\<not> pro_route rq" and "api_chain auth keys rls slot rq h w = (r, w')"
  shows "refused r \<and> untouched w w' \<or> (\<exists>w1. untouched w w1 \<and> h None w1 = (r, w'))"
proof -
  have "apiRateLimitSelector rls rq (proGateSelector rq h) None w = (r, w')"
    using assms(2,4) by (auto simp: api_chain_def authMiddlewareSelector_def guarded_def split: if_splits)
  from hands_onD [OF rate_selector_hands_on [OF assms(1)] this] show ?thesis
    using assms(3) by (simp add: proGateSelector_def)
qed

lemma pro_needs_account: "set pro_operations \<subseteq> set protected_operations"
  by (simp add: pro_operations_def protected_operations_def session_operations_def)

section \<open>Properties\<close>

text \<open>C32: for every operation of the table of routes and every path of its pattern, the chain of
  the production wiring runs the handler either for a live account that the request stands for,
  on the Pro plan for the eight operations of paying accounts, or, for the operations that the
  contract leaves open, for nobody; any other request is refused with the tables as they were. The
  two lists of types need an account although the contract leaves them open.\<close>

theorem operations_are_guarded:
  assumes lib: "library_reads lib" and route: "(m, p, opn) \<in> set api_routes" "fits p args"
      "rq_method rq = m" "rq_path rq = fill_path p args"
    and run: "api_chain (accounts bc pa) pg_APIKeyRepo (buildRateLimiters lib cfg) slot rq h w = (r, w')"
  shows "refused r \<and> untouched w w' \<or> (\<exists>u w1. untouched w w1 \<and> h u w1 = (r, w')
    \<and> (if opn \<in> set (session_operations @ [''ListChannelTypes'', ''ListMonitorTypes''])
       then \<exists>x. u = Some x \<and> authenticated rq w x \<and> (opn \<in> set pro_operations \<longrightarrow> usr_plan x = PlanPro)
       else u = None))"
proof -
  note look = route_lookup [OF route]
  show ?thesis unfolding protected_operations_def [symmetric]
  proof (cases "opn \<in> set protected_operations")
    case True
    then have "has_prefix (rq_path rq) ''/api/''" "\<not> public_api rq"
      using look(1) unfolding guarded_def has_prefix_iff by (metis append_take_drop_id)+
    from protected_routes [OF buildRateLimiters_ok [OF lib] this run] True look(2)
    show "refused r \<and> untouched w w' \<or> (\<exists>u w1. untouched w w1 \<and> h u w1 = (r, w')
      \<and> (if opn \<in> set protected_operations
         then \<exists>x. u = Some x \<and> authenticated rq w x \<and> (opn \<in> set pro_operations \<longrightarrow> usr_plan x = PlanPro) else u = None))"
      by auto
  next
    case False
    then have "\<not> guarded rq" "\<not> pro_route rq" using look pro_needs_account by auto
    from open_operation [OF buildRateLimiters_ok [OF lib] this run] False
    show "refused r \<and> untouched w w' \<or> (\<exists>u w1. untouched w w1 \<and> h u w1 = (r, w')
      \<and> (if opn \<in> set protected_operations
         then \<exists>x. u = Some x \<and> authenticated rq w x \<and> (opn \<in> set pro_operations \<longrightarrow> usr_plan x = PlanPro) else u = None))"
      by auto
  qed
qed

section \<open>Witness\<close>

definition open_library :: rate_library where
  "open_library = \<lparr>rl_allow = (\<lambda>k n b p. returnE 1), rl_reset = (\<lambda>k. returnE ())\<rparr>"

lemma open_library_reads: "library_reads open_library"
  by (simp add: library_reads_def open_library_def readonly_returnE)

lemma operations_are_guarded_witness:
  "\<exists>w u. authenticated (demo_request [] ''tok'') w u \<and> usr_plan u = PlanPro"
proof -
  let ?rq = "demo_request [] ''tok''"
  let ?w = "demo_world\<lparr>w_sessions := [(session_key ''tok'', 1, seconds 2000)]\<rparr>"
  let ?h = "\<lambda>u. returnE (send_json 200 ())"
  have quiet: "w_faults ?w = []" by (simp add: demo_defs)
  have route: "(''POST'', ''/api/incidents'', ''CreateIncident'') \<in> set api_routes" by (simp add: api_routes_def)
  have fit: "fits ''/api/incidents'' []" by (simp add: fits_def)
  have path: "rq_path ?rq = fill_path ''/api/incidents'' []" by simp
  have closed: "\<not> public_api ?rq" by (simp add: public_api_def Let_def)
  obtain u v where valid: "ValidateSession demo_accounts ''tok'' ?w = (Inr u, v)" and pro: "usr_plan u = PlanPro"
    unfolding session_lookup [OF quiet] by (simp add: session_entry_def demo_defs)
  have gate: "proGateSelector ?rq ?h (Some u) v = (Inr (send_json 200 ()), v)"
    using pro by (simp add: proGateSelector_def RequirePro_def RequiresPro_def returnE_apply)
  have key: "uuid_string i \<noteq> []" for i by (simp add: uuid_string_def Let_def uuid_hex_def)
  have run: "api_chain demo_accounts pg_APIKeyRepo (buildRateLimiters open_library None) True ?rq ?h ?w = (Inr (send_json 200 ()), v)"
    using valid gate key
    by (simp add: api_chain_def authMiddlewareSelector_def closed AuthMiddleware_def bearer_def Let_def bindE_apply
        attemptE_apply apiRateLimitSelector_def rateLimitMW_def userKey_def buildRateLimiters_def NewRateLimiter_def
        open_library_def returnE_apply mapErrE_apply)
  have "''CreateIncident'' \<in> set (session_operations @ [''ListChannelTypes'', ''ListMonitorTypes''])"
    "''CreateIncident'' \<in> set pro_operations"
    by (simp_all add: session_operations_def pro_operations_def)
  with operations_are_guarded [OF open_library_reads route fit _ path run] show ?thesis
    by (auto simp: refused_def send_json_def send_status_def)
qed

end
