(* ===== verification/Spec2Isabelle.thy ===== *)
theory Spec2Isabelle
  imports System_Properties Check_Properties Incident_Properties Monitor_Properties Data_Properties Alert_Properties
    Subscriber_Store Http_Properties Billing_Properties Schedule_Sync Housekeeping_Properties Channel_System Page_Properties
    Subscription_Properties Domain_Properties Importer_Properties Delivery_Properties Public_Pages Route_Properties
begin

text \<open>
  PingCast: a verification library for the Go code under \<open>src/internal\<close>.

  \<^bold>\<open>The program.\<close> PingCast watches monitors (HTTP, TCP, DNS), opens and closes incidents, alerts the
  channels of their owner and serves public status pages. Four processes share one PostgreSQL
  database, one Redis and three NATS JetStream streams. The API (\<open>bootstrap/app.go\<close>,
  \<open>adapter/http\<close>) answers users and payment and Telegram webhooks and publishes a change event for each
  monitor it changes. The scheduler (\<open>bootstrap/scheduler.go\<close>) keeps a table of active monitors
  from these events, publishes check tasks while it holds a lock, and runs periodic jobs under locks. The
  worker (\<open>bootstrap/worker.go\<close>) runs the checks and stores results, incidents and alert
  events in one transaction. The notifier (\<open>bootstrap/notifier.go\<close>) consumes the alert events and sends
  messages. The services of \<open>internal/app\<close> see the outside through the interfaces of
  \<open>internal/port\<close>, which \<open>adapter/postgres\<close>, \<open>adapter/redis\<close> and \<open>adapter/nats\<close> implement.

  \<^bold>\<open>The shape of the model.\<close> A fallible Go function is a function of type \<open>'a io\<close>: from a \<open>world\<close> to an
  error or a value, and the next world (\<open>Prelude\<close>, \<open>Store\<close>). \<open>value, err := f()\<close> with an early
  return is \<open>bindE\<close>; an error that is inspected or dropped is \<open>attemptE\<close> or \<open>logged\<close>. A \<open>goerr\<close> is
  the chain of wrapped errors that \<open>errors.Is\<close> and \<open>errors.As\<close> walk. The world has the tables as
  lists of rows, the sessions of Redis, the streams, the mails sent, the metrics, the clocks and the
  entropy. Every call that leaves the process may fail: the script \<open>w_faults\<close> says which do, so that
  a theorem about all worlds is a theorem about all failures. A transaction (\<open>tx_do\<close>) restores the
  tables when its body or its commit fails; messages are not taken back. An interface of \<open>internal/port\<close>
  is a record of operations, and a service is a record of such records, as the structs of the
  code are. Numbers of Go's \<open>int\<close> are integers, with the wrap-around written out where a product
  or a conversion can reach it (durations, \<open>int32\<close> columns as \<open>32 word\<close>, SHA-256 on \<open>32 word\<close>); times and
  durations are nanoseconds; strings are byte strings, with UTF-8 decoded where the code counts
  or maps runes.

  \<^bold>\<open>Theories and code.\<close>
  \<^item> \<open>Prelude\<close>, \<open>Store\<close>, \<open>Ports\<close>: errors and combinators, byte strings, the world, rows
    (\<open>sqlc/gen/models.go\<close>) and interfaces (\<open>port\<close>). \<open>Calendar\<close>, \<open>Json\<close>, \<open>Json_Value\<close>, \<open>Json_Text\<close> and
    \<open>Sha256\<close> hold what the code uses of Go's \<open>time\<close>, \<open>encoding/json\<close> and \<open>crypto\<close>.
  \<^item> \<open>Domain\<close>, \<open>Hostnames\<close>, \<open>Redaction\<close>: \<open>internal/domain\<close>: entities, plan limits, the incident life cycle,
    names, masked secrets.
  \<^item> \<open>Incident_Store\<close>, \<open>Monitor_Store\<close>, \<open>Result_Store\<close>, \<open>Account_Store\<close>, \<open>Channel_Store\<close>,
    \<open>Subscriber_Store\<close>: each statement of \<open>sqlc/gen\<close> as a function on the tables (\<open>q_\<close>) with the constraints of
    the migrations, and each repository of \<open>adapter/postgres\<close> over the statements (\<open>pg_\<close>). \<open>Crypto\<close> is
    \<open>internal/crypto\<close> with \<open>bootstrap/cipher.go\<close>.
  \<^item> \<open>Monitoring\<close>, \<open>Monitoring_Pages\<close>: \<open>app/monitoring.go\<close>. \<open>Checkers\<close>: \<open>adapter/checker\<close>.
    \<open>Scheduler\<close>, \<open>Housekeeping\<close>: \<open>leader_scheduler.go\<close>, \<open>ssl_probe.go\<close> and \<open>bootstrap/scheduler.go\<close>. \<open>Alerting\<close>:
    \<open>app/alert.go\<close>. \<open>Channels\<close>: \<open>adapter/channel\<close>, \<open>telegram\<close>, \<open>smtp\<close>, \<open>webhook\<close>. \<open>Deliveries\<close>:
    the consumers of \<open>adapter/nats\<close>. \<open>Auth\<close>: \<open>app/auth.go\<close> and \<open>adapter/redis/session.go\<close>. \<open>Billing\<close>:
    \<open>app/billing.go\<close> and \<open>http/webhook.go\<close>. \<open>Subscriptions\<close>: \<open>app/subscription.go\<close>,
    \<open>blog_subscription.go\<close>, \<open>email_templates.go\<close>, \<open>smtp/mailer.go\<close>. \<open>Custom_Domains\<close>:
    \<open>app/custom_domain.go\<close> and \<open>adapter/acme\<close>. \<open>Importer\<close>: \<open>app/atlassian_importer.go\<close>.
  \<^item> \<open>Http\<close>, \<open>Http_Handlers\<close>, \<open>Public_Pages\<close>: \<open>adapter/httperr\<close> and \<open>adapter/http\<close>. A handler is a function of
    the user that the chain of middlewares found, if any. \<open>Wiring\<close>: the table of routes of
    \<open>api/gen/server.go\<close> with the authentication that its wrappers ask for, the limiters of \<open>adapter/redis\<close> with their
    budgets, and the choices of \<open>bootstrap\<close>.
  \<^item> \<open>System\<close>, \<open>Channel_System\<close>, and the runs of \<open>Scheduler_Properties\<close>, \<open>Domain_Properties\<close>,
    \<open>Subscription_Properties\<close>, \<open>Billing\<close>: step relations whose executions interleave the operations of the
    processes in any order, with any failures, and with steps of the surroundings that write what
    the relation does not own. \<open>Demo\<close> is the small system of the concrete examples.

  \<^bold>\<open>Interfaces.\<close> The locale \<open>step_rel\<close> is a reflexive and transitive relation on states; it gives compositional rules
    for "every run of this operation moves the state along the relation". \<open>world_rel\<close> adds the primitives of the
    world. \<open>store_steps\<close> asks for the laws of each statement, \<open>monitoring_ports\<close> for those of each
    operation that the monitoring service calls, and proves them for the whole service; \<open>pg_ports\<close> shows, by a
    \<open>sublocale\<close>, that the PostgreSQL repositories meet the contract. They are interpreted on the
    model's own service, for the API and the worker, with the relations "the invariant is kept", "history
    grows", "the keys and references of the tables are kept"; \<open>world_rel\<close> also with "nothing of the foreign monitor
    changes". \<open>alert_delivery\<close> is the contract between the alert handler and its senders,
    interpreted on the channels of the notifier.

  \<^bold>\<open>What is shown.\<close>
  \<^item> Incidents and checks (\<open>System_Properties\<close>, \<open>Check_Properties\<close>, \<open>Incident_Properties\<close>): one open incident
    per monitor in every reachable state, when a check opens or closes an incident and what it publishes, the
    life cycle, history that only grows, and that a request in error leaves the tables as they were.
  \<^item> Tenants and accounts (\<open>System_Properties\<close>, \<open>Auth_Properties\<close>, \<open>Http_Properties\<close>, \<open>Route_Properties\<close>,
    \<open>Channel_System\<close>, \<open>Billing_Properties\<close>): isolation of users, sessions, API keys, which operation runs for
    whom, alerts that stay within an account, and the cap on founder seats under interleaving.
  \<^item> Scheduling (\<open>Scheduler_Properties\<close>, \<open>Schedule_Sync\<close>, \<open>Housekeeping_Properties\<close>): one dispatcher while
    leases last, spacing and liveness of checks, the schedule against the tables, certificate alerts.
  \<^item> Alerts (\<open>Alert_Properties\<close>, \<open>Delivery_Properties\<close>): acknowledgement, refusal, the dead-letter table, how
    many messages one alert can send over all retries and redeliveries, and that its deliveries end.
  \<^item> Pages, mail, domains, import (\<open>Page_Properties\<close>, \<open>Subscription_Properties\<close>, \<open>Domain_Properties\<close>,
    \<open>Importer_Properties\<close>): what the public sees, who is mailed, which hostnames are routed, all or nothing.
  \<^item> Data (\<open>Data_Properties\<close>, \<open>Monitor_Properties\<close>): plan limits, the key ring, configurations that come back
    from their encrypted column, verdicts of checks.

  \<^bold>\<open>Bounds.\<close> There is no fuel: every recursion of the model ends, by structure or by a measure. The parser of
  JSON stops at the 10000 levels of \<open>encoding/json\<close>. A loop that the code runs until it is stopped is modelled by one turn
  (\<open>leader_tick\<close>, \<open>locked_tick\<close>, \<open>pull_batch\<close>) and by relations that repeat it.
  A message has the number of deliveries of its consumer (10 for alerts, 3 for check tasks).

  \<^bold>\<open>Parameters.\<close> Code that is not in the repository is an argument: the network of the checks and of
  outgoing messages, AES-GCM (with the law that opening returns what was sealed), bcrypt (a digest
  opens with its own password only), the parser of mail addresses, the retry and breaker package, \<open>redis_rate\<close>, the
  distributed lock (a lease that lasts ten seconds), the ACME client, the probe of custom domains and
  \<open>net/smtp\<close>. The laws are hypotheses of the theorems that need them, and each such theorem is
  applied to a concrete parameter that satisfies them.

  \<^bold>\<open>Not modelled.\<close> Parsing of HTTP requests and the writing of JSON, XML, CSV and HTML, with response
  headers (\<open>adapter/http\<close> builds values, the framework and \<open>encoding\<close> write them); the framework's matching of paths,
  which the table of routes only gives the patterns of; the cancellation of contexts and the timeouts of
  handlers; connection pools, settings, start and stop of the processes (\<open>bootstrap\<close>, \<open>cmd\<close>, \<open>config\<close>,
  \<open>database\<close>); the creation of table partitions, which changes no row; traces and logs; the
  types and the binding of parameters in generated code; mocks and tests. The concurrency of goroutines is modelled where
  the code relies on its order (deliveries of an alert, instances of the scheduler, founder seats, domain
  jobs); elsewhere an operation runs in one piece.
\<close>

end
